(* ===== verification/Prelude.thy ===== *)
theory Prelude
  imports Complex_Main "HOL-Library.State_Monad"
begin

text \<open>
  Shared vocabulary of the development: the state monad the stateful services are written in, the
  frame rules that carry a preorder on states through a monadic program, and the generic list
  facts (stable sorting by a key, first match, association by key) that the component theories use.
\<close>

section \<open>Monadic programs\<close>

type_synonym ('s, 'a) prog = "('s, 'a) state"

abbreviation ret :: "'a \<Rightarrow> ('s, 'a) prog" where
  "ret \<equiv> State_Monad.return"

abbreviation run :: "('s, 'a) prog \<Rightarrow> 's \<Rightarrow> 'a \<times> 's" where
  "run \<equiv> run_state"

definition gets :: "('s \<Rightarrow> 'a) \<Rightarrow> ('s, 'a) prog" where
  "gets f = State (\<lambda>s. (f s, s))"

definition modify :: "('s \<Rightarrow> 's) \<Rightarrow> ('s, unit) prog" where
  "modify f = State (\<lambda>s. ((), f s))"

lemma run_gets [simp]: "run (gets f) s = (f s, s)"
  by (simp add: gets_def)

lemma run_modify [simp]: "run (modify f) s = ((), f s)"
  by (simp add: modify_def)

lemma run_State [simp]: "run (State f) s = f s"
  by simp

text \<open>
  A \<open>for\<close> loop whose body threads a local accumulator and may stop with an error: the first
  \<open>Inl\<close> leaves the loop, as an early \<open>return\<close> does.
\<close>

primrec for_each :: "'x list \<Rightarrow> 'acc \<Rightarrow> ('x \<Rightarrow> 'acc \<Rightarrow> ('s, 'e + 'acc) prog) \<Rightarrow> ('s, 'e + 'acc) prog" where
  "for_each [] a body = ret (Inr a)"
| "for_each (x # xs) a body =
     State_Monad.bind (body x a) (\<lambda>r. case r of Inl e \<Rightarrow> ret (Inl e) | Inr a' \<Rightarrow> for_each xs a' body)"

text \<open>\<open>x, err := p; if err != nil { return err }\<close>, followed by \<open>f x\<close>.\<close>

definition attempt :: "('s, 'e + 'a) prog \<Rightarrow> ('a \<Rightarrow> ('s, 'e + 'b) prog) \<Rightarrow> ('s, 'e + 'b) prog" where
  "attempt p f = State_Monad.bind p (\<lambda>r. case r of Inl e \<Rightarrow> ret (Inl e) | Inr x \<Rightarrow> f x)"

lemma run_attempt:
  "run (attempt p f) s = (case run p s of (Inl e, s') \<Rightarrow> (Inl e, s') | (Inr x, s') \<Rightarrow> run (f x) s')"
  by (simp add: attempt_def split: prod.splits sum.splits)

lemma attempt_Inr:
  assumes "run (attempt p f) s = (Inr y, s')"
  obtains x t where "run p s = (Inr x, t)" "run (f x) t = (Inr y, s')"
  using assms by (auto simp: run_attempt split: prod.splits sum.splits)

lemma attempt_cases:
  assumes "run (attempt p f) s = (r, s')"
  obtains (failed) e where "run p s = (Inl e, s')" "r = Inl e"
  | (went_on) x t where "run p s = (Inr x, t)" "run (f x) t = (r, s')"
  using assms by (auto simp: run_attempt split: prod.splits sum.splits)

lemma run_for_each_Cons:
  "run (for_each (x # xs) a body) s =
     (case run (body x a) s of (Inl e, s') \<Rightarrow> (Inl e, s') | (Inr a', s') \<Rightarrow> run (for_each xs a' body) s')"
  by (simp split: prod.splits sum.splits)

text \<open>An invariant of a loop that ends without an error: it holds for the part already done.\<close>

lemma for_each_invariant:
  assumes "run (for_each xs a body) s = (Inr a', s')" and "I [] a s"
    and "\<And>ys x b t b' t'. I ys b t \<Longrightarrow> run (body x b) t = (Inr b', t') \<Longrightarrow> I (ys @ [x]) b' t'"
  shows "I xs a' s'"
proof -
  have "I (ys @ xs) a' s'" if "I ys a s" "run (for_each xs a body) s = (Inr a', s')" for ys a s
    using that
  proof (induction xs arbitrary: ys a s)
    case Nil
    then show ?case by simp
  next
    case (Cons x xs)
    obtain r t where b: "run (body x a) s = (r, t)" by (cases "run (body x a) s")
    then obtain a1 where r: "r = Inr a1" "run (for_each xs a1 body) t = (Inr a', s')"
      using Cons.prems(2) by (cases r) auto
    have "I (ys @ [x]) a1 t" using assms(3)[OF Cons.prems(1)] b r(1) by simp
    from Cons.IH[OF this r(2)] show ?case by simp
  qed
  from this[of "[]"] assms(1,2) show ?thesis by simp
qed

section \<open>Frame rules\<close>

text \<open>
  A relation between the state before and after a program that is reflexive and transitive is kept
  by a sequence of programs that each keep it. Every invariant (\<open>I s \<longrightarrow> I s'\<close>), every frame
  condition (a table is unchanged) and every monotonicity property (rows are only added) is one.
\<close>

locale frame =
  fixes R :: "'s \<Rightarrow> 's \<Rightarrow> bool"
  assumes R_refl: "R s s"
    and R_trans: "R s t \<Longrightarrow> R t u \<Longrightarrow> R s u"
begin

lemma frame_ret: "state_io_rel R (ret x)"
  by (simp add: state_io_rel_def R_refl)

lemma frame_gets: "state_io_rel R (gets f)"
  by (simp add: state_io_rel_def R_refl)

lemma frame_bind:
  assumes "state_io_rel R m" and "\<And>x. state_io_rel R (f x)"
  shows "state_io_rel R (State_Monad.bind m f)"
proof (rule state_io_relI)
  fix a s s'
  assume *: "run (State_Monad.bind m f) s = (a, s')"
  obtain x t where m: "run m s = (x, t)" by (cases "run m s")
  with * have f: "run (f x) t = (a, s')" by simp
  show "R s s'"
    using state_io_relD[OF assms(1) m] state_io_relD[OF assms(2) f] R_trans by blast
qed

lemma frame_if: "(b \<Longrightarrow> state_io_rel R p) \<Longrightarrow> (\<not> b \<Longrightarrow> state_io_rel R q) \<Longrightarrow> state_io_rel R (if b then p else q)"
  by simp

lemma frame_sum:
  "(\<And>e. x = Inl e \<Longrightarrow> state_io_rel R (p e)) \<Longrightarrow> (\<And>a. x = Inr a \<Longrightarrow> state_io_rel R (q a)) \<Longrightarrow>
   state_io_rel R (case x of Inl e \<Rightarrow> p e | Inr a \<Rightarrow> q a)"
  by (cases x) auto

lemma frame_option:
  "(x = None \<Longrightarrow> state_io_rel R p) \<Longrightarrow> (\<And>a. x = Some a \<Longrightarrow> state_io_rel R (q a)) \<Longrightarrow>
   state_io_rel R (case x of None \<Rightarrow> p | Some a \<Rightarrow> q a)"
  by (cases x) auto

lemma frame_prod: "(\<And>a b. x = (a, b) \<Longrightarrow> state_io_rel R (p a b)) \<Longrightarrow> state_io_rel R (case x of (a, b) \<Rightarrow> p a b)"
  by (cases x) auto

lemma frame_for_each:
  assumes "\<And>x a. state_io_rel R (body x a)"
  shows "state_io_rel R (for_each xs a body)"
proof (induction xs arbitrary: a)
  case Nil
  show ?case by (simp add: frame_ret)
next
  case (Cons x xs)
  show ?case
    unfolding for_each.simps
    by (intro frame_bind frame_sum frame_ret assms Cons.IH)
qed

lemma frame_attempt:
  assumes "state_io_rel R p" and "\<And>x. state_io_rel R (f x)"
  shows "state_io_rel R (attempt p f)"
  unfolding attempt_def by (intro frame_bind frame_sum frame_ret assms)

lemmas frame_rules = frame_ret frame_gets frame_attempt frame_bind frame_if frame_sum frame_option frame_prod

end

section \<open>Lists\<close>

text \<open>
  A stable insertion sort by a key, the model of \<open>sort.SliceStable\<close> and of \<open>ORDER BY\<close> (where
  SQL leaves the order of ties open, the model keeps the table's row order).
\<close>

text \<open>\<open>ORDER BY k DESC\<close>: descending keys, ties in row order.\<close>

definition sort_desc :: "('a \<Rightarrow> 'k::linorder) \<Rightarrow> 'a list \<Rightarrow> 'a list" where
  "sort_desc k xs = rev (sort_key k (rev xs))"

lemma set_sort_desc [simp]: "set (sort_desc k xs) = set xs"
  by (simp add: sort_desc_def)

lemma length_sort_desc [simp]: "length (sort_desc k xs) = length xs"
  by (simp add: sort_desc_def)

lemma sort_desc_Nil [simp]: "sort_desc k [] = []"
  by (simp add: sort_desc_def)

lemma sort_desc_eq_Nil [simp]: "sort_desc k xs = [] \<longleftrightarrow> xs = []"
  by (metis length_0_conv length_sort_desc)

lemma sorted_sort_desc: "sorted_wrt (\<ge>) (map k (sort_desc k xs))"
  by (simp add: sort_desc_def rev_map[symmetric] sorted_wrt_rev)

lemma hd_sort_desc_max:
  assumes "sort_desc k xs = y # ys" and "x \<in> set xs"
  shows "k x \<le> k y"
proof -
  have "x \<in> set (y # ys)" using assms by (metis set_sort_desc)
  moreover have "sorted_wrt (\<ge>) (map k (y # ys))"
    using sorted_sort_desc[of k xs] assms(1) by simp
  ultimately show ?thesis by auto
qed

lemma hd_sort_desc_in:
  assumes "sort_desc k xs = y # ys"
  shows "y \<in> set xs"
  using assms by (metis list.set_intros(1) set_sort_desc)

lemma find_Some_in: "List.find P xs = Some x \<Longrightarrow> x \<in> set xs \<and> P x"
  by (induction xs) (auto split: if_splits)

lemma find_None_all: "List.find P xs = None \<longleftrightarrow> (\<forall>x\<in>set xs. \<not> P x)"
  by (induction xs) auto

lemma find_distinct_key:
  assumes "distinct (map k xs)" and "x \<in> set xs"
  shows "List.find (\<lambda>y. k y = k x) xs = Some x"
  using assms by (induction xs) (auto simp: image_iff)

text \<open>First row of a query with \<open>LIMIT 1\<close>.\<close>

definition first_of :: "'a list \<Rightarrow> 'a option" where
  "first_of xs = (case xs of [] \<Rightarrow> None | x # _ \<Rightarrow> Some x)"

lemma first_of_simps [simp]: "first_of [] = None" "first_of (x # xs) = Some x"
  by (simp_all add: first_of_def)

lemma first_of_None [simp]: "first_of xs = None \<longleftrightarrow> xs = []"
  by (cases xs) auto

lemma first_of_in: "first_of xs = Some x \<Longrightarrow> x \<in> set xs"
  by (cases xs) auto

text \<open>Number of rows, the \<open>int64\<close> of \<open>count(*)\<close> and of \<open>RowsAffected\<close>.\<close>

abbreviation count_rows :: "('a \<Rightarrow> bool) \<Rightarrow> 'a list \<Rightarrow> nat" where
  "count_rows P xs \<equiv> length (filter P xs)"

lemma count_rows_zero: "count_rows P xs = 0 \<longleftrightarrow> (\<forall>x\<in>set xs. \<not> P x)"
  by (simp add: filter_empty_conv)

definition map_if :: "('a \<Rightarrow> bool) \<Rightarrow> ('a \<Rightarrow> 'a) \<Rightarrow> 'a list \<Rightarrow> 'a list" where
  "map_if P f xs = map (\<lambda>x. if P x then f x else x) xs"

lemma length_map_if [simp]: "length (map_if P f xs) = length xs"
  by (simp add: map_if_def)

lemma set_map_if: "set (map_if P f xs) = (\<lambda>x. if P x then f x else x) ` set xs"
  by (simp add: map_if_def)

lemma in_map_ifE:
  assumes "y \<in> set (map_if P f xs)"
  obtains x where "x \<in> set xs" "P x" "y = f x" | "y \<in> set xs" "\<not> P y"
  using assms by (auto simp: map_if_def split: if_splits)

lemma map_if_none: "(\<And>x. x \<in> set xs \<Longrightarrow> \<not> P x) \<Longrightarrow> map_if P f xs = xs"
  by (induction xs) (auto simp: map_if_def)

lemma map_map_if_same: "(\<And>x. g (f x) = g x) \<Longrightarrow> map g (map_if P f xs) = map g xs"
  by (simp add: map_if_def)

lemma map_if_Nil [simp]: "map_if P f [] = []"
  by (simp add: map_if_def)

lemma map_if_Cons [simp]: "map_if P f (x # xs) = (if P x then f x else x) # map_if P f xs"
  by (simp add: map_if_def)

lemma map_if_append [simp]: "map_if P f (xs @ ys) = map_if P f xs @ map_if P f ys"
  by (simp add: map_if_def)

end
