(* ===== verification/Go_Strings.thy ===== *)
theory Go_Strings
  imports Prelude
begin

text \<open>
  The parts of Go's \<open>strings\<close>, \<open>unicode\<close> and \<open>strconv\<close> packages the repository uses. A Go string
  is modelled as the list of its code points: every string that reaches the modelled code has been
  through \<open>encoding/json\<close>, which only produces well-formed UTF-8. The ASCII part of the Unicode
  tables is written out; the rest of the tables is data of the standard library and is the
  parameter \<open>unicode\<close>.
\<close>

section \<open>Strings and literals\<close>

type_synonym rune = nat
type_synonym gostring = "rune list"

definition str :: "string \<Rightarrow> gostring" where
  "str s = map of_char s"

lemma str_Nil [simp]: "str [] = []"
  by (simp add: str_def)

lemma str_eq_iff [simp]: "str s = str t \<longleftrightarrow> s = t"
  by (simp add: str_def inj_map_eq_map inj_def)

lemma str_eq_Nil [simp]: "str s = [] \<longleftrightarrow> s = []" "[] = str s \<longleftrightarrow> s = []"
  by (simp_all add: str_def)

lemma length_str [simp]: "length (str s) = length s"
  by (simp add: str_def)

lemma str_append: "str (s @ t) = str s @ str t"
  by (simp add: str_def)

lemma str_byte: "r \<in> set (str s) \<Longrightarrow> r < 256"
  by (auto simp: str_def)

section \<open>Unicode\<close>

record unicode =
  ext_letter :: "rune \<Rightarrow> bool"
  ext_digit :: "rune \<Rightarrow> bool"
  ext_upper :: "rune \<Rightarrow> rune"
  ext_lower :: "rune \<Rightarrow> rune"
  ext_fold :: "rune \<Rightarrow> rune"

definition ascii_upper_letter :: "rune \<Rightarrow> bool" where
  "ascii_upper_letter r \<longleftrightarrow> 65 \<le> r \<and> r \<le> 90"

definition ascii_lower_letter :: "rune \<Rightarrow> bool" where
  "ascii_lower_letter r \<longleftrightarrow> 97 \<le> r \<and> r \<le> 122"

definition ascii_digit :: "rune \<Rightarrow> bool" where
  "ascii_digit r \<longleftrightarrow> 48 \<le> r \<and> r \<le> 57"

definition IsSpace :: "rune \<Rightarrow> bool" where
  "IsSpace r \<longleftrightarrow> (9 \<le> r \<and> r \<le> 13) \<or> r = 32 \<or> r = 133 \<or> r = 160 \<or> r = 5760 \<or>
     (8192 \<le> r \<and> r \<le> 8202) \<or> r = 8232 \<or> r = 8233 \<or> r = 8239 \<or> r = 8287 \<or> r = 12288"

definition IsLetter :: "unicode \<Rightarrow> rune \<Rightarrow> bool" where
  "IsLetter U r = (if r < 128 then ascii_upper_letter r \<or> ascii_lower_letter r else ext_letter U r)"

definition IsDigit :: "unicode \<Rightarrow> rune \<Rightarrow> bool" where
  "IsDigit U r = (if r < 128 then ascii_digit r else ext_digit U r)"

definition upper_rune :: "unicode \<Rightarrow> rune \<Rightarrow> rune" where
  "upper_rune U r = (if r < 128 then (if ascii_lower_letter r then r - 32 else r) else ext_upper U r)"

definition lower_rune :: "unicode \<Rightarrow> rune \<Rightarrow> rune" where
  "lower_rune U r = (if r < 128 then (if ascii_upper_letter r then r + 32 else r) else ext_lower U r)"

text \<open>The representative of a rune's simple-folding orbit; two runes are equal under folding when
  their representatives are.\<close>

definition fold_rune :: "unicode \<Rightarrow> rune \<Rightarrow> rune" where
  "fold_rune U r = (if r < 128 then (if ascii_upper_letter r then r + 32 else r) else ext_fold U r)"

definition ToUpper :: "unicode \<Rightarrow> gostring \<Rightarrow> gostring" where
  "ToUpper U s = map (upper_rune U) s"

definition ToLower :: "unicode \<Rightarrow> gostring \<Rightarrow> gostring" where
  "ToLower U s = map (lower_rune U) s"

definition EqualFold :: "unicode \<Rightarrow> gostring \<Rightarrow> gostring \<Rightarrow> bool" where
  "EqualFold U s t \<longleftrightarrow> map (fold_rune U) s = map (fold_rune U) t"

lemma EqualFold_refl [simp]: "EqualFold U s s"
  by (simp add: EqualFold_def)

lemma EqualFold_sym: "EqualFold U s t \<longleftrightarrow> EqualFold U t s"
  by (auto simp: EqualFold_def)

lemma EqualFold_length: "EqualFold U s t \<Longrightarrow> length s = length t"
  unfolding EqualFold_def using map_eq_imp_length_eq by blast

section \<open>Trimming and prefixes\<close>

definition TrimLeft :: "(rune \<Rightarrow> bool) \<Rightarrow> gostring \<Rightarrow> gostring" where
  "TrimLeft P s = dropWhile P s"

definition TrimRight :: "(rune \<Rightarrow> bool) \<Rightarrow> gostring \<Rightarrow> gostring" where
  "TrimRight P s = rev (dropWhile P (rev s))"

definition TrimSpace :: "gostring \<Rightarrow> gostring" where
  "TrimSpace s = TrimRight IsSpace (TrimLeft IsSpace s)"

fun HasPrefix :: "gostring \<Rightarrow> gostring \<Rightarrow> bool" where
  "HasPrefix s [] = True"
| "HasPrefix [] (p # ps) = False"
| "HasPrefix (c # cs) (p # ps) = (c = p \<and> HasPrefix cs ps)"

definition HasSuffix :: "gostring \<Rightarrow> gostring \<Rightarrow> bool" where
  "HasSuffix s p = HasPrefix (rev s) (rev p)"

definition TrimPrefix :: "gostring \<Rightarrow> gostring \<Rightarrow> gostring" where
  "TrimPrefix s p = (if HasPrefix s p then drop (length p) s else s)"

lemma HasPrefix_append [simp]: "HasPrefix (p @ s) p"
  by (induction p) auto

lemma HasPrefix_iff: "HasPrefix s p \<longleftrightarrow> (\<exists>r. s = p @ r)"
  by (induction s p rule: HasPrefix.induct) auto

text \<open>\<open>strings.Index\<close>: the first position where \<open>p\<close> starts in \<open>s\<close>.\<close>

fun Index :: "gostring \<Rightarrow> gostring \<Rightarrow> nat option" where
  "Index [] p = (if p = [] then Some 0 else None)"
| "Index (c # cs) p = (if HasPrefix (c # cs) p then Some 0 else map_option Suc (Index cs p))"

definition Contains :: "gostring \<Rightarrow> gostring \<Rightarrow> bool" where
  "Contains s p \<longleftrightarrow> Index s p \<noteq> None"

text \<open>\<open>strings.IndexByte\<close> and \<open>strings.LastIndex\<close> with a one-character argument.\<close>

fun IndexRune :: "gostring \<Rightarrow> rune \<Rightarrow> nat option" where
  "IndexRune [] r = None"
| "IndexRune (c # cs) r = (if c = r then Some 0 else map_option Suc (IndexRune cs r))"

definition LastIndexRune :: "gostring \<Rightarrow> rune \<Rightarrow> nat option" where
  "LastIndexRune s r = map_option (\<lambda>i. length s - 1 - i) (IndexRune (rev s) r)"

lemma IndexRune_None: "IndexRune s r = None \<longleftrightarrow> r \<notin> set s"
  by (induction s) auto

lemma IndexRune_Some:
  "IndexRune s r = Some i \<longleftrightarrow> (i < length s \<and> s ! i = r \<and> r \<notin> set (take i s))"
proof (induction s arbitrary: i)
  case Nil
  show ?case by simp
next
  case (Cons c cs)
  show ?case
  proof (cases i)
    case 0
    then show ?thesis by auto
  next
    case (Suc j)
    then show ?thesis using Cons.IH[of j] by auto
  qed
qed

fun Join :: "gostring list \<Rightarrow> gostring \<Rightarrow> gostring" where
  "Join [] sep = []"
| "Join [s] sep = s"
| "Join (s # t # ss) sep = s @ sep @ Join (t # ss) sep"

text \<open>\<open>strings.Split\<close> at a one-character separator.\<close>

fun Split :: "gostring \<Rightarrow> rune \<Rightarrow> gostring list" where
  "Split [] sep = [[]]"
| "Split (c # cs) sep = (if c = sep then [] # Split cs sep
     else (case Split cs sep of [] \<Rightarrow> [[c]] | w # ws \<Rightarrow> (c # w) # ws))"

lemma Split_not_Nil [simp]: "Split s sep \<noteq> []"
  by (induction s sep rule: Split.induct) (auto split: list.splits)

section \<open>Facts about trimming\<close>

lemma dropWhile_all_Nil: "(\<forall>x\<in>set xs. P x) \<Longrightarrow> dropWhile P xs = []"
  by simp

lemma TrimSpace_Nil [simp]: "TrimSpace [] = []"
  by (simp add: TrimSpace_def TrimLeft_def TrimRight_def)

lemma TrimSpace_id:
  assumes "s \<noteq> [] \<Longrightarrow> \<not> IsSpace (hd s) \<and> \<not> IsSpace (last s)"
  shows "TrimSpace s = s"
proof (cases s)
  case Nil
  then show ?thesis by simp
next
  case (Cons c cs)
  have ne: "s \<noteq> []" using Cons by simp
  have "\<not> IsSpace c" using assms[OF ne] Cons by simp
  moreover have "\<not> IsSpace (hd (rev s))" using assms[OF ne] by (simp add: hd_rev)
  moreover have "dropWhile IsSpace (rev s) = rev s"
    using calculation(2) ne by (cases "rev s") auto
  ultimately show ?thesis
    using Cons by (simp add: TrimSpace_def TrimLeft_def TrimRight_def)
qed

lemma TrimRight_ends: "TrimRight P s \<noteq> [] \<Longrightarrow> \<not> P (last (TrimRight P s))"
  by (simp add: TrimRight_def last_rev hd_dropWhile)

lemma TrimRight_hd: "TrimRight P s \<noteq> [] \<Longrightarrow> hd (TrimRight P s) = hd s"
proof -
  assume ne: "TrimRight P s \<noteq> []"
  have "s = TrimRight P s @ rev (takeWhile P (rev s))"
    by (metis TrimRight_def rev_append rev_rev_ident takeWhile_dropWhile_id)
  with ne show ?thesis by (metis hd_append2)
qed

lemma TrimSpace_ends:
  assumes "TrimSpace s \<noteq> []"
  shows "\<not> IsSpace (hd (TrimSpace s)) \<and> \<not> IsSpace (last (TrimSpace s))"
proof -
  from assms have "hd (TrimSpace s) = hd (TrimLeft IsSpace s)"
    unfolding TrimSpace_def by (rule TrimRight_hd)
  moreover have "TrimLeft IsSpace s \<noteq> []"
    using assms by (auto simp: TrimSpace_def TrimRight_def)
  ultimately show ?thesis
    using assms TrimRight_ends[of IsSpace "TrimLeft IsSpace s"]
    by (simp add: TrimSpace_def TrimLeft_def hd_dropWhile)
qed

lemma TrimSpace_idem [simp]: "TrimSpace (TrimSpace s) = TrimSpace s"
  by (rule TrimSpace_id) (rule TrimSpace_ends)

lemma TrimSpace_cons_space: "IsSpace c \<Longrightarrow> TrimSpace (c # s) = TrimSpace s"
  by (simp add: TrimSpace_def TrimLeft_def)

lemma set_TrimSpace: "set (TrimSpace s) \<subseteq> set s"
proof
  fix x
  assume "x \<in> set (TrimSpace s)"
  then have "x \<in> set (rev (dropWhile IsSpace s))"
    unfolding TrimSpace_def TrimLeft_def TrimRight_def by (auto dest: set_dropWhileD)
  then show "x \<in> set s" by (auto dest: set_dropWhileD)
qed

lemma TrimSpace_eq_Nil: "TrimSpace s = [] \<longleftrightarrow> (\<forall>c\<in>set s. IsSpace c)"
proof
  assume *: "TrimSpace s = []"
  show "\<forall>c\<in>set s. IsSpace c"
  proof (rule ccontr)
    assume "\<not> ?thesis"
    then have ne: "dropWhile IsSpace s \<noteq> []" by simp
    from * have "\<forall>c\<in>set (dropWhile IsSpace s). IsSpace c"
      by (simp add: TrimSpace_def TrimLeft_def TrimRight_def)
    with ne hd_dropWhile[OF ne] show False using list.set_sel(1) by blast
  qed
next
  assume "\<forall>c\<in>set s. IsSpace c"
  then have "dropWhile IsSpace s = []" by (simp only: dropWhile_eq_Nil_conv)
  then show "TrimSpace s = []"
    unfolding TrimSpace_def TrimLeft_def TrimRight_def by (simp only: rev.simps dropWhile.simps)
qed

lemma TrimSpace_append_left: "(\<forall>c\<in>set w. IsSpace c) \<Longrightarrow> TrimSpace (w @ s) = TrimSpace s"
  by (induction w) (auto simp: TrimSpace_cons_space)

lemma dropWhile_append_all: "(\<forall>c\<in>set w. P c) \<Longrightarrow> dropWhile P (w @ s) = dropWhile P s"
  by (induction w) auto

lemma TrimSpace_append_right:
  assumes "\<forall>c\<in>set w. IsSpace c"
  shows "TrimSpace (s @ w) = TrimSpace s"
proof (cases "\<forall>c\<in>set s. IsSpace c")
  case True
  with assms have "\<forall>c\<in>set (s @ w). IsSpace c" by auto
  with True show ?thesis by (metis TrimSpace_eq_Nil)
next
  case False
  then have "dropWhile IsSpace (s @ w) = dropWhile IsSpace s @ w"
    by (meson dropWhile_append1)
  with assms show ?thesis
    by (simp add: TrimSpace_def TrimLeft_def TrimRight_def dropWhile_append_all)
qed

text \<open>Tables for texts that use ASCII only, the instance the concrete examples use.\<close>

definition ascii_only :: unicode where
  "ascii_only = \<lparr>ext_letter = (\<lambda>_. False), ext_digit = (\<lambda>_. False), ext_upper = (\<lambda>r. r),
     ext_lower = (\<lambda>r. r), ext_fold = (\<lambda>r. r)\<rparr>"

section \<open>Decimal numbers\<close>

fun nat_digits :: "nat \<Rightarrow> gostring" where
  "nat_digits n = (if n < 10 then [48 + n] else nat_digits (n div 10) @ [48 + n mod 10])"

declare nat_digits.simps [simp del]

definition Itoa :: "int \<Rightarrow> gostring" where
  "Itoa i = (if i < 0 then 45 # nat_digits (nat (- i)) else nat_digits (nat i))"

lemma nat_digits_not_Nil [simp]: "nat_digits n \<noteq> []"
  by (subst nat_digits.simps) simp

lemma nat_digits_digit: "r \<in> set (nat_digits n) \<Longrightarrow> ascii_digit r"
proof (induction n rule: nat_digits.induct)
  case (1 n)
  show ?case
  proof (cases "n < 10")
    case True
    with "1.prems" show ?thesis by (simp add: nat_digits.simps[of n] ascii_digit_def)
  next
    case False
    have "n mod 10 < 10" by simp
    then have "ascii_digit (48 + n mod 10)" by (simp add: ascii_digit_def)
    with False "1.prems" "1.IH" show ?thesis by (auto simp: nat_digits.simps[of n])
  qed
qed

end
