(* ===== verification/Strdist.thy ===== *)
theory Strdist
  imports Go_Strings
begin

text \<open>
  Component \<open>internal/strdist\<close>: the two-row Levenshtein routine and American Soundex. The
  Levenshtein loop is modelled with its two row buffers and index updates, proved equal to the
  textbook recursion and then to the least number of one-character edits.
\<close>

section \<open>Levenshtein, as the code computes it\<close>

definition min3 :: "nat \<Rightarrow> nat \<Rightarrow> nat \<Rightarrow> nat" where
  "min3 a b c = (let a = (if b < a then b else a) in if c < a then c else a)"

text \<open>The body of the inner loop: one cell of the current row.\<close>

definition lev_cell :: "rune \<Rightarrow> rune list \<Rightarrow> nat list \<Rightarrow> nat \<Rightarrow> nat list \<Rightarrow> nat list" where
  "lev_cell x rb prev j cur =
     (let cost = (if x = rb ! (j - 1) then 0 else 1)
      in cur[j := min3 (prev ! j + 1) (cur ! (j - 1) + 1) (prev ! (j - 1) + cost)])"

text \<open>One iteration of the outer loop: fill \<open>cur\<close>, then swap the buffers.\<close>

definition lev_row :: "rune list \<Rightarrow> rune list \<Rightarrow> nat \<Rightarrow> nat list \<times> nat list \<Rightarrow> nat list \<times> nat list" where
  "lev_row ra rb i = (\<lambda>(prev, cur).
     let cur = cur[0 := i];
         cur = fold (lev_cell (ra ! (i - 1)) rb prev) [1..<length rb + 1] cur
     in (cur, prev))"

definition Levenshtein :: "gostring \<Rightarrow> gostring \<Rightarrow> nat" where
  "Levenshtein a b =
     (let prev = [0..<length b + 1];
          cur = replicate (length b + 1) 0;
          (prev, cur) = fold (lev_row a b) [1..<length a + 1] (prev, cur)
      in prev ! length b)"

section \<open>The textbook recursion\<close>

lemma min3_min: "min3 a b c = min a (min b c)"
  by (simp add: min3_def Let_def)

fun ed :: "'a list \<Rightarrow> 'a list \<Rightarrow> nat" where
  "ed [] ys = length ys"
| "ed (x # xs) [] = Suc (length xs)"
| "ed (x # xs) (y # ys) =
     min (ed xs (y # ys) + 1) (min (ed (x # xs) ys + 1) (ed xs ys + (if x = y then 0 else 1)))"

lemma ed_Nil2 [simp]: "ed xs [] = length xs"
  by (cases xs) auto

text \<open>\<open>prefix_ed a b i j\<close>: the distance of the prefixes of length \<open>i\<close> and \<open>j\<close>.\<close>

definition prefix_ed :: "'a list \<Rightarrow> 'a list \<Rightarrow> nat \<Rightarrow> nat \<Rightarrow> nat" where
  "prefix_ed a b i j = ed (rev (take i a)) (rev (take j b))"

lemma D_0j: "j \<le> length b \<Longrightarrow> prefix_ed a b 0 j = j"
  by (simp add: prefix_ed_def)

lemma D_i0: "i \<le> length a \<Longrightarrow> prefix_ed a b i 0 = i"
  by (simp add: prefix_ed_def)

lemma D_Suc:
  assumes "i < length a" and "j < length b"
  shows "prefix_ed a b (Suc i) (Suc j) =
    min (prefix_ed a b i (Suc j) + 1) (min (prefix_ed a b (Suc i) j + 1) (prefix_ed a b i j + (if a ! i = b ! j then 0 else 1)))"
  using assms by (simp add: prefix_ed_def take_Suc_conv_app_nth)

text \<open>The inner loop has filled the cells up to \<open>n\<close>.\<close>

lemma lev_inner:
  assumes i: "i < length a" and n: "n \<le> length b"
    and prev: "\<And>j. j \<le> length b \<Longrightarrow> prev ! j = prefix_ed a b i j"
    and cur: "length cur = length b + 1" "cur ! 0 = Suc i"
  shows "let c = fold (lev_cell (a ! i) b prev) [1..<n + 1] cur
         in length c = length b + 1 \<and> (\<forall>j\<le>n. c ! j = prefix_ed a b (Suc i) j)"
  using n
proof (induction n)
  case 0
  then show ?case using cur i by (simp add: D_i0)
next
  case (Suc n)
  define c where "c = fold (lev_cell (a ! i) b prev) [1..<n + 1] cur"
  from Suc have c: "length c = length b + 1" "\<And>j. j \<le> n \<Longrightarrow> c ! j = prefix_ed a b (Suc i) j"
    by (auto simp: c_def Let_def)
  have fold: "fold (lev_cell (a ! i) b prev) [1..<Suc n + 1] cur = lev_cell (a ! i) b prev (Suc n) c"
    by (simp add: c_def)
  have cell: "lev_cell (a ! i) b prev (Suc n) c = c[Suc n := prefix_ed a b (Suc i) (Suc n)]"
    using Suc.prems i c(2)[of n]
    by (simp add: lev_cell_def Let_def min3_min prev D_Suc)
  show ?case
    unfolding fold cell Let_def using c Suc.prems
    by (auto simp: nth_list_update le_Suc_eq)
qed

lemma lev_outer:
  assumes "m \<le> length a"
  shows "let (prev, cur) = fold (lev_row a b) [1..<m + 1] ([0..<length b + 1], replicate (length b + 1) 0)
         in length prev = length b + 1 \<and> length cur = length b + 1 \<and> (\<forall>j\<le>length b. prev ! j = prefix_ed a b m j)"
  using assms
proof (induction m)
  case 0
  then show ?case by (simp add: D_0j del: upt_Suc)
next
  case (Suc m)
  obtain prev cur where pc:
    "fold (lev_row a b) [1..<m + 1] ([0..<length b + 1], replicate (length b + 1) 0) = (prev, cur)"
    by fastforce
  with Suc have IH: "length prev = length b + 1" "length cur = length b + 1"
    "\<And>j. j \<le> length b \<Longrightarrow> prev ! j = prefix_ed a b m j"
    by auto
  define c where "c = fold (lev_cell (a ! m) b prev) [1..<length b + 1] (cur[0 := Suc m])"
  have step: "fold (lev_row a b) [1..<Suc m + 1] ([0..<length b + 1], replicate (length b + 1) 0) = (c, prev)"
    using pc by (simp add: lev_row_def Let_def c_def del: upt_Suc add: upt_Suc_append)
  have "length c = length b + 1 \<and> (\<forall>j\<le>length b. c ! j = prefix_ed a b (Suc m) j)"
    using lev_inner[of m a "length b" b prev "cur[0 := Suc m]"] IH Suc.prems
    by (simp add: c_def Let_def del: upt_Suc)
  then show ?case unfolding step using IH by simp
qed

lemma Levenshtein_rev_ed: "Levenshtein a b = ed (rev a) (rev b)"
proof -
  obtain prev cur where pc:
    "fold (lev_row a b) [1..<length a + 1] ([0..<length b + 1], replicate (length b + 1) 0) = (prev, cur)"
    by fastforce
  have "prev ! length b = prefix_ed a b (length a) (length b)"
    using lev_outer[of "length a" a b] pc by simp
  then show ?thesis using pc by (simp add: Levenshtein_def prefix_ed_def)
qed

section \<open>The least number of one-character edits\<close>

text \<open>One edit: insert, delete or replace one character anywhere.\<close>

inductive edit1 :: "'a list \<Rightarrow> 'a list \<Rightarrow> bool" where
  insert1: "edit1 (u @ v) (u @ x # v)"
| delete1: "edit1 (u @ x # v) (u @ v)"
| replace1: "edit1 (u @ x # v) (u @ y # v)"

text \<open>\<open>edits n a b\<close>: a sequence of \<open>n\<close> edits leads from \<open>a\<close> to \<open>b\<close>.\<close>

inductive edits :: "nat \<Rightarrow> 'a list \<Rightarrow> 'a list \<Rightarrow> bool" where
  edits0: "edits 0 a a"
| editsS: "edits n a b \<Longrightarrow> edit1 b c \<Longrightarrow> edits (Suc n) a c"

lemma edits_trans: "edits m b c \<Longrightarrow> edits n a b \<Longrightarrow> edits (n + m) a c"
  by (induction rule: edits.induct) (auto intro: edits.intros)

lemma edit1_Cons: "edit1 a b \<Longrightarrow> edit1 (x # a) (x # b)"
proof (induction rule: edit1.induct)
  case (insert1 u v y)
  show ?case using edit1.insert1[of "x # u" v y] by simp
next
  case (delete1 u y v)
  show ?case using edit1.delete1[of "x # u" y v] by simp
next
  case (replace1 u y v z)
  show ?case using edit1.replace1[of "x # u" y v z] by simp
qed

lemma edits_Cons: "edits n a b \<Longrightarrow> edits n (x # a) (x # b)"
  by (induction rule: edits.induct) (auto intro: edits.intros edit1_Cons)

lemma edits_first: "edit1 a b \<Longrightarrow> edits n b c \<Longrightarrow> edits (Suc n) a c"
  using edits_trans[of n b c 1 a] edits.intros(2)[OF edits.intros(1), of a b] by simp

lemma edit1_rev: "edit1 a b \<Longrightarrow> edit1 (rev a) (rev b)"
proof (induction rule: edit1.induct)
  case (insert1 u v y)
  show ?case using edit1.insert1[of "rev v" "rev u" y] by simp
next
  case (delete1 u y v)
  show ?case using edit1.delete1[of "rev v" y "rev u"] by simp
next
  case (replace1 u y v z)
  show ?case using edit1.replace1[of "rev v" y "rev u" z] by simp
qed

lemma edits_rev: "edits n a b \<Longrightarrow> edits n (rev a) (rev b)"
  by (induction rule: edits.induct) (auto intro: edits.intros edit1_rev)

lemma edits_rev_iff: "edits n (rev a) (rev b) \<longleftrightarrow> edits n a b"
  using edits_rev[of n a b] edits_rev[of n "rev a" "rev b"] by auto

lemma edits_delete_all: "edits (length xs) xs []"
proof (induction xs)
  case Nil
  show ?case by (simp add: edits.intros)
next
  case (Cons x xs)
  then show ?case using edits_first[OF edit1.delete1[of "[]" x xs, simplified]] by simp
qed

lemma edits_insert_all: "edits (length xs) [] xs"
proof (induction xs)
  case Nil
  show ?case by (simp add: edits.intros)
next
  case (Cons x xs)
  have "edit1 xs (x # xs)" using edit1.insert1[of "[]" xs x] by simp
  with Cons show ?case by (auto intro: edits.intros)
qed

text \<open>The recursion is attained by a sequence of edits.\<close>

lemma edits_ed: "edits (ed a b) a b"
proof (induction a b rule: ed.induct)
  case (1 ys)
  show ?case by (simp add: edits_insert_all)
next
  case (2 x xs)
  show ?case using edits_delete_all[of "x # xs"] by simp
next
  case (3 x xs y ys)
  have del: "edits (ed xs (y # ys) + 1) (x # xs) (y # ys)"
    using edits_first[OF edit1.delete1[of "[]" x xs, simplified] "3.IH"(1)] by simp
  have "edit1 ys (y # ys)" using edit1.insert1[of "[]" ys y] by simp
  with "3.IH"(2) have ins: "edits (ed (x # xs) ys + 1) (x # xs) (y # ys)"
    by (auto intro: edits.intros)
  have sub: "edits (ed xs ys + (if x = y then 0 else 1)) (x # xs) (y # ys)"
  proof (cases "x = y")
    case True
    with "3.IH"(3) show ?thesis by (simp add: edits_Cons)
  next
    case False
    have "edit1 (x # xs) (y # xs)" using edit1.replace1[of "[]" x xs y] by simp
    from edits_first[OF this edits_Cons[OF "3.IH"(3), of y]] False show ?thesis by simp
  qed
  from del ins sub show ?case by (auto simp: min_def)
qed

text \<open>Each edit changes the distance to a fixed string by at most one.\<close>

lemma ed_length: "length ys \<le> length xs + ed xs ys"
  by (induction xs ys rule: ed.induct) auto

lemma ed_Cons_le1: "ed xs ys \<le> Suc (ed (x # xs) ys)"
proof (induction xs ys arbitrary: x rule: ed.induct)
  case (1 ys)
  show ?case using ed_length[of ys "[x]"] by simp
next
  case (2 z zs)
  show ?case by simp
next
  case (3 z zs y ys)
  have "ed (z # zs) (y # ys) \<le> ed (z # zs) ys + 1" by simp
  moreover have "ed (z # zs) ys \<le> Suc (ed (x # z # zs) ys)" by (rule "3.IH"(2))
  ultimately show ?case by auto
qed

lemma ed_Cons_le2: "ed (x # xs) ys \<le> Suc (ed xs ys)"
  by (cases ys) auto

lemma ed_replace: "ed (x # v) d \<le> Suc (ed (y # v) d)"
  by (induction d) auto

text \<open>A bound that holds for two suffixes holds behind any common prefix.\<close>

lemma ed_prefix:
  assumes "\<And>c. ed a c \<le> Suc (ed b c)"
  shows "ed (u @ a) c \<le> Suc (ed (u @ b) c)"
proof (induction u arbitrary: c)
  case Nil
  show ?case using assms by simp
next
  case (Cons z u)
  note IH = Cons.IH
  show ?case
  proof (induction c)
    case Nil
    show ?case using IH[of "[]"] by simp
  next
    case (Cons y c)
    from Cons IH[of "y # c"] IH[of c] show ?case by auto
  qed
qed

lemma ed_edit1: "edit1 a b \<Longrightarrow> ed a c \<le> Suc (ed b c)"
  by (induction rule: edit1.induct) (auto intro!: ed_prefix ed_Cons_le1 ed_Cons_le2 ed_replace)

lemma ed_self [simp]: "ed a a = 0"
  by (induction a) auto

lemma ed_le_edits: "edits n a b \<Longrightarrow> ed a c \<le> n + ed b c"
proof (induction rule: edits.induct)
  case (edits0 a)
  then show ?case by simp
next
  case (editsS n a b d)
  then show ?case using ed_edit1[of b d c] by simp
qed

lemma ed_least: "edits n a b \<Longrightarrow> ed a b \<le> n"
  using ed_le_edits[of n a b b] by simp

lemma Levenshtein_ed: "Levenshtein a b = ed a b"
proof (rule antisym)
  show "Levenshtein a b \<le> ed a b"
    using ed_least[of "ed a b" "rev a" "rev b"] edits_ed[of a b]
    by (simp add: Levenshtein_rev_ed edits_rev_iff)
  show "ed a b \<le> Levenshtein a b"
    using ed_least[of "ed (rev a) (rev b)" a b] edits_ed[of "rev a" "rev b"]
    by (simp add: Levenshtein_rev_ed edits_rev_iff)
qed

lemma edits_Levenshtein: "edits (Levenshtein a b) a b"
  by (simp add: Levenshtein_ed edits_ed)

lemma Levenshtein_least: "edits n a b \<Longrightarrow> Levenshtein a b \<le> n"
  by (simp add: Levenshtein_ed ed_least)

lemma edits_0 [simp]: "edits 0 a b \<longleftrightarrow> a = b"
  by (auto intro: edits.intros elim: edits.cases)

lemma Levenshtein_0 [simp]: "Levenshtein a b = 0 \<longleftrightarrow> a = b"
  using edits_Levenshtein[of a b] by (auto simp: Levenshtein_ed)

lemma edit1_sym: "edit1 a b \<Longrightarrow> edit1 b a"
  by (auto elim!: edit1.cases intro: edit1.intros)

lemma edits_sym: "edits n a b \<Longrightarrow> edits n b a"
  by (induction rule: edits.induct) (auto intro: edits.intros edits_first edit1_sym)

lemma Levenshtein_sym: "Levenshtein a b = Levenshtein b a"
  by (meson Levenshtein_least edits_Levenshtein edits_sym le_antisym)

lemma Levenshtein_triangle: "Levenshtein a c \<le> Levenshtein a b + Levenshtein b c"
  by (meson Levenshtein_least edits_Levenshtein edits_trans)

text \<open>
  C18. The two-row Levenshtein loop computes the edit distance: the number it returns is attained by
  a sequence of that many one-character insertions, deletions and replacements, and it is the least
  such number.
\<close>

theorem Levenshtein_is_edit_distance:
  "edits (Levenshtein a b) a b \<and> Levenshtein a b = (LEAST n. edits n a b)"
  by (metis (mono_tags, lifting) Least_equality Levenshtein_least edits_Levenshtein)

section \<open>Soundex\<close>

text \<open>Letters are compared as code points: \<open>65\<close> is \<open>A\<close>, \<open>72\<close> is \<open>H\<close>, \<open>87\<close> is \<open>W\<close>.\<close>

definition code :: "rune \<Rightarrow> nat" where
  "code r =
     (if r \<in> set (str ''BFPV'') then 1
      else if r \<in> set (str ''CGJKQSXZ'') then 2
      else if r \<in> set (str ''DT'') then 3
      else if r \<in> set (str ''L'') then 4
      else if r \<in> set (str ''MN'') then 5
      else if r \<in> set (str ''R'') then 6
      else 0)"

definition soundex_letters :: "unicode \<Rightarrow> gostring \<Rightarrow> rune list" where
  "soundex_letters U s = filter (\<lambda>r. 65 \<le> r \<and> r \<le> 90) (ToUpper U s)"

fun soundex_loop :: "rune list \<Rightarrow> gostring \<Rightarrow> nat \<Rightarrow> gostring" where
  "soundex_loop [] out prev = out"
| "soundex_loop (r # rs) out prev =
     (if r = 72 \<or> r = 87 then soundex_loop rs out prev
      else (let c = code r in
        if c = 0 then soundex_loop rs out 0
        else soundex_loop rs (if c \<noteq> prev \<and> length out < 4 then out @ [48 + c] else out) c))"

function pad4 :: "gostring \<Rightarrow> gostring" where
  "pad4 out = (if length out < 4 then pad4 (out @ [48]) else out)"
  by pat_completeness auto
termination by (relation "measure (\<lambda>out. 4 - length out)") auto

declare pad4.simps [simp del]

definition Soundex :: "unicode \<Rightarrow> gostring \<Rightarrow> gostring" where
  "Soundex U s =
     (case soundex_letters U s of
        [] \<Rightarrow> []
      | l # ls \<Rightarrow> take 4 (pad4 (soundex_loop ls [l] (code l))))"

text \<open>The rule as it is usually stated: drop H and W, merge runs of equal codes, drop the vowels,
  keep three digits, fill with zeros.\<close>

fun merge_runs :: "nat \<Rightarrow> nat list \<Rightarrow> nat list" where
  "merge_runs prev [] = []"
| "merge_runs prev (c # cs) = (if c = prev then merge_runs prev cs else c # merge_runs c cs)"

definition soundex_digits :: "rune \<Rightarrow> rune list \<Rightarrow> nat list" where
  "soundex_digits l ls =
     filter (\<lambda>c. c \<noteq> 0) (merge_runs (code l) (map code (filter (\<lambda>r. r \<noteq> 72 \<and> r \<noteq> 87) ls)))"

lemma pad4_eq: "pad4 out = out @ replicate (4 - length out) 48"
proof (induction out rule: pad4.induct)
  case (1 out)
  show ?case
  proof (cases "length out < 4")
    case True
    with "1" have "pad4 out = out @ [48] @ replicate (4 - Suc (length out)) 48"
      by (simp add: pad4.simps[of out])
    moreover have "4 - length out = Suc (4 - Suc (length out))" using True by simp
    ultimately show ?thesis by (simp only: replicate_Suc append_Cons append_Nil)
  next
    case False
    then show ?thesis by (simp add: pad4.simps[of out])
  qed
qed

lemma soundex_loop_take:
  "length out \<le> 4 \<Longrightarrow> soundex_loop ls out p =
     take 4 (out @ map (\<lambda>c. 48 + c)
       (filter (\<lambda>c. c \<noteq> 0) (merge_runs p (map code (filter (\<lambda>r. r \<noteq> 72 \<and> r \<noteq> 87) ls)))))"
proof (induction ls out p rule: soundex_loop.induct)
  case (1 out prev)
  then show ?case by simp
next
  case (2 r rs out prev)
  show ?case
  proof (cases "r = 72 \<or> r = 87")
    case True
    with 2 show ?thesis by auto
  next
    case noHW: False
    show ?thesis
    proof (cases "code r = 0")
      case True
      with noHW 2 show ?thesis by simp
    next
      case False
      with noHW 2 show ?thesis by (auto simp: Let_def take_Cons')
    qed
  qed
qed

lemma Soundex_rule:
  "Soundex U s =
     (case soundex_letters U s of
        [] \<Rightarrow> []
      | l # ls \<Rightarrow> l # take 3 (map (\<lambda>c. 48 + c) (soundex_digits l ls) @ [48, 48, 48]))"
proof (cases "soundex_letters U s")
  case Nil
  then show ?thesis by (simp add: Soundex_def)
next
  case (Cons l ls)
  define ds where "ds = map (\<lambda>c. 48 + c) (soundex_digits l ls)"
  have "soundex_loop ls [l] (code l) = l # take 3 ds"
    by (simp add: soundex_loop_take soundex_digits_def ds_def numeral_eq_Suc)
  then have "Soundex U s = take 4 (l # take 3 ds @ replicate (3 - length (take 3 ds)) 48)"
    using Cons by (simp add: Soundex_def pad4_eq)
  also have "\<dots> = l # take 3 (ds @ replicate 3 48)"
    by (simp add: min_def)
  also have "replicate 3 48 = [48, 48, 48 :: rune]"
    by (simp add: numeral_3_eq_3)
  finally show ?thesis using Cons by (simp add: ds_def)
qed

lemma merge_runs_codes: "c \<in> set (merge_runs p cs) \<Longrightarrow> c \<in> set cs"
  by (induction p cs rule: merge_runs.induct) (auto split: if_splits)

lemma code_le6: "code r \<le> 6"
  by (simp add: code_def)

lemma soundex_digits_range: "c \<in> set (soundex_digits l ls) \<Longrightarrow> 1 \<le> c \<and> c \<le> 6"
  using merge_runs_codes[of c "code l"] code_le6 by (fastforce simp: soundex_digits_def)

text \<open>
  Soundex returns the empty string exactly for a string with no letter; otherwise it is the first
  letter followed by the codes of the remaining letters with H and W dropped, runs of equal codes
  merged (a vowel separates runs), vowels dropped, cut and zero-filled to three digits. The result
  has four characters: a letter and three digits from 0 to 6.
\<close>

theorem Soundex_correct:
  "case soundex_letters U s of
     [] \<Rightarrow> Soundex U s = []
   | l # ls \<Rightarrow>
       Soundex U s = l # take 3 (map (\<lambda>c. 48 + c) (soundex_digits l ls) @ [48, 48, 48]) \<and>
       length (Soundex U s) = 4 \<and> 65 \<le> l \<and> l \<le> 90 \<and> set (tl (Soundex U s)) \<subseteq> {48..54}"
proof (cases "soundex_letters U s")
  case Nil
  then show ?thesis by (simp add: Soundex_rule)
next
  case (Cons l ls)
  have "l \<in> set (soundex_letters U s)" using Cons by simp
  then have "65 \<le> l \<and> l \<le> 90" by (simp add: soundex_letters_def)
  moreover have "set (take 3 (map (\<lambda>c. 48 + c) (soundex_digits l ls) @ [48, 48, 48])) \<subseteq> {48..54}"
    using soundex_digits_range[of _ l ls] by (fastforce dest: in_set_takeD)
  moreover have "length (take 3 (map (\<lambda>c. 48 + c) (soundex_digits l ls) @ [48, 48, 48])) = 3"
    by simp
  ultimately show ?thesis using Cons by (simp only: Soundex_rule list.case length_Cons list.sel) simp
qed

end
