(* ===== verification/Message_Parser.thy ===== *)
theory Message_Parser
  imports Go_Strings
begin

text \<open>
  Component \<open>internal/parser\<close>: the message grammar. \<open>Parse\<close> is the code's function, in its order of
  tests: an invalid or missing short id, a bare short id, an arrow followed by a target, and
  otherwise a command with a payload.
\<close>

section \<open>The grammar as the code reads it\<close>

record parser_config =
  Commands :: "gostring list"

record parse_result =
  pr_ok :: bool
  pr_short_id :: gostring
  pr_has_target :: bool
  pr_target :: gostring
  pr_command :: gostring
  pr_known_command :: bool
  pr_payload :: gostring

definition zero_parse_result :: parse_result where
  "zero_parse_result = \<lparr>pr_ok = False, pr_short_id = [], pr_has_target = False, pr_target = [],
     pr_command = [], pr_known_command = False, pr_payload = []\<rparr>"

definition firstToken :: "gostring \<Rightarrow> gostring \<times> gostring" where
  "firstToken s = (takeWhile (\<lambda>r. \<not> IsSpace r) s, dropWhile (\<lambda>r. \<not> IsSpace r) s)"

definition validShortID :: "unicode \<Rightarrow> gostring \<Rightarrow> bool" where
  "validShortID U s \<longleftrightarrow>
     (\<forall>r\<in>set s. IsLetter U r \<or> IsDigit U r) \<and> 1 \<le> length s \<and> length s \<le> 8"

definition containsFold :: "unicode \<Rightarrow> gostring list \<Rightarrow> gostring \<Rightarrow> bool" where
  "containsFold U ss v \<longleftrightarrow> (\<exists>s\<in>set ss. EqualFold U s v)"

text \<open>The arrow character is the code point \<open>8594\<close>.\<close>

definition leads_target :: "unicode \<Rightarrow> gostring \<Rightarrow> bool" where
  "leads_target U lead \<longleftrightarrow> lead = [8594] \<or> EqualFold U lead (str ''to'')"

definition Parse :: "unicode \<Rightarrow> gostring \<Rightarrow> parser_config \<Rightarrow> parse_result" where
  "Parse U text cfg =
     (let s = TrimSpace text in
      if s = [] then zero_parse_result
      else
        let (shortID, rest) = firstToken s in
        if \<not> validShortID U shortID then zero_parse_result
        else
          let rest = TrimSpace rest in
          if rest = [] then zero_parse_result\<lparr>pr_short_id := shortID\<rparr>
          else
            let res = zero_parse_result\<lparr>pr_ok := True, pr_short_id := shortID\<rparr>;
                (lead, afterLead) = firstToken rest;
                (tgt, afterTgt) = firstToken (TrimSpace afterLead)
            in
            if leads_target U lead \<and> HasPrefix tgt (str ''@'') \<and> 1 < length tgt then
              res\<lparr>pr_has_target := True, pr_target := TrimPrefix tgt (str ''@''),
                  pr_payload := TrimSpace afterTgt\<rparr>
            else
              let (cmd, afterCmd) = firstToken rest in
              res\<lparr>pr_command := ToUpper U cmd, pr_known_command := containsFold U (Commands cfg) cmd,
                  pr_payload := TrimSpace afterCmd\<rparr>)"

section \<open>Tokens\<close>

definition token :: "gostring \<Rightarrow> bool" where
  "token t \<longleftrightarrow> t \<noteq> [] \<and> (\<forall>r\<in>set t. \<not> IsSpace r)"

definition blanks :: "gostring \<Rightarrow> bool" where
  "blanks w \<longleftrightarrow> (\<forall>r\<in>set w. IsSpace r)"

lemma IsSpace_128: "IsSpace r \<Longrightarrow> r < 128 \<Longrightarrow> \<not> IsLetter U r \<and> \<not> IsDigit U r"
  by (auto simp: IsSpace_def IsLetter_def IsDigit_def ascii_upper_letter_def ascii_lower_letter_def ascii_digit_def)

lemma firstToken_token:
  assumes "token t" and "rest = [] \<or> IsSpace (hd rest)"
  shows "firstToken (t @ rest) = (t, rest)"
proof -
  have "takeWhile (\<lambda>r. \<not> IsSpace r) rest = [] \<and> dropWhile (\<lambda>r. \<not> IsSpace r) rest = rest"
    using assms(2) by (cases rest) auto
  moreover have "\<forall>r\<in>set t. \<not> IsSpace r" using assms(1) by (simp add: token_def)
  ultimately show ?thesis by (simp add: firstToken_def takeWhile_append2 dropWhile_append_all)
qed

lemma firstToken_append: "firstToken s = (t, r) \<Longrightarrow> s = t @ r"
  by (auto simp: firstToken_def)

lemma firstToken_spec:
  assumes "firstToken s = (t, r)" and "s \<noteq> []" and "\<not> IsSpace (hd s)"
  shows "token t \<and> (r = [] \<or> IsSpace (hd r))"
proof -
  have t: "t = takeWhile (\<lambda>r. \<not> IsSpace r) s" and r: "r = dropWhile (\<lambda>r. \<not> IsSpace r) s"
    using assms(1) by (auto simp: firstToken_def)
  have "t \<noteq> []" using assms(2,3) t by (cases s) auto
  moreover have "\<forall>c\<in>set t. \<not> IsSpace c" using t by (auto dest: set_takeWhileD)
  moreover have "r = [] \<or> IsSpace (hd r)" using r hd_dropWhile[of "\<lambda>r. \<not> IsSpace r" s] by auto
  ultimately show ?thesis by (simp add: token_def)
qed

lemma blanks_hd: "blanks w \<Longrightarrow> w \<noteq> [] \<Longrightarrow> IsSpace (hd (w @ s))"
  by (cases w) (auto simp: blanks_def)

lemma trim_padded:
  assumes "blanks v" and "blanks w" and "s \<noteq> [] \<Longrightarrow> \<not> IsSpace (hd s) \<and> \<not> IsSpace (last s)"
  shows "TrimSpace (v @ s @ w) = s"
  using assms by (simp add: TrimSpace_append_left TrimSpace_append_right TrimSpace_id blanks_def)

lemma token_ends: "token t \<Longrightarrow> \<not> IsSpace (hd t) \<and> \<not> IsSpace (last t)"
  by (auto simp: token_def)

lemma token_not_Nil: "token t \<Longrightarrow> t \<noteq> []"
  by (simp add: token_def)

lemma validShortID_not_Nil: "validShortID U s \<Longrightarrow> s \<noteq> []"
  by (auto simp: validShortID_def)

definition trimmed :: "gostring \<Rightarrow> bool" where
  "trimmed s \<longleftrightarrow> TrimSpace s = s"

lemma trimmed_ends: "trimmed s \<Longrightarrow> s \<noteq> [] \<Longrightarrow> \<not> IsSpace (hd s) \<and> \<not> IsSpace (last s)"
  using TrimSpace_ends[of s] by (simp add: trimmed_def)

lemma trimmed_TrimSpace [simp]: "trimmed (TrimSpace s)"
  by (simp add: trimmed_def)

lemma trim_padded_trimmed: "blanks v \<Longrightarrow> blanks w \<Longrightarrow> trimmed s \<Longrightarrow> TrimSpace (v @ s @ w) = s"
  by (rule trim_padded) (auto dest: trimmed_ends)

lemma trim_pad_left: "blanks v \<Longrightarrow> trimmed s \<Longrightarrow> TrimSpace (v @ s) = s"
  using trim_padded_trimmed[of v "[]" s] by (simp add: blanks_def)

text \<open>A text that starts with a token and ends in a trimmed rest is trimmed.\<close>

lemma trimmed_token_append:
  assumes "token t" and "trimmed s" and "s = [] \<Longrightarrow> w = []"
  shows "trimmed (t @ w @ s)"
proof -
  have ne: "t \<noteq> []" using assms(1) by (rule token_not_Nil)
  have "\<not> IsSpace (hd (t @ w @ s))" using token_ends[OF assms(1)] ne by simp
  moreover have "\<not> IsSpace (last (t @ w @ s))"
    using token_ends[OF assms(1)] ne assms(3) trimmed_ends[OF assms(2)] by (cases "s = []") auto
  ultimately show ?thesis unfolding trimmed_def by (intro TrimSpace_id) simp
qed

text \<open>Every text splits into leading blanks, its trimmed middle and trailing blanks.\<close>

lemma TrimSpace_split: "\<exists>v w. blanks v \<and> blanks w \<and> s = v @ TrimSpace s @ w"
proof -
  let ?l = "dropWhile IsSpace s"
  have "s = takeWhile IsSpace s @ ?l" by simp
  moreover have "?l = TrimSpace s @ rev (takeWhile IsSpace (rev ?l))"
    unfolding TrimSpace_def TrimLeft_def TrimRight_def
    by (metis rev_append rev_rev_ident takeWhile_dropWhile_id)
  moreover have "blanks (takeWhile IsSpace s)" "blanks (rev (takeWhile IsSpace (rev ?l)))"
    by (auto simp: blanks_def dest: set_takeWhileD)
  ultimately show ?thesis by metis
qed

lemma TrimSpace_left_split:
  assumes "trimmed (t @ s)" and "s \<noteq> []"
  shows "\<exists>w. blanks w \<and> s = w @ TrimSpace s"
proof -
  obtain v w where vw: "blanks v" "blanks w" "s = v @ TrimSpace s @ w"
    using TrimSpace_split by blast
  have "\<not> IsSpace (last s)" using trimmed_ends[OF assms(1)] assms(2) by simp
  then have "w = []" using vw(2,3) by (metis append_is_Nil_conv blanks_def last_appendR last_in_set)
  with vw show ?thesis by auto
qed

section \<open>The grammar as texts are written\<close>

text \<open>
  A routable message is a short id, then either an arrow with an \<open>@name\<close>, or a command; then a
  payload. It is written with any blanks around and between its parts.
\<close>

datatype message =
    Command_Message gostring gostring gostring
  | Target_Message gostring gostring gostring

definition starts_target :: "gostring \<Rightarrow> bool" where
  "starts_target s \<longleftrightarrow> HasPrefix (fst (firstToken s)) (str ''@'') \<and> 1 < length (fst (firstToken s))"

definition written_parts :: "gostring \<Rightarrow> gostring \<Rightarrow> gostring \<Rightarrow> bool" where
  "written_parts t p s \<longleftrightarrow>
     (\<exists>w. s = t @ w @ p \<and> token t \<and> blanks w \<and> trimmed p \<and> (w = [] \<longleftrightarrow> p = []))"

definition written :: "unicode \<Rightarrow> message \<Rightarrow> gostring \<Rightarrow> bool" where
  "written U m s \<longleftrightarrow> (case m of
     Command_Message sid cmd p \<Rightarrow>
       (\<exists>body. written_parts sid body s \<and> validShortID U sid \<and> written_parts cmd p body \<and>
          \<not> (leads_target U cmd \<and> starts_target p))
   | Target_Message sid name p \<Rightarrow>
       (\<exists>lead body rest. written_parts sid body s \<and> validShortID U sid \<and>
          written_parts lead rest body \<and> leads_target U lead \<and>
          name \<noteq> [] \<and> written_parts (str ''@'' @ name) p rest))"

definition parsed :: "unicode \<Rightarrow> parser_config \<Rightarrow> message \<Rightarrow> parse_result" where
  "parsed U cfg m = (case m of
     Command_Message sid cmd p \<Rightarrow>
       \<lparr>pr_ok = True, pr_short_id = sid, pr_has_target = False, pr_target = [],
        pr_command = ToUpper U cmd, pr_known_command = containsFold U (Commands cfg) cmd, pr_payload = p\<rparr>
   | Target_Message sid name p \<Rightarrow>
       \<lparr>pr_ok = True, pr_short_id = sid, pr_has_target = True, pr_target = name,
        pr_command = [], pr_known_command = False, pr_payload = p\<rparr>)"

lemma written_parts_split:
  assumes "written_parts t p s"
  shows "trimmed s" "s \<noteq> []" "\<exists>r. firstToken s = (t, r) \<and> TrimSpace r = p"
proof -
  obtain w where w: "s = t @ w @ p" "token t" "blanks w" "trimmed p" "w = [] \<longleftrightarrow> p = []"
    using assms by (auto simp: written_parts_def)
  show "trimmed s" using trimmed_token_append[OF w(2,4)] w(1,5) by simp
  show "s \<noteq> []" using w(1,2) token_not_Nil by simp
  have "w @ p = [] \<or> IsSpace (hd (w @ p))" using w(3,5) by (cases w) (auto simp: blanks_def)
  then have "firstToken s = (t, w @ p)" using firstToken_token[OF w(2)] w(1) by simp
  then show "\<exists>r. firstToken s = (t, r) \<and> TrimSpace r = p"
    using trim_pad_left[OF w(3,4)] by auto
qed

lemma written_parts_firstToken:
  assumes "trimmed s" and "s \<noteq> []" and "firstToken s = (t, r)"
  shows "written_parts t (TrimSpace r) s"
proof -
  have t: "token t" "r = [] \<or> IsSpace (hd r)"
    using firstToken_spec[OF assms(3,2)] trimmed_ends[OF assms(1,2)] by auto
  have s: "s = t @ r" using firstToken_append[OF assms(3)] .
  show ?thesis
  proof (cases "r = []")
    case True
    then show ?thesis using s t by (auto simp: written_parts_def blanks_def trimmed_def)
  next
    case False
    then obtain w where w: "blanks w" "r = w @ TrimSpace r"
      using TrimSpace_left_split assms(1) s by blast
    have last: "\<not> IsSpace (last r)" using trimmed_ends[OF assms(1,2)] s False by simp
    have "w \<noteq> []"
    proof
      assume "w = []"
      then have "r = TrimSpace r" using w(2) by simp
      then show False using t(2) False TrimSpace_ends[of r] by auto
    qed
    moreover have "TrimSpace r \<noteq> []" using last False by (metis TrimSpace_eq_Nil last_in_set)
    ultimately show ?thesis using s t w by (auto simp: written_parts_def)
  qed
qed

section \<open>The parser implements the grammar\<close>

lemma starts_target_written:
  assumes "name \<noteq> []" and "written_parts (str ''@'' @ name) p rest"
  shows "starts_target rest"
  using written_parts_split(3)[OF assms(2)] assms(1)
  by (cases name) (auto simp: starts_target_def str_def)

lemma Parse_written:
  assumes "written U m (TrimSpace text)"
  shows "Parse U text cfg = parsed U cfg m"
proof (cases m)
  case (Command_Message sid cmd p)
  then obtain body where b: "written_parts sid body (TrimSpace text)" "validShortID U sid"
      "written_parts cmd p body" "\<not> (leads_target U cmd \<and> starts_target p)"
    using assms by (auto simp: written_def)
  obtain r r' where r: "firstToken (TrimSpace text) = (sid, r)" "TrimSpace r = body"
      "firstToken body = (cmd, r')" "TrimSpace r' = p"
    using written_parts_split(3)[OF b(1)] written_parts_split(3)[OF b(3)] by auto
  obtain tgt r'' where "firstToken p = (tgt, r'')" by (cases "firstToken p")
  then show ?thesis
    using r b written_parts_split(2)[OF b(1)] written_parts_split(2)[OF b(3)]
    by (auto simp: Parse_def Let_def parsed_def Command_Message starts_target_def zero_parse_result_def)
next
  case (Target_Message sid name p)
  then obtain lead body rest where b: "written_parts sid body (TrimSpace text)" "validShortID U sid"
      "written_parts lead rest body" "leads_target U lead" "name \<noteq> []"
      "written_parts (str ''@'' @ name) p rest"
    using assms by (auto simp: written_def)
  obtain r r' r'' where r: "firstToken (TrimSpace text) = (sid, r)" "TrimSpace r = body"
      "firstToken body = (lead, r')" "TrimSpace r' = rest"
      "firstToken rest = (str ''@'' @ name, r'')" "TrimSpace r'' = p"
    using written_parts_split(3)[OF b(1)] written_parts_split(3)[OF b(3)]
      written_parts_split(3)[OF b(6)] by auto
  have "TrimPrefix (str ''@'' @ name) (str ''@'') = name"
    by (simp add: TrimPrefix_def)
  then show ?thesis
    using r b written_parts_split(2)[OF b(1)] written_parts_split(2)[OF b(3)] starts_target_written[OF b(5,6)]
    by (simp add: Parse_def Let_def parsed_def Target_Message starts_target_def zero_parse_result_def)
qed

lemma Parse_not_ok_cases:
  assumes "pr_ok (Parse U text cfg)"
  obtains sid r body where "TrimSpace text \<noteq> []" "firstToken (TrimSpace text) = (sid, r)"
    "validShortID U sid" "body = TrimSpace r" "body \<noteq> []"
proof -
  obtain sid r where r: "firstToken (TrimSpace text) = (sid, r)"
    by (cases "firstToken (TrimSpace text)")
  have "TrimSpace text \<noteq> []" "validShortID U sid" "TrimSpace r \<noteq> []"
    using assms r by (auto simp: Parse_def Let_def zero_parse_result_def split: if_splits)
  then show thesis using that r by blast
qed

lemma Parse_ok_written:
  assumes "pr_ok (Parse U text cfg)"
  shows "\<exists>m. written U m (TrimSpace text)"
proof -
  obtain sid r body where p: "TrimSpace text \<noteq> []" "firstToken (TrimSpace text) = (sid, r)"
      "validShortID U sid" "body = TrimSpace r" "body \<noteq> []"
    using assms by (rule Parse_not_ok_cases)
  have wp: "written_parts sid body (TrimSpace text)"
    using written_parts_firstToken[OF _ p(1,2)] p(4) by simp
  obtain lead r' where lead: "firstToken body = (lead, r')" by (cases "firstToken body")
  have wl: "written_parts lead (TrimSpace r') body"
    using written_parts_firstToken[OF _ p(5) lead] p(4) by simp
  show ?thesis
  proof (cases "leads_target U lead \<and> starts_target (TrimSpace r')")
    case False
    then have "written U (Command_Message sid lead (TrimSpace r')) (TrimSpace text)"
      using wp wl p(3) by (auto simp: written_def)
    then show ?thesis ..
  next
    case True
    obtain tgt r'' where tgt: "firstToken (TrimSpace r') = (tgt, r'')"
      by (cases "firstToken (TrimSpace r')")
    obtain name where name: "tgt = str ''@'' @ name" "name \<noteq> []"
      using True tgt by (auto simp: starts_target_def HasPrefix_iff)
    have "TrimSpace r' \<noteq> []" using tgt name by (auto simp: firstToken_def str_def)
    then have "written_parts tgt (TrimSpace r'') (TrimSpace r')"
      using written_parts_firstToken[OF _ _ tgt] by simp
    then have "written U (Target_Message sid name (TrimSpace r'')) (TrimSpace text)"
      using wp wl p(3) True name by (auto simp: written_def)
    then show ?thesis ..
  qed
qed

text \<open>
  C15. The parser reads back every message written in the grammar, whatever blanks surround and
  separate its parts: short id, command upper-cased and checked against the channel's commands (or
  the name after the arrow), and the payload, exactly as written.
\<close>

theorem Parse_reads_written:
  assumes "blanks v" and "blanks w" and "written U m s"
  shows "Parse U (v @ s @ w) cfg = parsed U cfg m"
proof -
  have "trimmed s"
    using assms(3) written_parts_split(1) by (auto simp: written_def split: message.splits)
  then have "TrimSpace (v @ s @ w) = s" by (rule trim_padded_trimmed[OF assms(1,2)])
  then show ?thesis using Parse_written[of U m "v @ s @ w"] assms(3) by simp
qed

theorem Parse_reads_written_witness:
  "Parse ascii_only (str '' 12A  status all ok '') \<lparr>Commands = [str ''STATUS'']\<rparr> =
     \<lparr>pr_ok = True, pr_short_id = str ''12A'', pr_has_target = False, pr_target = [],
      pr_command = str ''STATUS'', pr_known_command = True, pr_payload = str ''all ok''\<rparr> \<and>
   Parse ascii_only (str ''12A to @bob  hi'') \<lparr>Commands = []\<rparr> =
     \<lparr>pr_ok = True, pr_short_id = str ''12A'', pr_has_target = True, pr_target = str ''bob'',
      pr_command = [], pr_known_command = False, pr_payload = str ''hi''\<rparr>"
proof
  have p: "written_parts (str ''status'') (str ''all ok'') (str ''status all ok'')"
          "written_parts (str ''12A'') (str ''status all ok'') (str ''12A  status all ok'')"
    by (auto simp: written_parts_def str_def token_def blanks_def trimmed_def IsSpace_def TrimSpace_def
        TrimLeft_def TrimRight_def intro: exI[of _ "[32]"] exI[of _ "[32,32]"])
  have "written ascii_only (Command_Message (str ''12A'') (str ''status'') (str ''all ok''))
          (str ''12A  status all ok'')"
    unfolding written_def message.case
    by (rule exI[of _ "str ''status all ok''"])
      (use p in \<open>auto simp: validShortID_def str_def IsLetter_def IsDigit_def ascii_only_def
        ascii_digit_def ascii_upper_letter_def leads_target_def EqualFold_def\<close>)
  from Parse_reads_written[OF _ _ this, of "[32]" "[32]" "\<lparr>Commands = [str ''STATUS'']\<rparr>"]
  show "Parse ascii_only (str '' 12A  status all ok '') \<lparr>Commands = [str ''STATUS'']\<rparr> =
     \<lparr>pr_ok = True, pr_short_id = str ''12A'', pr_has_target = False, pr_target = [],
      pr_command = str ''STATUS'', pr_known_command = True, pr_payload = str ''all ok''\<rparr>"
    by (simp add: blanks_def IsSpace_def str_def parsed_def ToUpper_def upper_rune_def
        ascii_lower_letter_def containsFold_def EqualFold_def fold_rune_def ascii_upper_letter_def)
next
  have p: "written_parts (str ''@bob'') (str ''hi'') (str ''@bob  hi'')"
          "written_parts (str ''to'') (str ''@bob  hi'') (str ''to @bob  hi'')"
          "written_parts (str ''12A'') (str ''to @bob  hi'') (str ''12A to @bob  hi'')"
    by (auto simp: written_parts_def str_def token_def blanks_def trimmed_def IsSpace_def TrimSpace_def
        TrimLeft_def TrimRight_def intro: exI[of _ "[32]"] exI[of _ "[32,32]"])
  have "written ascii_only (Target_Message (str ''12A'') (str ''bob'') (str ''hi''))
          (str ''12A to @bob  hi'')"
    unfolding written_def message.case
    by (rule exI[of _ "str ''to''"], rule exI[of _ "str ''to @bob  hi''"], rule exI[of _ "str ''@bob  hi''"])
      (use p in \<open>auto simp: validShortID_def str_def IsLetter_def IsDigit_def ascii_only_def
        ascii_digit_def ascii_upper_letter_def leads_target_def EqualFold_def\<close>)
  from Parse_reads_written[OF _ _ this, of "[]" "[]" "\<lparr>Commands = []\<rparr>"]
  show "Parse ascii_only (str ''12A to @bob  hi'') \<lparr>Commands = []\<rparr> =
     \<lparr>pr_ok = True, pr_short_id = str ''12A'', pr_has_target = True, pr_target = str ''bob'',
      pr_command = [], pr_known_command = False, pr_payload = str ''hi''\<rparr>"
    by (simp add: blanks_def parsed_def)
qed

text \<open>
  C16. The parser calls a text routable exactly when it is a message of the grammar between blanks:
  it accepts nothing else and rejects nothing that is written as documented.
\<close>

theorem Parse_accepts_grammar:
  "pr_ok (Parse U text cfg) \<longleftrightarrow>
     (\<exists>m v w s. text = v @ s @ w \<and> blanks v \<and> blanks w \<and> written U m s)"
proof
  assume "pr_ok (Parse U text cfg)"
  then obtain m where "written U m (TrimSpace text)" using Parse_ok_written by blast
  then show "\<exists>m v w s. text = v @ s @ w \<and> blanks v \<and> blanks w \<and> written U m s"
    using TrimSpace_split by blast
next
  assume "\<exists>m v w s. text = v @ s @ w \<and> blanks v \<and> blanks w \<and> written U m s"
  then obtain m v w s where m: "text = v @ s @ w" "blanks v" "blanks w" "written U m s" by blast
  have "trimmed s"
    using m(4) written_parts_split(1) by (auto simp: written_def split: message.splits)
  then have "written U m (TrimSpace text)" using m trim_padded_trimmed by simp
  then have "Parse U text cfg = parsed U cfg m" by (rule Parse_written)
  then show "pr_ok (Parse U text cfg)" by (auto simp: parsed_def split: message.splits)
qed

end
