(* ===== verification/Policy.thy ===== *)
theory Policy
  imports Go_Strings
begin

text \<open>
  Component \<open>internal/policy\<close>: the confidence score, the policy gate and the echo text. Confidence is
  a \<open>float64\<close> of the code; it is modelled exactly, as a rational that every operation rounds to 53
  significant bits (half to even), so a comparison with a threshold comes out as it does in Go.
\<close>

section \<open>Floating point on the unit interval\<close>

definition round_half_even :: "rat \<Rightarrow> int" where
  "round_half_even x =
     (let n = \<lfloor>x\<rfloor>; d = x - of_int n in
      if d < 1 / 2 then n else if 1 / 2 < d then n + 1 else if even n then n else n + 1)"

text \<open>\<open>fl k x\<close> scales \<open>x\<close> into \<open>[1/2, 1]\<close>, by at most \<open>k\<close> doublings, and rounds there; 1021 doublings
  reach the smallest normal exponent, below which the spacing of \<open>float64\<close> is constant.\<close>

fun fl :: "nat \<Rightarrow> rat \<Rightarrow> rat" where
  "fl 0 x = of_int (round_half_even (x * 2 ^ 53)) / 2 ^ 53"
| "fl (Suc k) x =
     (if x < 1 / 2 then fl k (2 * x) / 2 else of_int (round_half_even (x * 2 ^ 53)) / 2 ^ 53)"

definition f64 :: "rat \<Rightarrow> rat" where
  "f64 x = fl 1021 x"

definition f64_mult :: "rat \<Rightarrow> rat \<Rightarrow> rat" where
  "f64_mult x y = f64 (x * y)"

text \<open>The literal \<open>0.n\<close>.\<close>

definition tenths :: "nat \<Rightarrow> rat" where
  "tenths n = f64 (of_nat n / 10)"

lemma round_half_even_mono:
  assumes "x \<le> y"
  shows "round_half_even x \<le> round_half_even y"
proof (cases "\<lfloor>x\<rfloor> = \<lfloor>y\<rfloor>")
  case True
  then show ?thesis using assms by (auto simp: round_half_even_def Let_def)
next
  case False
  then have "\<lfloor>x\<rfloor> + 1 \<le> \<lfloor>y\<rfloor>" using floor_mono[OF assms] by linarith
  moreover have "round_half_even x \<le> \<lfloor>x\<rfloor> + 1" "\<lfloor>y\<rfloor> \<le> round_half_even y"
    by (auto simp: round_half_even_def Let_def)
  ultimately show ?thesis by linarith
qed

lemma round_half_even_int [simp]: "round_half_even (of_int n) = n"
  by (simp add: round_half_even_def)

lemma fl_unit: "0 \<le> x \<Longrightarrow> x \<le> 1 \<Longrightarrow> 0 \<le> fl k x \<and> fl k x \<le> 1"
proof (induction k arbitrary: x)
  case 0
  have "round_half_even 0 \<le> round_half_even (x * 2 ^ 53)"
    using 0 by (intro round_half_even_mono) simp
  moreover have "round_half_even (x * 2 ^ 53) \<le> round_half_even (2 ^ 53)"
    using 0 by (intro round_half_even_mono) simp
  moreover have "round_half_even (2 ^ 53) = 2 ^ 53" "round_half_even 0 = 0"
    using round_half_even_int[of "2 ^ 53"] round_half_even_int[of 0] by simp_all
  ultimately show ?case by (simp add: divide_le_eq)
next
  case (Suc k)
  have "round_half_even 0 \<le> round_half_even (x * 2 ^ 53)"
    using Suc.prems by (intro round_half_even_mono) simp
  moreover have "round_half_even (x * 2 ^ 53) \<le> round_half_even (2 ^ 53)"
    using Suc.prems by (intro round_half_even_mono) simp
  moreover have "round_half_even (2 ^ 53) = 2 ^ 53" "round_half_even 0 = 0"
    using round_half_even_int[of "2 ^ 53"] round_half_even_int[of 0] by simp_all
  moreover have "x < 1 / 2 \<Longrightarrow> 0 \<le> fl k (2 * x) \<and> fl k (2 * x) \<le> 1"
    using Suc.prems by (intro Suc.IH) auto
  ultimately show ?case by (auto simp: divide_le_eq)
qed

lemma f64_unit: "0 \<le> x \<Longrightarrow> x \<le> 1 \<Longrightarrow> 0 \<le> f64 x \<and> f64 x \<le> 1"
  unfolding f64_def by (rule fl_unit)

section \<open>The gate\<close>

datatype action = ActionExecute | ActionEchoBack | ActionClarify

text \<open>The actions from the most careful to the boldest.\<close>

primrec boldness :: "action \<Rightarrow> nat" where
  "boldness ActionClarify = 0"
| "boldness ActionEchoBack = 1"
| "boldness ActionExecute = 2"

lemma boldness_inj [simp]: "boldness a = boldness b \<longleftrightarrow> a = b"
  by (cases a; cases b) simp_all

instantiation action :: linorder
begin

definition less_eq_action :: "action \<Rightarrow> action \<Rightarrow> bool" where
  "less_eq_action a b \<longleftrightarrow> boldness a \<le> boldness b"

definition less_action :: "action \<Rightarrow> action \<Rightarrow> bool" where
  "less_action a b \<longleftrightarrow> boldness a < boldness b"

instance
  by standard (auto simp: less_eq_action_def less_action_def)

end

record Thresholds =
  High :: rat
  Medium :: rat

definition DefaultThresholds :: Thresholds where
  "DefaultThresholds = \<lparr>High = tenths 9, Medium = tenths 5\<rparr>"

record ScoreInput =
  si_ShortIDMatch :: gostring
  si_HasTarget :: bool
  si_TargetMatch :: gostring
  si_HasCommand :: bool
  si_KnownCommand :: bool

definition Score :: "ScoreInput \<Rightarrow> rat" where
  "Score i =
     (if si_ShortIDMatch i \<notin> {str ''exact'', str ''levenshtein_1'', str ''levenshtein_2''} then 0
      else
        let s = 1;
            s = (if si_ShortIDMatch i = str ''exact'' then s
                 else if si_ShortIDMatch i = str ''levenshtein_1'' then f64_mult s (tenths 7)
                 else f64_mult s (tenths 5));
            s = (if si_HasTarget i then
                   (if si_TargetMatch i = str ''exact'' then s
                    else if si_TargetMatch i = str ''levenshtein_1'' then f64_mult s (tenths 6)
                    else if si_TargetMatch i = str ''ambiguous'' then f64_mult s (tenths 3)
                    else f64_mult s (tenths 2))
                 else s)
        in if si_HasCommand i \<and> \<not> si_KnownCommand i then f64_mult s (tenths 8) else s)"

definition Decide :: "unicode \<Rightarrow> rat \<Rightarrow> gostring \<Rightarrow> gostring \<Rightarrow> Thresholds \<Rightarrow> action" where
  "Decide U confidence command targetKind th =
     (if ToUpper U command = str ''SOS'' then ActionExecute
      else if targetKind = str ''group'' then ActionEchoBack
      else if ToUpper U command \<in> {str ''MISSING'', str ''DAMAGE''} then ActionEchoBack
      else if High th \<le> confidence then ActionExecute
      else if Medium th \<le> confidence then ActionEchoBack
      else ActionClarify)"

text \<open>Go's integer division truncates toward zero; a result below one becomes one.\<close>

definition recall_minutes :: "int \<Rightarrow> int" where
  "recall_minutes recallSeconds =
     (let minutes = sgn recallSeconds * (\<bar>recallSeconds\<bar> div 60) in if minutes < 1 then 1 else minutes)"

definition EchoText :: "gostring \<Rightarrow> gostring \<Rightarrow> int \<Rightarrow> gostring" where
  "EchoText target original recallSeconds =
     (let minutes = recall_minutes recallSeconds;
          unit = (if minutes = 1 then str ''minute'' else str ''minutes'')
      in str ''[Forwarded to '' @ target @ str '': '' @ original @ str ''. Reply '' @ [39] @ str ''OOPS'' @ [39] @
         str '' within '' @ Itoa minutes @ str '' '' @ unit @ str '' to recall.]'')"

section \<open>What the gate guarantees\<close>

lemma tenths_bounds:
  "tenths 5 = 1 / 2" "11 / 16 \<le> tenths 7 \<and> tenths 7 \<le> 3 / 4" "19 / 32 \<le> tenths 6 \<and> tenths 6 \<le> 77 / 128"
  "3 / 16 \<le> tenths 3 \<and> tenths 3 \<le> 39 / 128" "3 / 16 \<le> tenths 2 \<and> tenths 2 \<le> 39 / 128"
  "51 / 64 \<le> tenths 8 \<and> tenths 8 \<le> 103 / 128" "7 / 8 < tenths 9 \<and> tenths 9 < 1"
  by code_simp+

lemma fl_mono: "0 \<le> x \<Longrightarrow> x \<le> y \<Longrightarrow> y \<le> 1 \<Longrightarrow> fl k x \<le> fl k y"
proof (induction k arbitrary: x y)
  case 0
  have "round_half_even (x * 2 ^ 53) \<le> round_half_even (y * 2 ^ 53)"
    using 0 by (intro round_half_even_mono) simp
  then show ?case by (simp add: divide_right_mono)
next
  case (Suc k)
  have r: "round_half_even (x * 2 ^ 53) \<le> round_half_even (y * 2 ^ 53)"
    using Suc.prems by (intro round_half_even_mono) simp
  have half: "1 / 2 \<le> y \<Longrightarrow> (2::rat) ^ 52 \<le> of_int (round_half_even (y * 2 ^ 53))"
  proof -
    assume "1 / 2 \<le> y"
    then have "round_half_even (of_int (2 ^ 52)) \<le> round_half_even (y * 2 ^ 53)"
      by (intro round_half_even_mono) simp
    then have "(2::int) ^ 52 \<le> round_half_even (y * 2 ^ 53)" by (simp only: round_half_even_int)
    then have "(of_int (2 ^ 52) :: rat) \<le> of_int (round_half_even (y * 2 ^ 53))"
      by (simp only: of_int_le_iff)
    then show ?thesis by simp
  qed
  consider "y < 1 / 2" | "x < 1 / 2" "1 / 2 \<le> y" | "1 / 2 \<le> x" by linarith
  then show ?case
  proof cases
    case 1
    then have "fl k (2 * x) \<le> fl k (2 * y)" using Suc.prems by (intro Suc.IH) auto
    then show ?thesis using 1 Suc.prems by simp
  next
    case 2
    have "fl k (2 * x) \<le> 1" using 2 Suc.prems fl_unit[of "2 * x" k] by simp
    moreover have "(1::rat) / 2 \<le> of_int (round_half_even (y * 2 ^ 53)) / 2 ^ 53"
      using half[OF 2(2)] by (simp add: le_divide_eq)
    ultimately show ?thesis using 2 by simp
  next
    case 3
    then show ?thesis using r Suc.prems by (simp add: divide_right_mono)
  qed
qed

lemma f64_mono: "0 \<le> x \<Longrightarrow> x \<le> y \<Longrightarrow> y \<le> 1 \<Longrightarrow> f64 x \<le> f64 y"
  unfolding f64_def by (rule fl_mono)

lemma f64_mult_le: "0 \<le> x \<Longrightarrow> 0 \<le> y \<Longrightarrow> x * y \<le> c \<Longrightarrow> c \<le> 1 \<Longrightarrow> f64 c = c \<Longrightarrow> f64_mult x y \<le> c"
  using f64_mono[of "x * y" c] by (simp add: f64_mult_def)

lemma f64_mult_ge: "0 \<le> c \<Longrightarrow> c \<le> x * y \<Longrightarrow> x * y \<le> 1 \<Longrightarrow> f64 c = c \<Longrightarrow> c \<le> f64_mult x y"
  using f64_mono[of c "x * y"] by (simp add: f64_mult_def)

lemma f64_mult_unit:
  "0 \<le> x \<Longrightarrow> x \<le> 1 \<Longrightarrow> 0 \<le> y \<Longrightarrow> y \<le> 1 \<Longrightarrow> 0 \<le> f64_mult x y \<and> f64_mult x y \<le> 1"
  unfolding f64_mult_def by (rule f64_unit) (auto intro: mult_le_one)

lemma f64_exact:
  "f64 (7 / 8) = 7 / 8" "f64 (63 / 128) = 63 / 128" "f64 (9 / 16) = 9 / 16" "f64 (1 / 2) = 1 / 2"
  "f64 (35 / 64) = 35 / 64" "f64 (1 / 16) = 1 / 16" "f64 (1 / 32) = 1 / 32" "f64 1 = 1"
  "f64 (3 / 4) = 3 / 4" "f64 (11 / 16) = 11 / 16" "f64 (39 / 64) = 39 / 64"
  by code_simp+

text \<open>The factor each part of the resolution contributes.\<close>

definition sid_factor :: "gostring \<Rightarrow> rat" where
  "sid_factor m = (if m = str ''exact'' then 1 else if m = str ''levenshtein_1'' then f64_mult 1 (tenths 7)
     else f64_mult 1 (tenths 5))"

definition target_factor :: "gostring \<Rightarrow> rat" where
  "target_factor m = (if m = str ''levenshtein_1'' then tenths 6 else if m = str ''ambiguous'' then tenths 3
     else tenths 2)"

definition known_match :: "gostring \<Rightarrow> bool" where
  "known_match m \<longleftrightarrow> m \<in> {str ''exact'', str ''levenshtein_1'', str ''levenshtein_2''}"

definition target_doubt :: "ScoreInput \<Rightarrow> bool" where
  "target_doubt i \<longleftrightarrow> si_HasTarget i \<and> si_TargetMatch i \<noteq> str ''exact''"

definition command_doubt :: "ScoreInput \<Rightarrow> bool" where
  "command_doubt i \<longleftrightarrow> si_HasCommand i \<and> \<not> si_KnownCommand i"

lemma Score_factors:
  "Score i = (if \<not> known_match (si_ShortIDMatch i) then 0
     else let s = sid_factor (si_ShortIDMatch i);
              s = (if target_doubt i then f64_mult s (target_factor (si_TargetMatch i)) else s)
          in if command_doubt i then f64_mult s (tenths 8) else s)"
  by (auto simp: Score_def sid_factor_def target_factor_def known_match_def target_doubt_def
      command_doubt_def Let_def)

lemma sid_factor_bounds:
  "m = str ''exact'' \<Longrightarrow> sid_factor m = 1"
  "m = str ''levenshtein_1'' \<Longrightarrow> 11 / 16 \<le> sid_factor m \<and> sid_factor m \<le> 3 / 4"
  "m \<noteq> str ''exact'' \<Longrightarrow> m \<noteq> str ''levenshtein_1'' \<Longrightarrow> sid_factor m = 1 / 2"
  "1 / 2 \<le> sid_factor m \<and> sid_factor m \<le> 1"
proof -
  have a: "11 / 16 \<le> f64_mult 1 (tenths 7)" "f64_mult 1 (tenths 7) \<le> 3 / 4"
    by (rule f64_mult_ge f64_mult_le; use tenths_bounds(2) in \<open>simp add: f64_exact\<close>)+
  have b: "f64_mult 1 (tenths 5) = 1 / 2"
    by (simp only: f64_mult_def tenths_bounds mult_1 f64_exact)
  show "m = str ''exact'' \<Longrightarrow> sid_factor m = 1"
    "m = str ''levenshtein_1'' \<Longrightarrow> 11 / 16 \<le> sid_factor m \<and> sid_factor m \<le> 3 / 4"
    "m \<noteq> str ''exact'' \<Longrightarrow> m \<noteq> str ''levenshtein_1'' \<Longrightarrow> sid_factor m = 1 / 2"
    "1 / 2 \<le> sid_factor m \<and> sid_factor m \<le> 1"
    using a b by (auto simp: sid_factor_def)
qed

lemma target_factor_bounds:
  "3 / 16 \<le> target_factor m \<and> target_factor m \<le> 77 / 128"
  "m \<noteq> str ''levenshtein_1'' \<Longrightarrow> target_factor m \<le> 39 / 128"
  "m = str ''levenshtein_1'' \<Longrightarrow> 19 / 32 \<le> target_factor m"
  using tenths_bounds by (auto simp: target_factor_def)

lemmas command_factor_bounds = tenths_bounds(6)

text \<open>The score after the target penalty.\<close>

lemma target_penalty_bounds:
  fixes s :: rat
  assumes "1 / 2 \<le> s" "s \<le> 1"
  shows "1 / 16 \<le> f64_mult s (target_factor m)" "f64_mult s (target_factor m) \<le> 39 / 64"
    "s \<le> 3 / 4 \<Longrightarrow> f64_mult s (target_factor m) \<le> 63 / 128"
    "m \<noteq> str ''levenshtein_1'' \<Longrightarrow> f64_mult s (target_factor m) \<le> 63 / 128"
    "s = 1 \<Longrightarrow> m = str ''levenshtein_1'' \<Longrightarrow> 9 / 16 \<le> f64_mult s (target_factor m)"
proof -
  note t = target_factor_bounds(1)[of m]
  have lo: "1 / 2 * (3 / 16) \<le> s * target_factor m"
    using assms t by (intro mult_mono) auto
  have hi: "s * target_factor m \<le> 1 * (77 / 128)"
    using assms t by (intro mult_mono) auto
  show "1 / 16 \<le> f64_mult s (target_factor m)"
    using lo hi by (intro f64_mult_ge) (auto simp: f64_exact)
  show "f64_mult s (target_factor m) \<le> 39 / 64"
    using assms t hi by (intro f64_mult_le) (auto simp: f64_exact)
  show "f64_mult s (target_factor m) \<le> 63 / 128" if "s \<le> 3 / 4"
  proof -
    have "s * target_factor m \<le> 3 / 4 * (77 / 128)" using that assms t by (intro mult_mono) auto
    then show ?thesis using assms t by (intro f64_mult_le) (auto simp: f64_exact)
  qed
  show "f64_mult s (target_factor m) \<le> 63 / 128" if "m \<noteq> str ''levenshtein_1''"
  proof -
    have "s * target_factor m \<le> 1 * (39 / 128)"
      using target_factor_bounds(2)[OF that] assms t by (intro mult_mono) auto
    then show ?thesis using assms t by (intro f64_mult_le) (auto simp: f64_exact)
  qed
  show "9 / 16 \<le> f64_mult s (target_factor m)" if "s = 1" "m = str ''levenshtein_1''"
    using target_factor_bounds(3)[OF that(2)] t that(1) by (intro f64_mult_ge) (auto simp: f64_exact)
qed

lemma command_penalty_bounds:
  fixes s :: rat
  assumes "1 / 16 \<le> s" "s \<le> 1"
  shows "1 / 32 \<le> f64_mult s (tenths 8)" "f64_mult s (tenths 8) \<le> 7 / 8"
    "11 / 16 \<le> s \<Longrightarrow> 35 / 64 \<le> f64_mult s (tenths 8)"
    "s \<le> 39 / 64 \<Longrightarrow> f64_mult s (tenths 8) \<le> 63 / 128"
proof -
  note c = command_factor_bounds
  have lo: "1 / 16 * (51 / 64) \<le> s * tenths 8" using assms c by (intro mult_mono) auto
  have hi: "s * tenths 8 \<le> 1 * (103 / 128)" using assms c by (intro mult_mono) auto
  show "1 / 32 \<le> f64_mult s (tenths 8)"
    using lo hi by (intro f64_mult_ge) (auto simp: f64_exact)
  show "f64_mult s (tenths 8) \<le> 7 / 8"
    using assms c hi by (intro f64_mult_le) (auto simp: f64_exact)
  show "35 / 64 \<le> f64_mult s (tenths 8)" if "11 / 16 \<le> s"
  proof -
    have "11 / 16 * (51 / 64) \<le> s * tenths 8" using that c by (intro mult_mono) auto
    then show ?thesis using hi by (intro f64_mult_ge) (auto simp: f64_exact)
  qed
  show "f64_mult s (tenths 8) \<le> 63 / 128" if "s \<le> 39 / 64"
  proof -
    have "s * tenths 8 \<le> 39 / 64 * (103 / 128)" using that assms c by (intro mult_mono) auto
    then show ?thesis using assms c by (intro f64_mult_le) (auto simp: f64_exact)
  qed
qed

text \<open>The bounds of the score before and after the target penalty, for the case analyses below.\<close>

lemma untargeted_bounds:
  fixes m :: gostring
  defines "a \<equiv> sid_factor m"
  shows "1 / 2 \<le> a" "a \<le> 1" "m \<noteq> str ''exact'' \<Longrightarrow> a \<le> 3 / 4"
    "1 / 32 \<le> f64_mult a (tenths 8)" "f64_mult a (tenths 8) \<le> 7 / 8"
    "m = str ''exact'' \<or> m = str ''levenshtein_1'' \<Longrightarrow> 35 / 64 \<le> f64_mult a (tenths 8)"
    "m \<noteq> str ''exact'' \<Longrightarrow> m \<noteq> str ''levenshtein_1'' \<Longrightarrow> f64_mult a (tenths 8) \<le> 63 / 128"
proof -
  show a: "1 / 2 \<le> a" "a \<le> 1" using sid_factor_bounds(4)[of m] by (auto simp: a_def)
  show "m \<noteq> str ''exact'' \<Longrightarrow> a \<le> 3 / 4"
    using sid_factor_bounds[of m] by (cases "m = str ''levenshtein_1''") (auto simp: a_def)
  have a': "1 / 16 \<le> a" using a by linarith
  note c = command_penalty_bounds[OF a' a(2)]
  show "1 / 32 \<le> f64_mult a (tenths 8)" "f64_mult a (tenths 8) \<le> 7 / 8" by (fact c)+
  show "m = str ''exact'' \<or> m = str ''levenshtein_1'' \<Longrightarrow> 35 / 64 \<le> f64_mult a (tenths 8)"
    using c(3) sid_factor_bounds(1,2)[of m] by (auto simp: a_def)
  show "f64_mult a (tenths 8) \<le> 63 / 128" if "m \<noteq> str ''exact''" "m \<noteq> str ''levenshtein_1''"
  proof (rule c(4))
    show "a \<le> 39 / 64" using sid_factor_bounds(3)[OF that] by (simp add: a_def)
  qed
qed

lemma targeted_bounds:
  fixes m t :: gostring
  defines "b \<equiv> f64_mult (sid_factor m) (target_factor t)"
  shows "1 / 16 \<le> b" "b \<le> 39 / 64"
    "m \<noteq> str ''exact'' \<or> t \<noteq> str ''levenshtein_1'' \<Longrightarrow> b \<le> 63 / 128"
    "m = str ''exact'' \<Longrightarrow> t = str ''levenshtein_1'' \<Longrightarrow> 9 / 16 \<le> b"
    "1 / 32 \<le> f64_mult b (tenths 8)" "f64_mult b (tenths 8) \<le> 63 / 128"
proof -
  note a = untargeted_bounds(1,2)[of m]
  show b: "1 / 16 \<le> b" "b \<le> 39 / 64" using target_penalty_bounds(1,2)[OF a, of t] by (auto simp: b_def)
  show "m \<noteq> str ''exact'' \<or> t \<noteq> str ''levenshtein_1'' \<Longrightarrow> b \<le> 63 / 128"
    using target_penalty_bounds(3,4)[OF a, of t] untargeted_bounds(3)[of m] by (auto simp: b_def)
  show "m = str ''exact'' \<Longrightarrow> t = str ''levenshtein_1'' \<Longrightarrow> 9 / 16 \<le> b"
    using target_penalty_bounds(5)[OF a, of t] sid_factor_bounds(1)[of m] by (auto simp: b_def)
  have b': "b \<le> 1" using b by linarith
  show "1 / 32 \<le> f64_mult b (tenths 8)" "f64_mult b (tenths 8) \<le> 63 / 128"
    using command_penalty_bounds(1)[OF b(1) b'] command_penalty_bounds(4)[OF b(1) b' b(2)] by auto
qed

lemma Score_values:
  fixes i :: ScoreInput
  defines "a \<equiv> sid_factor (si_ShortIDMatch i)"
  defines "b \<equiv> f64_mult a (target_factor (si_TargetMatch i))"
  assumes "known_match (si_ShortIDMatch i)"
  shows "Score i = (if target_doubt i then (if command_doubt i then f64_mult b (tenths 8) else b)
     else (if command_doubt i then f64_mult a (tenths 8) else a))"
  using assms by (simp add: Score_factors Let_def)

definition always_echoed :: "unicode \<Rightarrow> gostring \<Rightarrow> gostring \<Rightarrow> bool" where
  "always_echoed U cmd kind \<longleftrightarrow> kind = str ''group'' \<or> ToUpper U cmd \<in> {str ''MISSING'', str ''DAMAGE''}"

lemma Score_unknown: "\<not> known_match (si_ShortIDMatch i) \<Longrightarrow> Score i = 0"
  by (simp add: Score_factors)

lemma Score_facts:
  "0 \<le> Score i \<and> Score i \<le> 1 \<and> (Score i = 0 \<longleftrightarrow> \<not> known_match (si_ShortIDMatch i)) \<and>
   (Score i = 1 \<longleftrightarrow> si_ShortIDMatch i = str ''exact'' \<and> \<not> target_doubt i \<and> \<not> command_doubt i)"
proof (cases "known_match (si_ShortIDMatch i)")
  case False
  then show ?thesis by (auto simp: Score_unknown known_match_def)
next
  case True
  note u = untargeted_bounds[of "si_ShortIDMatch i"]
    and t = targeted_bounds[where m = "si_ShortIDMatch i" and t = "si_TargetMatch i"]
  show ?thesis
    using u(1-5) t(1,2,5,6) sid_factor_bounds(1)[of "si_ShortIDMatch i"] True
    by (cases "target_doubt i"; cases "command_doubt i"; cases "si_ShortIDMatch i = str ''exact''")
      (auto simp: Score_values[OF True])
qed

lemma Decide_mono: "mono (\<lambda>c. Decide U c cmd kind th)"
  by (rule monoI) (auto simp: Decide_def less_eq_action_def)

text \<open>
  C17. The confidence lies in the unit interval; it is zero exactly when the short id has no match,
  and one exactly when the short id matched exactly and neither the target nor the command leaves a
  doubt. More confidence never leads to a more careful action, whatever the thresholds.
\<close>

theorem Score_confidence:
  "0 \<le> Score i \<and> Score i \<le> 1 \<and> (Score i = 0 \<longleftrightarrow> \<not> known_match (si_ShortIDMatch i)) \<and>
   (Score i = 1 \<longleftrightarrow> si_ShortIDMatch i = str ''exact'' \<and> \<not> target_doubt i \<and> \<not> command_doubt i) \<and>
   mono (\<lambda>c. Decide U c cmd kind th)"
  using Score_facts Decide_mono by blast

text \<open>The documented gate: what is executed outright and what needs clarification.\<close>

definition gate_executes :: "unicode \<Rightarrow> gostring \<Rightarrow> gostring \<Rightarrow> ScoreInput \<Rightarrow> bool" where
  "gate_executes U cmd kind i \<longleftrightarrow> ToUpper U cmd = str ''SOS'' \<or>
     (\<not> always_echoed U cmd kind \<and> si_ShortIDMatch i = str ''exact'' \<and>
      \<not> target_doubt i \<and> \<not> command_doubt i)"

definition gate_clarifies :: "unicode \<Rightarrow> gostring \<Rightarrow> gostring \<Rightarrow> ScoreInput \<Rightarrow> bool" where
  "gate_clarifies U cmd kind i \<longleftrightarrow> ToUpper U cmd \<noteq> str ''SOS'' \<and> \<not> always_echoed U cmd kind \<and>
     (\<not> known_match (si_ShortIDMatch i) \<or>
      (target_doubt i \<and> (si_ShortIDMatch i \<noteq> str ''exact'' \<or>
         si_TargetMatch i \<noteq> str ''levenshtein_1'' \<or> command_doubt i)) \<or>
      (command_doubt i \<and> si_ShortIDMatch i = str ''levenshtein_2''))"

lemma Decide_default:
  "Decide U (Score i) cmd kind DefaultThresholds =
     (if gate_executes U cmd kind i then ActionExecute
      else if gate_clarifies U cmd kind i then ActionClarify else ActionEchoBack)"
proof -
  define m where "m = si_ShortIDMatch i"
  note u = untargeted_bounds[of m]
    and t = targeted_bounds[where m = m and t = "si_TargetMatch i"]
    and t9 = tenths_bounds(7) and t5 = tenths_bounds(1)
  have exec: "tenths 9 \<le> Score i \<longleftrightarrow> m = str ''exact'' \<and> \<not> target_doubt i \<and> \<not> command_doubt i"
  proof (cases "known_match m")
    case False
    then show ?thesis using t9 by (auto simp: Score_unknown m_def known_match_def)
  next
    case True
    then show ?thesis
      using u(3,5) t(2,6) sid_factor_bounds(1)[of m] t9 unfolding m_def
      by (cases "target_doubt i"; cases "command_doubt i"; cases "si_ShortIDMatch i = str ''exact''")
        (auto simp: Score_values)
  qed
  have echo: "tenths 5 \<le> Score i \<longleftrightarrow> known_match m \<and>
      \<not> (target_doubt i \<and> (m \<noteq> str ''exact'' \<or> si_TargetMatch i \<noteq> str ''levenshtein_1'' \<or> command_doubt i)) \<and>
      \<not> (command_doubt i \<and> m = str ''levenshtein_2'')"
  proof (cases "known_match m")
    case False
    then show ?thesis using t5 by (auto simp: Score_unknown m_def)
  next
    case True
    then have km: "m = str ''exact'' \<or> m = str ''levenshtein_1'' \<or> m = str ''levenshtein_2''"
      by (simp add: known_match_def)
    consider "target_doubt i" "command_doubt i" | "target_doubt i" "\<not> command_doubt i"
      | "\<not> target_doubt i" "command_doubt i" | "\<not> target_doubt i" "\<not> command_doubt i" by blast
    then show ?thesis
    proof cases
      case 1
      then show ?thesis using t(6) True t5 by (auto simp: Score_values m_def)
    next
      case 2
      then have "Score i = f64_mult (sid_factor m) (target_factor (si_TargetMatch i))"
        using True by (simp add: Score_values m_def)
      then show ?thesis
        using 2 t(3,4) True t5 by (cases "m = str ''exact'' \<and> si_TargetMatch i = str ''levenshtein_1''") auto
    next
      case 3
      then show ?thesis using u(6,7) True km t5 by (auto simp: Score_values m_def)
    next
      case 4
      then show ?thesis using u(1) True t5 by (auto simp: Score_values m_def)
    qed
  qed
  show ?thesis
    using exec echo t9
    unfolding Decide_def DefaultThresholds_def gate_executes_def gate_clarifies_def always_echoed_def m_def
    by (auto simp: t5)
qed

text \<open>
  Under the default thresholds the gate executes a message only when nothing about it is in
  doubt (or it is an SOS), and asks for clarification exactly when the short id is unknown or the
  doubts add up: a target that is not an exact match counts unless it is one edit away under an
  exact short id and a known command; an unknown command counts only under a two-edit short id or a
  doubtful target. Everything in between, every group target and every MISSING or DAMAGE is echoed.
\<close>

theorem Decide_default_gate:
  "Decide U (Score i) cmd kind DefaultThresholds =
     (if gate_executes U cmd kind i then ActionExecute
      else if gate_clarifies U cmd kind i then ActionClarify else ActionEchoBack)"
  by (rule Decide_default)

end
