(* ===== verification/Json.thy ===== *)
theory Json
  imports Policy
begin

text \<open>
  JSON values and the parts of \<open>encoding/json\<close> the repository relies on: decoding into a struct
  (fields matched without regard to case, \<open>null\<close> leaving a field as it is, a value of the wrong
  kind making the whole decoding fail) and encoding with \<open>omitempty\<close>. A JSON document is
  represented by its value; the text syntax itself is not modelled.
\<close>

section \<open>Values\<close>

datatype json =
    JNull
  | JBool bool
  | JNum rat
  | JStr gostring
  | JArr "json list"
  | JObj "(gostring \<times> json) list"

fun jget :: "json \<Rightarrow> gostring \<Rightarrow> json option" where
  "jget (JObj kvs) k = map_of (rev kvs) k"
| "jget _ k = None"

text \<open>The \<open>jsonb\<close> operator \<open>||\<close> on two objects: the right operand's keys win.\<close>

fun jsonb_concat :: "json \<Rightarrow> json \<Rightarrow> json" where
  "jsonb_concat (JObj a) (JObj b) = JObj (filter (\<lambda>(k, _). k \<notin> fst ` set b) a @ b)"
| "jsonb_concat (JArr a) (JArr b) = JArr (a @ b)"
| "jsonb_concat (JArr a) b = JArr (a @ [b])"
| "jsonb_concat a (JArr b) = JArr (a # b)"
| "jsonb_concat a b = JArr [a, b]"

section \<open>Decoding into a struct\<close>

text \<open>The members of an object that a struct field with the given JSON name receives, in order.\<close>

definition members :: "unicode \<Rightarrow> gostring \<Rightarrow> (gostring \<times> json) list \<Rightarrow> json list" where
  "members U name kvs = map snd (filter (\<lambda>(k, _). EqualFold U k name) kvs)"

text \<open>A value decoded into a struct: \<open>null\<close> is an empty struct, anything but an object fails.\<close>

fun struct_members :: "json \<Rightarrow> (gostring \<times> json) list option" where
  "struct_members JNull = Some []"
| "struct_members (JObj kvs) = Some kvs"
| "struct_members _ = None"

text \<open>A \<open>string\<close>, \<open>bool\<close> or number field: every non-null member must have the right kind, the last
  one counts, and an absent or null member leaves the zero value.\<close>

fun decode_string :: "json list \<Rightarrow> gostring \<Rightarrow> gostring option" where
  "decode_string [] v = Some v"
| "decode_string (JNull # js) v = decode_string js v"
| "decode_string (JStr s # js) v = decode_string js s"
| "decode_string (_ # js) v = None"

fun decode_bool :: "json list \<Rightarrow> bool \<Rightarrow> bool option" where
  "decode_bool [] v = Some v"
| "decode_bool (JNull # js) v = decode_bool js v"
| "decode_bool (JBool b # js) v = decode_bool js b"
| "decode_bool (_ # js) v = None"

text \<open>A pointer field (\<open>*string\<close>): \<open>null\<close> resets it to \<open>nil\<close>.\<close>

fun decode_string_ptr :: "json list \<Rightarrow> gostring option \<Rightarrow> gostring option option" where
  "decode_string_ptr [] v = Some v"
| "decode_string_ptr (JNull # js) v = decode_string_ptr js None"
| "decode_string_ptr (JStr s # js) v = decode_string_ptr js (Some s)"
| "decode_string_ptr (_ # js) v = None"

fun decode_bool_ptr :: "json list \<Rightarrow> bool option \<Rightarrow> bool option option" where
  "decode_bool_ptr [] v = Some v"
| "decode_bool_ptr (JNull # js) v = decode_bool_ptr js None"
| "decode_bool_ptr (JBool b # js) v = decode_bool_ptr js (Some b)"
| "decode_bool_ptr (_ # js) v = None"

text \<open>\<open>float64\<close>: the nearest double; a magnitude beyond the largest double fails.\<close>

fun float_up :: "nat \<Rightarrow> rat \<Rightarrow> rat option" where
  "float_up 0 x = (if fl 1021 x < 1 then Some (fl 1021 x) else None)"
| "float_up (Suc k) x = (if 1 < x then map_option (\<lambda>y. 2 * y) (float_up k (x / 2)) else Some (fl 1021 x))"

definition float64_of :: "rat \<Rightarrow> rat option" where
  "float64_of x = (if x < 0 then map_option uminus (float_up 1024 (- x)) else float_up 1024 x)"

lemma float_up_unit: "x \<le> 1 \<Longrightarrow> k \<noteq> 0 \<Longrightarrow> float_up k x = Some (fl 1021 x)"
  by (cases k) (simp_all del: fl.simps)

lemma float64_of_unit: "0 \<le> x \<Longrightarrow> x \<le> 1 \<Longrightarrow> float64_of x = Some (f64 x)"
  by (simp add: float64_of_def f64_def float_up_unit del: float_up.simps fl.simps)

lemma fl_big: "1 / 2 \<le> x \<Longrightarrow> fl k x = of_int (round_half_even (x * 2 ^ 53)) / 2 ^ 53"
  by (cases k) auto

lemma fl_zero: "fl k 0 = 0"
  using round_half_even_int[of 0] by (induction k) simp_all

lemma fl_half: "fl k (1 / 2) = 1 / 2"
  using round_half_even_int[of "2 ^ 52"] by (simp add: fl_big)

lemma fl_half_le: "1 / 2 \<le> x \<Longrightarrow> 1 / 2 \<le> fl k x"
  using round_half_even_mono[of "2 ^ 52" "x * 2 ^ 53"] round_half_even_int[of "2 ^ 52"] by (simp add: fl_big le_divide_eq)

lemma fl_idem: "0 \<le> x \<Longrightarrow> fl k (fl k x) = fl k x"
proof (induction k arbitrary: x)
  case 0
  then show ?case by simp
next
  case (Suc k)
  show ?case
  proof (cases "x < 1 / 2")
    case True
    then have x: "fl (Suc k) x = fl k (2 * x) / 2" by simp
    have y: "fl k (2 * x) \<le> 1" "fl k (fl k (2 * x)) = fl k (2 * x)"
      using Suc fl_unit[of "2 * x" k] True by auto
    show ?thesis
    proof (cases "fl k (2 * x) < 1")
      case True
      then show ?thesis unfolding x using y(2) by simp
    next
      case False
      then have "fl k (2 * x) = 1" using y(1) by simp
      then show ?thesis unfolding x using fl_half by (simp del: fl.simps)
    qed
  next
    case False
    then have x: "fl (Suc k) x = of_int (round_half_even (x * 2 ^ 53)) / 2 ^ 53" by simp
    from False have "1 / 2 \<le> fl (Suc k) x" by (intro fl_half_le) simp
    then have "fl (Suc k) (fl (Suc k) x) = of_int (round_half_even (fl (Suc k) x * 2 ^ 53)) / 2 ^ 53" by (rule fl_big)
    also have "fl (Suc k) x * 2 ^ 53 = of_int (round_half_even (x * 2 ^ 53))" unfolding x by simp
    finally show ?thesis using x by (simp only: round_half_even_int)
  qed
qed

lemma float_up_half: "1 / 2 \<le> x \<Longrightarrow> float_up k x = Some y \<Longrightarrow> 1 / 2 \<le> y"
proof (induction k arbitrary: x y)
  case 0
  then show ?case using fl_half_le[of x 1021] by (simp del: fl.simps split: if_splits)
next
  case (Suc k)
  show ?case
  proof (cases "1 < x")
    case True
    then obtain z where "float_up k (x / 2) = Some z" "y = 2 * z" using Suc.prems(2) by auto
    then show ?thesis using Suc.IH[of "x / 2" z] True by simp
  next
    case False
    then show ?thesis using Suc.prems fl_half_le[of x 1021] by (simp del: fl.simps)
  qed
qed

lemma float_up_idem: "0 \<le> x \<Longrightarrow> float_up k x = Some y \<Longrightarrow> 0 \<le> y \<and> float_up k y = Some y"
proof (induction k arbitrary: x y)
  case 0
  then have "y = fl 1021 x" "fl 1021 x < 1" by (auto simp del: fl.simps split: if_splits)
  moreover have "0 \<le> fl 1021 x" using 0(1) fl_unit[of x 1021] fl_half_le[of x 1021] by (cases "x \<le> 1") auto
  ultimately show ?case using fl_idem[OF 0(1), of 1021] by (simp del: fl.simps)
next
  case (Suc k)
  show ?case
  proof (cases "1 < x")
    case True
    then obtain z where z: "float_up k (x / 2) = Some z" "y = 2 * z" using Suc.prems(2) by auto
    have "float_up k z = Some z" "0 \<le> z" "1 / 2 \<le> z"
      using Suc.IH[of "x / 2" z] z(1) True float_up_half[of "x / 2" k z] by auto
    moreover have "fl 1021 1 = 1" using round_half_even_int[of "2 ^ 53"] by (simp add: fl_big del: fl.simps)
    ultimately show ?thesis using z(2) by (cases "2 * z = 1") (auto simp del: fl.simps)
  next
    case False
    then have y: "y = fl 1021 x" using Suc.prems by (simp del: fl.simps)
    have "0 \<le> fl 1021 x \<and> fl 1021 x \<le> 1" using False Suc.prems(1) by (intro fl_unit) auto
    then show ?thesis unfolding y using fl_idem[OF Suc.prems(1), of 1021] by (simp del: fl.simps)
  qed
qed

text \<open>Rounding to a double is done once.\<close>

lemma float64_of_idem: "float64_of x = Some y \<Longrightarrow> float64_of y = Some y"
  using float_up_idem[of x 1024 y] float_up_idem[of "- x" 1024 "- y"]
  by (auto simp: float64_of_def simp del: float_up.simps split: if_splits)

fun decode_float_ptr :: "json list \<Rightarrow> rat option \<Rightarrow> rat option option" where
  "decode_float_ptr [] v = Some v"
| "decode_float_ptr (JNull # js) v = decode_float_ptr js None"
| "decode_float_ptr (JNum x # js) v =
     (case float64_of x of None \<Rightarrow> None | Some f \<Rightarrow> decode_float_ptr js (Some f))"
| "decode_float_ptr (_ # js) v = None"

fun decode_float :: "json list \<Rightarrow> rat \<Rightarrow> rat option" where
  "decode_float [] v = Some v"
| "decode_float (JNull # js) v = decode_float js v"
| "decode_float (JNum x # js) v =
     (case float64_of x of None \<Rightarrow> None | Some f \<Rightarrow> decode_float js f)"
| "decode_float (_ # js) v = None"

text \<open>Integers of a given range; a fraction or a value out of range fails.\<close>

definition int_of_num :: "int \<Rightarrow> int \<Rightarrow> rat \<Rightarrow> int option" where
  "int_of_num lo hi x = (if of_int \<lfloor>x\<rfloor> = x \<and> lo \<le> \<lfloor>x\<rfloor> \<and> \<lfloor>x\<rfloor> \<le> hi then Some \<lfloor>x\<rfloor> else None)"

fun decode_int_ptr :: "int \<Rightarrow> int \<Rightarrow> json list \<Rightarrow> int option \<Rightarrow> int option option" where
  "decode_int_ptr lo hi [] v = Some v"
| "decode_int_ptr lo hi (JNull # js) v = decode_int_ptr lo hi js None"
| "decode_int_ptr lo hi (JNum x # js) v =
     (case int_of_num lo hi x of None \<Rightarrow> None | Some i \<Rightarrow> decode_int_ptr lo hi js (Some i))"
| "decode_int_ptr lo hi (_ # js) v = None"

fun decode_int :: "int \<Rightarrow> int \<Rightarrow> json list \<Rightarrow> int \<Rightarrow> int option" where
  "decode_int lo hi [] v = Some v"
| "decode_int lo hi (JNull # js) v = decode_int lo hi js v"
| "decode_int lo hi (JNum x # js) v =
     (case int_of_num lo hi x of None \<Rightarrow> None | Some i \<Rightarrow> decode_int lo hi js i)"
| "decode_int lo hi (_ # js) v = None"

abbreviation int32_min :: int where "int32_min \<equiv> - 2147483648"
abbreviation int32_max :: int where "int32_max \<equiv> 2147483647"
abbreviation int64_min :: int where "int64_min \<equiv> - 9223372036854775808"
abbreviation int64_max :: int where "int64_max \<equiv> 9223372036854775807"

text \<open>A slice of strings or numbers: \<open>null\<close> is the empty slice, a null element the zero value.\<close>

fun string_elems :: "json list \<Rightarrow> gostring list option" where
  "string_elems [] = Some []"
| "string_elems (JStr s # js) = map_option (\<lambda>ss. s # ss) (string_elems js)"
| "string_elems (JNull # js) = map_option (\<lambda>ss. [] # ss) (string_elems js)"
| "string_elems (_ # js) = None"

fun decode_strings :: "json list \<Rightarrow> gostring list \<Rightarrow> gostring list option" where
  "decode_strings [] v = Some v"
| "decode_strings (JNull # js) v = decode_strings js []"
| "decode_strings (JArr xs # js) v =
     (case string_elems xs of None \<Rightarrow> None | Some ss \<Rightarrow> decode_strings js ss)"
| "decode_strings (_ # js) v = None"

fun float_elems :: "json list \<Rightarrow> rat list option" where
  "float_elems [] = Some []"
| "float_elems (JNum x # js) =
     (case float64_of x of None \<Rightarrow> None | Some f \<Rightarrow> map_option (\<lambda>fs. f # fs) (float_elems js))"
| "float_elems (JNull # js) = map_option (\<lambda>fs. 0 # fs) (float_elems js)"
| "float_elems (_ # js) = None"

fun decode_floats :: "json list \<Rightarrow> rat list \<Rightarrow> rat list option" where
  "decode_floats [] v = Some v"
| "decode_floats (JNull # js) v = decode_floats js []"
| "decode_floats (JArr xs # js) v =
     (case float_elems xs of None \<Rightarrow> None | Some fs \<Rightarrow> decode_floats js fs)"
| "decode_floats (_ # js) v = None"

text \<open>A \<open>json.RawMessage\<close> field takes the last member as it is.\<close>

definition decode_raw :: "json list \<Rightarrow> json option" where
  "decode_raw js = (if js = [] then None else Some (last js))"

section \<open>Encoding a struct\<close>

definition omit_empty :: "gostring \<Rightarrow> gostring \<Rightarrow> (gostring \<times> json) list" where
  "omit_empty name s = (if s = [] then [] else [(name, JStr s)])"

definition omit_false :: "gostring \<Rightarrow> bool \<Rightarrow> (gostring \<times> json) list" where
  "omit_false name b = (if b then [(name, JBool True)] else [])"

definition omit_none :: "gostring \<Rightarrow> json option \<Rightarrow> (gostring \<times> json) list" where
  "omit_none name v = (case v of None \<Rightarrow> [] | Some j \<Rightarrow> [(name, j)])"

definition json_ptr :: "('a \<Rightarrow> json) \<Rightarrow> 'a option \<Rightarrow> json" where
  "json_ptr f v = (case v of None \<Rightarrow> JNull | Some x \<Rightarrow> f x)"

section \<open>Facts\<close>

lemma members_Nil [simp]: "members U n [] = []"
  by (simp add: members_def)

lemma members_Cons: "members U n ((k, v) # kvs) = (if EqualFold U k n then v # members U n kvs else members U n kvs)"
  by (simp add: members_def)

lemma members_append [simp]: "members U n (a @ b) = members U n a @ members U n b"
  by (simp add: members_def)

lemma members_omit_empty:
  "members U n (omit_empty k s) = (if EqualFold U k n \<and> s \<noteq> [] then [JStr s] else [])"
  by (simp add: omit_empty_def members_Cons)

lemma members_omit_false:
  "members U n (omit_false k b) = (if EqualFold U k n \<and> b then [JBool True] else [])"
  by (simp add: omit_false_def members_Cons)

text \<open>The struct tags of the repository are ASCII, and folding an ASCII name is decided on the name alone.\<close>

lemma map_fold_ascii:
  "\<forall>c\<in>set s. c < 128 \<Longrightarrow> map (fold_rune U) s = map (fold_rune ascii_only) s"
  by (simp add: fold_rune_def)

lemma EqualFold_str:
  assumes "\<forall>c\<in>set s. c < 128" and "\<forall>c\<in>set t. c < 128"
  shows "EqualFold U s t \<longleftrightarrow> EqualFold ascii_only s t"
  unfolding EqualFold_def map_fold_ascii[OF assms(1), of U] map_fold_ascii[OF assms(2), of U] ..

text \<open>Names are told apart by folding; the names here are ASCII, so the ASCII tables decide. The two
  predicates are evaluated on the literals.\<close>

definition name_key :: "string \<Rightarrow> nat list" where
  "name_key s = map (\<lambda>c. if 65 \<le> (of_char c :: nat) \<and> (of_char c :: nat) \<le> 90 then of_char c + 32 else of_char c) s"

definition ascii_name :: "string \<Rightarrow> bool" where
  "ascii_name s \<longleftrightarrow> list_all (\<lambda>c. (of_char c :: nat) < 128) s"

lemma EqualFold_name_key:
  assumes "ascii_name a" and "ascii_name b"
  shows "EqualFold U (str a) (str b) \<longleftrightarrow> name_key a = name_key b"
proof -
  have key: "map (fold_rune U) (str s) = name_key s" if "ascii_name s" for s
    using that by (auto simp: str_def name_key_def ascii_name_def list_all_iff fold_rune_def ascii_upper_letter_def)
  show ?thesis unfolding EqualFold_def key[OF assms(1)] key[OF assms(2)] ..
qed

lemma members_name:
  "ascii_name k \<Longrightarrow> ascii_name n \<Longrightarrow>
   members U (str n) ((str k, v) # kvs) =
     (if name_key k = name_key n then v # members U (str n) kvs else members U (str n) kvs)"
  by (simp add: members_Cons EqualFold_name_key)

lemmas name_simps = members_name name_key_def ascii_name_def

end
