(* ===== verification/Db.thy ===== *)
theory Db
  imports Json
begin

text \<open>
  The database of the channels service: one record per table row (the fields of
  \<open>goqueries/models.go\<close>), the tables as lists of rows, and the constraints of the migration
  (primary keys, unique keys, foreign keys). A statement that would break a constraint fails and
  changes nothing, as it does in Postgres. SQL \<open>NULL\<close> is \<open>None\<close>. Identifiers are UUIDs, represented
  by numbers with \<open>0\<close> for \<open>uuid.Nil\<close>; times are instants on an integer scale.
\<close>

section \<open>Rows\<close>

type_synonym uuid = nat
type_synonym time = int
type_synonym bytes = "nat list"

record Tenant =
  tn_id :: uuid
  tn_name :: gostring
  tn_plan :: gostring
  tn_created_at :: time
  tn_settings :: json

record Account =
  acc_id :: uuid
  acc_tenant :: uuid
  acc_type :: gostring
  acc_owner_type :: gostring
  acc_label :: gostring
  acc_platform_identifier :: gostring
  acc_credentials :: bytes
  acc_capabilities :: "gostring list"
  acc_status :: gostring
  acc_created_at :: time

record Channel =
  ch_id :: uuid
  ch_tenant :: uuid
  ch_name :: gostring
  ch_parser_config :: json
  ch_workflow_url :: "gostring option"
  ch_reply_policy :: gostring
  ch_thresholds :: json
  ch_echo_back :: bool
  ch_recall_window :: int
  ch_retention_years :: int
  ch_created_at :: time

record ChannelAccount =
  ca_channel :: uuid
  ca_account :: uuid
  ca_direction :: gostring
  ca_priority :: int
  ca_routing_filter :: "json option"

record Contact =
  ct_id :: uuid
  ct_tenant :: uuid
  ct_short_id :: gostring
  ct_display_name :: gostring
  ct_aoi :: "gostring option"
  ct_role :: "gostring option"
  ct_default_channel :: "uuid option"
  ct_status :: gostring
  ct_metadata :: json
  ct_created_at :: time
  ct_updated_at :: time

record ContactEndpoint =
  ce_id :: uuid
  ce_contact :: uuid
  ce_channel :: uuid
  ce_account :: uuid
  ce_endpoint :: gostring
  ce_priority :: int
  ce_capabilities :: "gostring list"
  ce_last_seen :: "time option"
  ce_failover :: "uuid option"

text \<open>\<open>body_location\<close> is a geography point: longitude, then latitude.\<close>

record Message =
  msg_id :: uuid
  msg_tenant :: uuid
  msg_account :: "uuid option"
  msg_channel :: "uuid option"
  msg_direction :: gostring
  msg_sender_contact :: "uuid option"
  msg_recipient_contact :: "uuid option"
  msg_sender_endpoint :: "gostring option"
  msg_body_text :: gostring
  msg_attachments :: "json option"
  msg_location :: "(rat \<times> rat) option"
  msg_parsed :: "json option"
  msg_policy_action :: "gostring option"
  msg_workflow_fired :: bool
  msg_in_reply_to :: "uuid option"
  msg_platform_id :: gostring
  msg_raw_payload :: json
  msg_received_at :: time
  msg_processed_at :: "time option"

record db =
  tenants :: "Tenant list"
  accounts :: "Account list"
  channels :: "Channel list"
  channel_accounts :: "ChannelAccount list"
  contacts :: "Contact list"
  contact_endpoints :: "ContactEndpoint list"
  messages :: "Message list"

section \<open>Constraints of the migration\<close>

text \<open>\<open>fk r ks\<close>: a nullable reference is null or names an existing key.\<close>

definition fk :: "'k option \<Rightarrow> 'k list \<Rightarrow> bool" where
  "fk r ks \<longleftrightarrow> (case r of None \<Rightarrow> True | Some k \<Rightarrow> k \<in> set ks)"

definition tenant_ids :: "db \<Rightarrow> uuid list" where "tenant_ids d = map tn_id (tenants d)"
definition account_ids :: "db \<Rightarrow> uuid list" where "account_ids d = map acc_id (accounts d)"
definition channel_ids :: "db \<Rightarrow> uuid list" where "channel_ids d = map ch_id (channels d)"
definition contact_ids :: "db \<Rightarrow> uuid list" where "contact_ids d = map ct_id (contacts d)"
definition endpoint_ids :: "db \<Rightarrow> uuid list" where "endpoint_ids d = map ce_id (contact_endpoints d)"
definition message_ids :: "db \<Rightarrow> uuid list" where "message_ids d = map msg_id (messages d)"

text \<open>The rows \<open>UNIQUE (account_id, platform_message_id)\<close> speaks about: null account ids never clash.\<close>

definition platform_keys :: "Message list \<Rightarrow> (uuid \<times> gostring) list" where
  "platform_keys ms = List.map_filter (\<lambda>m. map_option (\<lambda>a. (a, msg_platform_id m)) (msg_account m)) ms"

definition tenants_ok :: "db \<Rightarrow> bool" where
  "tenants_ok d \<longleftrightarrow> distinct (tenant_ids d)"

definition accounts_ok :: "db \<Rightarrow> bool" where
  "accounts_ok d \<longleftrightarrow> distinct (account_ids d) \<and>
     distinct (map (\<lambda>a. (acc_type a, acc_platform_identifier a)) (accounts d)) \<and>
     (\<forall>a\<in>set (accounts d). acc_tenant a \<in> set (tenant_ids d))"

definition channels_ok :: "db \<Rightarrow> bool" where
  "channels_ok d \<longleftrightarrow> distinct (channel_ids d) \<and> (\<forall>c\<in>set (channels d). ch_tenant c \<in> set (tenant_ids d))"

definition channel_accounts_ok :: "db \<Rightarrow> bool" where
  "channel_accounts_ok d \<longleftrightarrow>
     distinct (map (\<lambda>l. (ca_channel l, ca_account l)) (channel_accounts d)) \<and>
     (\<forall>l\<in>set (channel_accounts d). ca_channel l \<in> set (channel_ids d) \<and> ca_account l \<in> set (account_ids d))"

definition contacts_ok :: "db \<Rightarrow> bool" where
  "contacts_ok d \<longleftrightarrow> distinct (contact_ids d) \<and>
     distinct (map (\<lambda>c. (ct_tenant c, ct_short_id c)) (contacts d)) \<and>
     (\<forall>c\<in>set (contacts d). ct_tenant c \<in> set (tenant_ids d) \<and> fk (ct_default_channel c) (channel_ids d))"

definition contact_endpoints_ok :: "db \<Rightarrow> bool" where
  "contact_endpoints_ok d \<longleftrightarrow> distinct (endpoint_ids d) \<and>
     (\<forall>e\<in>set (contact_endpoints d). ce_contact e \<in> set (contact_ids d) \<and> ce_channel e \<in> set (channel_ids d) \<and>
        ce_account e \<in> set (account_ids d) \<and> fk (ce_failover e) (endpoint_ids d))"

definition message_refs_ok :: "db \<Rightarrow> Message \<Rightarrow> bool" where
  "message_refs_ok d m \<longleftrightarrow> msg_tenant m \<in> set (tenant_ids d) \<and> fk (msg_account m) (account_ids d) \<and>
     fk (msg_channel m) (channel_ids d) \<and> fk (msg_sender_contact m) (contact_ids d) \<and>
     fk (msg_recipient_contact m) (contact_ids d) \<and> fk (msg_in_reply_to m) (message_ids d)"

definition messages_ok :: "db \<Rightarrow> bool" where
  "messages_ok d \<longleftrightarrow> distinct (message_ids d) \<and> distinct (platform_keys (messages d)) \<and>
     (\<forall>m\<in>set (messages d). message_refs_ok d m)"

definition schema_ok :: "db \<Rightarrow> bool" where
  "schema_ok d \<longleftrightarrow> tenants_ok d \<and> accounts_ok d \<and> channels_ok d \<and> channel_accounts_ok d \<and>
     contacts_ok d \<and> contact_endpoints_ok d \<and> messages_ok d"

section \<open>Statements\<close>

text \<open>
  What a query returns: its value, \<open>NoRows\<close> (\<open>pgx.ErrNoRows\<close>), a violated constraint, or any
  other failure (a lost connection, a timeout, a value that cannot be cast).
\<close>

datatype db_error = NoRows | Constraint | Failure

type_synonym 'a query = "db \<Rightarrow> (db_error + 'a) \<times> db"

text \<open>A writing statement takes effect when the tables it leaves satisfy the constraints.\<close>

definition commit :: "db \<Rightarrow> db \<Rightarrow> 'a \<Rightarrow> (db_error + 'a) \<times> db" where
  "commit d d' r = (if schema_ok d' then (Inr r, d') else (Inl Constraint, d))"

text \<open>A query that expects one row (\<open>QueryRow\<close> and \<open>Scan\<close>).\<close>

definition one_row :: "'a option \<Rightarrow> db_error + 'a" where
  "one_row r = (case r of None \<Rightarrow> Inl NoRows | Some x \<Rightarrow> Inr x)"

lemma one_row_simps [simp]: "one_row None = Inl NoRows" "one_row (Some x) = Inr x"
  by (simp_all add: one_row_def)

lemma one_row_Inr [simp]: "one_row r = Inr x \<longleftrightarrow> r = Some x" "Inr x = one_row r \<longleftrightarrow> r = Some x"
  by (cases r; auto)+

lemma one_row_Inl: "one_row r = Inl e \<longleftrightarrow> r = None \<and> e = NoRows"
  by (cases r) auto

lemma commit_cases:
  assumes "commit d d' r = (res, d'')"
  obtains "res = Inr r" "d'' = d'" "schema_ok d'" | "res = Inl Constraint" "d'' = d" "\<not> schema_ok d'"
  using assms by (auto simp: commit_def split: if_splits)

lemma commit_schema: "commit d d' r = (res, d'') \<Longrightarrow> schema_ok d \<Longrightarrow> schema_ok d''"
  by (auto simp: commit_def split: if_splits)

section \<open>Facts about the constraints\<close>

lemma fk_None [simp]: "fk None ks"
  by (simp add: fk_def)

lemma fk_Some [simp]: "fk (Some k) ks \<longleftrightarrow> k \<in> set ks"
  by (simp add: fk_def)

lemma fk_mono: "fk r ks \<Longrightarrow> set ks \<subseteq> set ks' \<Longrightarrow> fk r ks'"
  by (cases r) auto

lemma platform_keys_simps [simp]:
  "platform_keys [] = []"
  "platform_keys (m # ms) = (case msg_account m of None \<Rightarrow> platform_keys ms
     | Some a \<Rightarrow> (a, msg_platform_id m) # platform_keys ms)"
  "platform_keys (xs @ ys) = platform_keys xs @ platform_keys ys"
  by (auto simp: platform_keys_def List.map_filter_def split: option.splits)

lemma in_platform_keys:
  "(a, p) \<in> set (platform_keys ms) \<longleftrightarrow> (\<exists>m\<in>set ms. msg_account m = Some a \<and> msg_platform_id m = p)"
  by (induction ms) (auto split: option.splits)

lemma distinct_platform_keys_unique:
  assumes "distinct (platform_keys ms)" and "distinct (map msg_id ms)"
    and "m \<in> set ms" and "m' \<in> set ms"
    and "msg_account m = Some a" and "msg_account m' = Some a" and "msg_platform_id m = msg_platform_id m'"
  shows "m = m'"
  using assms
proof (induction ms)
  case Nil
  then show ?case by simp
next
  case (Cons x xs)
  have k: "(a, msg_platform_id m) \<in> set (platform_keys xs)" if "z \<in> set xs" "z = m \<or> z = m'" for z
    using that Cons.prems by (auto simp: in_platform_keys)
  show ?case
    using Cons.prems k by (cases "m = x"; cases "m' = x") (auto intro: Cons.IH split: option.splits)
qed

lemma platform_keys_map:
  assumes "\<And>m. m \<in> set ms \<Longrightarrow> msg_account (f m) = msg_account m \<and> msg_platform_id (f m) = msg_platform_id m"
  shows "platform_keys (map f ms) = platform_keys ms"
  using assms by (induction ms) (auto split: option.splits)

lemma distinct_platform_keys_filter: "distinct (platform_keys ms) \<Longrightarrow> distinct (platform_keys (filter P ms))"
  by (induction ms) (auto simp: in_platform_keys split: option.splits)

lemma schema_okD:
  assumes "schema_ok d"
  shows "tenants_ok d" "accounts_ok d" "channels_ok d" "channel_accounts_ok d" "contacts_ok d"
    "contact_endpoints_ok d" "messages_ok d"
  using assms by (simp_all add: schema_ok_def)

lemmas ids_defs = tenant_ids_def account_ids_def channel_ids_def contact_ids_def endpoint_ids_def message_ids_def

lemmas tables_ok_defs = tenants_ok_def accounts_ok_def channels_ok_def channel_accounts_ok_def
  contacts_ok_def contact_endpoints_ok_def messages_ok_def message_refs_ok_def ids_defs

text \<open>Replacing the message table leaves the other tables' constraints alone.\<close>

lemma schema_ok_messages_update:
  "schema_ok d \<Longrightarrow> schema_ok (d\<lparr>messages := ms\<rparr>) \<longleftrightarrow> messages_ok (d\<lparr>messages := ms\<rparr>)"
  by (simp add: schema_ok_def tables_ok_defs)

lemma messages_ok_update_iff:
  "messages_ok (d\<lparr>messages := ms\<rparr>) \<longleftrightarrow> distinct (map msg_id ms) \<and> distinct (platform_keys ms) \<and>
     (\<forall>m\<in>set ms. msg_tenant m \<in> set (tenant_ids d) \<and> fk (msg_account m) (account_ids d) \<and>
        fk (msg_channel m) (channel_ids d) \<and> fk (msg_sender_contact m) (contact_ids d) \<and>
        fk (msg_recipient_contact m) (contact_ids d) \<and> fk (msg_in_reply_to m) (map msg_id ms))"
  by (simp add: messages_ok_def message_refs_ok_def ids_defs)

text \<open>An update of message rows that keeps their keys and only clears or keeps their references
  satisfies the constraints.\<close>

lemma schema_ok_map_messages:
  assumes "schema_ok d"
    and "\<And>m. m \<in> set (messages d) \<Longrightarrow> msg_id (f m) = msg_id m \<and> msg_account (f m) = msg_account m \<and>
        msg_platform_id (f m) = msg_platform_id m \<and> msg_tenant (f m) = msg_tenant m \<and>
        msg_channel (f m) = msg_channel m \<and>
        (msg_sender_contact (f m) = msg_sender_contact m \<or> msg_sender_contact (f m) = None) \<and>
        (msg_recipient_contact (f m) = msg_recipient_contact m \<or> msg_recipient_contact (f m) = None) \<and>
        (msg_in_reply_to (f m) = msg_in_reply_to m \<or> msg_in_reply_to (f m) = None)"
  shows "schema_ok (d\<lparr>messages := map f (messages d)\<rparr>)"
proof -
  have ids: "map msg_id (map f (messages d)) = map msg_id (messages d)"
    using assms(2) by simp
  have keys: "platform_keys (map f (messages d)) = platform_keys (messages d)"
    using assms(2) by (intro platform_keys_map) simp
  have ok: "messages_ok (d\<lparr>messages := messages d\<rparr>)" using schema_okD(7)[OF assms(1)] by simp
  have "messages_ok (d\<lparr>messages := map f (messages d)\<rparr>)"
    unfolding messages_ok_update_iff ids keys
  proof (intro conjI ballI)
    show "distinct (map msg_id (messages d))" "distinct (platform_keys (messages d))"
      using ok by (simp_all only: messages_ok_update_iff)
  next
    fix m assume "m \<in> set (map f (messages d))"
    then obtain m0 where m0: "m0 \<in> set (messages d)" "m = f m0" by auto
    have refs: "msg_tenant m0 \<in> set (tenant_ids d)" "fk (msg_account m0) (account_ids d)"
      "fk (msg_channel m0) (channel_ids d)" "fk (msg_sender_contact m0) (contact_ids d)"
      "fk (msg_recipient_contact m0) (contact_ids d)" "fk (msg_in_reply_to m0) (map msg_id (messages d))"
      using ok m0(1) by (simp_all only: messages_ok_update_iff)
    note f = assms(2)[OF m0(1)]
    show "msg_tenant m \<in> set (tenant_ids d)" "fk (msg_account m) (account_ids d)"
      "fk (msg_channel m) (channel_ids d)"
      using refs f m0(2) by simp_all
    show "fk (msg_sender_contact m) (contact_ids d)" "fk (msg_recipient_contact m) (contact_ids d)"
      "fk (msg_in_reply_to m) (map msg_id (messages d))"
      using refs f m0(2) by (metis fk_None)+
  qed
  then show ?thesis using schema_ok_messages_update[OF assms(1)] by simp
qed

end
