(* ===== verification/Queries_Messages.thy ===== *)
theory Queries_Messages
  imports Db "HOL-Library.Product_Lexorder"
begin

text \<open>
  The queries on the message table (\<open>goqueries/messages.sql.go\<close>, \<open>retention.sql.go\<close> and the message
  page of \<open>export.sql.go\<close>): each is the SQL text the generated function runs, as a function of the
  database. Where SQL leaves the order of equal sort keys open, the row order of the table is taken.
\<close>

section \<open>Conditions\<close>

text \<open>SQL equality with a nullable column: comparing with \<open>NULL\<close> never holds.\<close>

definition sql_eq :: "'a option \<Rightarrow> 'a option \<Rightarrow> bool" where
  "sql_eq x y \<longleftrightarrow> (case (x, y) of (Some a, Some b) \<Rightarrow> a = b | _ \<Rightarrow> False)"

lemma sql_eq_Some [simp]: "sql_eq x (Some b) \<longleftrightarrow> x = Some b"
  by (cases x) (auto simp: sql_eq_def)

lemma sql_eq_None [simp]: "\<not> sql_eq x None"
  by (auto simp: sql_eq_def split: option.splits)

definition update_messages :: "(Message \<Rightarrow> bool) \<Rightarrow> (Message \<Rightarrow> Message) \<Rightarrow> nat query" where
  "update_messages P f d =
     commit d (d\<lparr>messages := map_if P f (messages d)\<rparr>) (count_rows P (messages d))"

section \<open>Storing messages\<close>

record CreateInboundMessageParams =
  ci_ID :: uuid
  ci_TenantID :: uuid
  ci_AccountID :: "uuid option"
  ci_ChannelID :: "uuid option"
  ci_SenderEndpoint :: "gostring option"
  ci_BodyText :: gostring
  ci_BodyAttachments :: "json option"
  ci_Parsed :: "json option"
  ci_PolicyAction :: "gostring option"
  ci_PlatformMessageID :: gostring
  ci_RawPayload :: json
  ci_ReceivedAt :: time
  ci_ProcessedAt :: "time option"
  ci_BodyLocation :: gostring

definition inbound_row :: "CreateInboundMessageParams \<Rightarrow> (rat \<times> rat) option \<Rightarrow> Message" where
  "inbound_row p loc = \<lparr>msg_id = ci_ID p, msg_tenant = ci_TenantID p, msg_account = ci_AccountID p,
     msg_channel = ci_ChannelID p, msg_direction = str ''inbound'', msg_sender_contact = None,
     msg_recipient_contact = None, msg_sender_endpoint = ci_SenderEndpoint p,
     msg_body_text = ci_BodyText p, msg_attachments = ci_BodyAttachments p, msg_location = loc,
     msg_parsed = ci_Parsed p, msg_policy_action = ci_PolicyAction p, msg_workflow_fired = False,
     msg_in_reply_to = None, msg_platform_id = ci_PlatformMessageID p,
     msg_raw_payload = ci_RawPayload p, msg_received_at = ci_ReceivedAt p,
     msg_processed_at = ci_ProcessedAt p\<rparr>"

definition same_platform_key :: "uuid option \<Rightarrow> gostring \<Rightarrow> Message \<Rightarrow> bool" where
  "same_platform_key acc pmid m \<longleftrightarrow> sql_eq (msg_account m) acc \<and> msg_platform_id m = pmid"

text \<open>\<open>geog\<close> is the cast of a text to a geography point, done by PostGIS.\<close>

definition CreateInboundMessage ::
    "(gostring \<Rightarrow> (rat \<times> rat) option) \<Rightarrow> CreateInboundMessageParams \<Rightarrow> uuid query" where
  "CreateInboundMessage geog p d =
     (case (if ci_BodyLocation p = [] then Some None else map_option Some (geog (ci_BodyLocation p))) of
        None \<Rightarrow> (Inl Failure, d)
      | Some loc \<Rightarrow>
          if \<exists>m\<in>set (messages d). same_platform_key (ci_AccountID p) (ci_PlatformMessageID p) m
          then (Inl NoRows, d)
          else commit d (d\<lparr>messages := messages d @ [inbound_row p loc]\<rparr>) (ci_ID p))"

record CreateOutboundMessageParams =
  co_ID :: uuid
  co_TenantID :: uuid
  co_AccountID :: "uuid option"
  co_RecipientContactID :: "uuid option"
  co_BodyText :: gostring
  co_PolicyAction :: "gostring option"
  co_InReplyToMessageID :: "uuid option"
  co_PlatformMessageID :: gostring
  co_ReceivedAt :: time

definition outbound_row :: "CreateOutboundMessageParams \<Rightarrow> Message" where
  "outbound_row p = \<lparr>msg_id = co_ID p, msg_tenant = co_TenantID p, msg_account = co_AccountID p,
     msg_channel = None, msg_direction = str ''outbound'', msg_sender_contact = None,
     msg_recipient_contact = co_RecipientContactID p, msg_sender_endpoint = None,
     msg_body_text = co_BodyText p, msg_attachments = None, msg_location = None,
     msg_parsed = None, msg_policy_action = co_PolicyAction p, msg_workflow_fired = False,
     msg_in_reply_to = co_InReplyToMessageID p, msg_platform_id = co_PlatformMessageID p,
     msg_raw_payload = JObj [], msg_received_at = co_ReceivedAt p,
     msg_processed_at = Some (co_ReceivedAt p)\<rparr>"

definition CreateOutboundMessage :: "CreateOutboundMessageParams \<Rightarrow> uuid query" where
  "CreateOutboundMessage p d = commit d (d\<lparr>messages := messages d @ [outbound_row p]\<rparr>) (co_ID p)"

definition MarkMessageRecalled :: "uuid \<Rightarrow> unit query" where
  "MarkMessageRecalled i d = (let (r, d') = update_messages (\<lambda>m. msg_id m = i)
      (\<lambda>m. m\<lparr>msg_policy_action := Some (str ''recalled'')\<rparr>) d in (map_sum id (\<lambda>_. ()) r, d'))"

definition MarkWorkflowFired :: "uuid \<Rightarrow> unit query" where
  "MarkWorkflowFired i d = (let (r, d') = update_messages (\<lambda>m. msg_id m = i)
      (\<lambda>m. m\<lparr>msg_workflow_fired := True\<rparr>) d in (map_sum id (\<lambda>_. ()) r, d'))"

section \<open>Reading messages\<close>

definition recallable :: "uuid option \<Rightarrow> gostring option \<Rightarrow> time \<Rightarrow> Message \<Rightarrow> bool" where
  "recallable acc ep cutoff m \<longleftrightarrow> sql_eq (msg_account m) acc \<and> sql_eq (msg_sender_endpoint m) ep \<and>
     msg_direction m = str ''inbound'' \<and> msg_policy_action m = Some (str ''echo_back'') \<and>
     cutoff \<le> msg_received_at m"

definition FindRecentEchoForSender :: "uuid option \<Rightarrow> gostring option \<Rightarrow> time \<Rightarrow> (uuid \<times> gostring) query" where
  "FindRecentEchoForSender acc ep cutoff d =
     (one_row (map_option (\<lambda>m. (msg_id m, msg_body_text m))
        (first_of (sort_desc msg_received_at (filter (recallable acc ep cutoff) (messages d))))), d)"

record GetMessageForOutboundRow =
  mo_AccountID :: "uuid option"
  mo_ChannelID :: "uuid option"
  mo_TenantID :: uuid
  mo_SenderEndpoint :: "gostring option"
  mo_SenderContactID :: "uuid option"
  mo_RawPayload :: json

definition GetMessageForOutbound :: "uuid \<Rightarrow> GetMessageForOutboundRow query" where
  "GetMessageForOutbound i d =
     (one_row (map_option (\<lambda>m. \<lparr>mo_AccountID = msg_account m, mo_ChannelID = msg_channel m,
          mo_TenantID = msg_tenant m, mo_SenderEndpoint = msg_sender_endpoint m,
          mo_SenderContactID = msg_sender_contact m, mo_RawPayload = msg_raw_payload m\<rparr>)
        (List.find (\<lambda>m. msg_id m = i) (messages d))), d)"

definition GetMessageIDByPlatformID :: "uuid option \<Rightarrow> gostring \<Rightarrow> uuid query" where
  "GetMessageIDByPlatformID acc pmid d =
     (one_row (map_option msg_id (List.find (same_platform_key acc pmid) (messages d))), d)"

record ListRecentMessagesRow =
  lr_ID :: uuid
  lr_Direction :: gostring
  lr_SenderEndpoint :: "gostring option"
  lr_BodyText :: gostring
  lr_PolicyAction :: "gostring option"
  lr_Parsed :: "json option"
  lr_WorkflowFired :: bool
  lr_ReceivedAt :: time
  lr_ChannelName :: "gostring option"

definition channel_of :: "db \<Rightarrow> uuid option \<Rightarrow> Channel option" where
  "channel_of d r = (case r of None \<Rightarrow> None | Some i \<Rightarrow> List.find (\<lambda>c. ch_id c = i) (channels d))"

definition account_of :: "db \<Rightarrow> uuid option \<Rightarrow> Account option" where
  "account_of d r = (case r of None \<Rightarrow> None | Some i \<Rightarrow> List.find (\<lambda>a. acc_id a = i) (accounts d))"

definition ListRecentMessagesForTenant :: "uuid \<Rightarrow> nat \<Rightarrow> ListRecentMessagesRow list query" where
  "ListRecentMessagesForTenant t n d =
     (Inr (map (\<lambda>m. \<lparr>lr_ID = msg_id m, lr_Direction = msg_direction m,
             lr_SenderEndpoint = msg_sender_endpoint m, lr_BodyText = msg_body_text m,
             lr_PolicyAction = msg_policy_action m, lr_Parsed = msg_parsed m,
             lr_WorkflowFired = msg_workflow_fired m, lr_ReceivedAt = msg_received_at m,
             lr_ChannelName = map_option ch_name (channel_of d (msg_channel m))\<rparr>)
          (take n (sort_desc msg_received_at (filter (\<lambda>m. msg_tenant m = t) (messages d))))), d)"

text \<open>
  \<open>lu_BodyLocation\<close> is the text \<open>ST_AsGeoJSON\<close> renders, empty without a location; \<open>geojson\<close> is that
  function.
\<close>

record ListUnfiredForwardsRow =
  lu_ID :: uuid
  lu_TenantID :: uuid
  lu_AccountID :: "uuid option"
  lu_ChannelID :: "uuid option"
  lu_SenderEndpoint :: "gostring option"
  lu_BodyText :: gostring
  lu_BodyAttachments :: "json option"
  lu_Parsed :: "json option"
  lu_ReceivedAt :: time
  lu_BodyLocation :: "json option"
  lu_AccountType :: gostring
  lu_WorkflowUrl :: "gostring option"

definition unfired :: "uuid \<Rightarrow> time \<Rightarrow> uuid option \<Rightarrow> Message \<Rightarrow> bool" where
  "unfired t since chan m \<longleftrightarrow> msg_tenant m = t \<and> msg_direction m = str ''inbound'' \<and>
     \<not> msg_workflow_fired m \<and>
     msg_policy_action m \<in> {Some (str ''routed''), Some (str ''execute'')} \<and>
     since \<le> msg_received_at m \<and> (chan = None \<or> sql_eq (msg_channel m) chan)"

definition unfired_row :: "(rat \<times> rat \<Rightarrow> json) \<Rightarrow> Message \<Rightarrow> Channel \<Rightarrow> Account \<Rightarrow> ListUnfiredForwardsRow" where
  "unfired_row geojson m c a = \<lparr>lu_ID = msg_id m, lu_TenantID = msg_tenant m,
     lu_AccountID = msg_account m, lu_ChannelID = msg_channel m,
     lu_SenderEndpoint = msg_sender_endpoint m, lu_BodyText = msg_body_text m,
     lu_BodyAttachments = msg_attachments m, lu_Parsed = msg_parsed m,
     lu_ReceivedAt = msg_received_at m, lu_BodyLocation = map_option geojson (msg_location m),
     lu_AccountType = acc_type a, lu_WorkflowUrl = ch_workflow_url c\<rparr>"

definition ListUnfiredForwards ::
    "(rat \<times> rat \<Rightarrow> json) \<Rightarrow> uuid \<Rightarrow> time \<Rightarrow> nat \<Rightarrow> uuid option \<Rightarrow> ListUnfiredForwardsRow list query" where
  "ListUnfiredForwards geojson t since n chan d =
     (Inr (take n (sort_key lu_ReceivedAt
        (List.map_filter (\<lambda>m.
           case (channel_of d (msg_channel m), account_of d (msg_account m)) of
             (Some c, Some a) \<Rightarrow>
               if unfired t since chan m \<and> ch_workflow_url c \<notin> {None, Some []}
               then Some (unfired_row geojson m c a) else None
           | _ \<Rightarrow> None) (messages d)))), d)"

section \<open>Retention and erasure\<close>

definition older_than :: "uuid \<Rightarrow> time \<Rightarrow> Message \<Rightarrow> bool" where
  "older_than t cutoff m \<longleftrightarrow> msg_tenant m = t \<and> msg_received_at m < cutoff"

definition ClearReplyLinksToPurgedMessages :: "uuid \<Rightarrow> time \<Rightarrow> nat query" where
  "ClearReplyLinksToPurgedMessages t cutoff d =
     update_messages (\<lambda>m. msg_tenant m = t \<and>
         (\<exists>old\<in>set (messages d). older_than t cutoff old \<and> msg_in_reply_to m = Some (msg_id old)))
       (\<lambda>m. m\<lparr>msg_in_reply_to := None\<rparr>) d"

definition CountMessagesForContact :: "uuid \<Rightarrow> uuid \<Rightarrow> nat query" where
  "CountMessagesForContact t c d =
     (Inr (count_rows (\<lambda>m. msg_tenant m = t \<and>
        (msg_sender_contact m = Some c \<or> msg_recipient_contact m = Some c)) (messages d)), d)"

definition CountMessagesForEndpoint :: "uuid \<Rightarrow> gostring \<Rightarrow> nat query" where
  "CountMessagesForEndpoint t e d =
     (Inr (count_rows (\<lambda>m. msg_tenant m = t \<and> msg_sender_endpoint m = Some e) (messages d)), d)"

definition CountMessagesOlderThan :: "uuid \<Rightarrow> time \<Rightarrow> nat query" where
  "CountMessagesOlderThan t cutoff d = (Inr (count_rows (older_than t cutoff) (messages d)), d)"

text \<open>Deleting a contact deletes its endpoints (\<open>ON DELETE CASCADE\<close>).\<close>

definition drop_contacts :: "(Contact \<Rightarrow> bool) \<Rightarrow> nat query" where
  "drop_contacts P d =
     (let gone = map ct_id (filter P (contacts d)) in
      commit d (d\<lparr>contacts := filter (\<lambda>c. \<not> P c) (contacts d),
                  contact_endpoints := filter (\<lambda>e. ce_contact e \<notin> set gone) (contact_endpoints d)\<rparr>)
        (length gone))"

definition DeleteContactRow :: "uuid \<Rightarrow> uuid \<Rightarrow> nat query" where
  "DeleteContactRow i t = drop_contacts (\<lambda>c. ct_id c = i \<and> ct_tenant c = t)"

definition DeleteEndpointsForContact :: "uuid \<Rightarrow> nat query" where
  "DeleteEndpointsForContact c d =
     commit d (d\<lparr>contact_endpoints := filter (\<lambda>e. ce_contact e \<noteq> c) (contact_endpoints d)\<rparr>)
       (count_rows (\<lambda>e. ce_contact e = c) (contact_endpoints d))"

definition DetachMessagesFromContact :: "uuid \<Rightarrow> uuid \<Rightarrow> nat query" where
  "DetachMessagesFromContact t c =
     update_messages (\<lambda>m. msg_tenant m = t \<and>
         (msg_sender_contact m = Some c \<or> msg_recipient_contact m = Some c))
       (\<lambda>m. m\<lparr>msg_sender_contact := None, msg_recipient_contact := None\<rparr>)"

definition ListEndpointsForContact :: "uuid \<Rightarrow> gostring list query" where
  "ListEndpointsForContact c d =
     (Inr (map ce_endpoint (filter (\<lambda>e. ce_contact e = c) (contact_endpoints d))), d)"

definition PurgeMessagesOlderThan :: "uuid \<Rightarrow> time \<Rightarrow> nat query" where
  "PurgeMessagesOlderThan t cutoff d =
     commit d (d\<lparr>messages := filter (\<lambda>m. \<not> older_than t cutoff m) (messages d)\<rparr>)
       (count_rows (older_than t cutoff) (messages d))"

definition redacted_mark :: json where
  "redacted_mark = JObj [(str ''redacted'', JBool True)]"

definition redact :: "Message \<Rightarrow> Message" where
  "redact m = m\<lparr>msg_sender_endpoint := None, msg_body_text := [], msg_attachments := None,
     msg_location := None, msg_raw_payload := redacted_mark,
     msg_parsed := Some (jsonb_concat (case msg_parsed m of None \<Rightarrow> JObj [] | Some p \<Rightarrow> p) redacted_mark)\<rparr>"

definition RedactMessagesForContact :: "uuid \<Rightarrow> uuid \<Rightarrow> nat query" where
  "RedactMessagesForContact t c =
     update_messages (\<lambda>m. msg_tenant m = t \<and>
         (msg_sender_contact m = Some c \<or> msg_recipient_contact m = Some c)) redact"

definition RedactMessagesForEndpoint :: "uuid \<Rightarrow> gostring \<Rightarrow> nat query" where
  "RedactMessagesForEndpoint t e =
     update_messages (\<lambda>m. msg_tenant m = t \<and> msg_sender_endpoint m = Some e) redact"

section \<open>Export\<close>

text \<open>The page after a keyset cursor, in the order of \<open>(received_at, id)\<close>.\<close>

definition ExportMessagesPage :: "uuid \<Rightarrow> nat \<Rightarrow> time \<Rightarrow> uuid \<Rightarrow> Message list query" where
  "ExportMessagesPage t n after_time after_id d =
     (Inr (take n (sort_key (\<lambda>m. (msg_received_at m, msg_id m))
        (filter (\<lambda>m. msg_tenant m = t \<and> (after_time, after_id) < (msg_received_at m, msg_id m))
           (messages d)))), d)"

end
