(* ===== verification/World.thy ===== *)
theory World
  imports Queries_Messages
begin

text \<open>
  What the services of the hub run in: the database behind a connection that can fail, the network,
  the clock, the id generator and the background tasks (\<open>go\<close> statements tracked by a wait group).
  The record \<open>env\<close> holds the operations the code takes from outside the repository.
\<close>

section \<open>Operations from outside\<close>

text \<open>
  UUID and RFC 3339 text forms, the shortest decimal form of a float and the quoting of \<open>%q\<close>, the
  JSON syntax (of a whole text, and of the first value of one) and the text a JSON value was written
  in, PostGIS's casts, the random id generator (its \<open>n\<close>th id), the decryption and encryption of credentials, and URL syntax.
\<close>

record env =
  e_uni :: unicode
  e_parse_uuid :: "gostring \<Rightarrow> uuid option"
  e_show_uuid :: "uuid \<Rightarrow> gostring"
  e_parse_time :: "gostring \<Rightarrow> time option"
  e_show_time :: "time \<Rightarrow> gostring"
  e_show_float :: "rat \<Rightarrow> gostring"
  e_quote :: "gostring \<Rightarrow> gostring"
  e_parse_json :: "gostring \<Rightarrow> json option"
  e_first_json :: "gostring \<Rightarrow> json option"
  e_raw_text :: "json \<Rightarrow> gostring"
  e_geography :: "gostring \<Rightarrow> (rat \<times> rat) option"
  e_geojson :: "rat \<times> rat \<Rightarrow> json"
  e_new_id :: "nat \<Rightarrow> uuid"
  e_decrypt :: "bytes \<Rightarrow> gostring option"
  e_encrypt :: "nat \<Rightarrow> gostring \<Rightarrow> bytes option"
  e_valid_url :: "gostring \<Rightarrow> bool"

text \<open>Times count microseconds, the resolution of a timestamp column.\<close>

definition second :: time where
  "second = 1000000"

text \<open>
  What \<open>strconv.Atoi\<close> returns beside its error: zero for a text that is no number, the nearest 64-bit
  value for one out of range.
\<close>

definition Atoi :: "gostring \<Rightarrow> int" where
  "Atoi s =
     (let (neg, ds) = (case s of [] \<Rightarrow> (False, []) | c # r \<Rightarrow> if c = 45 then (True, r) else if c = 43 then (False, r) else (False, s))
      in if ds = [] \<or> \<not> list_all ascii_digit ds then 0
         else let v = foldl (\<lambda>n c. 10 * n + int (c - 48)) 0 ds
           in max int64_min (min int64_max (if neg then - v else v)))"

section \<open>Messages on the wire\<close>

datatype content =
    FormBody "(gostring \<times> gostring) list"
  | JsonBody json
  | RawEmail gostring "gostring list" gostring

record http_request =
  rq_url :: gostring
  rq_content :: content
  rq_auth :: "(gostring \<times> gostring) option"

text \<open>
  What the network does with one request: no answer, or a status and a body. Each outcome comes
  with the milliseconds it takes.
\<close>

datatype net_reply = NetError | Reply nat gostring

text \<open>The payload POSTed to a consumer product.\<close>

record Forward =
  fw_MessageID :: gostring
  fw_TenantID :: gostring
  fw_ChannelID :: gostring
  fw_AccountID :: gostring
  fw_AccountType :: gostring
  fw_Platform :: gostring
  fw_ContactID :: gostring
  fw_SenderEndpoint :: gostring
  fw_Command :: gostring
  fw_Payload :: gostring
  fw_Text :: gostring
  fw_Attachments :: "json option"
  fw_Location :: "json option"
  fw_ReceivedAt :: gostring

section \<open>State\<close>

datatype task =
    DispatchTask Account uuid gostring gostring gostring
  | ForwardTask gostring uuid Forward

text \<open>
  A statement can be carried out, be lost on the way to the database, or be carried out and its
  reply lost; the code sees an error in the last two cases.
\<close>

datatype fault = NoFault | LostRequest | LostReply

record world =
  w_db :: db
  w_faults :: "fault list"
  w_now :: time
  w_ids :: nat
  w_net :: "(nat \<times> net_reply) list"
  w_sent :: "(http_request \<times> net_reply) list"
  w_tasks :: "task list"

definition store :: "'a query \<Rightarrow> (world, db_error + 'a) prog" where
  "store q = State (\<lambda>w.
     let f = (case w_faults w of [] \<Rightarrow> NoFault | f # _ \<Rightarrow> f);
         w' = w\<lparr>w_faults := tl (w_faults w)\<rparr>
     in case f of
          NoFault \<Rightarrow> (let (r, d) = q (w_db w) in (r, w'\<lparr>w_db := d\<rparr>))
        | LostRequest \<Rightarrow> (Inl Failure, w')
        | LostReply \<Rightarrow> (Inl Failure, w'\<lparr>w_db := snd (q (w_db w))\<rparr>))"

definition now :: "(world, time) prog" where
  "now = gets w_now"

definition NewID :: "env \<Rightarrow> (world, uuid) prog" where
  "NewID E = State (\<lambda>w. (e_new_id E (w_ids w), w\<lparr>w_ids := Suc (w_ids w)\<rparr>))"

definition spawn :: "task \<Rightarrow> (world, unit) prog" where
  "spawn t = modify (\<lambda>w. w\<lparr>w_tasks := w_tasks w @ [t]\<rparr>)"

text \<open>
  One HTTP request under a limit in milliseconds: when the answer takes longer than the limit the
  client gives up. The result carries the time spent; the exchange is logged as the client saw it.
\<close>

definition http_do :: "nat option \<Rightarrow> http_request \<Rightarrow> (world, nat \<times> net_reply) prog" where
  "http_do limit rq = State (\<lambda>w.
     let (t, r) = (case w_net w of [] \<Rightarrow> (0, NetError) | x # _ \<Rightarrow> x);
         (t, r) = (case limit of None \<Rightarrow> (t, r) | Some l \<Rightarrow> if l \<le> t then (l, NetError) else (t, r))
     in ((t, r), w\<lparr>w_net := tl (w_net w), w_sent := w_sent w @ [(rq, r)]\<rparr>))"

section \<open>Facts\<close>

lemma run_now [simp]: "run now w = (w_now w, w)"
  by (simp add: now_def)

lemma run_NewID [simp]: "run (NewID E) w = (e_new_id E (w_ids w), w\<lparr>w_ids := Suc (w_ids w)\<rparr>)"
  by (simp add: NewID_def)

lemma run_spawn [simp]: "run (spawn t) w = ((), w\<lparr>w_tasks := w_tasks w @ [t]\<rparr>)"
  by (simp add: spawn_def)

text \<open>The three outcomes of a statement.\<close>

lemma run_store:
  assumes "run (store q) w = (r, w')"
  obtains (carried) d where "q (w_db w) = (r, d)" "w' = w\<lparr>w_faults := tl (w_faults w), w_db := d\<rparr>"
    | (lost) "r = Inl Failure" "w' = w\<lparr>w_faults := tl (w_faults w)\<rparr>"
    | (reply_lost) "r = Inl Failure" "w' = w\<lparr>w_faults := tl (w_faults w), w_db := snd (q (w_db w))\<rparr>"
  using assms by (auto simp: store_def Let_def split: list.splits fault.splits prod.splits)

lemma run_store_clean:
  "w_faults w = [] \<Longrightarrow> run (store q) w = (fst (q (w_db w)), w\<lparr>w_db := snd (q (w_db w))\<rparr>)"
  by (simp add: store_def Let_def split: prod.splits)

text \<open>
  A step is quiet when it leaves the database, the network, the clock and the tasks alone: it may
  only have used up connection faults and ids.
\<close>

definition quiet :: "world \<Rightarrow> world \<Rightarrow> bool" where
  "quiet w w' \<longleftrightarrow> w_db w' = w_db w \<and> w_tasks w' = w_tasks w \<and> w_sent w' = w_sent w \<and>
     w_net w' = w_net w \<and> w_now w' = w_now w"

lemma quiet_refl [simp]: "quiet w w"
  by (simp add: quiet_def)

lemma quiet_trans [trans]: "quiet w u \<Longrightarrow> quiet u v \<Longrightarrow> quiet w v"
  by (simp add: quiet_def)

lemma quiet_NewID [simp]: "quiet w (w\<lparr>w_ids := n\<rparr>)"
  by (simp add: quiet_def)

lemma quietD:
  assumes "quiet w w'"
  shows "w_db w' = w_db w" "w_tasks w' = w_tasks w" "w_sent w' = w_sent w" "w_net w' = w_net w" "w_now w' = w_now w"
  using assms by (simp_all add: quiet_def)

text \<open>Everything but the database is quiet in a statement; its result is the query's or a failure.\<close>

lemma store_outcome:
  assumes "run (store q) w = (r, w')"
  shows "w_tasks w' = w_tasks w \<and> w_sent w' = w_sent w \<and> w_net w' = w_net w \<and> w_now w' = w_now w \<and> w_ids w' = w_ids w"
    "(r = fst (q (w_db w)) \<and> w_db w' = snd (q (w_db w))) \<or>
     (r = Inl Failure \<and> (w_db w' = w_db w \<or> w_db w' = snd (q (w_db w))))"
  using assms by (auto elim!: run_store)

lemma store_read:
  assumes "run (store q) w = (r, w')" and "\<And>d. snd (q d) = d"
  shows "quiet w w'" "r = fst (q (w_db w)) \<or> r = Inl Failure"
  using store_outcome[OF assms(1)] assms(2) by (auto simp: quiet_def)

text \<open>
  Relations on databases lift to programs: what each query keeps, a program that only reaches the
  database through \<open>store\<close> keeps, under every pattern of faults.
\<close>

lemma store_rel:
  assumes refl: "\<And>d. R d d" and q: "\<And>d. R d (snd (q d))"
  shows "state_io_rel (\<lambda>w w'. R (w_db w) (w_db w')) (store q)"
proof (rule state_io_relI)
  fix r w w'
  assume "run (store q) w = (r, w')"
  then show "R (w_db w) (w_db w')"
  proof (cases rule: run_store)
    case (carried d)
    then show ?thesis using q[of "w_db w"] by simp
  next
    case lost
    then show ?thesis using refl by simp
  next
    case reply_lost
    then show ?thesis using q[of "w_db w"] by simp
  qed
qed

lemma other_rel:
  assumes "\<And>d. R d d"
  shows "state_io_rel (\<lambda>w w'. R (w_db w) (w_db w')) now"
    "state_io_rel (\<lambda>w w'. R (w_db w) (w_db w')) (NewID E)"
    "state_io_rel (\<lambda>w w'. R (w_db w) (w_db w')) (spawn t)"
    "state_io_rel (\<lambda>w w'. R (w_db w) (w_db w')) (http_do l rq)"
  using assms by (auto simp: state_io_rel_def http_do_def Let_def split: prod.splits if_splits option.splits)

text \<open>The state after a series of exchanges of one request.\<close>

definition exchanged :: "http_request \<Rightarrow> net_reply list \<Rightarrow> world \<Rightarrow> world" where
  "exchanged rq rs w =
     w\<lparr>w_net := drop (length rs) (w_net w), w_sent := w_sent w @ map (\<lambda>r. (rq, r)) rs\<rparr>"

lemma exchanged_Nil [simp]: "exchanged rq [] w = w"
  by (simp add: exchanged_def)

lemma exchanged_single: "exchanged rq [r] w = w\<lparr>w_net := tl (w_net w), w_sent := w_sent w @ [(rq, r)]\<rparr>"
  by (simp add: exchanged_def drop_Suc)

lemma exchanged_Cons: "exchanged rq rs (exchanged rq [r] w) = exchanged rq (r # rs) w"
  by (simp add: exchanged_def drop_Suc)

lemma exchanged_simps [simp]:
  "w_db (exchanged rq rs w) = w_db w" "w_tasks (exchanged rq rs w) = w_tasks w"
  "w_faults (exchanged rq rs w) = w_faults w" "w_ids (exchanged rq rs w) = w_ids w"
  "w_now (exchanged rq rs w) = w_now w"
  "w_sent (exchanged rq rs w) = w_sent w @ map (\<lambda>r. (rq, r)) rs"
  by (simp_all add: exchanged_def)

lemma http_do_exchanged: "\<exists>t r. run (http_do limit rq) w = ((t, r), exchanged rq [r] w)"
  by (auto simp: http_do_def exchanged_single Let_def split: prod.splits option.splits)

section \<open>A concrete environment\<close>

text \<open>
  An instance of the outside operations for the concrete examples: identifiers and times written in
  decimal, points written and read as one pair, ids counted from 1000.
\<close>

definition read_nat :: "gostring \<Rightarrow> nat option" where
  "read_nat s = (if s \<noteq> [] \<and> (\<forall>c\<in>set s. ascii_digit c) then Some (foldl (\<lambda>n c. 10 * n + (c - 48)) 0 s) else None)"

definition demo_env :: env where
  "demo_env = \<lparr>e_uni = ascii_only, e_parse_uuid = read_nat, e_show_uuid = nat_digits,
     e_parse_time = (\<lambda>s. map_option int (read_nat s)), e_show_time = Itoa,
     e_show_float = (\<lambda>x. Itoa \<lfloor>x\<rfloor>), e_quote = (\<lambda>s. [34] @ s @ [34]),
     e_parse_json = (\<lambda>s. Some (JStr s)), e_first_json = (\<lambda>s. Some (JStr s)), e_raw_text = (\<lambda>j. case j of JStr s \<Rightarrow> s | _ \<Rightarrow> []),
     e_geography = (\<lambda>_. Some (0, 0)), e_geojson = (\<lambda>(x, y). JArr [JNum x, JNum y]),
     e_new_id = (\<lambda>n. 1000 + n), e_decrypt = (\<lambda>b. Some b), e_encrypt = (\<lambda>_ s. Some s),
     e_valid_url = (\<lambda>u. u \<noteq> [])\<rparr>"

definition empty_db :: db where
  "empty_db = \<lparr>tenants = [], accounts = [], channels = [], channel_accounts = [], contacts = [],
     contact_endpoints = [], messages = []\<rparr>"

text \<open>A tenant and a row of its log with nothing but a text.\<close>

definition plain_row :: "uuid \<Rightarrow> uuid \<Rightarrow> time \<Rightarrow> Message" where
  "plain_row i t received = \<lparr>msg_id = i, msg_tenant = t, msg_account = None, msg_channel = None,
     msg_direction = str ''inbound'', msg_sender_contact = None, msg_recipient_contact = None,
     msg_sender_endpoint = None, msg_body_text = str ''hello'', msg_attachments = None, msg_location = None,
     msg_parsed = None, msg_policy_action = None, msg_workflow_fired = False, msg_in_reply_to = None,
     msg_platform_id = [], msg_raw_payload = JNull, msg_received_at = received, msg_processed_at = None\<rparr>"

definition demo_tenant :: Tenant where
  "demo_tenant = \<lparr>tn_id = 1, tn_name = [], tn_plan = [], tn_created_at = 0, tn_settings = JObj []\<rparr>"

lemmas demo_db_simps = schema_ok_def tables_ok_defs platform_keys_simps plain_row_def demo_tenant_def empty_db_def

definition fresh_world :: "db \<Rightarrow> (nat \<times> net_reply) list \<Rightarrow> world" where
  "fresh_world d net = \<lparr>w_db = d, w_faults = [], w_now = 1000000, w_ids = 0, w_net = net,
     w_sent = [], w_tasks = []\<rparr>"

lemma fresh_world_simps [simp]:
  "w_db (fresh_world d net) = d" "w_faults (fresh_world d net) = []" "w_net (fresh_world d net) = net"
  "w_tasks (fresh_world d net) = []" "w_sent (fresh_world d net) = []"
  "w_now (fresh_world d net) = 1000000" "w_ids (fresh_world d net) = 0"
  by (simp_all add: fresh_world_def)

end
