(* ===== verification/Workflow.thy ===== *)
theory Workflow
  imports World
begin

text \<open>
  Component \<open>internal/workflow\<close>: delivery of a payload to a consumer product's webhook with bounded
  retry, and the contract its two callers (ingest and replay) rely on.
\<close>

section \<open>The payload and the request\<close>

definition forward_json :: "Forward \<Rightarrow> json" where
  "forward_json f = JObj (
     [(str ''message_id'', JStr (fw_MessageID f)), (str ''tenant_id'', JStr (fw_TenantID f))] @
     omit_empty (str ''channel_id'') (fw_ChannelID f) @
     [(str ''account_id'', JStr (fw_AccountID f)), (str ''account_type'', JStr (fw_AccountType f)),
      (str ''platform'', JStr (fw_Platform f))] @
     omit_empty (str ''contact_id'') (fw_ContactID f) @
     [(str ''sender_endpoint'', JStr (fw_SenderEndpoint f))] @
     omit_empty (str ''command'') (fw_Command f) @
     omit_empty (str ''payload'') (fw_Payload f) @
     [(str ''text'', JStr (fw_Text f))] @
     omit_none (str ''attachments'') (fw_Attachments f) @
     omit_none (str ''location'') (fw_Location f) @
     [(str ''received_at'', JStr (fw_ReceivedAt f))])"

definition forward_request :: "gostring \<Rightarrow> Forward \<Rightarrow> http_request" where
  "forward_request url f = \<lparr>rq_url = url, rq_content = JsonBody (forward_json f), rq_auth = None\<rparr>"

section \<open>Delivery\<close>

record Forwarder =
  Attempts :: int
  Backoff :: nat

text \<open>\<open>New\<close>: three attempts, 500 milliseconds of base backoff, 15 seconds per request.\<close>

definition NewForwarder :: Forwarder where
  "NewForwarder = \<lparr>Attempts = 3, Backoff = 500\<rparr>"

definition client_timeout :: nat where
  "client_timeout = 15000"

datatype forward_error =
    Rejected nat
  | ConsumerStatus nat
  | Transport
  | BadRequest
  | ContextDone

definition retryableClientError :: "nat \<Rightarrow> bool" where
  "retryableClientError code \<longleftrightarrow> code \<in> {401, 403, 408, 429}"

text \<open>
  The loop body from attempt \<open>i\<close> on, with \<open>n\<close> attempts left and \<open>t\<close> milliseconds spent since the
  context was made; \<open>deadline\<close> is the context's. A Go \<open>nil\<close> error is \<open>None\<close>.
\<close>

fun forward_attempts :: "env \<Rightarrow> nat \<Rightarrow> nat option \<Rightarrow> http_request \<Rightarrow> nat \<Rightarrow> nat \<Rightarrow> nat \<Rightarrow> forward_error option \<Rightarrow>
    (world, forward_error option) prog" where
  "forward_attempts E backoff deadline rq 0 i t lasterr = ret lasterr"
| "forward_attempts E backoff deadline rq (Suc n) i t lasterr =
     (let t = (if 0 < i then t + i * backoff else t) in
      if 0 < i \<and> (case deadline of None \<Rightarrow> False | Some d \<Rightarrow> d \<le> t) then ret (Some ContextDone)
      else if \<not> e_valid_url E (rq_url rq) then ret (Some BadRequest)
      else State_Monad.bind
        (http_do (Some (case deadline of None \<Rightarrow> client_timeout | Some d \<Rightarrow> min client_timeout (d - t))) rq)
        (\<lambda>(dt, r). case r of
           NetError \<Rightarrow> forward_attempts E backoff deadline rq n (Suc i) (t + dt) (Some Transport)
         | Reply code _ \<Rightarrow>
             if 200 \<le> code \<and> code < 300 then ret None
             else if retryableClientError code then
               forward_attempts E backoff deadline rq n (Suc i) (t + dt) (Some (ConsumerStatus code))
             else if 400 \<le> code \<and> code < 500 then ret (Some (Rejected code))
             else forward_attempts E backoff deadline rq n (Suc i) (t + dt) (Some (ConsumerStatus code))))"

definition forward_to :: "env \<Rightarrow> Forwarder \<Rightarrow> nat option \<Rightarrow> gostring \<Rightarrow> Forward \<Rightarrow>
    (world, forward_error option) prog" where
  "forward_to E fw deadline url f =
     (let attempts = (if Attempts fw < 1 then 1 else Attempts fw)
      in forward_attempts E (Backoff fw) deadline (forward_request url f) (nat attempts) 0 0 None)"

section \<open>What delivery does\<close>

definition success_code :: "net_reply \<Rightarrow> bool" where
  "success_code r \<longleftrightarrow> (case r of NetError \<Rightarrow> False | Reply code _ \<Rightarrow> 200 \<le> code \<and> code < 300)"

text \<open>Outcomes after which the message is tried again.\<close>

definition transient :: "net_reply \<Rightarrow> bool" where
  "transient r \<longleftrightarrow> (case r of NetError \<Rightarrow> True
     | Reply code _ \<Rightarrow> \<not> (200 \<le> code \<and> code < 300) \<and> (retryableClientError code \<or> \<not> (400 \<le> code \<and> code < 500)))"

text \<open>The request a log entry shows as acknowledged by a 2xx answer.\<close>

definition acknowledged :: "http_request \<Rightarrow> (http_request \<times> net_reply) list \<Rightarrow> bool" where
  "acknowledged rq sent \<longleftrightarrow> (\<exists>r. (rq, r) \<in> set sent \<and> success_code r)"

text \<open>One attempt: it stops with an error before sending, or exchanges once and then goes on exactly
  when the outcome is transient.\<close>

lemma forward_step:
  assumes "run (forward_attempts E b D rq (Suc n) i t lasterr) w = (res, w')"
  shows "(w' = w \<and> res \<noteq> None) \<or>
    (\<exists>r t' e. let w1 = w\<lparr>w_net := tl (w_net w), w_sent := w_sent w @ [(rq, r)]\<rparr> in
       if transient r then run (forward_attempts E b D rq n (Suc i) t' (Some e)) w1 = (res, w')
       else w' = w1 \<and> (res = None \<longleftrightarrow> success_code r))"
proof -
  let ?t = "if 0 < i then t + i * b else t"
  let ?l = "Some (case D of None \<Rightarrow> client_timeout | Some d \<Rightarrow> min client_timeout (d - ?t))"
  show ?thesis
  proof (cases "(0 < i \<and> (case D of None \<Rightarrow> False | Some d \<Rightarrow> d \<le> ?t)) \<or> \<not> e_valid_url E (rq_url rq)")
    case True
    then show ?thesis using assms by (auto simp: Let_def split: if_splits)
  next
    case False
    obtain dt r w1 where h: "run (http_do ?l rq) w = ((dt, r), w1)"
      by (cases "run (http_do ?l rq) w") auto
    have w1: "w1 = w\<lparr>w_net := tl (w_net w), w_sent := w_sent w @ [(rq, r)]\<rparr>"
      using h by (auto simp: http_do_def Let_def split: prod.splits if_splits)
    show ?thesis
      using assms False h w1
      by (intro disjI2 exI[of _ r] exI[of _ "?t + dt"]
            exI[of _ "case r of NetError \<Rightarrow> Transport | Reply code _ \<Rightarrow> ConsumerStatus code"])
        (auto simp: Let_def transient_def success_code_def split: net_reply.splits if_splits)
  qed
qed

text \<open>What the run of the loop leaves: the exchanges it made, only the last of which may be final.\<close>

lemma forward_attempts_run:
  assumes "run (forward_attempts E b D rq n i t lasterr) w = (res, w')"
  shows "\<exists>rs. w' = exchanged rq rs w \<and> length rs \<le> n \<and> (\<forall>r\<in>set (butlast rs). transient r) \<and>
     (res = None \<longleftrightarrow> (rs \<noteq> [] \<and> success_code (last rs)) \<or> (rs = [] \<and> n = 0 \<and> lasterr = None))"
  using assms
proof (induction n arbitrary: i t lasterr w)
  case 0
  then show ?case by (auto intro!: exI[of _ "[]"])
next
  case (Suc n)
  consider "w' = w" "res \<noteq> None"
    | r t' e where "transient r"
        "run (forward_attempts E b D rq n (Suc i) t' (Some e)) (exchanged rq [r] w) = (res, w')"
    | r where "w' = exchanged rq [r] w" "res = None \<longleftrightarrow> success_code r"
    using forward_step[OF Suc.prems] unfolding Let_def exchanged_single[symmetric]
    by (metis (full_types))
  then show ?case
  proof cases
    case 1
    then show ?thesis by (intro exI[of _ "[]"]) simp
  next
    case 2
    from Suc.IH[OF 2(2)] obtain rs where rs:
      "w' = exchanged rq (r # rs) w" "length rs \<le> n" "\<forall>r\<in>set (butlast rs). transient r"
      "res = None \<longleftrightarrow> (rs \<noteq> [] \<and> success_code (last rs))"
      unfolding exchanged_Cons by auto
    have "\<not> success_code r"
      using 2(1) by (auto simp: transient_def success_code_def split: net_reply.splits)
    then show ?thesis
      using rs 2(1) by (intro exI[of _ "r # rs"]) simp
  next
    case 3
    then show ?thesis by (intro exI[of _ "[r]"]) simp
  qed
qed

text \<open>
  C19. A delivery only ever sends the same request, at least one try and at most \<open>Attempts\<close> of them; it
  goes on only after outcomes worth retrying, so a request the consumer rejected for its content is
  never repeated; and it reports success exactly when the last exchange was answered with a 2xx. It
  touches neither the database nor the other background tasks.
\<close>

theorem Forward_bounded_and_truthful:
  "let (res, w') = run (forward_to E fw deadline url f) w in
     \<exists>rs. w_sent w' = w_sent w @ map (\<lambda>r. (forward_request url f, r)) rs \<and>
       length rs \<le> nat (max 1 (Attempts fw)) \<and>
       list_all transient (butlast rs) \<and>
       (res = None \<longleftrightarrow> rs \<noteq> [] \<and> success_code (last rs)) \<and>
       w_db w' = w_db w \<and> w_tasks w' = w_tasks w"
proof -
  obtain res w' where r: "run (forward_to E fw deadline url f) w = (res, w')"
    by (cases "run (forward_to E fw deadline url f) w")
  let ?n = "nat (if Attempts fw < 1 then 1 else Attempts fw)"
  have n: "?n = nat (max 1 (Attempts fw))" "?n \<noteq> 0" by auto
  obtain rs where
    "w' = exchanged (forward_request url f) rs w"
    "length rs \<le> ?n" "\<forall>r\<in>set (butlast rs). transient r"
    "res = None \<longleftrightarrow> (rs \<noteq> [] \<and> success_code (last rs)) \<or> (rs = [] \<and> ?n = 0 \<and> (None :: forward_error option) = None)"
    using forward_attempts_run[OF r[unfolded forward_to_def Let_def]] by (elim exE conjE) metis
  note rs = this
  show ?thesis
    unfolding r Let_def prod.case
  proof (intro exI conjI)
    show "w_sent w' = w_sent w @ map (\<lambda>r. (forward_request url f, r)) rs"
      "w_db w' = w_db w" "w_tasks w' = w_tasks w" using rs(1) by (simp_all add: exchanged_def)
    show "length rs \<le> nat (max 1 (Attempts fw))" using rs(2) n(1) by simp
    show "list_all transient (butlast rs)" using rs(3) by (simp add: list_all_iff)
    show "res = None \<longleftrightarrow> rs \<noteq> [] \<and> success_code (last rs)" using rs(4) n(2) by simp
  qed
qed

text \<open>What the client sees of the \<open>j\<close>th exchange: no answer once the script of the network has ended.\<close>

definition outcome :: "(nat \<times> net_reply) list \<Rightarrow> nat \<Rightarrow> net_reply" where
  "outcome net j = (if j < length net
     then (case net ! j of (t, r) \<Rightarrow> if client_timeout \<le> t then NetError else r) else NetError)"

definition delivered_within :: "(nat \<times> net_reply) list \<Rightarrow> nat \<Rightarrow> bool" where
  "delivered_within net n \<longleftrightarrow>
     (\<exists>k<n. (\<forall>j<k. transient (outcome net j)) \<and> success_code (outcome net k))"

lemma outcome_tl: "outcome net (Suc j) = outcome (tl net) j"
  by (cases net) (auto simp: outcome_def)

lemma delivered_within_0 [simp]: "\<not> delivered_within net 0"
  by (simp add: delivered_within_def)

lemma delivered_within_Suc:
  "delivered_within net (Suc n) \<longleftrightarrow> success_code (outcome net 0) \<or>
     (transient (outcome net 0) \<and> delivered_within (tl net) n)"
  unfolding delivered_within_def outcome_tl[symmetric]
proof
  assume "\<exists>k<Suc n. (\<forall>j<k. transient (outcome net j)) \<and> success_code (outcome net k)"
  then obtain k where k: "k < Suc n" "\<forall>j<k. transient (outcome net j)" "success_code (outcome net k)" by blast
  then show "success_code (outcome net 0) \<or> (transient (outcome net 0) \<and>
      (\<exists>k<n. (\<forall>j<k. transient (outcome net (Suc j))) \<and> success_code (outcome net (Suc k))))"
    by (cases k) auto
next
  assume "success_code (outcome net 0) \<or> (transient (outcome net 0) \<and>
      (\<exists>k<n. (\<forall>j<k. transient (outcome net (Suc j))) \<and> success_code (outcome net (Suc k))))"
  then show "\<exists>k<Suc n. (\<forall>j<k. transient (outcome net j)) \<and> success_code (outcome net k)"
    by (metis Suc_mono less_Suc_eq_0_disj not_less_zero zero_less_Suc)
qed

lemma transient_not_success: "transient r \<Longrightarrow> \<not> success_code r"
  by (auto simp: transient_def success_code_def split: net_reply.splits)

lemma http_do_seen:
  "\<exists>dt. run (http_do (Some client_timeout) rq) w =
     ((dt, outcome (w_net w) 0), w\<lparr>w_net := tl (w_net w), w_sent := w_sent w @ [(rq, outcome (w_net w) 0)]\<rparr>)"
  by (auto simp: http_do_def outcome_def Let_def split: list.splits prod.splits)

lemma forward_attempts_complete:
  assumes "e_valid_url E (rq_url rq)"
  shows "fst (run (forward_attempts E b None rq n i t lasterr) w) = None \<longleftrightarrow>
     (if n = 0 then lasterr = None else delivered_within (w_net w) n)"
proof (induction n arbitrary: i t lasterr w)
  case 0
  show ?case by simp
next
  case (Suc n)
  obtain dt where h: "run (http_do (Some client_timeout) rq) w =
     ((dt, outcome (w_net w) 0), w\<lparr>w_net := tl (w_net w), w_sent := w_sent w @ [(rq, outcome (w_net w) 0)]\<rparr>)"
    using http_do_seen by blast
  show ?case
    using assms h
    by (auto simp: Let_def Suc.IH delivered_within_Suc success_code_def transient_def split: net_reply.splits)
qed

text \<open>
  C20. Without a deadline, a delivery to a well-formed address succeeds exactly when one of the first
  \<open>Attempts\<close> outcomes is a 2xx and every outcome before it was worth retrying: the retries neither give
  up on a consumer that recovers in time nor run past an answer that settles the matter.
\<close>

theorem Forward_succeeds_iff:
  assumes "e_valid_url E url"
  shows "fst (run (forward_to E fw None url f) w) = None \<longleftrightarrow>
    delivered_within (w_net w) (nat (max 1 (Attempts fw)))"
proof -
  have "e_valid_url E (rq_url (forward_request url f))" using assms by (simp add: forward_request_def)
  from forward_attempts_complete[OF this] show ?thesis
    by (auto simp: forward_to_def Let_def max_def)
qed

theorem Forward_succeeds_iff_witness:
  "\<forall>f. fst (run (forward_to demo_env NewForwarder None (str ''http://c'') f)
     (fresh_world empty_db [(100, Reply 503 []), (16000, Reply 200 []), (80, Reply 204 [])])) = None"
proof
  fix f
  have "delivered_within [(100, Reply 503 []), (16000, Reply 200 []), (80, Reply 204 [])] (Suc (Suc (Suc 0)))"
    by (simp add: delivered_within_Suc outcome_def client_timeout_def success_code_def transient_def
        retryableClientError_def)
  then show "fst (run (forward_to demo_env NewForwarder None (str ''http://c'') f)
     (fresh_world empty_db [(100, Reply 503 []), (16000, Reply 200 []), (80, Reply 204 [])])) = None"
    using Forward_succeeds_iff[of demo_env "str ''http://c''" NewForwarder f
        "fresh_world empty_db [(100, Reply 503 []), (16000, Reply 200 []), (80, Reply 204 [])]"]
    by (simp add: demo_env_def NewForwarder_def numeral_3_eq_3)
qed

section \<open>The contract its callers use\<close>

text \<open>
  The two callers deliver and then record the delivery. Their reliance is a locale: a forwarder
  leaves the database alone, and reports success only for a request the consumer acknowledged.
\<close>

definition deliver_and_mark :: "(gostring \<Rightarrow> Forward \<Rightarrow> (world, 'e option) prog) \<Rightarrow> gostring \<Rightarrow> Forward \<Rightarrow> uuid \<Rightarrow>
    (world, ('e + db_error) option) prog" where
  "deliver_and_mark fwd url f i = State_Monad.bind (fwd url f) (\<lambda>r. case r of
       Some e \<Rightarrow> ret (Some (Inl e))
     | None \<Rightarrow> State_Monad.bind (store (MarkWorkflowFired i)) (\<lambda>m. case m of
           Inl e \<Rightarrow> ret (Some (Inr e))
         | Inr _ \<Rightarrow> ret None))"

definition fired :: "db \<Rightarrow> uuid \<Rightarrow> bool" where
  "fired d i \<longleftrightarrow> (\<exists>m\<in>set (messages d). msg_id m = i \<and> msg_workflow_fired m)"

lemma MarkWorkflowFired_messages:
  "snd (MarkWorkflowFired i d) = d \<or>
   snd (MarkWorkflowFired i d) =
     d\<lparr>messages := map_if (\<lambda>m. msg_id m = i) (\<lambda>m. m\<lparr>msg_workflow_fired := True\<rparr>) (messages d)\<rparr>"
  by (simp add: MarkWorkflowFired_def update_messages_def commit_def)

lemma fired_MarkWorkflowFired: "fired (snd (MarkWorkflowFired i d)) j \<Longrightarrow> fired d j \<or> j = i"
  using MarkWorkflowFired_messages[of i d] by (auto simp: fired_def map_if_def split: if_splits)

lemma MarkWorkflowFired_keeps:
  "message_ids (snd (MarkWorkflowFired i d)) = message_ids d" "fired d j \<Longrightarrow> fired (snd (MarkWorkflowFired i d)) j"
proof -
  let ?f = "\<lambda>m. if msg_id m = i then m\<lparr>msg_workflow_fired := True\<rparr> else m"
  have m: "messages (snd (MarkWorkflowFired i d)) = messages d \<or> messages (snd (MarkWorkflowFired i d)) = map ?f (messages d)"
    using MarkWorkflowFired_messages[of i d] by (auto simp: map_if_def)
  then show "message_ids (snd (MarkWorkflowFired i d)) = message_ids d" by (auto simp: message_ids_def)
  show "fired d j \<Longrightarrow> fired (snd (MarkWorkflowFired i d)) j"
    using m unfolding fired_def by (elim disjE) (auto split: if_splits intro!: bexI[of _ "?f _"])
qed

lemma MarkWorkflowFired_ok:
  assumes "fst (MarkWorkflowFired i d) = Inr ()" and "i \<in> set (message_ids d)"
  shows "fired (snd (MarkWorkflowFired i d)) i"
proof -
  have d': "snd (MarkWorkflowFired i d) =
      d\<lparr>messages := map_if (\<lambda>m. msg_id m = i) (\<lambda>m. m\<lparr>msg_workflow_fired := True\<rparr>) (messages d)\<rparr>"
    using assms(1) by (simp add: MarkWorkflowFired_def update_messages_def commit_def split: if_splits)
  obtain m where m: "m \<in> set (messages d)" "msg_id m = i"
    using assms(2) by (auto simp: message_ids_def)
  then have "m\<lparr>msg_workflow_fired := True\<rparr> \<in> set (messages (snd (MarkWorkflowFired i d)))"
    unfolding d' by (simp add: map_if_def)
  moreover have "msg_id (m\<lparr>msg_workflow_fired := True\<rparr>) = i" using m(2) by simp
  ultimately show ?thesis unfolding fired_def by (metis Message.select_convs(14) Message.surjective Message.update_convs(14))
qed

locale forwarder =
  fixes forward :: "gostring \<Rightarrow> Forward \<Rightarrow> (world, 'e option) prog"
  assumes forward_db: "run (forward url f) w = (r, w') \<Longrightarrow> w_db w' = w_db w"
    and forward_tasks: "run (forward url f) w = (r, w') \<Longrightarrow> w_tasks w' = w_tasks w"
    and forward_log: "run (forward url f) w = (r, w') \<Longrightarrow> \<exists>l. w_sent w' = w_sent w @ l"
    and forward_ack: "run (forward url f) w = (None, w') \<Longrightarrow>
      \<exists>l. w_sent w' = w_sent w @ l \<and> acknowledged (forward_request url f) l"
begin

lemma deliver_run:
  assumes "run (deliver_and_mark forward url f i) w = (r, w')"
  obtains e where "r = Some (Inl e)" "w_db w' = w_db w" "\<exists>l. w_sent w' = w_sent w @ l"
  | w1 m where "run (forward url f) w = (None, w1)" "run (store (MarkWorkflowFired i)) w1 = (m, w')"
      "r = (case m of Inl e \<Rightarrow> Some (Inr e) | Inr _ \<Rightarrow> None)"
proof (cases "run (forward url f) w")
  case (Pair fr w1)
  show thesis
  proof (cases fr)
    case (Some e)
    then show ?thesis
      using that(1)[of e] assms Pair forward_db[OF Pair] forward_log[OF Pair]
      by (simp add: deliver_and_mark_def)
  next
    case None
    obtain m w2 where "run (store (MarkWorkflowFired i)) w1 = (m, w2)"
      by (cases "run (store (MarkWorkflowFired i)) w1")
    then show ?thesis
      using that(2)[of w1 m] assms Pair None by (auto simp: deliver_and_mark_def split: sum.splits)
  qed
qed

lemma store_MarkWorkflowFired_db:
  assumes "run (store (MarkWorkflowFired i)) w = (m, w')"
  shows "(w_db w' = w_db w \<or> w_db w' = snd (MarkWorkflowFired i (w_db w))) \<and> w_sent w' = w_sent w"
  using assms by (cases rule: run_store) auto

lemma deliver_tasks:
  assumes "run (deliver_and_mark forward url f i) w = (r, w')"
  shows "w_tasks w' = w_tasks w"
proof -
  obtain fr w1 where f: "run (forward url f) w = (fr, w1)" by (cases "run (forward url f) w")
  show ?thesis
    using assms f forward_tasks[OF f]
    by (auto simp: deliver_and_mark_def split: option.splits sum.splits prod.splits dest!: store_outcome(1))
qed

text \<open>A message is newly marked as delivered only if it is this one and the consumer acknowledged it.\<close>

lemma marks_only_acknowledged:
  assumes "run (deliver_and_mark forward url f i) w = (r, w')"
    and "fired (w_db w') j" and "\<not> fired (w_db w) j"
  shows "j = i \<and> (\<exists>l. w_sent w' = w_sent w @ l \<and> acknowledged (forward_request url f) l)"
  using assms(1)
proof (cases rule: deliver_run)
  case (1 e)
  then show ?thesis using assms(2,3) by simp
next
  case (2 w1 m)
  have db1: "w_db w1 = w_db w" using forward_db[OF 2(1)] .
  have m: "w_db w' = w_db w1 \<or> w_db w' = snd (MarkWorkflowFired i (w_db w1))" "w_sent w' = w_sent w1"
    using store_MarkWorkflowFired_db[OF 2(2)] by auto
  then have "j = i" using assms(2,3) db1 fired_MarkWorkflowFired by metis
  then show ?thesis using forward_ack[OF 2(1)] m(2) by simp
qed

text \<open>Delivering only adds to the log and keeps every row and every mark.\<close>

lemma deliver_keeps:
  assumes "run (deliver_and_mark forward url f i) w = (r, w')"
  shows "\<exists>l. w_sent w' = w_sent w @ l" "message_ids (w_db w') = message_ids (w_db w)"
    "fired (w_db w) j \<Longrightarrow> fired (w_db w') j"
proof -
  have "(\<exists>l. w_sent w' = w_sent w @ l) \<and> (w_db w' = w_db w \<or> w_db w' = snd (MarkWorkflowFired i (w_db w)))"
    using assms
  proof (cases rule: deliver_run)
    case (1 e)
    then show ?thesis by simp
  next
    case (2 w1 m)
    then show ?thesis
      using forward_log[OF 2(1)] forward_db[OF 2(1)] store_MarkWorkflowFired_db[OF 2(2)] by auto
  qed
  then show "\<exists>l. w_sent w' = w_sent w @ l" "message_ids (w_db w') = message_ids (w_db w)"
    "fired (w_db w) j \<Longrightarrow> fired (w_db w') j"
    using MarkWorkflowFired_keeps[where i = i and d = "w_db w"] by auto
qed

text \<open>A reported success means acknowledged and marked.\<close>

lemma success_is_marked:
  assumes "run (deliver_and_mark forward url f i) w = (None, w')" and "i \<in> set (message_ids (w_db w))"
  shows "fired (w_db w') i \<and> (\<exists>l. w_sent w' = w_sent w @ l \<and> acknowledged (forward_request url f) l)"
  using assms(1)
proof (cases rule: deliver_run)
  case (1 e)
  then show ?thesis by simp
next
  case (2 w1 m)
  then have m: "m = Inr ()" by (auto split: sum.splits)
  have db1: "w_db w1 = w_db w" using forward_db[OF 2(1)] .
  from 2(2) m have q: "MarkWorkflowFired i (w_db w1) = (Inr (), w_db w')" "w_sent w' = w_sent w1"
    by (auto elim!: run_store)
  then have "fired (w_db w') i" using MarkWorkflowFired_ok[of i "w_db w1"] assms(2) db1 by simp
  then show ?thesis using forward_ack[OF 2(1)] q(2) by simp
qed

end

lemma forward_to_run:
  assumes "run (forward_to E fw D url f) w = (res, w')"
  shows "\<exists>rs. w' = exchanged (forward_request url f) rs w \<and> (res = None \<longrightarrow> rs \<noteq> [] \<and> success_code (last rs))"
  using forward_attempts_run[OF assms[unfolded forward_to_def Let_def]] by (auto split: if_splits)

interpretation consumer: forwarder "forward_to E fw D" for E fw D
proof
  fix url f w r w'
  assume r: "run (forward_to E fw D url f) w = (r, w')"
  then obtain rs where "w' = exchanged (forward_request url f) rs w" using forward_to_run by blast
  then show "w_db w' = w_db w" "w_tasks w' = w_tasks w" "\<exists>l. w_sent w' = w_sent w @ l"
    by (auto simp: exchanged_def)
next
  fix url f w w'
  assume r: "run (forward_to E fw D url f) w = (None, w')"
  then obtain rs where rs: "w' = exchanged (forward_request url f) rs w" "rs \<noteq> []" "success_code (last rs)"
    using forward_to_run by blast
  then have "acknowledged (forward_request url f) (map (\<lambda>r. (forward_request url f, r)) rs)"
    by (force simp: acknowledged_def intro: exI[of _ "last rs"])
  then show "\<exists>l. w_sent w' = w_sent w @ l \<and> acknowledged (forward_request url f) l"
    using rs(1) by (auto simp: exchanged_def)
qed

end
