(* ===== verification/Outbound.thy ===== *)
theory Outbound
  imports World
begin

text \<open>
  Component \<open>internal/outbound\<close> and its adapters (\<open>internal/integrations/*\<close>): the registry keyed by
  account type and the four ways of sending: Telegram, Twilio, UltraMSG and email over SES. An
  adapter's exchange with its platform goes through \<open>http_do\<close>; the SES client of the AWS SDK is
  modelled as such an exchange too.
\<close>

section \<open>Accounts, messages, adapters\<close>

definition TypeEmailSES :: gostring where
  "TypeEmailSES = str ''email-ses''"

definition Tokenless :: "gostring \<Rightarrow> bool" where
  "Tokenless accountType \<longleftrightarrow> accountType = TypeEmailSES"

definition Platform :: "gostring \<Rightarrow> gostring" where
  "Platform accountType =
     (if accountType \<in> {str ''whatsapp'', str ''whatsapp-twilio''} then str ''whatsapp''
      else if accountType = str ''sms-twilio'' then str ''sms''
      else if accountType = TypeEmailSES then str ''email''
      else accountType)"

record OutboundAccount =
  oa_Type :: gostring
  oa_Identifier :: gostring
  oa_Token :: gostring

record OutboundMessage =
  om_To :: gostring
  om_Body :: gostring
  om_Subject :: gostring
  om_From :: gostring
  om_ReplyTo :: gostring
  om_InReplyTo :: gostring
  om_References :: gostring

definition plain_message :: "gostring \<Rightarrow> gostring \<Rightarrow> OutboundMessage" where
  "plain_message to body = \<lparr>om_To = to, om_Body = body, om_Subject = [], om_From = [], om_ReplyTo = [],
     om_InReplyTo = [], om_References = []\<rparr>"

datatype send_error =
    NoAdapter
  | BadCredentials
  | MissingToken
  | MissingRecipient
  | MissingFrom
  | BadURL
  | SendTransport
  | SendStatus nat
  | NotAccepted
  | NoMessageID
  | BadResponse

record adapter =
  ad_send :: "OutboundAccount \<Rightarrow> gostring \<Rightarrow> gostring \<Rightarrow> (world, send_error + gostring) prog"
  ad_rich :: "(OutboundAccount \<Rightarrow> OutboundMessage \<Rightarrow> (world, send_error + gostring) prog) option"

type_synonym registry = "gostring \<rightharpoonup> adapter"

definition NewRegistry :: registry where
  "NewRegistry = (\<lambda>_. None)"

definition Register :: "registry \<Rightarrow> gostring \<Rightarrow> adapter \<Rightarrow> registry" where
  "Register r accountType o1 = r(accountType \<mapsto> o1)"

definition Get :: "registry \<Rightarrow> gostring \<Rightarrow> send_error + adapter" where
  "Get r accountType = (case r accountType of None \<Rightarrow> Inl NoAdapter | Some o1 \<Rightarrow> Inr o1)"

definition Dispatch :: "registry \<Rightarrow> OutboundAccount \<Rightarrow> OutboundMessage \<Rightarrow> (world, send_error + gostring) prog" where
  "Dispatch r acct msg = (case Get r (oa_Type acct) of
     Inl e \<Rightarrow> ret (Inl e)
   | Inr o1 \<Rightarrow> (case ad_rich o1 of
       Some rich \<Rightarrow> rich acct msg
     | None \<Rightarrow> ad_send o1 acct (om_To msg) (om_Body msg)))"

section \<open>Decoding replies as far as they go\<close>

text \<open>
  A reply decoded with the error ignored: members of the wrong kind are skipped, a text that is no
  JSON object leaves the zero value.
\<close>

definition lenient_members :: "env \<Rightarrow> gostring \<Rightarrow> (gostring \<times> json) list" where
  "lenient_members E body = (case e_parse_json E body of Some (JObj kvs) \<Rightarrow> kvs | _ \<Rightarrow> [])"

fun lenient_string :: "json list \<Rightarrow> gostring \<Rightarrow> gostring" where
  "lenient_string [] v = v"
| "lenient_string (JStr s # js) v = lenient_string js s"
| "lenient_string (_ # js) v = lenient_string js v"

fun lenient_bool :: "json list \<Rightarrow> bool \<Rightarrow> bool" where
  "lenient_bool [] v = v"
| "lenient_bool (JBool b # js) v = lenient_bool js b"
| "lenient_bool (_ # js) v = lenient_bool js v"

fun lenient_int64 :: "json list \<Rightarrow> int \<Rightarrow> int" where
  "lenient_int64 [] v = v"
| "lenient_int64 (JNum x # js) v =
     (case int_of_num int64_min int64_max x of None \<Rightarrow> lenient_int64 js v | Some i \<Rightarrow> lenient_int64 js i)"
| "lenient_int64 (_ # js) v = lenient_int64 js v"

fun object_members :: "json list \<Rightarrow> (gostring \<times> json) list" where
  "object_members [] = []"
| "object_members (JObj kvs # js) = kvs @ object_members js"
| "object_members (_ # js) = object_members js"

text \<open>One POST under the client's timeout of 15 seconds.\<close>

definition post :: "env \<Rightarrow> http_request \<Rightarrow> (nat \<Rightarrow> gostring \<Rightarrow> send_error + gostring) \<Rightarrow>
    (world, send_error + gostring) prog" where
  "post E rq handle =
     (if \<not> e_valid_url E (rq_url rq) then ret (Inl BadURL)
      else State_Monad.bind (http_do (Some 15000) rq) (\<lambda>(_, r). ret (case r of
             NetError \<Rightarrow> Inl SendTransport
           | Reply status body \<Rightarrow> handle status body)))"

definition base_url :: "gostring \<Rightarrow> gostring \<Rightarrow> gostring" where
  "base_url base standard = TrimRight (\<lambda>c. c = 47) (if base = [] then standard else base)"

section \<open>Telegram\<close>

definition telegram_request :: "gostring \<Rightarrow> OutboundAccount \<Rightarrow> gostring \<Rightarrow> gostring \<Rightarrow> http_request" where
  "telegram_request base acct to body =
     \<lparr>rq_url = base_url base (str ''https://api.telegram.org'') @ str ''/bot'' @ oa_Token acct @ str ''/sendMessage'',
      rq_content = FormBody [(str ''chat_id'', to), (str ''text'', body)], rq_auth = None\<rparr>"

definition telegram_reply :: "env \<Rightarrow> nat \<Rightarrow> gostring \<Rightarrow> send_error + gostring" where
  "telegram_reply E status body =
     (let kvs = lenient_members E body; U = e_uni E;
          ok = lenient_bool (members U (str ''ok'') kvs) False;
          mid = lenient_int64 (members U (str ''message_id'') (object_members (members U (str ''result'') kvs))) 0
      in if \<not> ok then Inl (SendStatus status) else if mid = 0 then Inl NoMessageID else Inr (Itoa mid))"

definition telegram_Send :: "env \<Rightarrow> gostring \<Rightarrow> OutboundAccount \<Rightarrow> gostring \<Rightarrow> gostring \<Rightarrow>
    (world, send_error + gostring) prog" where
  "telegram_Send E base acct to body =
     (if oa_Token acct = [] then ret (Inl MissingToken)
      else post E (telegram_request base acct to body) (telegram_reply E))"

section \<open>Twilio\<close>

definition twilioAddr :: "gostring \<Rightarrow> gostring \<Rightarrow> gostring" where
  "twilioAddr acctType addr =
     (let bare = TrimPrefix addr (str ''whatsapp:'') in
      if Contains acctType (str ''sms'') then bare else str ''whatsapp:'' @ bare)"

definition twilio_credentials :: "env \<Rightarrow> gostring \<Rightarrow> (gostring \<times> gostring) option" where
  "twilio_credentials E token =
     (case Option.bind (e_parse_json E token) struct_members of
        None \<Rightarrow> None
      | Some kvs \<Rightarrow>
          (case (decode_string (members (e_uni E) (str ''account_sid'') kvs) [],
                 decode_string (members (e_uni E) (str ''auth_token'') kvs) []) of
             (Some sid, Some auth) \<Rightarrow> Some (sid, auth)
           | _ \<Rightarrow> None))"

definition twilio_request :: "gostring \<Rightarrow> OutboundAccount \<Rightarrow> gostring \<Rightarrow> gostring \<Rightarrow> gostring \<Rightarrow> gostring \<Rightarrow> http_request" where
  "twilio_request base acct sid auth to body =
     \<lparr>rq_url = base_url base (str ''https://api.twilio.com'') @ str ''/2010-04-01/Accounts/'' @ sid @ str ''/Messages.json'',
      rq_content = FormBody [(str ''Body'', body), (str ''From'', twilioAddr (oa_Type acct) (oa_Identifier acct)),
        (str ''To'', twilioAddr (oa_Type acct) to)],
      rq_auth = Some (sid, auth)\<rparr>"

definition twilio_reply :: "env \<Rightarrow> nat \<Rightarrow> gostring \<Rightarrow> send_error + gostring" where
  "twilio_reply E status body =
     (let sid = lenient_string (members (e_uni E) (str ''sid'') (lenient_members E body)) [] in
      if status < 200 \<or> 300 \<le> status then Inl (SendStatus status)
      else if sid = [] then Inl NoMessageID else Inr sid)"

definition twilio_Send :: "env \<Rightarrow> gostring \<Rightarrow> OutboundAccount \<Rightarrow> gostring \<Rightarrow> gostring \<Rightarrow>
    (world, send_error + gostring) prog" where
  "twilio_Send E base acct to body =
     (case twilio_credentials E (oa_Token acct) of
        None \<Rightarrow> ret (Inl BadCredentials)
      | Some (sid, auth) \<Rightarrow>
          if sid = [] \<or> auth = [] then ret (Inl BadCredentials)
          else post E (twilio_request base acct sid auth to body) (twilio_reply E))"

section \<open>UltraMSG\<close>

definition ultramsg_request :: "gostring \<Rightarrow> OutboundAccount \<Rightarrow> gostring \<Rightarrow> gostring \<Rightarrow> http_request" where
  "ultramsg_request base acct to body =
     (let ident = oa_Identifier acct;
          inst = (if HasPrefix ident (str ''instance'') then ident else str ''instance'' @ ident)
      in \<lparr>rq_url = base_url base (str ''https://api.ultramsg.com'') @ str ''/'' @ inst @ str ''/messages/chat'',
          rq_content = FormBody [(str ''body'', body), (str ''to'', to), (str ''token'', oa_Token acct)],
          rq_auth = None\<rparr>)"

definition ultramsg_reply :: "env \<Rightarrow> nat \<Rightarrow> gostring \<Rightarrow> send_error + gostring" where
  "ultramsg_reply E status body =
     (if status < 200 \<or> 300 \<le> status then Inl (SendStatus status)
      else case Option.bind (e_parse_json E body) struct_members of
        None \<Rightarrow> Inl BadResponse
      | Some kvs \<Rightarrow>
          let raw = (\<lambda>name. case decode_raw (members (e_uni E) name kvs) of None \<Rightarrow> [] | Some j \<Rightarrow> e_raw_text E j)
          in if decode_string (members (e_uni E) (str ''message'') kvs) [] = None then Inl BadResponse
             else if \<not> Contains (ToLower (e_uni E) (raw (str ''sent''))) (str ''true'') then Inl NotAccepted
             else Inr (TrimRight (\<lambda>c. c = 34) (TrimLeft (\<lambda>c. c = 34) (raw (str ''id'')))))"

definition ultramsg_Send :: "env \<Rightarrow> gostring \<Rightarrow> OutboundAccount \<Rightarrow> gostring \<Rightarrow> gostring \<Rightarrow>
    (world, send_error + gostring) prog" where
  "ultramsg_Send E base acct to body = post E (ultramsg_request base acct to body) (ultramsg_reply E)"

section \<open>Email over SES\<close>

definition FallbackDomain :: gostring where
  "FallbackDomain = str ''mail.fieldwatchai.io''"

definition DefaultSubject :: gostring where
  "DefaultSubject = str ''New message''"

definition commonHeaders :: "env \<Rightarrow> (gostring \<times> json) list \<Rightarrow> (gostring \<times> gostring \<times> gostring list) option" where
  "commonHeaders E kvs =
     (case (decode_string (members (e_uni E) (str ''messageId'') kvs) [],
            decode_string (members (e_uni E) (str ''subject'') kvs) [],
            decode_strings (members (e_uni E) (str ''references'') kvs) []) of
        (Some mid, Some subject, Some refs) \<Rightarrow> Some (mid, subject, refs)
      | _ \<Rightarrow> None)"

text \<open>A nested struct field: its members of every occurrence, failing on a value that is no object.\<close>

fun nested_members :: "json list \<Rightarrow> (gostring \<times> json) list option" where
  "nested_members [] = Some []"
| "nested_members (JNull # js) = nested_members js"
| "nested_members (JObj kvs # js) = map_option (\<lambda>r. kvs @ r) (nested_members js)"
| "nested_members (_ # js) = None"

text \<open>Subject, Message-ID and references; empty when the payload is missing or does not decode.\<close>

definition parseThreading :: "env \<Rightarrow> json option \<Rightarrow> gostring \<times> gostring \<times> gostring" where
  "parseThreading E raw =
     (let U = e_uni E;
          decoded = (do {
            j \<leftarrow> raw;
            kvs \<leftarrow> struct_members j;
            mail \<leftarrow> nested_members (members U (str ''mail'') kvs);
            mailHeaders \<leftarrow> nested_members (members U (str ''commonHeaders'') mail);
            topHeaders \<leftarrow> nested_members (members U (str ''commonHeaders'') kvs);
            h1 \<leftarrow> commonHeaders E mailHeaders;
            h2 \<leftarrow> commonHeaders E topHeaders;
            Some (h1, h2) })
      in case decoded of
           None \<Rightarrow> ([], [], [])
         | Some ((mid, subject, refs), h2) \<Rightarrow>
             let (mid, subject, refs) = (if mid = [] \<and> subject = [] then h2 else (mid, subject, refs))
             in (subject, mid, Join refs (str '' '')))"

definition local_part :: "gostring \<Rightarrow> gostring" where
  "local_part a = (case IndexRune a 64 of Some i \<Rightarrow> if 0 < i then take i a else a | None \<Rightarrow> a)"

definition BuildReply :: "env \<Rightarrow> gostring \<Rightarrow> gostring \<Rightarrow> gostring \<Rightarrow> json option \<Rightarrow> OutboundMessage" where
  "BuildReply E ingestAddress to body raw =
     (let (subject, messageID, references) = parseThreading E raw;
          re = TrimSpace subject;
          re = (if re = [] then str ''Re:''
                else if \<not> HasPrefix (ToLower (e_uni E) re) (str ''re:'') then str ''Re: '' @ re else re)
      in \<lparr>om_To = to, om_Body = body, om_Subject = re,
          om_From = local_part ingestAddress @ str ''@'' @ FallbackDomain, om_ReplyTo = ingestAddress,
          om_InReplyTo = messageID,
          om_References = TrimSpace (Join [references, messageID] (str '' ''))\<rparr>)"

definition BuildNew :: "gostring \<Rightarrow> gostring \<Rightarrow> gostring \<Rightarrow> gostring \<Rightarrow> OutboundMessage" where
  "BuildNew ingestAddress to subject body =
     \<lparr>om_To = to, om_Body = body,
      om_Subject = (if TrimSpace subject = [] then DefaultSubject else subject),
      om_From = local_part ingestAddress @ str ''@'' @ FallbackDomain, om_ReplyTo = ingestAddress,
      om_InReplyTo = [], om_References = []\<rparr>"

definition crlf :: gostring where
  "crlf = [13, 10]"

definition header_line :: "gostring \<Rightarrow> gostring \<Rightarrow> gostring" where
  "header_line name v = name @ str '': '' @ v @ crlf"

definition renderMIME :: "OutboundMessage \<Rightarrow> gostring" where
  "renderMIME msg =
     header_line (str ''From'') (om_From msg) @ header_line (str ''To'') (om_To msg) @
     (if om_ReplyTo msg = [] then [] else header_line (str ''Reply-To'') (om_ReplyTo msg)) @
     header_line (str ''Subject'') (om_Subject msg) @
     (if om_InReplyTo msg = [] then [] else header_line (str ''In-Reply-To'') (om_InReplyTo msg)) @
     (if om_References msg = [] then [] else header_line (str ''References'') (om_References msg)) @
     header_line (str ''MIME-Version'') (str ''1.0'') @
     header_line (str ''Content-Type'') (str ''text/plain; charset=UTF-8'') @
     crlf @ om_Body msg"

text \<open>The SES client: no limit of its own on the exchange; its answer carries the message id.\<close>

definition SendRaw :: "gostring \<Rightarrow> gostring list \<Rightarrow> gostring \<Rightarrow> (world, send_error + gostring) prog" where
  "SendRaw from to raw = State_Monad.bind
     (http_do None \<lparr>rq_url = str ''ses'', rq_content = RawEmail from to raw, rq_auth = None\<rparr>)
     (\<lambda>(_, r). ret (case r of
        NetError \<Rightarrow> Inl SendTransport
      | Reply status mid \<Rightarrow> if 200 \<le> status \<and> status < 300 then Inr mid else Inl (SendStatus status)))"

definition SendRich :: "OutboundAccount \<Rightarrow> OutboundMessage \<Rightarrow> (world, send_error + gostring) prog" where
  "SendRich acct msg =
     (if om_To msg = [] then ret (Inl MissingRecipient)
      else if om_From msg = [] then ret (Inl MissingFrom)
      else SendRaw (om_From msg) [om_To msg] (renderMIME msg))"

definition email_Send :: "OutboundAccount \<Rightarrow> gostring \<Rightarrow> gostring \<Rightarrow> (world, send_error + gostring) prog" where
  "email_Send acct to body = SendRich acct ((plain_message to body)\<lparr>om_ReplyTo := oa_Identifier acct\<rparr>)"

section \<open>The registry the service builds\<close>

definition telegram_adapter :: "env \<Rightarrow> adapter" where
  "telegram_adapter E = \<lparr>ad_send = telegram_Send E [], ad_rich = None\<rparr>"

definition twilio_adapter :: "env \<Rightarrow> adapter" where
  "twilio_adapter E = \<lparr>ad_send = twilio_Send E [], ad_rich = None\<rparr>"

definition ultramsg_adapter :: "env \<Rightarrow> adapter" where
  "ultramsg_adapter E = \<lparr>ad_send = ultramsg_Send E [], ad_rich = None\<rparr>"

definition email_adapter :: adapter where
  "email_adapter = \<lparr>ad_send = email_Send, ad_rich = Some SendRich\<rparr>"

definition hub_registry :: "env \<Rightarrow> registry" where
  "hub_registry E =
     Register (Register (Register (Register (Register NewRegistry
       (str ''whatsapp'') (ultramsg_adapter E))
       (str ''whatsapp-twilio'') (twilio_adapter E))
       (str ''sms-twilio'') (twilio_adapter E))
       (str ''telegram'') (telegram_adapter E))
       TypeEmailSES email_adapter"

section \<open>One send is at most one exchange\<close>

text \<open>
  What every way of sending keeps: it exchanges at most one request with its platform, changes
  nothing else, and returns a message id only when the platform answered.
\<close>

definition single_exchange :: "world \<Rightarrow> send_error + gostring \<Rightarrow> world \<Rightarrow> bool" where
  "single_exchange w r w' \<longleftrightarrow> (w' = w \<and> isl r) \<or> (\<exists>rq x. w' = exchanged rq [x] w \<and> (isl r \<or> x \<noteq> NetError))"

lemma single_exchange_frame:
  assumes "single_exchange w r w'"
  shows "w_db w' = w_db w" "w_tasks w' = w_tasks w" "w_ids w' = w_ids w" "w_faults w' = w_faults w"
    "w_now w' = w_now w" "length (w_sent w') \<le> Suc (length (w_sent w))"
  using assms by (auto simp: single_exchange_def)

lemma single_exchange_fail: "single_exchange w (Inl e) w"
  by (simp add: single_exchange_def)

lemma post_single: "run (post E rq h) w = (r, w') \<Longrightarrow> single_exchange w r w'"
proof (cases "e_valid_url E (rq_url rq)")
  case True
  assume r: "run (post E rq h) w = (r, w')"
  obtain t x where "run (http_do (Some 15000) rq) w = ((t, x), exchanged rq [x] w)"
    using http_do_exchanged by blast
  with r True show ?thesis
    by (auto simp: post_def single_exchange_def intro!: exI[of _ rq] exI[of _ x])
next
  case False
  assume "run (post E rq h) w = (r, w')"
  with False show ?thesis by (auto simp: post_def single_exchange_def)
qed

locale sender =
  fixes send :: "OutboundAccount \<Rightarrow> OutboundMessage \<Rightarrow> (world, send_error + gostring) prog"
  assumes send_single: "run (send acct msg) w = (r, w') \<Longrightarrow> single_exchange w r w'"
begin

lemma send_db: "run (send acct msg) w = (r, w') \<Longrightarrow> w_db w' = w_db w"
  using send_single single_exchange_frame(1) by blast

lemma send_tasks: "run (send acct msg) w = (r, w') \<Longrightarrow> w_tasks w' = w_tasks w"
  using send_single single_exchange_frame(2) by blast

lemma send_success_answered:
  assumes "run (send acct msg) w = (Inr pmid, w')"
  shows "\<exists>rq status body. w_sent w' = w_sent w @ [(rq, Reply status body)]"
proof -
  have "single_exchange w (Inr pmid) w'" using assms by (rule send_single)
  then obtain rq x where x: "w' = exchanged rq [x] w" "x \<noteq> NetError"
    by (auto simp: single_exchange_def)
  then show ?thesis by (cases x) auto
qed

end

lemma telegram_single: "run (telegram_Send E b acct to body) w = (r, w') \<Longrightarrow> single_exchange w r w'"
  by (auto simp: telegram_Send_def single_exchange_fail dest: post_single split: if_splits)

lemma twilio_single: "run (twilio_Send E b acct to body) w = (r, w') \<Longrightarrow> single_exchange w r w'"
  by (auto simp: twilio_Send_def single_exchange_fail dest: post_single split: if_splits option.splits prod.splits)

lemma ultramsg_single: "run (ultramsg_Send E b acct to body) w = (r, w') \<Longrightarrow> single_exchange w r w'"
  by (auto simp: ultramsg_Send_def dest: post_single)

lemma SendRaw_single: "run (SendRaw from to raw) w = (r, w') \<Longrightarrow> single_exchange w r w'"
proof -
  let ?rq = "\<lparr>rq_url = str ''ses'', rq_content = RawEmail from to raw, rq_auth = None\<rparr>"
  assume r: "run (SendRaw from to raw) w = (r, w')"
  obtain t x where "run (http_do None ?rq) w = ((t, x), exchanged ?rq [x] w)"
    using http_do_exchanged by blast
  with r show ?thesis
    by (auto simp: SendRaw_def single_exchange_def intro!: exI[of _ ?rq] exI[of _ x])
qed

lemma SendRich_single: "run (SendRich acct msg) w = (r, w') \<Longrightarrow> single_exchange w r w'"
  by (auto simp: SendRich_def single_exchange_fail dest: SendRaw_single split: if_splits)

interpretation telegram: sender "\<lambda>acct msg. telegram_Send E b acct (om_To msg) (om_Body msg)" for E b
  by unfold_locales (rule telegram_single)

interpretation twilio: sender "\<lambda>acct msg. twilio_Send E b acct (om_To msg) (om_Body msg)" for E b
  by unfold_locales (rule twilio_single)

interpretation ultramsg: sender "\<lambda>acct msg. ultramsg_Send E b acct (om_To msg) (om_Body msg)" for E b
  by unfold_locales (rule ultramsg_single)

interpretation email: sender SendRich
  by unfold_locales (rule SendRich_single)

lemma hub_registry_cases:
  assumes "hub_registry E ty = Some a"
  obtains "a = ultramsg_adapter E" "ty = str ''whatsapp''"
  | "a = twilio_adapter E" "ty = str ''whatsapp-twilio'' \<or> ty = str ''sms-twilio''"
  | "a = telegram_adapter E" "ty = str ''telegram''"
  | "a = email_adapter" "ty = TypeEmailSES"
  using assms by (auto simp: hub_registry_def Register_def NewRegistry_def split: if_splits)

lemma Dispatch_single: "run (Dispatch (hub_registry E) acct msg) w = (r, w') \<Longrightarrow> single_exchange w r w'"
proof (cases "hub_registry E (oa_Type acct)")
  case None
  assume "run (Dispatch (hub_registry E) acct msg) w = (r, w')"
  then show ?thesis using None by (auto simp: Dispatch_def Get_def single_exchange_fail)
next
  case (Some a)
  assume r: "run (Dispatch (hub_registry E) acct msg) w = (r, w')"
  from Some show ?thesis
    by (cases rule: hub_registry_cases)
      (use r Some in \<open>auto simp: Dispatch_def Get_def ultramsg_adapter_def twilio_adapter_def
        telegram_adapter_def email_adapter_def
        dest: ultramsg_single twilio_single telegram_single SendRich_single\<close>)
qed

interpretation hub: sender "Dispatch (hub_registry E)" for E
  by unfold_locales (rule Dispatch_single)

section \<open>Email\<close>

text \<open>
  An echo or recall notice on an email account is never sent: the plain send path of the email
  adapter builds a message without a From address and the adapter refuses it before any exchange,
  whatever the account, recipient and text.
\<close>

theorem email_plain_send_always_fails:
  "run (email_Send acct to body) w = (Inl (if to = [] then MissingRecipient else MissingFrom), w)"
  by (simp add: email_Send_def SendRich_def plain_message_def)

text \<open>A reply is addressed back into its thread and from the fallback domain, never without a From.\<close>

lemma BuildReply_from: "om_From (BuildReply E ingest to body raw) \<noteq> []"
  by (simp add: BuildReply_def Let_def str_def split: prod.splits)

lemma BuildNew_from: "om_From (BuildNew ingest to subject body) \<noteq> []"
  by (simp add: BuildNew_def str_def)

definition mime_head :: "OutboundMessage \<Rightarrow> gostring" where
  "mime_head msg = header_line (str ''From'') (om_From msg) @ header_line (str ''To'') (om_To msg) @
     (if om_ReplyTo msg = [] then [] else header_line (str ''Reply-To'') (om_ReplyTo msg))"

definition mime_tail :: "OutboundMessage \<Rightarrow> gostring" where
  "mime_tail msg =
     (if om_InReplyTo msg = [] then [] else header_line (str ''In-Reply-To'') (om_InReplyTo msg)) @
     (if om_References msg = [] then [] else header_line (str ''References'') (om_References msg)) @
     header_line (str ''MIME-Version'') (str ''1.0'') @
     header_line (str ''Content-Type'') (str ''text/plain; charset=UTF-8'') @ crlf @ om_Body msg"

text \<open>
  Header values are written into the message as they are: a subject that carries a line break and
  a further header line produces that header in the message sent, next to the genuine ones.
\<close>

theorem renderMIME_subject_injects_header:
  "renderMIME (msg\<lparr>om_Subject := s @ crlf @ name @ str '': '' @ v\<rparr>) =
     mime_head msg @ header_line (str ''Subject'') s @ header_line name v @ mime_tail msg"
  by (simp add: renderMIME_def header_line_def mime_head_def mime_tail_def)

end
