(* ===== verification/Resolver.thy ===== *)
theory Resolver
  imports Strdist Queries_Messages World
begin

text \<open>
  Component \<open>internal/resolver\<close>: the address-book resolution of a short id, with the query it reads
  (\<open>ListContactShortIDs\<close>).
\<close>

section \<open>Candidates\<close>

record ShortIDRow =
  sr_ID :: uuid
  sr_ShortID :: gostring
  sr_DisplayName :: gostring

definition ListContactShortIDs :: "uuid \<Rightarrow> ShortIDRow list query" where
  "ListContactShortIDs t d =
     (Inr (map (\<lambda>c. \<lparr>sr_ID = ct_id c, sr_ShortID = ct_short_id c, sr_DisplayName = ct_display_name c\<rparr>)
        (filter (\<lambda>c. ct_tenant c = t) (contacts d))), d)"

record Alt =
  alt_ShortID :: gostring
  alt_ContactID :: uuid
  alt_Distance :: nat

record Match =
  mt_ShortIDMatch :: gostring
  mt_ContactID :: "uuid option"
  mt_Alternatives :: "Alt list"

definition MatchExact :: gostring where "MatchExact = str ''exact''"
definition MatchLev1 :: gostring where "MatchLev1 = str ''levenshtein_1''"
definition MatchLev2 :: gostring where "MatchLev2 = str ''levenshtein_2''"
definition MatchNone :: gostring where "MatchNone = str ''none''"

section \<open>The resolution loop\<close>

definition far_away :: nat where
  "far_away = 2 ^ 30"

lemma far_away_gt: "2 < far_away" "1 < far_away"
  by (simp_all add: far_away_def)

text \<open>
  The loop over the rows: an exact match returns at once; otherwise the near candidates and the best
  distance so far are carried on. \<open>bestDist\<close> starts at \<open>1 << 30\<close>.
\<close>

fun resolve_loop :: "unicode \<Rightarrow> gostring \<Rightarrow> gostring \<Rightarrow> ShortIDRow list \<Rightarrow>
    Alt list \<Rightarrow> nat \<Rightarrow> uuid option \<Rightarrow> uuid + (Alt list \<times> nat \<times> uuid option)" where
  "resolve_loop U needle needleSoundex [] alts bestDist bestID = Inr (alts, bestDist, bestID)"
| "resolve_loop U needle needleSoundex (row # rows) alts bestDist bestID =
     (let cand = ToLower U (sr_ShortID row) in
      if cand = needle then Inl (sr_ID row)
      else
        let d = Levenshtein needle cand;
            soundexEqual = (needleSoundex \<noteq> [] \<and> Soundex U (sr_ShortID row) = needleSoundex);
            alts = (if d \<le> 2 \<or> soundexEqual
              then alts @ [\<lparr>alt_ShortID = sr_ShortID row, alt_ContactID = sr_ID row, alt_Distance = d\<rparr>] else alts)
        in if d < bestDist
           then resolve_loop U needle needleSoundex rows alts d (Some (sr_ID row))
           else resolve_loop U needle needleSoundex rows alts bestDist bestID)"

definition resolve_rows :: "unicode \<Rightarrow> gostring \<Rightarrow> ShortIDRow list \<Rightarrow> Match" where
  "resolve_rows U shortID rows =
     (case resolve_loop U (ToLower U shortID) (Soundex U shortID) rows [] far_away None of
        Inl i \<Rightarrow> \<lparr>mt_ShortIDMatch = MatchExact, mt_ContactID = Some i, mt_Alternatives = []\<rparr>
      | Inr (alts, bestDist, bestID) \<Rightarrow>
          let alts = sort_key alt_Distance alts in
          if bestDist = 1 then \<lparr>mt_ShortIDMatch = MatchLev1, mt_ContactID = bestID, mt_Alternatives = alts\<rparr>
          else if bestDist = 2 then \<lparr>mt_ShortIDMatch = MatchLev2, mt_ContactID = bestID, mt_Alternatives = alts\<rparr>
          else \<lparr>mt_ShortIDMatch = MatchNone, mt_ContactID = None, mt_Alternatives = alts\<rparr>)"

definition Resolve :: "env \<Rightarrow> uuid \<Rightarrow> gostring \<Rightarrow> (world, db_error + Match) prog" where
  "Resolve E tenantID shortID =
     State_Monad.bind (store (ListContactShortIDs tenantID)) (\<lambda>r. case r of
        Inl e \<Rightarrow> ret (Inl e)
      | Inr rows \<Rightarrow> ret (Inr (resolve_rows (e_uni E) shortID rows)))"

section \<open>What the loop computes\<close>

definition cand_dist :: "unicode \<Rightarrow> gostring \<Rightarrow> ShortIDRow \<Rightarrow> nat" where
  "cand_dist U shortID row = Levenshtein (ToLower U shortID) (ToLower U (sr_ShortID row))"

definition near :: "unicode \<Rightarrow> gostring \<Rightarrow> ShortIDRow \<Rightarrow> bool" where
  "near U shortID row \<longleftrightarrow> cand_dist U shortID row \<le> 2 \<or>
     (Soundex U shortID \<noteq> [] \<and> Soundex U (sr_ShortID row) = Soundex U shortID)"

definition alt_of :: "unicode \<Rightarrow> gostring \<Rightarrow> ShortIDRow \<Rightarrow> Alt" where
  "alt_of U shortID row = \<lparr>alt_ShortID = sr_ShortID row, alt_ContactID = sr_ID row,
     alt_Distance = cand_dist U shortID row\<rparr>"

text \<open>The first row at a minimal distance below a bound.\<close>

fun closest :: "unicode \<Rightarrow> gostring \<Rightarrow> ShortIDRow list \<Rightarrow> nat \<Rightarrow> uuid option \<Rightarrow> nat \<times> uuid option" where
  "closest U shortID [] b i = (b, i)"
| "closest U shortID (row # rows) b i =
     (if cand_dist U shortID row < b then closest U shortID rows (cand_dist U shortID row) (Some (sr_ID row))
      else closest U shortID rows b i)"

definition exact_row :: "unicode \<Rightarrow> gostring \<Rightarrow> ShortIDRow \<Rightarrow> bool" where
  "exact_row U shortID row \<longleftrightarrow> ToLower U (sr_ShortID row) = ToLower U shortID"

lemma exact_row_dist: "exact_row U s row \<longleftrightarrow> cand_dist U s row = 0"
  by (auto simp: exact_row_def cand_dist_def Levenshtein_0)

lemma resolve_loop_result:
  "resolve_loop U (ToLower U s) (Soundex U s) rows alts b i =
     (case List.find (exact_row U s) rows of
        Some row \<Rightarrow> Inl (sr_ID row)
      | None \<Rightarrow> Inr (alts @ map (alt_of U s) (filter (near U s) rows), closest U s rows b i))"
proof (induction rows arbitrary: alts b i)
  case Nil
  then show ?case by simp
next
  case (Cons row rows)
  then show ?case
    by (simp add: exact_row_def near_def cand_dist_def alt_of_def Let_def split: option.splits)
qed

lemma closest_skip:
  "b \<le> k \<Longrightarrow> (\<forall>row\<in>set rows. k \<le> cand_dist U s row) \<Longrightarrow> closest U s rows b i = (b, i)"
  by (induction rows) auto

lemma closest_first:
  assumes "List.find (\<lambda>row. cand_dist U s row = k) rows = Some row"
    and "\<forall>row\<in>set rows. k \<le> cand_dist U s row" and "k < b"
  shows "closest U s rows b i = (k, Some (sr_ID row))"
  using assms
proof (induction rows arbitrary: b i)
  case Nil
  then show ?case by simp
next
  case (Cons r rows)
  show ?case
  proof (cases "cand_dist U s r = k")
    case True
    then show ?thesis using Cons.prems closest_skip[of k k rows U s] by simp
  next
    case False
    then show ?thesis using Cons.prems by (auto intro!: Cons.IH)
  qed
qed

lemma closest_far:
  assumes "\<forall>row\<in>set rows. k < cand_dist U s row" and "k < b"
  shows "k < fst (closest U s rows b i)"
  using assms by (induction rows arbitrary: b i) auto

lemma find_dist_None: "List.find (\<lambda>row. cand_dist U s row = k) rows = None \<longleftrightarrow> (\<forall>row\<in>set rows. cand_dist U s row \<noteq> k)"
  by (simp add: find_None_all)

text \<open>
  C28. Resolution of a short id against the address book: a row that equals it up to case wins (the
  first such row) with no alternatives; otherwise the first row one edit away, otherwise the first
  row two edits away, otherwise nothing matches. Without an exact match the alternatives are exactly
  the rows within two edits or with the same Soundex code, ranked by distance, ties in row order.
\<close>

theorem Resolve_picks_closest:
  "case List.find (exact_row U s) rows of
     Some row \<Rightarrow> resolve_rows U s rows =
       \<lparr>mt_ShortIDMatch = MatchExact, mt_ContactID = Some (sr_ID row), mt_Alternatives = []\<rparr>
   | None \<Rightarrow> resolve_rows U s rows =
       (case (List.find (\<lambda>row. cand_dist U s row = 1) rows, List.find (\<lambda>row. cand_dist U s row = 2) rows) of
          (Some row, _) \<Rightarrow> \<lparr>mt_ShortIDMatch = MatchLev1, mt_ContactID = Some (sr_ID row),
             mt_Alternatives = sort_key alt_Distance (map (alt_of U s) (filter (near U s) rows))\<rparr>
        | (None, Some row) \<Rightarrow> \<lparr>mt_ShortIDMatch = MatchLev2, mt_ContactID = Some (sr_ID row),
             mt_Alternatives = sort_key alt_Distance (map (alt_of U s) (filter (near U s) rows))\<rparr>
        | (None, None) \<Rightarrow> \<lparr>mt_ShortIDMatch = MatchNone, mt_ContactID = None,
             mt_Alternatives = sort_key alt_Distance (map (alt_of U s) (filter (near U s) rows))\<rparr>)"
proof (cases "List.find (exact_row U s) rows")
  case (Some row)
  then show ?thesis by (simp add: resolve_rows_def resolve_loop_result)
next
  case None
  have pos: "\<forall>row\<in>set rows. 1 \<le> cand_dist U s row"
    using None by (auto simp: find_None_all exact_row_dist Suc_le_eq)
  obtain b i where c: "closest U s rows far_away None = (b, i)"
    by (cases "closest U s rows far_away None")
  note unfold = resolve_rows_def resolve_loop_result None c Let_def
  show ?thesis
  proof (cases "List.find (\<lambda>row. cand_dist U s row = 1) rows")
    case (Some row)
    then have "b = 1" "i = Some (sr_ID row)" using closest_first[OF Some pos far_away_gt(2), of None] c by auto
    then show ?thesis using Some by (simp add: unfold)
  next
    case none1: None
    then have two: "\<forall>row\<in>set rows. 2 \<le> cand_dist U s row"
      using pos by (auto simp: find_dist_None) (metis One_nat_def Suc_leI le_neq_implies_less numeral_2_eq_2)
    show ?thesis
    proof (cases "List.find (\<lambda>row. cand_dist U s row = 2) rows")
      case (Some row)
      then have "b = 2" "i = Some (sr_ID row)" using closest_first[OF Some two far_away_gt(1), of None] c by auto
      then show ?thesis using Some none1 by (simp add: unfold)
    next
      case none2: None
      then have "\<forall>row\<in>set rows. 2 < cand_dist U s row"
        using two by (auto simp: find_dist_None) (metis le_neq_implies_less)
      then have "2 < b" using closest_far[of rows 2 U s far_away None] c far_away_gt by simp
      then show ?thesis using none1 none2 by (simp add: unfold)
    qed
  qed
qed

text \<open>
  The uniqueness of short ids is up to case and resolution is not: with two contacts whose short
  ids differ only in case, a message that spells one of them exactly resolves, as an exact match, to
  whichever row the unordered query lists first, so possibly to the other contact.
\<close>

theorem Resolve_case_twins:
  "resolve_rows ascii_only (str ''HMB'')
     [\<lparr>sr_ID = 1, sr_ShortID = str ''hmb'', sr_DisplayName = []\<rparr>,
      \<lparr>sr_ID = 2, sr_ShortID = str ''HMB'', sr_DisplayName = []\<rparr>] =
   \<lparr>mt_ShortIDMatch = MatchExact, mt_ContactID = Some 1, mt_Alternatives = []\<rparr>"
  by (simp add: resolve_rows_def resolve_loop_result exact_row_def ToLower_def lower_rune_def
      ascii_upper_letter_def str_def)

end
