(* ===== verification/Canonical.thy ===== *)
theory Canonical
  imports Json
begin

text \<open>
  The canonical message (\<open>internal/canonical\<close> of both services): the contract the webhook service
  produces and the channels service consumes, as a record, with the webhook's JSON encoding and the
  channels' decoding.
\<close>

section \<open>The schema\<close>

record Sender =
  se_Endpoint :: gostring
  se_Platform :: gostring
  se_Handle :: "gostring option"
  se_FullName :: "gostring option"
  se_FirstName :: "gostring option"
  se_LastName :: "gostring option"
  se_Email :: "gostring option"
  se_AvatarURL :: "gostring option"

record Attachment =
  at_Type :: gostring
  at_URL :: gostring
  at_Mime :: "gostring option"
  at_Filename :: "gostring option"

record Location =
  lo_Lat :: rat
  lo_Lng :: rat

record Body =
  bd_Text :: "gostring option"
  bd_Attachments :: "Attachment list"
  bd_Location :: "Location option"

record Meta =
  me_PlatformMessageID :: gostring
  me_ReceivedAt :: gostring
  me_InReplyToID :: "gostring option"
  me_AccountID :: gostring
  me_RawPayload :: "json option"

record CanonicalMessage =
  cm_Sender :: Sender
  cm_Body :: Body
  cm_Meta :: Meta

section \<open>Encoding\<close>

definition str_ptr :: "gostring option \<Rightarrow> json" where
  "str_ptr = json_ptr JStr"

definition sender_json :: "Sender \<Rightarrow> json" where
  "sender_json s = JObj [(str ''endpoint'', JStr (se_Endpoint s)), (str ''platform'', JStr (se_Platform s)),
     (str ''handle'', str_ptr (se_Handle s)), (str ''full_name'', str_ptr (se_FullName s)),
     (str ''first_name'', str_ptr (se_FirstName s)), (str ''last_name'', str_ptr (se_LastName s)),
     (str ''email'', str_ptr (se_Email s)), (str ''avatar_url'', str_ptr (se_AvatarURL s))]"

text \<open>The webhook's attachment has no \<open>filename\<close> field; the channels' one has.\<close>

definition webhook_attachment_json :: "Attachment \<Rightarrow> json" where
  "webhook_attachment_json a = JObj [(str ''type'', JStr (at_Type a)), (str ''url'', JStr (at_URL a)),
     (str ''mime'', str_ptr (at_Mime a))]"

definition attachment_json :: "Attachment \<Rightarrow> json" where
  "attachment_json a = JObj [(str ''type'', JStr (at_Type a)), (str ''url'', JStr (at_URL a)),
     (str ''mime'', str_ptr (at_Mime a)), (str ''filename'', str_ptr (at_Filename a))]"

definition location_json :: "Location \<Rightarrow> json" where
  "location_json l = JObj [(str ''lat'', JNum (lo_Lat l)), (str ''lng'', JNum (lo_Lng l))]"

text \<open>A nil slice is \<open>null\<close>; an empty and a nil slice are the same value here, and encode as \<open>null\<close>.\<close>

definition body_json :: "Body \<Rightarrow> json" where
  "body_json b = JObj [(str ''text'', str_ptr (bd_Text b)),
     (str ''attachments'', if bd_Attachments b = [] then JNull else JArr (map webhook_attachment_json (bd_Attachments b))),
     (str ''location'', json_ptr location_json (bd_Location b))]"

definition meta_json :: "Meta \<Rightarrow> json" where
  "meta_json m = JObj [(str ''platform_message_id'', JStr (me_PlatformMessageID m)),
     (str ''received_at'', JStr (me_ReceivedAt m)), (str ''in_reply_to_id'', str_ptr (me_InReplyToID m)),
     (str ''account_id'', JStr (me_AccountID m)), (str ''raw_payload'', json_ptr (\<lambda>j. j) (me_RawPayload m))]"

definition message_json :: "CanonicalMessage \<Rightarrow> json" where
  "message_json m = JObj [(str ''sender'', sender_json (cm_Sender m)), (str ''body'', body_json (cm_Body m)),
     (str ''meta'', meta_json (cm_Meta m))]"

section \<open>Decoding\<close>

text \<open>A struct field holds every object given for it, one after the other.\<close>

fun struct_field :: "json list \<Rightarrow> (gostring \<times> json) list option" where
  "struct_field [] = Some []"
| "struct_field (JNull # js) = struct_field js"
| "struct_field (JObj kvs # js) = map_option (\<lambda>r. kvs @ r) (struct_field js)"
| "struct_field (_ # js) = None"

text \<open>A pointer to a struct: \<open>null\<close> resets it.\<close>

fun struct_ptr_field :: "json list \<Rightarrow> (gostring \<times> json) list option \<Rightarrow> (gostring \<times> json) list option option" where
  "struct_ptr_field [] v = Some v"
| "struct_ptr_field (JNull # js) v = struct_ptr_field js None"
| "struct_ptr_field (JObj kvs # js) v =
     struct_ptr_field js (Some (case v of None \<Rightarrow> kvs | Some old \<Rightarrow> old @ kvs))"
| "struct_ptr_field (_ # js) v = None"

definition str_field :: "unicode \<Rightarrow> string \<Rightarrow> (gostring \<times> json) list \<Rightarrow> gostring option" where
  "str_field U n kvs = decode_string (members U (str n) kvs) []"

definition ptr_field :: "unicode \<Rightarrow> string \<Rightarrow> (gostring \<times> json) list \<Rightarrow> gostring option option" where
  "ptr_field U n kvs = decode_string_ptr (members U (str n) kvs) None"

definition decode_sender :: "unicode \<Rightarrow> (gostring \<times> json) list \<Rightarrow> Sender option" where
  "decode_sender U kvs = do {
     endpoint \<leftarrow> str_field U ''endpoint'' kvs;
     platform \<leftarrow> str_field U ''platform'' kvs;
     handle \<leftarrow> ptr_field U ''handle'' kvs;
     full_name \<leftarrow> ptr_field U ''full_name'' kvs;
     first_name \<leftarrow> ptr_field U ''first_name'' kvs;
     last_name \<leftarrow> ptr_field U ''last_name'' kvs;
     email \<leftarrow> ptr_field U ''email'' kvs;
     avatar_url \<leftarrow> ptr_field U ''avatar_url'' kvs;
     Some \<lparr>se_Endpoint = endpoint, se_Platform = platform, se_Handle = handle, se_FullName = full_name,
       se_FirstName = first_name, se_LastName = last_name, se_Email = email, se_AvatarURL = avatar_url\<rparr> }"

definition decode_attachment :: "unicode \<Rightarrow> json \<Rightarrow> Attachment option" where
  "decode_attachment U j = do {
     kvs \<leftarrow> struct_members j;
     ty \<leftarrow> str_field U ''type'' kvs;
     url \<leftarrow> str_field U ''url'' kvs;
     mime \<leftarrow> ptr_field U ''mime'' kvs;
     filename \<leftarrow> ptr_field U ''filename'' kvs;
     Some \<lparr>at_Type = ty, at_URL = url, at_Mime = mime, at_Filename = filename\<rparr> }"

fun decode_each :: "('a \<Rightarrow> 'b option) \<Rightarrow> 'a list \<Rightarrow> 'b list option" where
  "decode_each f [] = Some []"
| "decode_each f (x # xs) = (case f x of None \<Rightarrow> None | Some y \<Rightarrow> map_option (\<lambda>ys. y # ys) (decode_each f xs))"

text \<open>The webhook's attachment, which has no \<open>filename\<close> field: the member is an unknown one there.\<close>

definition decode_webhook_attachment :: "unicode \<Rightarrow> json \<Rightarrow> Attachment option" where
  "decode_webhook_attachment U j = do {
     kvs \<leftarrow> struct_members j;
     ty \<leftarrow> str_field U ''type'' kvs;
     url \<leftarrow> str_field U ''url'' kvs;
     mime \<leftarrow> ptr_field U ''mime'' kvs;
     Some \<lparr>at_Type = ty, at_URL = url, at_Mime = mime, at_Filename = None\<rparr> }"

text \<open>The rest of a message is decoded alike in both services, around the decoder \<open>att\<close> of one attachment.\<close>

fun decode_attachments :: "(json \<Rightarrow> Attachment option) \<Rightarrow> json list \<Rightarrow> Attachment list \<Rightarrow> Attachment list option" where
  "decode_attachments att [] v = Some v"
| "decode_attachments att (JNull # js) v = decode_attachments att js []"
| "decode_attachments att (JArr xs # js) v =
     (case decode_each att xs of None \<Rightarrow> None | Some as \<Rightarrow> decode_attachments att js as)"
| "decode_attachments att (_ # js) v = None"

definition decode_location :: "unicode \<Rightarrow> (gostring \<times> json) list option \<Rightarrow> Location option option" where
  "decode_location U v = (case v of None \<Rightarrow> Some None
   | Some kvs \<Rightarrow> do {
       lat \<leftarrow> decode_float (members U (str ''lat'') kvs) 0;
       lng \<leftarrow> decode_float (members U (str ''lng'') kvs) 0;
       Some (Some \<lparr>lo_Lat = lat, lo_Lng = lng\<rparr>) })"

definition decode_body :: "(json \<Rightarrow> Attachment option) \<Rightarrow> unicode \<Rightarrow> (gostring \<times> json) list \<Rightarrow> Body option" where
  "decode_body att U kvs = do {
     text \<leftarrow> ptr_field U ''text'' kvs;
     atts \<leftarrow> decode_attachments att (members U (str ''attachments'') kvs) [];
     lkvs \<leftarrow> struct_ptr_field (members U (str ''location'') kvs) None;
     loc \<leftarrow> decode_location U lkvs;
     Some \<lparr>bd_Text = text, bd_Attachments = atts, bd_Location = loc\<rparr> }"

definition decode_meta :: "unicode \<Rightarrow> (gostring \<times> json) list \<Rightarrow> Meta option" where
  "decode_meta U kvs = do {
     pmid \<leftarrow> str_field U ''platform_message_id'' kvs;
     received_at \<leftarrow> str_field U ''received_at'' kvs;
     in_reply_to \<leftarrow> ptr_field U ''in_reply_to_id'' kvs;
     account_id \<leftarrow> str_field U ''account_id'' kvs;
     Some \<lparr>me_PlatformMessageID = pmid, me_ReceivedAt = received_at, me_InReplyToID = in_reply_to,
       me_AccountID = account_id, me_RawPayload = decode_raw (members U (str ''raw_payload'') kvs)\<rparr> }"

definition decode_message_with :: "(json \<Rightarrow> Attachment option) \<Rightarrow> unicode \<Rightarrow> json \<Rightarrow> CanonicalMessage option" where
  "decode_message_with att U j = do {
     kvs \<leftarrow> struct_members j;
     skvs \<leftarrow> struct_field (members U (str ''sender'') kvs);
     bkvs \<leftarrow> struct_field (members U (str ''body'') kvs);
     mkvs \<leftarrow> struct_field (members U (str ''meta'') kvs);
     sender \<leftarrow> decode_sender U skvs;
     body \<leftarrow> decode_body att U bkvs;
     meta \<leftarrow> decode_meta U mkvs;
     Some \<lparr>cm_Sender = sender, cm_Body = body, cm_Meta = meta\<rparr> }"

definition decode_message :: "unicode \<Rightarrow> json \<Rightarrow> CanonicalMessage option" where
  "decode_message U = decode_message_with (decode_attachment U) U"

definition decode_webhook_message :: "unicode \<Rightarrow> json \<Rightarrow> CanonicalMessage option" where
  "decode_webhook_message U = decode_message_with (decode_webhook_attachment U) U"

section \<open>The contract round trip\<close>

lemma decode_string_single [simp]: "decode_string [JStr s] v = Some s"
  by simp

lemma decode_ptr_single [simp]: "decode_string_ptr [str_ptr v] w = Some v"
  by (cases v) (simp_all add: str_ptr_def json_ptr_def)

definition float64 :: "rat \<Rightarrow> bool" where
  "float64 x \<longleftrightarrow> float64_of x = Some x"

lemma decode_sender_json: "struct_members (sender_json s) = Some kvs \<Longrightarrow> decode_sender U kvs = Some s"
  by (auto simp: sender_json_def decode_sender_def str_field_def ptr_field_def name_simps)

lemma decode_attachment_json:
  "at_Filename a = None \<Longrightarrow> decode_attachment U (webhook_attachment_json a) = Some a"
  by (simp add: webhook_attachment_json_def decode_attachment_def str_field_def ptr_field_def name_simps)

lemma decode_webhook_attachment_json:
  "at_Filename a = None \<Longrightarrow> decode_webhook_attachment U (webhook_attachment_json a) = Some a"
  by (simp add: webhook_attachment_json_def decode_webhook_attachment_def str_field_def ptr_field_def name_simps)

lemma decode_each_map:
  "(\<And>x. x \<in> set xs \<Longrightarrow> f (g x) = Some x) \<Longrightarrow> decode_each f (map g xs) = Some xs"
  by (induction xs) auto

lemma decode_float_single: "float64 x \<Longrightarrow> decode_float [JNum x] v = Some x"
  by (simp add: float64_def)

lemma decode_location_json:
  assumes "\<And>l. v = Some l \<Longrightarrow> float64 (lo_Lat l) \<and> float64 (lo_Lng l)"
  shows "Option.bind (struct_ptr_field [json_ptr location_json v] None) (decode_location U) = Some v"
proof (cases v)
  case None
  then show ?thesis by (simp add: json_ptr_def decode_location_def)
next
  case (Some l)
  then show ?thesis
    using assms[OF Some]
    by (simp add: json_ptr_def decode_location_def location_json_def name_simps decode_float_single
        del: decode_float.simps)
qed

lemma decode_body_json:
  assumes "\<And>a. a \<in> set (bd_Attachments b) \<Longrightarrow> att (webhook_attachment_json a) = Some a"
    and "\<And>l. bd_Location b = Some l \<Longrightarrow> float64 (lo_Lat l) \<and> float64 (lo_Lng l)"
    and "struct_members (body_json b) = Some kvs"
  shows "decode_body att U kvs = Some b"
proof -
  have atts: "decode_attachments att [if bd_Attachments b = [] then JNull
       else JArr (map webhook_attachment_json (bd_Attachments b))] [] = Some (bd_Attachments b)"
    using decode_each_map[of "bd_Attachments b" att webhook_attachment_json] assms(1) by simp
  have m: "members U (str ''text'') kvs = [str_ptr (bd_Text b)]"
    "members U (str ''attachments'') kvs = [if bd_Attachments b = [] then JNull
       else JArr (map webhook_attachment_json (bd_Attachments b))]"
    "members U (str ''location'') kvs = [json_ptr location_json (bd_Location b)]"
    using assms(3) by (auto simp: body_json_def name_simps)
  obtain lk where lk: "struct_ptr_field [json_ptr location_json (bd_Location b)] None = Some lk"
      "decode_location U lk = Some (bd_Location b)"
    using decode_location_json[where v = "bd_Location b" and U = U] assms(2) by (auto simp: bind_eq_Some_conv)
  show ?thesis
    unfolding decode_body_def m ptr_field_def atts lk by (simp add: lk)
qed

lemma decode_meta_json:
  "struct_members (meta_json m) = Some kvs \<Longrightarrow>
   decode_meta U kvs = Some (m\<lparr>me_RawPayload := Some (json_ptr (\<lambda>j. j) (me_RawPayload m))\<rparr>)"
  by (auto simp: meta_json_def decode_meta_def str_field_def ptr_field_def name_simps decode_raw_def)

definition representable :: "CanonicalMessage \<Rightarrow> bool" where
  "representable m \<longleftrightarrow> (\<forall>a\<in>set (bd_Attachments (cm_Body m)). at_Filename a = None) \<and>
     (case bd_Location (cm_Body m) of None \<Rightarrow> True | Some l \<Rightarrow> float64 (lo_Lat l) \<and> float64 (lo_Lng l))"

lemma round_trip_with:
  assumes "representable m" and "\<And>a. at_Filename a = None \<Longrightarrow> att (webhook_attachment_json a) = Some a"
  shows "decode_message_with att U (message_json m) =
    Some (m\<lparr>cm_Meta := (cm_Meta m)\<lparr>me_RawPayload := Some (json_ptr (\<lambda>j. j) (me_RawPayload (cm_Meta m)))\<rparr>\<rparr>)"
proof -
  obtain sk where s: "struct_members (sender_json (cm_Sender m)) = Some sk" "sender_json (cm_Sender m) = JObj sk"
    by (simp add: sender_json_def)
  obtain bk where b: "struct_members (body_json (cm_Body m)) = Some bk" "body_json (cm_Body m) = JObj bk"
    by (simp add: body_json_def)
  obtain mk where mt: "struct_members (meta_json (cm_Meta m)) = Some mk" "meta_json (cm_Meta m) = JObj mk"
    by (simp add: meta_json_def)
  have "decode_body att U bk = Some (cm_Body m)"
    using assms b(1) by (intro decode_body_json) (auto simp: representable_def)
  then show ?thesis
    using decode_sender_json[OF s(1)] decode_meta_json[OF mt(1)]
    by (simp add: decode_message_with_def message_json_def name_simps s(2) b(2) mt(2))
qed

text \<open>What the webhook itself reads back, from its queue.\<close>

lemma webhook_round_trip:
  "representable m \<Longrightarrow> decode_webhook_message U (message_json m) =
    Some (m\<lparr>cm_Meta := (cm_Meta m)\<lparr>me_RawPayload := Some (json_ptr (\<lambda>j. j) (me_RawPayload (cm_Meta m)))\<rparr>\<rparr>)"
  by (simp add: decode_webhook_message_def round_trip_with decode_webhook_attachment_json)

text \<open>
  C29. The channels service reads back every message the webhook service encodes: all sender, body
  and delivery fields, null or not, are the same on both sides, and a missing raw payload arrives as
  the JSON value null. (The webhook has no attachment file names, and coordinates are doubles.)
\<close>

theorem canonical_round_trip:
  assumes "representable m"
  shows "decode_message U (message_json m) =
    Some (m\<lparr>cm_Meta := (cm_Meta m)\<lparr>me_RawPayload := Some (json_ptr (\<lambda>j. j) (me_RawPayload (cm_Meta m)))\<rparr>\<rparr>)"
  unfolding decode_message_def using round_trip_with[OF assms, of "decode_attachment U" U] decode_attachment_json by blast

definition demo_message :: CanonicalMessage where
  "demo_message = \<lparr>
     cm_Sender = \<lparr>se_Endpoint = str ''+15550001'', se_Platform = str ''whatsapp'', se_Handle = None,
       se_FullName = None, se_FirstName = None, se_LastName = None, se_Email = None, se_AvatarURL = None\<rparr>,
     cm_Body = \<lparr>bd_Text = Some (str ''42 STATUS ok''), bd_Attachments = [], bd_Location = None\<rparr>,
     cm_Meta = \<lparr>me_PlatformMessageID = str ''wamid.1'', me_ReceivedAt = str ''500'', me_InReplyToID = None,
       me_AccountID = str ''7'', me_RawPayload = None\<rparr>\<rparr>"

theorem canonical_round_trip_witness:
  "decode_message ascii_only (message_json demo_message) =
    Some (demo_message\<lparr>cm_Meta := (cm_Meta demo_message)\<lparr>me_RawPayload := Some JNull\<rparr>\<rparr>)"
  using canonical_round_trip[of demo_message ascii_only]
  by (simp add: representable_def demo_message_def json_ptr_def)

end
