(* ===== verification/Queries_Registry.thy ===== *)
theory Queries_Registry
  imports Queries_Messages "HOL-Library.List_Lexorder"
begin

text \<open>
  The queries on tenants, accounts, channels, their links and contacts (\<open>goqueries/tenants.sql.go\<close>,
  \<open>accounts.sql.go\<close>, \<open>channels.sql.go\<close>, \<open>contacts.sql.go\<close>, \<open>diagnostics.sql.go\<close>, the contact pages of
  \<open>export.sql.go\<close> and \<open>system.sql.go\<close>), as functions of the database. Texts are ordered by code point
  (the \<open>C\<close> collation).
\<close>

section \<open>Tenants\<close>

definition Ping :: "int query" where
  "Ping d = (Inr 1, d)"

definition CreateTenant :: "Tenant \<Rightarrow> Tenant query" where
  "CreateTenant t d =
     (if tn_id t \<in> set (tenant_ids d) then (Inl NoRows, d)
      else commit d (d\<lparr>tenants := tenants d @ [t]\<rparr>) t)"

definition GetTenant :: "uuid \<Rightarrow> Tenant query" where
  "GetTenant i d = (one_row (List.find (\<lambda>t. tn_id t = i) (tenants d)), d)"

definition ListTenants :: "Tenant list query" where
  "ListTenants d = (Inr (sort_key tn_created_at (tenants d)), d)"

section \<open>Accounts\<close>

definition CreateAccount :: "Account \<Rightarrow> Account query" where
  "CreateAccount a d = commit d (d\<lparr>accounts := accounts d @ [a]\<rparr>) a"

definition account_in :: "uuid \<Rightarrow> uuid \<Rightarrow> Account \<Rightarrow> bool" where
  "account_in i t a \<longleftrightarrow> acc_id a = i \<and> acc_tenant a = t"

definition DeleteAccount :: "uuid \<Rightarrow> uuid \<Rightarrow> nat query" where
  "DeleteAccount i t d =
     commit d (d\<lparr>accounts := filter (\<lambda>a. \<not> account_in i t a) (accounts d)\<rparr>)
       (count_rows (account_in i t) (accounts d))"

definition GetAccountByID :: "uuid \<Rightarrow> Account query" where
  "GetAccountByID i d = (one_row (List.find (\<lambda>a. acc_id a = i) (accounts d)), d)"

definition GetAccountForTenant :: "uuid \<Rightarrow> uuid \<Rightarrow> Account query" where
  "GetAccountForTenant i t d = (one_row (List.find (account_in i t) (accounts d)), d)"

definition ListAccountsForTenant :: "uuid \<Rightarrow> Account list query" where
  "ListAccountsForTenant t d =
     (Inr (sort_desc acc_created_at (filter (\<lambda>a. acc_tenant a = t) (accounts d))), d)"

definition LookupAccount :: "gostring \<Rightarrow> gostring \<Rightarrow> (uuid \<times> uuid) query" where
  "LookupAccount ty ident d =
     (one_row (map_option (\<lambda>a. (acc_id a, acc_tenant a))
        (List.find (\<lambda>a. acc_type a = ty \<and> acc_platform_identifier a = ident \<and> acc_status a = str ''active'')
           (accounts d))), d)"

record UpdateAccountParams =
  ua_ID :: uuid
  ua_TenantID :: uuid
  ua_Label :: gostring
  ua_Status :: gostring
  ua_Capabilities :: "gostring list"
  ua_CredentialsEncrypted :: bytes

definition updated_account :: "UpdateAccountParams \<Rightarrow> Account \<Rightarrow> Account" where
  "updated_account p a = a\<lparr>acc_label := ua_Label p, acc_status := ua_Status p,
     acc_capabilities := ua_Capabilities p, acc_credentials := ua_CredentialsEncrypted p\<rparr>"

definition UpdateAccount :: "UpdateAccountParams \<Rightarrow> Account query" where
  "UpdateAccount p d =
     (case List.find (account_in (ua_ID p) (ua_TenantID p)) (accounts d) of
        None \<Rightarrow> (Inl NoRows, d)
      | Some a \<Rightarrow> commit d
          (d\<lparr>accounts := map_if (account_in (ua_ID p) (ua_TenantID p)) (updated_account p) (accounts d)\<rparr>)
          (updated_account p a))"

section \<open>Channels and their account links\<close>

definition CreateChannel :: "Channel \<Rightarrow> Channel query" where
  "CreateChannel c d = commit d (d\<lparr>channels := channels d @ [c]\<rparr>) c"

definition channel_in :: "uuid \<Rightarrow> uuid \<Rightarrow> Channel \<Rightarrow> bool" where
  "channel_in i t c \<longleftrightarrow> ch_id c = i \<and> ch_tenant c = t"

definition GetChannelForTenant :: "uuid \<Rightarrow> uuid \<Rightarrow> Channel query" where
  "GetChannelForTenant i t d = (one_row (List.find (channel_in i t) (channels d)), d)"

definition ListChannelsForTenant :: "uuid \<Rightarrow> Channel list query" where
  "ListChannelsForTenant t d =
     (Inr (sort_key ch_created_at (filter (\<lambda>c. ch_tenant c = t) (channels d))), d)"

definition inbound_link :: "ChannelAccount \<Rightarrow> bool" where
  "inbound_link l \<longleftrightarrow> ca_direction l \<in> {str ''inbound'', str ''both''}"

definition outbound_link :: "ChannelAccount \<Rightarrow> bool" where
  "outbound_link l \<longleftrightarrow> ca_direction l \<in> {str ''outbound'', str ''both''}"

text \<open>The join of links with their channels, in link order.\<close>

definition linked_channels :: "(ChannelAccount \<Rightarrow> bool) \<Rightarrow> db \<Rightarrow> (ChannelAccount \<times> Channel) list" where
  "linked_channels P d =
     concat (map (\<lambda>l. map (\<lambda>c. (l, c)) (filter (\<lambda>c. ch_id c = ca_channel l) (channels d)))
       (filter P (channel_accounts d)))"

definition inbound_channel :: "uuid \<Rightarrow> db \<Rightarrow> Channel option" where
  "inbound_channel acc d = map_option snd (first_of (sort_desc (\<lambda>(l, c). ca_priority l)
     (linked_channels (\<lambda>l. ca_account l = acc \<and> inbound_link l) d)))"

record InboundChannelRow =
  ic_ID :: uuid
  ic_ParserConfig :: json
  ic_ConfidenceThresholds :: json
  ic_RecallWindowSeconds :: int
  ic_WorkflowUrl :: "gostring option"
  ic_ReplyPolicy :: gostring

definition GetInboundChannelForAccount :: "uuid \<Rightarrow> InboundChannelRow query" where
  "GetInboundChannelForAccount acc d =
     (one_row (map_option (\<lambda>c. \<lparr>ic_ID = ch_id c, ic_ParserConfig = ch_parser_config c,
          ic_ConfidenceThresholds = ch_thresholds c, ic_RecallWindowSeconds = ch_recall_window c,
          ic_WorkflowUrl = ch_workflow_url c, ic_ReplyPolicy = ch_reply_policy c\<rparr>)
        (inbound_channel acc d)), d)"

definition GetOutboundAccountForChannel :: "uuid \<Rightarrow> (uuid \<times> uuid) query" where
  "GetOutboundAccountForChannel chan d =
     (one_row (map_option (\<lambda>(l, c). (ca_account l, ch_tenant c))
        (first_of (sort_desc (\<lambda>(l, c). ca_priority l)
           (linked_channels (\<lambda>l. ca_channel l = chan \<and> outbound_link l) d)))), d)"

definition same_link :: "uuid \<Rightarrow> uuid \<Rightarrow> ChannelAccount \<Rightarrow> bool" where
  "same_link chan acc l \<longleftrightarrow> ca_channel l = chan \<and> ca_account l = acc"

definition LinkAccountToChannel :: "ChannelAccount \<Rightarrow> ChannelAccount query" where
  "LinkAccountToChannel l d =
     (if \<exists>x\<in>set (channel_accounts d). same_link (ca_channel l) (ca_account l) x
      then commit d (d\<lparr>channel_accounts :=
             map_if (same_link (ca_channel l) (ca_account l)) (\<lambda>_. l) (channel_accounts d)\<rparr>) l
      else commit d (d\<lparr>channel_accounts := channel_accounts d @ [l]\<rparr>) l)"

definition UnlinkAccountFromChannel :: "uuid \<Rightarrow> uuid \<Rightarrow> nat query" where
  "UnlinkAccountFromChannel chan acc d =
     commit d (d\<lparr>channel_accounts := filter (\<lambda>l. \<not> same_link chan acc l) (channel_accounts d)\<rparr>)
       (count_rows (same_link chan acc) (channel_accounts d))"

record LinkRow =
  ln_ChannelID :: uuid
  ln_AccountID :: uuid
  ln_Direction :: gostring
  ln_Priority :: int
  ln_RoutingFilter :: "json option"
  ln_Type :: gostring
  ln_PlatformIdentifier :: gostring
  ln_Label :: gostring
  ln_Status :: gostring

definition link_row :: "ChannelAccount \<Rightarrow> Account \<Rightarrow> LinkRow" where
  "link_row l a = \<lparr>ln_ChannelID = ca_channel l, ln_AccountID = ca_account l, ln_Direction = ca_direction l,
     ln_Priority = ca_priority l, ln_RoutingFilter = ca_routing_filter l, ln_Type = acc_type a,
     ln_PlatformIdentifier = acc_platform_identifier a, ln_Label = acc_label a, ln_Status = acc_status a\<rparr>"

definition ListAccountLinksForChannel :: "uuid \<Rightarrow> LinkRow list query" where
  "ListAccountLinksForChannel chan d =
     (Inr (sort_desc ln_Priority (concat (map (\<lambda>l.
        map (link_row l) (filter (\<lambda>a. acc_id a = ca_account l) (accounts d)))
        (filter (\<lambda>l. ca_channel l = chan) (channel_accounts d))))), d)"

record UpdateChannelParams =
  uc_Name :: "gostring option"
  uc_ParserConfig :: "json option"
  uc_WorkflowUrl :: "gostring option"
  uc_ReplyPolicy :: "gostring option"
  uc_ConfidenceThresholds :: "json option"
  uc_EchoBackEnabled :: "bool option"
  uc_RecallWindowSeconds :: "int option"
  uc_ID :: uuid
  uc_TenantID :: uuid

definition coalesce :: "'a option \<Rightarrow> 'a \<Rightarrow> 'a" where
  "coalesce x y = (case x of None \<Rightarrow> y | Some v \<Rightarrow> v)"

definition updated_channel :: "UpdateChannelParams \<Rightarrow> Channel \<Rightarrow> Channel" where
  "updated_channel p c = c\<lparr>ch_name := coalesce (uc_Name p) (ch_name c),
     ch_parser_config := coalesce (uc_ParserConfig p) (ch_parser_config c),
     ch_workflow_url := (if uc_WorkflowUrl p = None then ch_workflow_url c else uc_WorkflowUrl p),
     ch_reply_policy := coalesce (uc_ReplyPolicy p) (ch_reply_policy c),
     ch_thresholds := coalesce (uc_ConfidenceThresholds p) (ch_thresholds c),
     ch_echo_back := coalesce (uc_EchoBackEnabled p) (ch_echo_back c),
     ch_recall_window := coalesce (uc_RecallWindowSeconds p) (ch_recall_window c)\<rparr>"

definition UpdateChannel :: "UpdateChannelParams \<Rightarrow> Channel query" where
  "UpdateChannel p d =
     (case List.find (channel_in (uc_ID p) (uc_TenantID p)) (channels d) of
        None \<Rightarrow> (Inl NoRows, d)
      | Some c \<Rightarrow> commit d
          (d\<lparr>channels := map_if (channel_in (uc_ID p) (uc_TenantID p)) (updated_channel p) (channels d)\<rparr>)
          (updated_channel p c))"

text \<open>Accounts with the channel their inbound traffic resolves to (the lateral join).\<close>

definition ListAccountsWithRoutingForTenant :: "uuid \<Rightarrow> (Account \<times> uuid option) list query" where
  "ListAccountsWithRoutingForTenant t d =
     (Inr (map (\<lambda>a. (a, map_option ch_id (inbound_channel (acc_id a) d)))
        (sort_desc acc_created_at (filter (\<lambda>a. acc_tenant a = t) (accounts d)))), d)"

section \<open>Contacts\<close>

definition CreateContact :: "Contact \<Rightarrow> Contact query" where
  "CreateContact c d = commit d (d\<lparr>contacts := contacts d @ [c]\<rparr>) c"

definition contact_in :: "uuid \<Rightarrow> uuid \<Rightarrow> Contact \<Rightarrow> bool" where
  "contact_in i t c \<longleftrightarrow> ct_id c = i \<and> ct_tenant c = t"

definition DeleteContact :: "uuid \<Rightarrow> uuid \<Rightarrow> nat query" where
  "DeleteContact i t = drop_contacts (contact_in i t)"

definition GetContactByShortID :: "uuid \<Rightarrow> gostring \<Rightarrow> Contact query" where
  "GetContactByShortID t s d =
     (one_row (List.find (\<lambda>c. ct_tenant c = t \<and> ct_short_id c = s) (contacts d)), d)"

definition GetContactForTenant :: "uuid \<Rightarrow> uuid \<Rightarrow> Contact query" where
  "GetContactForTenant i t d = (one_row (List.find (contact_in i t) (contacts d)), d)"

definition ListContactsForTenant :: "uuid \<Rightarrow> Contact list query" where
  "ListContactsForTenant t d =
     (Inr (sort_key ct_short_id (filter (\<lambda>c. ct_tenant c = t) (contacts d))), d)"

record UpdateContactParams =
  up_ID :: uuid
  up_TenantID :: uuid
  up_DisplayName :: gostring
  up_AoiID :: "gostring option"
  up_Role :: "gostring option"
  up_Status :: gostring
  up_Metadata :: json
  up_UpdatedAt :: time

definition updated_contact :: "UpdateContactParams \<Rightarrow> Contact \<Rightarrow> Contact" where
  "updated_contact p c = c\<lparr>ct_display_name := up_DisplayName p, ct_aoi := up_AoiID p, ct_role := up_Role p,
     ct_status := up_Status p, ct_metadata := up_Metadata p, ct_updated_at := up_UpdatedAt p\<rparr>"

definition UpdateContact :: "UpdateContactParams \<Rightarrow> Contact query" where
  "UpdateContact p d =
     (case List.find (contact_in (up_ID p) (up_TenantID p)) (contacts d) of
        None \<Rightarrow> (Inl NoRows, d)
      | Some c \<Rightarrow> commit d
          (d\<lparr>contacts := map_if (contact_in (up_ID p) (up_TenantID p)) (updated_contact p) (contacts d)\<rparr>)
          (updated_contact p c))"

record OutboundEndpointRow =
  oe_Endpoint :: gostring
  oe_AccountID :: uuid
  oe_ChannelID :: uuid
  oe_TenantID :: uuid

definition GetOutboundEndpointForContact :: "uuid \<Rightarrow> uuid option \<Rightarrow> OutboundEndpointRow query" where
  "GetOutboundEndpointForContact contact chan d =
     (one_row (map_option (\<lambda>(e, c). \<lparr>oe_Endpoint = ce_endpoint e, oe_AccountID = ce_account e,
          oe_ChannelID = ce_channel e, oe_TenantID = ct_tenant c\<rparr>)
        (first_of (sort_desc (\<lambda>(e, c). ce_priority e)
           (concat (map (\<lambda>e. map (\<lambda>c. (e, c)) (filter (\<lambda>c. ct_id c = ce_contact e) (contacts d)))
              (filter (\<lambda>e. ce_contact e = contact \<and> str ''outbound'' \<in> set (ce_capabilities e) \<and>
                   (chan = None \<or> chan = Some (ce_channel e))) (contact_endpoints d))))))), d)"

section \<open>Export of contacts\<close>

definition ExportContactsPage :: "uuid \<Rightarrow> nat \<Rightarrow> time \<Rightarrow> uuid \<Rightarrow> Contact list query" where
  "ExportContactsPage t n after_time after_id d =
     (Inr (take n (sort_key (\<lambda>c. (ct_created_at c, ct_id c))
        (filter (\<lambda>c. ct_tenant c = t \<and> (after_time, after_id) < (ct_created_at c, ct_id c))
           (contacts d)))), d)"

definition ExportEndpointsForContacts :: "uuid list \<Rightarrow> ContactEndpoint list query" where
  "ExportEndpointsForContacts ids d =
     (Inr (sort_key ce_contact (sort_desc ce_priority
        (filter (\<lambda>e. ce_contact e \<in> set ids) (contact_endpoints d)))), d)"

section \<open>Diagnostics\<close>

definition CountAccountsForTenant :: "uuid \<Rightarrow> nat query" where
  "CountAccountsForTenant t d = (Inr (count_rows (\<lambda>a. acc_tenant a = t) (accounts d)), d)"

definition CountChannelsForTenant :: "uuid \<Rightarrow> nat query" where
  "CountChannelsForTenant t d = (Inr (count_rows (\<lambda>c. ch_tenant c = t) (channels d)), d)"

definition CountContactsForTenant :: "uuid \<Rightarrow> nat query" where
  "CountContactsForTenant t d = (Inr (count_rows (\<lambda>c. ct_tenant c = t) (contacts d)), d)"

definition CountMessagesForTenant :: "uuid \<Rightarrow> nat query" where
  "CountMessagesForTenant t d = (Inr (count_rows (\<lambda>m. msg_tenant m = t) (messages d)), d)"

definition ListChannelsWithoutWorkflow :: "uuid \<Rightarrow> (uuid \<times> gostring) list query" where
  "ListChannelsWithoutWorkflow t d =
     (Inr (map (\<lambda>c. (ch_id c, ch_name c)) (sort_key ch_created_at
        (filter (\<lambda>c. ch_tenant c = t \<and> ch_workflow_url c \<in> {None, Some []}) (channels d)))), d)"

definition ListUnroutableAccounts :: "uuid \<Rightarrow> Account list query" where
  "ListUnroutableAccounts t d =
     (Inr (sort_key acc_created_at (filter (\<lambda>a. acc_tenant a = t \<and>
        \<not> (\<exists>l\<in>set (channel_accounts d). ca_account l = acc_id a \<and> inbound_link l)) (accounts d))), d)"

section \<open>Which channel inbound traffic resolves to\<close>

lemma in_linked_channels:
  "(l, c) \<in> set (linked_channels P d) \<longleftrightarrow>
     l \<in> set (channel_accounts d) \<and> P l \<and> c \<in> set (channels d) \<and> ch_id c = ca_channel l"
  by (auto simp: linked_channels_def)

text \<open>Under the foreign keys every link has its channel, so an account resolves exactly when it has an
  inbound link.\<close>

lemma inbound_channel_None:
  assumes "schema_ok d"
  shows "inbound_channel acc d = None \<longleftrightarrow> \<not> (\<exists>l\<in>set (channel_accounts d). ca_account l = acc \<and> inbound_link l)"
proof -
  have "linked_channels (\<lambda>l. ca_account l = acc \<and> inbound_link l) d = [] \<longleftrightarrow>
      \<not> (\<exists>l\<in>set (channel_accounts d). ca_account l = acc \<and> inbound_link l)" (is "?L = [] \<longleftrightarrow> \<not> ?E")
  proof
    assume "?L = []"
    show "\<not> ?E"
    proof
      assume ?E
      then obtain l where l: "l \<in> set (channel_accounts d)" "ca_account l = acc" "inbound_link l" by blast
      then have "ca_channel l \<in> set (channel_ids d)"
        using schema_okD(4)[OF assms] by (auto simp: channel_accounts_ok_def)
      then obtain c where "c \<in> set (channels d)" "ch_id c = ca_channel l" by (auto simp: channel_ids_def)
      then have "(l, c) \<in> set ?L" using l by (simp add: in_linked_channels)
      with \<open>?L = []\<close> show False by simp
    qed
  next
    assume "\<not> ?E"
    then show "?L = []" by (auto simp: linked_channels_def)
  qed
  then show ?thesis by (simp add: inbound_channel_def)
qed

lemma inbound_channel_Some:
  assumes "inbound_channel acc d = Some c"
  shows "\<exists>l. l \<in> set (channel_accounts d) \<and> ca_account l = acc \<and> inbound_link l \<and>
    c \<in> set (channels d) \<and> ch_id c = ca_channel l \<and>
    (\<forall>l' c'. (l', c') \<in> set (linked_channels (\<lambda>l. ca_account l = acc \<and> inbound_link l) d) \<longrightarrow>
       ca_priority l' \<le> ca_priority l)"
proof -
  let ?L = "linked_channels (\<lambda>l. ca_account l = acc \<and> inbound_link l) d"
  obtain l ys where s: "sort_desc (\<lambda>(l, c). ca_priority l) ?L = (l, c) # ys"
    using assms by (auto simp: inbound_channel_def first_of_def split: list.splits)
  have "(l, c) \<in> set ?L" using hd_sort_desc_in[OF s] .
  moreover have "ca_priority l' \<le> ca_priority l" if "(l', c') \<in> set ?L" for l' c'
    using hd_sort_desc_max[OF s that] by simp
  ultimately show ?thesis by (auto simp: in_linked_channels)
qed

end
