(* ===== verification/Ingest.thy ===== *)
theory Ingest
  imports Message_Parser Resolver Workflow Outbound Queries_Registry Canonical
begin

text \<open>
  Component \<open>internal/ingest\<close>: an inbound canonical message is stored once, driven through parse,
  resolve, score and gate, and leaves background work behind: an echo or recall notice to the sender,
  or a delivery to the channel's consumer.
\<close>

section \<open>Configuration and documents\<close>

record channelCtx =
  cc_ID :: "uuid option"
  cc_ParserCfg :: parser_config
  cc_Thresholds :: Thresholds
  cc_RecallSeconds :: int
  cc_WorkflowURL :: gostring
  cc_Mode :: gostring

record Deps =
  dp_ParserCfg :: parser_config
  dp_Thresholds :: Thresholds
  dp_Forwarder :: "Forwarder option"

definition defaultRecallSeconds :: int where
  "defaultRecallSeconds = 120"

definition recallKeyword :: gostring where
  "recallKeyword = str ''OOPS''"

record parsedDoc =
  pd_OK :: bool
  pd_ShortID :: gostring
  pd_Command :: gostring
  pd_KnownCommand :: bool
  pd_Target :: gostring
  pd_TargetKind :: gostring
  pd_Payload :: gostring
  pd_ShortIDMatch :: gostring
  pd_ContactID :: "uuid option"
  pd_Alternatives :: "Alt list"
  pd_Confidence :: rat
  pd_Recall :: bool
  pd_Passthrough :: bool

definition empty_doc :: parsedDoc where
  "empty_doc = \<lparr>pd_OK = False, pd_ShortID = [], pd_Command = [], pd_KnownCommand = False, pd_Target = [],
     pd_TargetKind = str ''none'', pd_Payload = [], pd_ShortIDMatch = [], pd_ContactID = None,
     pd_Alternatives = [], pd_Confidence = 0, pd_Recall = False, pd_Passthrough = False\<rparr>"

definition uuid_json :: "env \<Rightarrow> uuid \<Rightarrow> json" where
  "uuid_json E i = JStr (e_show_uuid E i)"

definition alt_json :: "env \<Rightarrow> Alt \<Rightarrow> json" where
  "alt_json E a = JObj [(str ''short_id'', JStr (alt_ShortID a)),
     (str ''contact_id'', uuid_json E (alt_ContactID a)), (str ''distance'', JNum (of_nat (alt_Distance a)))]"

definition parsedDoc_json :: "env \<Rightarrow> parsedDoc \<Rightarrow> json" where
  "parsedDoc_json E d = JObj (
     [(str ''ok'', JBool (pd_OK d))] @
     omit_empty (str ''short_id'') (pd_ShortID d) @
     omit_empty (str ''command'') (pd_Command d) @
     [(str ''known_command'', JBool (pd_KnownCommand d))] @
     omit_empty (str ''target'') (pd_Target d) @
     [(str ''target_kind'', JStr (pd_TargetKind d))] @
     omit_empty (str ''payload'') (pd_Payload d) @
     omit_empty (str ''short_id_match'') (pd_ShortIDMatch d) @
     [(str ''matched_contact_id'', json_ptr (uuid_json E) (pd_ContactID d)),
      (str ''alternatives'', JArr (map (alt_json E) (pd_Alternatives d))),
      (str ''confidence'', JNum (pd_Confidence d))] @
     omit_false (str ''recall'') (pd_Recall d) @
     omit_false (str ''passthrough'') (pd_Passthrough d))"

datatype ingest_error = InvalidAccount | AccountNotFound | AccountInactive | Internal

record Result =
  rs_MessageID :: uuid
  rs_IsReplay :: bool
  rs_Action :: gostring

definition action_name :: "action \<Rightarrow> gostring" where
  "action_name a = (case a of ActionExecute \<Rightarrow> str ''execute'' | ActionEchoBack \<Rightarrow> str ''echo_back''
     | ActionClarify \<Rightarrow> str ''clarify'')"

section \<open>Helpers\<close>

definition deref :: "gostring option \<Rightarrow> gostring" where
  "deref s = (case s of None \<Rightarrow> [] | Some v \<Rightarrow> v)"

definition textOrNull :: "gostring \<Rightarrow> gostring option" where
  "textOrNull s = (if s = [] then None else Some s)"

definition attachmentsJSON :: "Attachment list \<Rightarrow> json option" where
  "attachmentsJSON atts = (if atts = [] then None else Some (JArr (map attachment_json atts)))"

definition rawOrNull :: "json option \<Rightarrow> json" where
  "rawOrNull raw = (case raw of None \<Rightarrow> JNull | Some j \<Rightarrow> j)"

text \<open>Longitude first: the order of a geography point.\<close>

definition ewktPoint :: "env \<Rightarrow> Location option \<Rightarrow> gostring" where
  "ewktPoint E l = (case l of None \<Rightarrow> []
     | Some p \<Rightarrow> str ''SRID=4326;POINT('' @ e_show_float E (lo_Lng p) @ str '' '' @ e_show_float E (lo_Lat p) @ str '')'')"

definition receivedAt :: "env \<Rightarrow> time \<Rightarrow> gostring \<Rightarrow> time" where
  "receivedAt E current raw = (case e_parse_time E raw of Some t \<Rightarrow> t | None \<Rightarrow> current)"

section \<open>Channel configuration\<close>

definition defaultChannel :: "Deps \<Rightarrow> channelCtx" where
  "defaultChannel D = \<lparr>cc_ID = None, cc_ParserCfg = dp_ParserCfg D, cc_Thresholds = dp_Thresholds D,
     cc_RecallSeconds = defaultRecallSeconds, cc_WorkflowURL = [], cc_Mode = []\<rparr>"

text \<open>The two JSON columns: a column that does not decode is ignored as a whole.\<close>

definition parser_settings :: "unicode \<Rightarrow> json \<Rightarrow> (gostring list \<times> gostring) option" where
  "parser_settings U j = do {
     kvs \<leftarrow> struct_members j;
     commands \<leftarrow> decode_strings (members U (str ''commands'') kvs) [];
     mode \<leftarrow> decode_string (members U (str ''mode'') kvs) [];
     Some (commands, mode) }"

definition threshold_settings :: "unicode \<Rightarrow> json \<Rightarrow> (rat option \<times> rat option) option" where
  "threshold_settings U j = do {
     kvs \<leftarrow> struct_members j;
     high \<leftarrow> decode_float_ptr (members U (str ''high'') kvs) None;
     medium \<leftarrow> decode_float_ptr (members U (str ''medium'') kvs) None;
     Some (high, medium) }"

definition channel_ctx :: "env \<Rightarrow> Deps \<Rightarrow> InboundChannelRow \<Rightarrow> channelCtx" where
  "channel_ctx E D row =
     (let U = e_uni E;
          cc = (defaultChannel D)\<lparr>cc_ID := Some (ic_ID row), cc_WorkflowURL := deref (ic_WorkflowUrl row)\<rparr>;
          cc = (case parser_settings U (ic_ParserConfig row) of
                  None \<Rightarrow> cc
                | Some (commands, mode) \<Rightarrow>
                    (if commands = [] then cc\<lparr>cc_Mode := mode\<rparr>
                     else cc\<lparr>cc_Mode := mode, cc_ParserCfg := \<lparr>Commands = commands\<rparr>\<rparr>));
          cc = (case threshold_settings U (ic_ConfidenceThresholds row) of
                  None \<Rightarrow> cc
                | Some (high, medium) \<Rightarrow> cc\<lparr>cc_Thresholds :=
                    \<lparr>High = coalesce high (High (cc_Thresholds cc)),
                     Medium = coalesce medium (Medium (cc_Thresholds cc))\<rparr>\<rparr>)
      in if 0 < ic_RecallWindowSeconds row then cc\<lparr>cc_RecallSeconds := ic_RecallWindowSeconds row\<rparr> else cc)"

definition resolveChannel :: "env \<Rightarrow> Deps \<Rightarrow> uuid \<Rightarrow> (world, channelCtx) prog" where
  "resolveChannel E D accID = do {
     r \<leftarrow> store (GetInboundChannelForAccount accID);
     ret (case r of Inl _ \<Rightarrow> defaultChannel D | Inr row \<Rightarrow> channel_ctx E D row) }"

section \<open>The decision\<close>

definition decide :: "env \<Rightarrow> uuid \<Rightarrow> gostring \<Rightarrow> parser_config \<Rightarrow> Thresholds \<Rightarrow>
    (world, ingest_error + (parsedDoc \<times> action \<times> gostring)) prog" where
  "decide E tenantID text cfg th =
     (let pr = Parse (e_uni E) text cfg in
      if \<not> pr_ok pr then ret (Inr (empty_doc, ActionClarify, []))
      else
        let doc = empty_doc\<lparr>pd_OK := True, pd_ShortID := pr_short_id pr, pd_Command := pr_command pr,
              pd_KnownCommand := pr_known_command pr, pd_Target := pr_target pr,
              pd_TargetKind := (if pr_has_target pr then str ''target'' else str ''none''),
              pd_Payload := pr_payload pr\<rparr>;
            targetDesc = (if pr_has_target pr then str ''@'' @ pr_target pr else pr_short_id pr)
        in do {
          r \<leftarrow> Resolve E tenantID (pr_short_id pr);
          case r of
            Inl _ \<Rightarrow> ret (Inl Internal)
          | Inr m \<Rightarrow>
              let doc = doc\<lparr>pd_ShortIDMatch := mt_ShortIDMatch m, pd_ContactID := mt_ContactID m,
                    pd_Alternatives := mt_Alternatives m\<rparr>;
                  doc = doc\<lparr>pd_Confidence := Score \<lparr>si_ShortIDMatch = mt_ShortIDMatch m,
                    si_HasTarget = pr_has_target pr, si_TargetMatch = [],
                    si_HasCommand = (pr_command pr \<noteq> []), si_KnownCommand = pr_known_command pr\<rparr>\<rparr>
              in ret (Inr (doc, Decide (e_uni E) (pd_Confidence doc) (pr_command pr) (pd_TargetKind doc) th, targetDesc))
        })"

section \<open>Storing and background work\<close>

text \<open>The consumer payload built from the message at hand.\<close>

definition buildForward :: "env \<Rightarrow> time \<Rightarrow> Account \<Rightarrow> channelCtx \<Rightarrow> CanonicalMessage \<Rightarrow> parsedDoc \<Rightarrow> uuid \<Rightarrow> Forward" where
  "buildForward E current acct ch msg doc msgID = \<lparr>
     fw_MessageID = e_show_uuid E msgID,
     fw_TenantID = e_show_uuid E (acc_tenant acct),
     fw_ChannelID = (case cc_ID ch of None \<Rightarrow> [] | Some i \<Rightarrow> e_show_uuid E i),
     fw_AccountID = e_show_uuid E (acc_id acct),
     fw_AccountType = acc_type acct,
     fw_Platform = Platform (acc_type acct),
     fw_ContactID = (case pd_ContactID doc of None \<Rightarrow> [] | Some i \<Rightarrow> e_show_uuid E i),
     fw_SenderEndpoint = se_Endpoint (cm_Sender msg),
     fw_Command = pd_Command doc,
     fw_Payload = pd_Payload doc,
     fw_Text = deref (bd_Text (cm_Body msg)),
     fw_Attachments = attachmentsJSON (bd_Attachments (cm_Body msg)),
     fw_Location = map_option location_json (bd_Location (cm_Body msg)),
     fw_ReceivedAt = e_show_time E (receivedAt E current (me_ReceivedAt (cm_Meta msg)))\<rparr>"

definition inbound_params :: "env \<Rightarrow> time \<Rightarrow> uuid \<Rightarrow> Account \<Rightarrow> uuid \<Rightarrow> uuid option \<Rightarrow> CanonicalMessage \<Rightarrow>
    parsedDoc \<Rightarrow> gostring \<Rightarrow> CreateInboundMessageParams" where
  "inbound_params E current newID acct accID chan msg doc act = \<lparr>
     ci_ID = newID, ci_TenantID = acc_tenant acct, ci_AccountID = Some accID, ci_ChannelID = chan,
     ci_SenderEndpoint = textOrNull (se_Endpoint (cm_Sender msg)),
     ci_BodyText = deref (bd_Text (cm_Body msg)),
     ci_BodyAttachments = attachmentsJSON (bd_Attachments (cm_Body msg)),
     ci_Parsed = Some (parsedDoc_json E doc), ci_PolicyAction = Some act,
     ci_PlatformMessageID = me_PlatformMessageID (cm_Meta msg),
     ci_RawPayload = rawOrNull (me_RawPayload (cm_Meta msg)),
     ci_ReceivedAt = receivedAt E current (me_ReceivedAt (cm_Meta msg)), ci_ProcessedAt = Some current,
     ci_BodyLocation = ewktPoint E (bd_Location (cm_Body msg))\<rparr>"

text \<open>A recall message is stored without channel, attachments and location.\<close>

definition recall_params :: "env \<Rightarrow> time \<Rightarrow> uuid \<Rightarrow> Account \<Rightarrow> uuid \<Rightarrow> CanonicalMessage \<Rightarrow>
    parsedDoc \<Rightarrow> gostring \<Rightarrow> CreateInboundMessageParams" where
  "recall_params E current newID acct accID msg doc act =
     (inbound_params E current newID acct accID None msg doc act)\<lparr>
        ci_BodyAttachments := None, ci_BodyLocation := []\<rparr>"

text \<open>
  The insert shared by the three handlers: a conflict on the platform message id means the message is
  already stored, and its id is looked up; a new row is followed up by \<open>after\<close>.
\<close>

definition persist :: "env \<Rightarrow> CreateInboundMessageParams \<Rightarrow> gostring \<Rightarrow> (uuid \<Rightarrow> (world, unit) prog) \<Rightarrow>
    (world, ingest_error + Result) prog" where
  "persist E p act after = do {
     r \<leftarrow> store (CreateInboundMessage (e_geography E) p);
     case r of
       Inr i \<Rightarrow> do {
         after i;
         ret (Inr \<lparr>rs_MessageID = i, rs_IsReplay = False, rs_Action = act\<rparr>) }
     | Inl NoRows \<Rightarrow> do {
         g \<leftarrow> store (GetMessageIDByPlatformID (ci_AccountID p) (ci_PlatformMessageID p));
         ret (case g of Inl _ \<Rightarrow> Inl Internal
              | Inr existing \<Rightarrow> Inr \<lparr>rs_MessageID = existing, rs_IsReplay = True, rs_Action = act\<rparr>) }
     | Inl _ \<Rightarrow> ret (Inl Internal) }"

definition when_prog :: "bool \<Rightarrow> (world, unit) prog \<Rightarrow> (world, unit) prog" where
  "when_prog b p = (if b then p else ret ())"

definition handlePassthrough :: "env \<Rightarrow> Deps \<Rightarrow> Account \<Rightarrow> uuid \<Rightarrow> CanonicalMessage \<Rightarrow> channelCtx \<Rightarrow>
    (world, ingest_error + Result) prog" where
  "handlePassthrough E D acct accID msg ch =
     (let text = deref (bd_Text (cm_Body msg));
          doc = empty_doc\<lparr>pd_OK := True, pd_Passthrough := True, pd_Payload := text\<rparr>
      in do {
        newID \<leftarrow> NewID E;
        current \<leftarrow> now;
        persist E (inbound_params E current newID acct accID (cc_ID ch) msg doc (str ''routed'')) (str ''routed'')
          (\<lambda>i. when_prog (cc_WorkflowURL ch \<noteq> [] \<and> dp_Forwarder D \<noteq> None)
             (spawn (ForwardTask (cc_WorkflowURL ch) i (buildForward E current acct ch msg doc i)))) })"

definition recalled_text :: "env \<Rightarrow> gostring \<Rightarrow> gostring" where
  "recalled_text E original = str ''RECALLED '' @ [8212] @ str '' '' @ e_quote E original @ str '' was not forwarded.''"

definition handleRecall :: "env \<Rightarrow> Account \<Rightarrow> uuid \<Rightarrow> CanonicalMessage \<Rightarrow> int \<Rightarrow>
    (world, ingest_error + Result) prog" where
  "handleRecall E acct accID msg recallSeconds =
     (let to = se_Endpoint (cm_Sender msg) in do {
        current \<leftarrow> now;
        rec \<leftarrow> store (FindRecentEchoForSender (Some accID) (textOrNull to) (current - recallSeconds * second));
        case rec of
          Inl Constraint \<Rightarrow> ret (Inl Internal)
        | Inl Failure \<Rightarrow> ret (Inl Internal)
        | _ \<Rightarrow>
          (let found = (case rec of Inr x \<Rightarrow> Some x | Inl _ \<Rightarrow> None);
               act = (if found = None then action_name ActionClarify else str ''recalled'');
               doc = empty_doc\<lparr>pd_Recall := True\<rparr>
           in do {
             newID \<leftarrow> NewID E;
             persist E (recall_params E current newID acct accID msg doc act) act
               (\<lambda>i. case found of None \<Rightarrow> ret ()
                  | Some (recID, original) \<Rightarrow> do {
                      m \<leftarrow> store (MarkMessageRecalled recID);
                      case m of Inl _ \<Rightarrow> ret ()
                      | Inr _ \<Rightarrow> spawn (DispatchTask acct recID to (recalled_text E original) (str ''recalled'')) }) }) })"

definition handleStructured :: "env \<Rightarrow> Deps \<Rightarrow> Account \<Rightarrow> uuid \<Rightarrow> CanonicalMessage \<Rightarrow> channelCtx \<Rightarrow>
    (world, ingest_error + Result) prog" where
  "handleStructured E D acct accID msg ch =
     (let text = deref (bd_Text (cm_Body msg)) in do {
        r \<leftarrow> decide E (acc_tenant acct) text (cc_ParserCfg ch) (cc_Thresholds ch);
        case r of
          Inl e \<Rightarrow> ret (Inl e)
        | Inr (doc, action, targetDesc) \<Rightarrow> do {
            newID \<leftarrow> NewID E;
            current \<leftarrow> now;
            persist E (inbound_params E current newID acct accID (cc_ID ch) msg doc (action_name action)) (action_name action)
              (\<lambda>i. do {
                 when_prog (action = ActionEchoBack)
                   (spawn (DispatchTask acct i (se_Endpoint (cm_Sender msg))
                      (EchoText targetDesc text (cc_RecallSeconds ch)) (str ''echoed_back'')));
                 when_prog (action = ActionExecute \<and> cc_WorkflowURL ch \<noteq> [] \<and> dp_Forwarder D \<noteq> None)
                   (spawn (ForwardTask (cc_WorkflowURL ch) i (buildForward E current acct ch msg doc i))) }) } })"

definition Ingest :: "env \<Rightarrow> Deps \<Rightarrow> CanonicalMessage \<Rightarrow> (world, ingest_error + Result) prog" where
  "Ingest E D msg =
     (case e_parse_uuid E (me_AccountID (cm_Meta msg)) of
        None \<Rightarrow> ret (Inl InvalidAccount)
      | Some accID \<Rightarrow> do {
          r \<leftarrow> store (GetAccountByID accID);
          case r of
            Inl NoRows \<Rightarrow> ret (Inl AccountNotFound)
          | Inl _ \<Rightarrow> ret (Inl Internal)
          | Inr acct \<Rightarrow>
              if acc_status acct \<noteq> str ''active'' then ret (Inl AccountInactive)
              else do {
                ch \<leftarrow> resolveChannel E D accID;
                (if EqualFold (e_uni E) (TrimSpace (deref (bd_Text (cm_Body msg)))) recallKeyword
                 then handleRecall E acct accID msg (cc_RecallSeconds ch)
                 else if cc_Mode ch = str ''passthrough'' then handlePassthrough E D acct accID msg ch
                 else handleStructured E D acct accID msg ch) } })"

section \<open>Background tasks\<close>

definition dispatchOutbound :: "env \<Rightarrow> registry \<Rightarrow> Account \<Rightarrow> uuid \<Rightarrow> gostring \<Rightarrow> gostring \<Rightarrow> gostring \<Rightarrow>
    (world, unit) prog" where
  "dispatchOutbound E reg acct inReplyTo to body label =
     (if acc_credentials acct = [] then ret ()
      else case e_decrypt E (acc_credentials acct) of
        None \<Rightarrow> ret ()
      | Some tok \<Rightarrow> (case Get reg (acc_type acct) of
          Inl _ \<Rightarrow> ret ()
        | Inr adapter \<Rightarrow> do {
            r \<leftarrow> ad_send adapter \<lparr>oa_Type = acc_type acct, oa_Identifier = acc_platform_identifier acct,
                   oa_Token = tok\<rparr> to body;
            case r of
              Inl _ \<Rightarrow> ret ()
            | Inr pmid \<Rightarrow> do {
                pmid \<leftarrow> (if pmid = [] then do { i \<leftarrow> NewID E; ret (e_show_uuid E i) } else ret pmid);
                newID \<leftarrow> NewID E;
                current \<leftarrow> now;
                _ \<leftarrow> store (CreateOutboundMessage \<lparr>co_ID = newID, co_TenantID = acc_tenant acct,
                  co_AccountID = Some (acc_id acct), co_RecipientContactID = None, co_BodyText = body,
                  co_PolicyAction = Some label, co_InReplyToMessageID = Some inReplyTo,
                  co_PlatformMessageID = pmid, co_ReceivedAt = current\<rparr>);
                ret () } }))"

text \<open>A delivery task runs under a context of 30 seconds.\<close>

definition run_task :: "env \<Rightarrow> Deps \<Rightarrow> registry \<Rightarrow> task \<Rightarrow> (world, unit) prog" where
  "run_task E D reg t = (case t of
     DispatchTask acct inReplyTo to body label \<Rightarrow> dispatchOutbound E reg acct inReplyTo to body label
   | ForwardTask url i f \<Rightarrow> (case dp_Forwarder D of
       None \<Rightarrow> ret ()
     | Some fw \<Rightarrow> do { _ \<leftarrow> deliver_and_mark (forward_to E fw (Some 30000)) url f i; ret () }))"

section \<open>The HTTP handler\<close>

definition ingest_handler :: "env \<Rightarrow> Deps \<Rightarrow> gostring \<Rightarrow> (world, nat \<times> json) prog" where
  "ingest_handler E D body =
     (case Option.bind (e_first_json E body) (decode_message (e_uni E)) of
        None \<Rightarrow> ret (400, JObj [(str ''error'', JStr (str ''invalid_json''))])
      | Some msg \<Rightarrow> do {
          r \<leftarrow> Ingest E D msg;
          ret (case r of
            Inl InvalidAccount \<Rightarrow> (400, JObj [(str ''error'', JStr (str ''invalid_account''))])
          | Inl AccountNotFound \<Rightarrow> (404, JObj [(str ''error'', JStr (str ''account_not_found''))])
          | Inl AccountInactive \<Rightarrow> (404, JObj [(str ''error'', JStr (str ''account_not_found''))])
          | Inl Internal \<Rightarrow> (500, JObj [(str ''error'', JStr (str ''internal_error''))])
          | Inr res \<Rightarrow>
              (let fields = [(str ''message_id'', uuid_json E (rs_MessageID res)),
                 (str ''policy_action'', JStr (rs_Action res))]
               in if rs_IsReplay res then (200, JObj (fields @ [(str ''is_replay'', JBool True)]))
                  else (201, JObj fields))) })"

end
