(* ===== verification/Ingest_Facts.thy ===== *)
theory Ingest_Facts
  imports Ingest
begin

text \<open>What \<open>internal/ingest\<close> guarantees, under every pattern of database faults.\<close>

section \<open>The insert\<close>

definition has_key :: "uuid \<Rightarrow> gostring \<Rightarrow> Message \<Rightarrow> bool" where
  "has_key acc pmid m \<longleftrightarrow> msg_account m = Some acc \<and> msg_platform_id m = pmid"

lemma same_platform_key_Some [simp]: "same_platform_key (Some acc) pmid = has_key acc pmid"
  by (auto simp: same_platform_key_def has_key_def fun_eq_iff)

lemma CreateInboundMessage_cases:
  obtains (bad) "fst (CreateInboundMessage g p d) = Inl Failure" "snd (CreateInboundMessage g p d) = d"
  | (dup) "fst (CreateInboundMessage g p d) = Inl NoRows" "snd (CreateInboundMessage g p d) = d"
      "\<exists>m\<in>set (messages d). same_platform_key (ci_AccountID p) (ci_PlatformMessageID p) m"
  | (broken) "fst (CreateInboundMessage g p d) = Inl Constraint" "snd (CreateInboundMessage g p d) = d"
  | (new) loc where "fst (CreateInboundMessage g p d) = Inr (ci_ID p)"
      "snd (CreateInboundMessage g p d) = d\<lparr>messages := messages d @ [inbound_row p loc]\<rparr>"
      "\<not> (\<exists>m\<in>set (messages d). same_platform_key (ci_AccountID p) (ci_PlatformMessageID p) m)"
      "schema_ok (d\<lparr>messages := messages d @ [inbound_row p loc]\<rparr>)"
proof -
  let ?cast = "if ci_BodyLocation p = [] then Some None else map_option Some (g (ci_BodyLocation p))"
  let ?dup = "\<exists>m\<in>set (messages d). same_platform_key (ci_AccountID p) (ci_PlatformMessageID p) m"
  show thesis
  proof (cases ?cast)
    case None
    then show ?thesis by (intro bad) (simp_all only: CreateInboundMessage_def option.case fst_conv snd_conv)
  next
    case (Some loc)
    note q = CreateInboundMessage_def[of g p d, unfolded Some option.case]
    show ?thesis
    proof (cases ?dup)
      case True
      then show ?thesis by (intro dup) (simp_all add: q)
    next
      case False
      let ?d = "d\<lparr>messages := messages d @ [inbound_row p loc]\<rparr>"
      show ?thesis
      proof (cases "schema_ok ?d")
        case True
        then show ?thesis using False by (intro new[of loc]) (simp_all add: q commit_def)
      next
        case no: False
        then show ?thesis using False by (intro broken) (simp_all add: q commit_def)
      qed
    qed
  qed
qed

lemma CreateInboundMessage_keeps:
  assumes "\<exists>m\<in>set (messages d). same_platform_key (ci_AccountID p) (ci_PlatformMessageID p) m"
  shows "snd (CreateInboundMessage g p d) = d" "fst (CreateInboundMessage g p d) \<noteq> Inr i"
  using assms by (cases rule: CreateInboundMessage_cases[of g p d]; auto)+

text \<open>The three ends of the shared insert.\<close>

lemma persist_run:
  assumes "run (persist E p act after) w = (r, w')"
  obtains (failed) "r = Inl Internal" "w_tasks w' = w_tasks w" "w_sent w' = w_sent w" "w_net w' = w_net w"
      "w_db w' = w_db w \<or> w_db w' = snd (CreateInboundMessage (e_geography E) p (w_db w))"
  | (replay) i where "r = Inr \<lparr>rs_MessageID = i, rs_IsReplay = True, rs_Action = act\<rparr>" "quiet w w'"
      "fst (CreateInboundMessage (e_geography E) p (w_db w)) = Inl NoRows"
      "fst (GetMessageIDByPlatformID (ci_AccountID p) (ci_PlatformMessageID p) (w_db w)) = Inr i"
  | (stored) w1 where "r = Inr \<lparr>rs_MessageID = ci_ID p, rs_IsReplay = False, rs_Action = act\<rparr>"
      "fst (CreateInboundMessage (e_geography E) p (w_db w)) = Inr (ci_ID p)"
      "w_db w1 = snd (CreateInboundMessage (e_geography E) p (w_db w))"
      "w_tasks w1 = w_tasks w" "w_sent w1 = w_sent w" "w_net w1 = w_net w" "w_now w1 = w_now w"
      "run (after (ci_ID p)) w1 = ((), w')"
proof -
  let ?q = "CreateInboundMessage (e_geography E) p"
  obtain x w1 where c: "run (store ?q) w = (x, w1)" by (cases "run (store ?q) w")
  note o = store_outcome[OF c]
  show thesis
  proof (cases x)
    case (Inr i)
    then have q: "fst (?q (w_db w)) = Inr i" "w_db w1 = snd (?q (w_db w))" using o(2) by auto
    then have i: "i = ci_ID p" by (cases rule: CreateInboundMessage_cases[of "e_geography E" p "w_db w"]) auto
    show thesis
      by (rule stored[of w1]) (use assms c q i Inr o(1) in \<open>auto simp: persist_def split: prod.splits\<close>)
  next
    case (Inl e)
    show thesis
    proof (cases "e = NoRows")
      case False
      then have "r = Inl Internal" "w' = w1" using assms c Inl by (auto simp: persist_def split: db_error.splits)
      then show thesis using failed o by auto
    next
      case True
      then have q: "fst (?q (w_db w)) = Inl NoRows" "w_db w1 = snd (?q (w_db w))" using o(2) Inl by auto
      then have d1: "w_db w1 = w_db w"
        by (cases rule: CreateInboundMessage_cases[of "e_geography E" p "w_db w"]) auto
      let ?g = "GetMessageIDByPlatformID (ci_AccountID p) (ci_PlatformMessageID p)"
      obtain y w2 where g: "run (store ?g) w1 = (y, w2)" by (cases "run (store ?g) w1")
      have s: "quiet w1 w2" "y = fst (?g (w_db w1)) \<or> y = Inl Failure"
        using store_read[OF g] by (auto simp: GetMessageIDByPlatformID_def)
      have r: "w' = w2" "r = (case y of Inl _ \<Rightarrow> Inl Internal
           | Inr i \<Rightarrow> Inr \<lparr>rs_MessageID = i, rs_IsReplay = True, rs_Action = act\<rparr>)"
        using assms c g Inl True by (auto simp: persist_def split: sum.splits)
      have qw: "quiet w w2" using s(1) o(1) d1 by (simp add: quiet_def)
      show thesis
      proof (cases y)
        case (Inl _)
        then show ?thesis using failed r qw by (auto dest: quietD)
      next
        case (Inr i)
        then show ?thesis using replay[of i] r qw q(1) s(2) d1 by auto
      qed
    qed
  qed
qed

text \<open>On a message that is already stored nothing happens but a lookup.\<close>

lemma persist_known:
  assumes "run (persist E p act after) w = (r, w')"
    and "ci_AccountID p = Some acc" "m \<in> set (messages (w_db w))" "has_key acc (ci_PlatformMessageID p) m"
  shows "w_db w' = w_db w" "w_tasks w' = w_tasks w" "w_sent w' = w_sent w"
    "r = Inr res \<Longrightarrow> rs_IsReplay res \<and>
      (\<exists>m\<in>set (messages (w_db w)). msg_id m = rs_MessageID res \<and> has_key acc (ci_PlatformMessageID p) m)"
proof -
  have k: "\<exists>m\<in>set (messages (w_db w)). same_platform_key (ci_AccountID p) (ci_PlatformMessageID p) m"
    using assms(2-4) by auto
  note keep = CreateInboundMessage_keeps[OF k]
  have "w_db w' = w_db w \<and> w_tasks w' = w_tasks w \<and> w_sent w' = w_sent w \<and>
     (\<forall>res. r = Inr res \<longrightarrow> rs_IsReplay res \<and>
      (\<exists>m\<in>set (messages (w_db w)). msg_id m = rs_MessageID res \<and> has_key acc (ci_PlatformMessageID p) m))"
    using assms(1)
  proof (cases rule: persist_run)
    case failed
    then show ?thesis using keep(1) by auto
  next
    case (replay i)
    then show ?thesis
      using assms(2) by (auto simp: GetMessageIDByPlatformID_def dest!: find_Some_in dest: quietD)
  next
    case (stored w1)
    then show ?thesis using keep(2) by blast
  qed
  then show "w_db w' = w_db w" "w_tasks w' = w_tasks w" "w_sent w' = w_sent w"
    "r = Inr res \<Longrightarrow> rs_IsReplay res \<and>
      (\<exists>m\<in>set (messages (w_db w)). msg_id m = rs_MessageID res \<and> has_key acc (ci_PlatformMessageID p) m)"
    by auto
qed

section \<open>The three handlers lead to the insert\<close>

definition live_account :: "env \<Rightarrow> CanonicalMessage \<Rightarrow> db \<Rightarrow> Account \<Rightarrow> bool" where
  "live_account E msg d acct \<longleftrightarrow> e_parse_uuid E (me_AccountID (cm_Meta msg)) = Some (acc_id acct) \<and>
     acct \<in> set (accounts d) \<and> acc_status acct = str ''active''"

definition is_recall :: "env \<Rightarrow> CanonicalMessage \<Rightarrow> bool" where
  "is_recall E msg \<longleftrightarrow> EqualFold (e_uni E) (TrimSpace (deref (bd_Text (cm_Body msg)))) recallKeyword"

definition handler_of :: "env \<Rightarrow> Deps \<Rightarrow> Account \<Rightarrow> uuid \<Rightarrow> CanonicalMessage \<Rightarrow> channelCtx \<Rightarrow>
    (world, ingest_error + Result) prog" where
  "handler_of E D acct accID msg ch =
     (if is_recall E msg then handleRecall E acct accID msg (cc_RecallSeconds ch)
      else if cc_Mode ch = str ''passthrough'' then handlePassthrough E D acct accID msg ch
      else handleStructured E D acct accID msg ch)"

text \<open>The channel configuration a message on the account is handled under: the service's defaults when no
  channel resolves or the lookup fails.\<close>

definition channel_choice :: "env \<Rightarrow> Deps \<Rightarrow> uuid \<Rightarrow> db \<Rightarrow> channelCtx \<Rightarrow> bool" where
  "channel_choice E D accID d ch \<longleftrightarrow> ch = defaultChannel D \<or>
     (\<exists>row. fst (GetInboundChannelForAccount accID d) = Inr row \<and> ch = channel_ctx E D row)"

lemma Ingest_run:
  assumes "run (Ingest E D msg) w = (r, w')"
  obtains (rejected) e where "r = Inl e" "quiet w w'"
  | (accepted) acct ch w1 where "live_account E msg (w_db w) acct" "quiet w w1"
      "channel_choice E D (acc_id acct) (w_db w) ch"
      "run (handler_of E D acct (acc_id acct) msg ch) w1 = (r, w')"
proof (cases "e_parse_uuid E (me_AccountID (cm_Meta msg))")
  case None
  then show thesis using assms rejected[of InvalidAccount] by (auto simp: Ingest_def)
next
  case (Some accID)
  obtain x w1 where g: "run (store (GetAccountByID accID)) w = (x, w1)"
    by (cases "run (store (GetAccountByID accID)) w")
  have q: "quiet w w1" "x = fst (GetAccountByID accID (w_db w)) \<or> x = Inl Failure"
    using store_read[OF g] by (auto simp: GetAccountByID_def)
  show thesis
  proof (cases x)
    case (Inl e)
    then have "w' = w1" "\<exists>e'. r = Inl e'"
      using assms Some g by (auto simp: Ingest_def split: db_error.splits)
    then show thesis using rejected q(1) by auto
  next
    case (Inr acct)
    then have acct: "acct \<in> set (accounts (w_db w))" "acc_id acct = accID"
      using q(2) by (auto simp: GetAccountByID_def dest: find_Some_in)
    show thesis
    proof (cases "acc_status acct = str ''active''")
      case False
      then show thesis using assms Some g Inr rejected[of AccountInactive] q(1) by (auto simp: Ingest_def)
    next
      case True
      let ?c = "GetInboundChannelForAccount accID"
      obtain y w2 where c: "run (store ?c) w1 = (y, w2)" by (cases "run (store ?c) w1")
      have q2: "quiet w1 w2" "y = fst (?c (w_db w1)) \<or> y = Inl Failure"
        using store_read[OF c] by (auto simp: GetInboundChannelForAccount_def)
      define ch where "ch = (case y of Inl _ \<Rightarrow> defaultChannel D | Inr row \<Rightarrow> channel_ctx E D row)"
      have "run (handler_of E D acct accID msg ch) w2 = (r, w')"
        using assms Some g Inr True c
        by (simp add: Ingest_def resolveChannel_def handler_of_def is_recall_def ch_def)
      moreover have "channel_choice E D accID (w_db w) ch"
      proof (cases y)
        case (Inl e)
        then show ?thesis by (simp add: channel_choice_def ch_def)
      next
        case (Inr row)
        then have "fst (?c (w_db w)) = Inr row" using q2(2) quietD(1)[OF q(1)] by simp
        then show ?thesis using Inr by (auto simp: channel_choice_def ch_def)
      qed
      ultimately show thesis
        using accepted[of acct w2 ch] acct True Some quiet_trans[OF q(1) q2(1)]
        by (simp add: live_account_def)
    qed
  qed
qed

definition recall_after :: "env \<Rightarrow> Account \<Rightarrow> gostring \<Rightarrow> (uuid \<times> gostring) option \<Rightarrow> (world, unit) prog" where
  "recall_after E acct to found = (case found of None \<Rightarrow> ret ()
     | Some (recID, original) \<Rightarrow> do {
         m \<leftarrow> store (MarkMessageRecalled recID);
         case m of Inl _ \<Rightarrow> ret ()
         | Inr _ \<Rightarrow> spawn (DispatchTask acct recID to (recalled_text E original) (str ''recalled'')) })"

lemma handleRecall_run:
  assumes "run (handleRecall E acct accID msg recallSeconds) w = (r, w')"
  obtains (rejected) "r = Inl Internal" "quiet w w'"
  | (persisted) found n w1 where "quiet w w1"
      "fst (FindRecentEchoForSender (Some accID) (textOrNull (se_Endpoint (cm_Sender msg)))
          (w_now w - recallSeconds * second) (w_db w)) = one_row found"
      "run (persist E (recall_params E (w_now w) n acct accID msg (empty_doc\<lparr>pd_Recall := True\<rparr>)
            (if found = None then action_name ActionClarify else str ''recalled''))
          (if found = None then action_name ActionClarify else str ''recalled'')
          (\<lambda>i. recall_after E acct (se_Endpoint (cm_Sender msg)) found)) w1 = (r, w')"
proof -
  let ?to = "se_Endpoint (cm_Sender msg)"
  let ?q = "FindRecentEchoForSender (Some accID) (textOrNull ?to) (w_now w - recallSeconds * second)"
  obtain x w1 where g: "run (store ?q) w = (x, w1)" by (cases "run (store ?q) w")
  have q: "quiet w w1" "x = fst (?q (w_db w)) \<or> x = Inl Failure"
    using store_read[OF g] by (auto simp: FindRecentEchoForSender_def)
  note unfold = handleRecall_def recall_after_def Let_def
  consider "x = Inl Constraint \<or> x = Inl Failure" | "x = Inl NoRows" | y where "x = Inr y"
    by (metis db_error.exhaust sumE)
  then show thesis
  proof cases
    case 1
    then have "r = Inl Internal" "w' = w1" using assms g by (auto simp: unfold)
    then show thesis using rejected q(1) by auto
  next
    case 2
    show thesis
      by (rule persisted[of "w1\<lparr>w_ids := Suc (w_ids w1)\<rparr>" None "e_new_id E (w_ids w1)"])
        (use assms g q 2 quiet_trans[OF q(1) quiet_NewID] in \<open>auto simp: unfold\<close>)
  next
    case (3 y)
    show thesis
      by (rule persisted[of "w1\<lparr>w_ids := Suc (w_ids w1)\<rparr>" "Some y" "e_new_id E (w_ids w1)"])
        (use assms g q 3 quiet_trans[OF q(1) quiet_NewID] in \<open>auto simp: unfold\<close>)
  qed
qed

definition forwards :: "Deps \<Rightarrow> channelCtx \<Rightarrow> bool" where
  "forwards D ch \<longleftrightarrow> cc_WorkflowURL ch \<noteq> [] \<and> dp_Forwarder D \<noteq> None"

definition forward_task :: "env \<Rightarrow> time \<Rightarrow> Account \<Rightarrow> channelCtx \<Rightarrow> CanonicalMessage \<Rightarrow> parsedDoc \<Rightarrow> uuid \<Rightarrow> task" where
  "forward_task E current acct ch msg doc i =
     ForwardTask (cc_WorkflowURL ch) i (buildForward E current acct ch msg doc i)"

definition passthrough_doc :: "CanonicalMessage \<Rightarrow> parsedDoc" where
  "passthrough_doc msg = empty_doc\<lparr>pd_OK := True, pd_Passthrough := True,
     pd_Payload := deref (bd_Text (cm_Body msg))\<rparr>"

lemma handlePassthrough_run:
  assumes "run (handlePassthrough E D acct accID msg ch) w = (r, w')"
  shows "\<exists>n w1. quiet w w1 \<and>
     run (persist E (inbound_params E (w_now w) n acct accID (cc_ID ch) msg (passthrough_doc msg) (str ''routed''))
       (str ''routed'') (\<lambda>i. when_prog (forwards D ch) (spawn (forward_task E (w_now w) acct ch msg (passthrough_doc msg) i)))) w1
     = (r, w')"
  using assms
  by (intro exI[of _ "e_new_id E (w_ids w)"] exI[of _ "w\<lparr>w_ids := Suc (w_ids w)\<rparr>"])
    (simp add: handlePassthrough_def passthrough_doc_def forwards_def forward_task_def Let_def)

lemma handleStructured_run:
  assumes "run (handleStructured E D acct accID msg ch) w = (r, w')"
  obtains (rejected) e where "r = Inl e" "quiet w w'"
  | (persisted) doc action targetDesc n w0 w1 where "quiet w w0" "quiet w w1"
      "run (decide E (acc_tenant acct) (deref (bd_Text (cm_Body msg))) (cc_ParserCfg ch) (cc_Thresholds ch)) w
         = (Inr (doc, action, targetDesc), w0)"
      "run (persist E (inbound_params E (w_now w) n acct accID (cc_ID ch) msg doc (action_name action))
         (action_name action)
         (\<lambda>i. do { when_prog (action = ActionEchoBack)
                      (spawn (DispatchTask acct i (se_Endpoint (cm_Sender msg))
                        (EchoText targetDesc (deref (bd_Text (cm_Body msg))) (cc_RecallSeconds ch)) (str ''echoed_back'')));
                    when_prog (action = ActionExecute \<and> forwards D ch)
                      (spawn (forward_task E (w_now w) acct ch msg doc i)) })) w1 = (r, w')"
proof -
  let ?d = "decide E (acc_tenant acct) (deref (bd_Text (cm_Body msg))) (cc_ParserCfg ch) (cc_Thresholds ch)"
  obtain x w0 where d: "run ?d w = (x, w0)" by (cases "run ?d w")
  have q: "quiet w w0"
  proof (cases "pr_ok (Parse (e_uni E) (deref (bd_Text (cm_Body msg))) (cc_ParserCfg ch))")
    case False
    then show ?thesis using d by (simp add: decide_def)
  next
    case True
    let ?q = "ListContactShortIDs (acc_tenant acct)"
    obtain y w0' where g: "run (store ?q) w = (y, w0')" by (cases "run (store ?q) w")
    then have "w0 = w0'" using d True by (auto simp: decide_def Resolve_def Let_def split: sum.splits)
    then show ?thesis using store_read(1)[OF g] by (simp add: ListContactShortIDs_def)
  qed
  show thesis
  proof (cases x)
    case (Inl e)
    then show thesis using assms d q rejected by (auto simp: handleStructured_def Let_def)
  next
    case (Inr t)
    obtain doc action desc where t: "t = (doc, action, desc)" by (cases t) auto
    show thesis
      by (rule persisted[of w0 "w0\<lparr>w_ids := Suc (w_ids w0)\<rparr>" doc action desc "e_new_id E (w_ids w0)"])
        (use assms d Inr t q quietD(5)[OF q] quiet_trans[OF q quiet_NewID] in
          \<open>auto simp: handleStructured_def Let_def forwards_def forward_task_def\<close>)
  qed
qed

section \<open>One insert per ingest\<close>

lemma MarkMessageRecalled_cases:
  "snd (MarkMessageRecalled j d) = d \<or>
   snd (MarkMessageRecalled j d) =
     d\<lparr>messages := map_if (\<lambda>m. msg_id m = j) (\<lambda>m. m\<lparr>msg_policy_action := Some (str ''recalled'')\<rparr>) (messages d)\<rparr>"
  by (simp add: MarkMessageRecalled_def update_messages_def commit_def)

text \<open>What follows the insert: at most one recall mark and at most one new task.\<close>

definition tame :: "(uuid \<Rightarrow> (world, unit) prog) \<Rightarrow> bool" where
  "tame after \<longleftrightarrow> (\<forall>i w u. run (after i) w = ((), u) \<longrightarrow>
     (w_db u = w_db w \<or> (\<exists>j. w_db u = snd (MarkMessageRecalled j (w_db w)))) \<and>
     w_sent u = w_sent w \<and> (w_tasks u = w_tasks w \<or> (\<exists>t. w_tasks u = w_tasks w @ [t])))"

lemma tame_when_spawn: "tame (\<lambda>i. when_prog b (spawn (t i)))"
  by (auto simp: tame_def when_prog_def)

lemma tame_two: "\<not> (a \<and> b) \<Longrightarrow> tame (\<lambda>i. do { when_prog a (spawn (t i)); when_prog b (spawn (u i)) })"
  by (auto simp: tame_def when_prog_def)

lemma tame_recall: "tame (\<lambda>i. recall_after E acct to found)"
  unfolding tame_def
proof (intro allI impI)
  fix i w u
  assume r: "run (recall_after E acct to found) w = ((), u)"
  show "(w_db u = w_db w \<or> (\<exists>j. w_db u = snd (MarkMessageRecalled j (w_db w)))) \<and>
     w_sent u = w_sent w \<and> (w_tasks u = w_tasks w \<or> (\<exists>t. w_tasks u = w_tasks w @ [t]))"
  proof (cases found)
    case None
    then show ?thesis using r by (simp add: recall_after_def)
  next
    case (Some x)
    obtain j original where x: "x = (j, original)" by (cases x)
    obtain m w1 where s: "run (store (MarkMessageRecalled j)) w = (m, w1)"
      by (cases "run (store (MarkMessageRecalled j)) w")
    show ?thesis
      using r Some x s store_outcome[OF s] by (auto simp: recall_after_def split: sum.splits)
  qed
qed

definition params_for :: "CanonicalMessage \<Rightarrow> Account \<Rightarrow> CreateInboundMessageParams \<Rightarrow> bool" where
  "params_for msg acct p \<longleftrightarrow> ci_AccountID p = Some (acc_id acct) \<and> ci_TenantID p = acc_tenant acct \<and>
     ci_PlatformMessageID p = me_PlatformMessageID (cm_Meta msg) \<and>
     ci_BodyText p = deref (bd_Text (cm_Body msg)) \<and>
     ci_SenderEndpoint p = textOrNull (se_Endpoint (cm_Sender msg)) \<and>
     ci_RawPayload p = rawOrNull (me_RawPayload (cm_Meta msg))"

lemma params_for_inbound: "params_for msg acct (inbound_params E t n acct (acc_id acct) chan msg doc act)"
  by (simp add: params_for_def inbound_params_def)

lemma params_for_recall: "params_for msg acct (recall_params E t n acct (acc_id acct) msg doc act)"
  by (simp add: params_for_def inbound_params_def recall_params_def)

lemma Ingest_persist:
  assumes "run (Ingest E D msg) w = (r, w')"
  obtains (rejected) e where "r = Inl e" "quiet w w'"
  | (persisted) acct w1 p act after where "live_account E msg (w_db w) acct" "quiet w w1"
      "params_for msg acct p" "run (persist E p act after) w1 = (r, w')" "tame after"
      "ci_PolicyAction p = Some act"
  using assms
proof (cases rule: Ingest_run)
  case (rejected e)
  then show ?thesis using that(1) by blast
next
  case (accepted acct ch w1)
  note q = accepted(2) and h = accepted(4)[unfolded handler_of_def]
  note go = that(2)[OF accepted(1) quiet_trans[OF q]]
  show ?thesis
  proof (cases "is_recall E msg")
    case True
    with h have "run (handleRecall E acct (acc_id acct) msg (cc_RecallSeconds ch)) w1 = (r, w')" by simp
    then show ?thesis
    proof (cases rule: handleRecall_run)
      case rejected
      then show ?thesis using that(1) quiet_trans[OF q] by blast
    next
      case (persisted found n w2)
      then show ?thesis by (intro go[OF _ params_for_recall _ tame_recall]) (auto simp: inbound_params_def recall_params_def)
    qed
  next
    case no_recall: False
    show ?thesis
    proof (cases "cc_Mode ch = str ''passthrough''")
      case True
      with h no_recall have "run (handlePassthrough E D acct (acc_id acct) msg ch) w1 = (r, w')" by simp
      from handlePassthrough_run[OF this] show ?thesis
        by (auto intro!: go[OF _ params_for_inbound _ tame_when_spawn] simp: inbound_params_def)
    next
      case False
      with h no_recall have "run (handleStructured E D acct (acc_id acct) msg ch) w1 = (r, w')" by simp
      then show ?thesis
      proof (cases rule: handleStructured_run)
        case (rejected e)
        then show ?thesis using that(1) quiet_trans[OF q] by blast
      next
        case (persisted doc action desc n w0 w2)
        then show ?thesis by (intro go[OF _ params_for_inbound _ tame_two]) (auto simp: inbound_params_def)
      qed
    qed
  qed
qed

text \<open>
  C14. Ingesting a message whose (account, platform message id) is already stored changes nothing, under
  every pattern of database faults: no row is added or altered, nothing is sent, no task is started;
  a successful answer is marked as a replay and names the stored row.
\<close>

theorem ingest_replay_changes_nothing:
  assumes "e_parse_uuid E (me_AccountID (cm_Meta msg)) = Some acc"
    and "m \<in> set (messages (w_db w))" and "has_key acc (me_PlatformMessageID (cm_Meta msg)) m"
  shows "let (r, w') = run (Ingest E D msg) w in
    w_db w' = w_db w \<and> w_tasks w' = w_tasks w \<and> w_sent w' = w_sent w \<and>
    (case r of Inl _ \<Rightarrow> True
     | Inr res \<Rightarrow> rs_IsReplay res \<and>
         (\<exists>m\<in>set (messages (w_db w)). msg_id m = rs_MessageID res \<and> has_key acc (me_PlatformMessageID (cm_Meta msg)) m))"
proof -
  obtain r w' where r: "run (Ingest E D msg) w = (r, w')" by (cases "run (Ingest E D msg) w")
  from r show ?thesis
  proof (cases rule: Ingest_persist)
    case (rejected e)
    then show ?thesis using r by (auto dest: quietD)
  next
    case (persisted acct w1 p act after)
    have p: "ci_AccountID p = Some acc" "ci_PlatformMessageID p = me_PlatformMessageID (cm_Meta msg)"
      using persisted(1,3) assms(1) by (auto simp: params_for_def live_account_def)
    note q = quietD[OF persisted(2)]
    have "m \<in> set (messages (w_db w1))" "has_key acc (ci_PlatformMessageID p) m" using assms(2,3) p q by simp_all
    from persist_known[OF persisted(4) p(1) this] show ?thesis
      using r q p(2) by (auto split: sum.splits)
  qed
qed

definition demo_account :: Account where
  "demo_account = \<lparr>acc_id = 7, acc_tenant = 1, acc_type = str ''whatsapp'', acc_owner_type = str ''fw'', acc_label = [],
     acc_platform_identifier = str ''instance1'', acc_credentials = str ''t0k'', acc_capabilities = [],
     acc_status = str ''active'', acc_created_at = 0\<rparr>"

definition stored_demo :: Message where
  "stored_demo = inbound_row (inbound_params demo_env 0 5 demo_account 7 None demo_message empty_doc (str ''clarify'')) None"

definition demo_db :: db where
  "demo_db = empty_db\<lparr>accounts := [demo_account], messages := [stored_demo]\<rparr>"

definition demo_deps :: Deps where
  "demo_deps = \<lparr>dp_ParserCfg = \<lparr>Commands = []\<rparr>, dp_Thresholds = DefaultThresholds, dp_Forwarder = None\<rparr>"

lemma demo_facts:
  "e_parse_uuid demo_env (me_AccountID (cm_Meta demo_message)) = Some 7"
  "stored_demo \<in> set (messages (w_db (fresh_world demo_db [])))"
  "has_key 7 (me_PlatformMessageID (cm_Meta demo_message)) stored_demo"
  by (simp_all add: demo_db_def stored_demo_def inbound_row_def inbound_params_def has_key_def demo_message_def
      demo_env_def read_nat_def str_def ascii_digit_def)

theorem ingest_replay_witness:
  "let (r, w') = run (Ingest demo_env demo_deps demo_message) (fresh_world demo_db []) in
    w_db w' = demo_db \<and> w_tasks w' = [] \<and> w_sent w' = [] \<and>
    (case r of Inl _ \<Rightarrow> True
     | Inr res \<Rightarrow> rs_IsReplay res \<and>
         (\<exists>m\<in>set (messages demo_db). msg_id m = rs_MessageID res \<and> has_key 7 (me_PlatformMessageID (cm_Meta demo_message)) m))"
  using ingest_replay_changes_nothing[where D = demo_deps, OF demo_facts]
  by (simp only: fresh_world_simps)

end
