(* ===== verification/Ingest_Safety.thy ===== *)
theory Ingest_Safety
  imports Ingest_Facts
begin

text \<open>
  What one ingest leaves in the database and in the background, on every path and under every pattern
  of database faults: at most one new row, at most one recall mark, and only tasks that describe a
  stored row.
\<close>

section \<open>The database after an ingest\<close>

definition mark_recalled :: "Message \<Rightarrow> Message" where
  "mark_recalled m = m\<lparr>msg_policy_action := Some (str ''recalled'')\<rparr>"

text \<open>At most the message \<open>j\<close> has been marked as recalled.\<close>

definition recall_marked :: "db \<Rightarrow> db \<Rightarrow> bool" where
  "recall_marked d d' \<longleftrightarrow> d' = d \<or>
     (\<exists>j. d' = d\<lparr>messages := map_if (\<lambda>m. msg_id m = j) mark_recalled (messages d)\<rparr>)"

text \<open>The row an ingest may add: an inbound row of the live account's tenant that carries the message.\<close>

definition row_of :: "CanonicalMessage \<Rightarrow> Account \<Rightarrow> Message \<Rightarrow> bool" where
  "row_of msg acct row \<longleftrightarrow> msg_direction row = str ''inbound'' \<and> msg_tenant row = acc_tenant acct \<and>
     has_key (acc_id acct) (me_PlatformMessageID (cm_Meta msg)) row \<and>
     msg_body_text row = deref (bd_Text (cm_Body msg)) \<and>
     msg_sender_endpoint row = textOrNull (se_Endpoint (cm_Sender msg)) \<and>
     msg_raw_payload row = rawOrNull (me_RawPayload (cm_Meta msg)) \<and> \<not> msg_workflow_fired row"

definition adds_row :: "env \<Rightarrow> CanonicalMessage \<Rightarrow> db \<Rightarrow> Message \<Rightarrow> db \<Rightarrow> bool" where
  "adds_row E msg d row d' \<longleftrightarrow> d' = d\<lparr>messages := messages d @ [row]\<rparr> \<and>
     (\<exists>acct. live_account E msg d acct \<and> row_of msg acct row \<and>
        (\<forall>m\<in>set (messages d). \<not> has_key (acc_id acct) (me_PlatformMessageID (cm_Meta msg)) m))"

lemma inbound_row_of: "params_for msg acct p \<Longrightarrow> row_of msg acct (inbound_row p loc)"
  by (simp add: params_for_def row_of_def inbound_row_def has_key_def)

lemma CreateInboundMessage_adds:
  assumes "params_for msg acct p" and "live_account E msg d acct"
  shows "snd (CreateInboundMessage g p d) = d \<or>
     (\<exists>loc. adds_row E msg d (inbound_row p loc) (snd (CreateInboundMessage g p d)))"
    and "fst (CreateInboundMessage g p d) = Inr i \<Longrightarrow>
     \<exists>loc. adds_row E msg d (inbound_row p loc) (snd (CreateInboundMessage g p d))"
proof -
  have p: "ci_AccountID p = Some (acc_id acct)" "ci_PlatformMessageID p = me_PlatformMessageID (cm_Meta msg)"
    using assms(1) by (simp_all add: params_for_def)
  have "adds_row E msg d (inbound_row p loc) (snd (CreateInboundMessage g p d))"
    if "snd (CreateInboundMessage g p d) = d\<lparr>messages := messages d @ [inbound_row p loc]\<rparr>"
      "\<not> (\<exists>m\<in>set (messages d). same_platform_key (ci_AccountID p) (ci_PlatformMessageID p) m)" for loc
    using that assms(2) inbound_row_of[OF assms(1)] by (auto simp: adds_row_def p)
  then show "snd (CreateInboundMessage g p d) = d \<or>
     (\<exists>loc. adds_row E msg d (inbound_row p loc) (snd (CreateInboundMessage g p d)))"
    and "fst (CreateInboundMessage g p d) = Inr i \<Longrightarrow>
     \<exists>loc. adds_row E msg d (inbound_row p loc) (snd (CreateInboundMessage g p d))"
    by (cases rule: CreateInboundMessage_cases[of g p d]; auto)+
qed

lemma tame_marks:
  assumes "tame after" and "run (after i) w = ((), w')"
  shows "recall_marked (w_db w) (w_db w')"
  using assms MarkMessageRecalled_cases unfolding tame_def recall_marked_def mark_recalled_def by metis

definition ends_well :: "env \<Rightarrow> CanonicalMessage \<Rightarrow> world \<Rightarrow> Result \<Rightarrow> world \<Rightarrow> bool" where
  "ends_well E msg w res w' \<longleftrightarrow>
     (if rs_IsReplay res
      then w_db w' = w_db w \<and> (\<exists>acct. live_account E msg (w_db w) acct \<and>
        (\<exists>m\<in>set (messages (w_db w)). msg_id m = rs_MessageID res \<and>
           has_key (acc_id acct) (me_PlatformMessageID (cm_Meta msg)) m))
      else \<exists>row d. adds_row E msg (w_db w) row d \<and> msg_id row = rs_MessageID res \<and>
        msg_policy_action row = Some (rs_Action res) \<and> recall_marked d (w_db w'))"

lemma ends_well_cong: "w_db w1 = w_db w \<Longrightarrow> ends_well E msg w1 = ends_well E msg w"
  by (simp add: ends_well_def fun_eq_iff)

lemma persist_ends:
  assumes "run (persist E p act after) w = (r, w')" and "tame after" and "params_for msg acct p"
    and "live_account E msg (w_db w) acct" and "ci_PolicyAction p = Some act"
  shows "case r of
     Inl _ \<Rightarrow> w_tasks w' = w_tasks w \<and> (w_db w' = w_db w \<or> (\<exists>row. adds_row E msg (w_db w) row (w_db w')))
   | Inr res \<Rightarrow> ends_well E msg w res w'"
  using assms(1)
proof (cases rule: persist_run)
  case failed
  then show ?thesis using CreateInboundMessage_adds(1)[OF assms(3,4)] by (auto, metis)
next
  case (replay i)
  then have "\<exists>m\<in>set (messages (w_db w)). msg_id m = i \<and> has_key (acc_id acct) (me_PlatformMessageID (cm_Meta msg)) m"
    using assms(3) by (auto simp: GetMessageIDByPlatformID_def params_for_def dest!: find_Some_in)
  then show ?thesis using replay(1) quietD(1)[OF replay(2)] assms(4) by (auto simp: ends_well_def)
next
  case (stored w1)
  obtain loc where "adds_row E msg (w_db w) (inbound_row p loc) (w_db w1)"
    using CreateInboundMessage_adds(2)[OF assms(3,4) stored(2)] stored(3) by metis
  moreover have "recall_marked (w_db w1) (w_db w')" using tame_marks[OF assms(2) stored(8)] .
  moreover have "msg_id (inbound_row p loc) = ci_ID p" "msg_policy_action (inbound_row p loc) = Some act"
    using assms(5) by (simp_all add: inbound_row_def)
  ultimately show ?thesis using stored(1) by (auto simp: ends_well_def)
qed

lemma Ingest_ends:
  "let (r, w') = run (Ingest E D msg) w in
   case r of
     Inl _ \<Rightarrow> w_tasks w' = w_tasks w \<and> (w_db w' = w_db w \<or> (\<exists>row. adds_row E msg (w_db w) row (w_db w')))
   | Inr res \<Rightarrow> ends_well E msg w res w'"
proof -
  obtain r w' where r: "run (Ingest E D msg) w = (r, w')" by (cases "run (Ingest E D msg) w")
  from r show ?thesis
  proof (cases rule: Ingest_persist)
    case (rejected e)
    then show ?thesis using r by (auto dest: quietD)
  next
    case (persisted acct w1 p act after)
    note q = quietD[OF persisted(2)]
    have "live_account E msg (w_db w1) acct" using persisted(1) q by simp
    from persist_ends[OF persisted(4,5,3) this persisted(6)] show ?thesis
      using r q ends_well_cong[OF q(1)] by (cases r) simp_all
  qed
qed

text \<open>
  C10. Every ingest, under every pattern of database faults, ends in one of three ways. An error leaves
  no task and at most one new row. A replay changes nothing and names the stored row of the key. Any
  other success has added exactly one row, the first one with its (account, platform message id) key,
  on a live account and for that account's tenant, carrying the message's text, sender and raw payload
  under the answered id and action; apart from that at most one row has been marked as recalled. Only
  a message for an active account gets that far.
\<close>

theorem ingest_stores_once:
  "let (r, w') = run (Ingest E D msg) w in
   case r of
     Inl _ \<Rightarrow> w_tasks w' = w_tasks w \<and> (w_db w' = w_db w \<or> (\<exists>row. adds_row E msg (w_db w) row (w_db w')))
   | Inr res \<Rightarrow> ends_well E msg w res w'"
  by (rule Ingest_ends)

section \<open>The tasks an ingest starts\<close>

text \<open>The payload of a delivery describes the stored row.\<close>

definition describes :: "env \<Rightarrow> Forward \<Rightarrow> Message \<Rightarrow> bool" where
  "describes E f m \<longleftrightarrow>
     fw_MessageID f = e_show_uuid E (msg_id m) \<and>
     fw_TenantID f = e_show_uuid E (msg_tenant m) \<and>
     fw_ChannelID f = (case msg_channel m of None \<Rightarrow> [] | Some i \<Rightarrow> e_show_uuid E i) \<and>
     (\<exists>acc. msg_account m = Some acc \<and> fw_AccountID f = e_show_uuid E acc) \<and>
     textOrNull (fw_SenderEndpoint f) = msg_sender_endpoint m \<and>
     fw_Text f = msg_body_text m \<and> fw_Attachments f = msg_attachments m \<and>
     fw_ReceivedAt f = e_show_time E (msg_received_at m) \<and>
     (\<exists>doc. msg_parsed m = Some (parsedDoc_json E doc) \<and> fw_Command f = pd_Command doc \<and>
        fw_Payload f = pd_Payload doc \<and>
        fw_ContactID f = (case pd_ContactID doc of None \<Rightarrow> [] | Some i \<Rightarrow> e_show_uuid E i))"

definition latest_echo :: "uuid \<Rightarrow> gostring \<Rightarrow> time \<Rightarrow> db \<Rightarrow> Message \<Rightarrow> bool" where
  "latest_echo acc to cutoff d m \<longleftrightarrow> m \<in> set (messages d) \<and>
     recallable (Some acc) (textOrNull to) cutoff m \<and>
     (\<forall>m'\<in>set (messages d). recallable (Some acc) (textOrNull to) cutoff m' \<longrightarrow>
        msg_received_at m' \<le> msg_received_at m)"

text \<open>
  Why a task may be started: a delivery for a row stored with action \<open>execute\<close> or \<open>routed\<close> on a channel
  with a consumer; an echo for a row stored with action \<open>echo_back\<close>; a recall notice for the sender's
  latest echoed message inside the window, which is marked by then.
\<close>

definition justified :: "env \<Rightarrow> CanonicalMessage \<Rightarrow> world \<Rightarrow> Result \<Rightarrow> db \<Rightarrow> task \<Rightarrow> bool" where
  "justified E msg w res d' t \<longleftrightarrow> \<not> rs_IsReplay res \<and> (case t of
     ForwardTask url i f \<Rightarrow> url \<noteq> [] \<and> i = rs_MessageID res \<and> rs_Action res \<in> {str ''execute'', str ''routed''} \<and>
       (\<exists>m\<in>set (messages d'). msg_id m = i \<and> msg_policy_action m = Some (rs_Action res) \<and> describes E f m)
   | DispatchTask acct i to body label \<Rightarrow> live_account E msg (w_db w) acct \<and> to = se_Endpoint (cm_Sender msg) \<and>
       (if label = str ''echoed_back''
        then i = rs_MessageID res \<and> rs_Action res = str ''echo_back'' \<and>
          (\<exists>desc secs. body = EchoText desc (deref (bd_Text (cm_Body msg))) secs)
        else label = str ''recalled'' \<and> rs_Action res = str ''recalled'' \<and>
          (\<exists>secs m. latest_echo (acc_id acct) to (w_now w - secs * second) (w_db w) m \<and> msg_id m = i \<and>
             body = recalled_text E (msg_body_text m) \<and> mark_recalled m \<in> set (messages d'))))"

definition tasks_justified :: "env \<Rightarrow> CanonicalMessage \<Rightarrow> world \<Rightarrow> ingest_error + Result \<Rightarrow> world \<Rightarrow> bool" where
  "tasks_justified E msg w r w' \<longleftrightarrow> w_tasks w' = w_tasks w \<or>
     (\<exists>res t. r = Inr res \<and> w_tasks w' = w_tasks w @ [t] \<and> justified E msg w res (w_db w') t)"

lemma persist_tasks:
  assumes "run (persist E p act after) w = (r, w')"
    and new: "\<And>w1 loc. w_db w1 = (w_db w)\<lparr>messages := messages (w_db w) @ [inbound_row p loc]\<rparr> \<Longrightarrow>
        w_tasks w1 = w_tasks w \<Longrightarrow> run (after (ci_ID p)) w1 = ((), w') \<Longrightarrow>
        tasks_justified E msg w (Inr \<lparr>rs_MessageID = ci_ID p, rs_IsReplay = False, rs_Action = act\<rparr>) w'"
  shows "tasks_justified E msg w r w'"
  using assms(1)
proof (cases rule: persist_run)
  case failed
  then show ?thesis by (simp add: tasks_justified_def)
next
  case (replay i)
  then show ?thesis by (simp add: tasks_justified_def quietD)
next
  case (stored w1)
  obtain loc where "w_db w1 = (w_db w)\<lparr>messages := messages (w_db w) @ [inbound_row p loc]\<rparr>"
    using stored(2,3) by (cases rule: CreateInboundMessage_cases[of "e_geography E" p "w_db w"]) auto
  from new[OF this stored(4) stored(8)] show ?thesis using stored(1) by simp
qed

lemma describes_inbound:
  "describes E (buildForward E t acct ch msg doc i)
     (inbound_row (inbound_params E t i acct (acc_id acct) (cc_ID ch) msg doc act) loc)"
  by (auto simp: describes_def buildForward_def inbound_row_def inbound_params_def)

lemma FindRecentEcho_latest:
  assumes "fst (FindRecentEchoForSender (Some acc) (textOrNull to) cutoff d) = one_row (Some (i, text))"
  obtains m where "latest_echo acc to cutoff d m" "msg_id m = i" "msg_body_text m = text"
proof -
  obtain m ms where m: "sort_desc msg_received_at (filter (recallable (Some acc) (textOrNull to) cutoff) (messages d)) = m # ms"
      "msg_id m = i" "msg_body_text m = text"
    using assms by (auto simp: FindRecentEchoForSender_def first_of_def split: list.splits)
  have "latest_echo acc to cutoff d m"
    unfolding latest_echo_def
    using hd_sort_desc_in[OF m(1)] hd_sort_desc_max[OF m(1)] by auto
  then show thesis using that m(2,3) by blast
qed

lemma tasks_justified_quiet:
  assumes "quiet w w1"
  shows "tasks_justified E msg w1 r w' = tasks_justified E msg w r w'"
  using quietD[OF assms] by (simp add: tasks_justified_def justified_def split: task.splits)

lemma tasks_justified_rejected: "quiet w w' \<Longrightarrow> tasks_justified E msg w r w'"
  by (simp add: tasks_justified_def quietD)

lemma ci_ID_params [simp]:
  "ci_ID (inbound_params E t n acct accID chan msg doc act) = n"
  "ci_ID (recall_params E t n acct accID msg doc act) = n"
  by (simp_all add: inbound_params_def recall_params_def)

lemma tasks_justified_same: "w_tasks w' = w_tasks w \<Longrightarrow> tasks_justified E msg w r w'"
  by (simp add: tasks_justified_def)

lemma forward_justified:
  assumes "w_db w1 = (w_db w)\<lparr>messages := messages (w_db w) @
        [inbound_row (inbound_params E t n acct (acc_id acct) (cc_ID ch) msg doc act) loc]\<rparr>"
    and "w_tasks w1 = w_tasks w" and "forwards D ch" and "act \<in> {str ''execute'', str ''routed''}"
    and "w' = w1\<lparr>w_tasks := w_tasks w1 @ [forward_task E t acct ch msg doc n]\<rparr>"
  shows "tasks_justified E msg w (Inr \<lparr>rs_MessageID = n, rs_IsReplay = False, rs_Action = act\<rparr>) w'"
  using assms describes_inbound[of E t acct ch msg doc n act loc]
  unfolding tasks_justified_def justified_def forward_task_def forwards_def
  by (auto simp: inbound_row_def inbound_params_def)

lemma handlePassthrough_justified:
  assumes "run (handlePassthrough E D acct (acc_id acct) msg ch) w = (r, w')"
  shows "tasks_justified E msg w r w'"
proof -
  let ?p = "\<lambda>n. inbound_params E (w_now w) n acct (acc_id acct) (cc_ID ch) msg (passthrough_doc msg) (str ''routed'')"
  obtain n w1 where w1: "quiet w w1" and
    p: "run (persist E (?p n) (str ''routed'') (\<lambda>i. when_prog (forwards D ch)
          (spawn (forward_task E (w_now w) acct ch msg (passthrough_doc msg) i)))) w1 = (r, w')"
    using handlePassthrough_run[OF assms] by blast
  have "tasks_justified E msg w1 r w'"
  proof (rule persist_tasks[OF p])
    fix w2 loc
    assume db: "w_db w2 = (w_db w1)\<lparr>messages := messages (w_db w1) @ [inbound_row (?p n) loc]\<rparr>"
      and t: "w_tasks w2 = w_tasks w1"
      and run: "run (when_prog (forwards D ch) (spawn (forward_task E (w_now w) acct ch msg (passthrough_doc msg) (ci_ID (?p n))))) w2 = ((), w')"
    show "tasks_justified E msg w1 (Inr \<lparr>rs_MessageID = ci_ID (?p n), rs_IsReplay = False, rs_Action = str ''routed''\<rparr>) w'"
    proof (cases "forwards D ch")
      case True
      then show ?thesis using forward_justified[OF db t True] run by (simp add: when_prog_def)
    next
      case False
      then show ?thesis using run t by (intro tasks_justified_same) (simp add: when_prog_def)
    qed
  qed
  then show ?thesis using tasks_justified_quiet[OF w1] by simp
qed

lemma handleStructured_justified:
  assumes "run (handleStructured E D acct (acc_id acct) msg ch) w = (r, w')" and "live_account E msg (w_db w) acct"
  shows "tasks_justified E msg w r w'"
  using assms(1)
proof (cases rule: handleStructured_run)
  case (rejected e)
  then show ?thesis by (simp add: tasks_justified_rejected)
next
  case (persisted doc action desc n w0 w1)
  let ?act = "action_name action"
  let ?p = "inbound_params E (w_now w) n acct (acc_id acct) (cc_ID ch) msg doc ?act"
  have "tasks_justified E msg w1 r w'"
  proof (rule persist_tasks[OF persisted(4)])
    fix w2 loc
    let ?after = "do { when_prog (action = ActionEchoBack)
                      (spawn (DispatchTask acct (ci_ID ?p) (se_Endpoint (cm_Sender msg))
                        (EchoText desc (deref (bd_Text (cm_Body msg))) (cc_RecallSeconds ch)) (str ''echoed_back'')));
                    when_prog (action = ActionExecute \<and> forwards D ch)
                      (spawn (forward_task E (w_now w) acct ch msg doc (ci_ID ?p))) }"
    assume db: "w_db w2 = (w_db w1)\<lparr>messages := messages (w_db w1) @ [inbound_row ?p loc]\<rparr>"
      and t: "w_tasks w2 = w_tasks w1" and run: "run ?after w2 = ((), w')"
    have live: "live_account E msg (w_db w1) acct" using assms(2) quietD(1)[OF persisted(2)] by simp
    consider "action = ActionEchoBack" | "action = ActionExecute" "forwards D ch"
      | "action \<noteq> ActionEchoBack" "\<not> (action = ActionExecute \<and> forwards D ch)" by blast
    then show "tasks_justified E msg w1 (Inr \<lparr>rs_MessageID = ci_ID ?p, rs_IsReplay = False, rs_Action = ?act\<rparr>) w'"
    proof cases
      case 1
      then have "w_tasks w' = w_tasks w1 @ [DispatchTask acct n (se_Endpoint (cm_Sender msg))
          (EchoText desc (deref (bd_Text (cm_Body msg))) (cc_RecallSeconds ch)) (str ''echoed_back'')]"
        using run t by (auto simp: when_prog_def)
      then show ?thesis using 1 live by (auto simp: tasks_justified_def justified_def action_name_def)
    next
      case 2
      then show ?thesis using forward_justified[OF db t 2(2)] run by (simp add: when_prog_def action_name_def)
    next
      case 3
      then have "w' = w2" using run by (auto simp: when_prog_def split: if_splits)
      then show ?thesis using t by (intro tasks_justified_same) simp
    qed
  qed
  then show ?thesis using tasks_justified_quiet[OF persisted(2)] by simp
qed

lemma MarkMessageRecalled_done:
  assumes "run (store (MarkMessageRecalled j)) w = (Inr u, w')" and "m \<in> set (messages (w_db w))" and "msg_id m = j"
  shows "mark_recalled m \<in> set (messages (w_db w'))" "w_tasks w' = w_tasks w"
proof -
  have q: "MarkMessageRecalled j (w_db w) = (Inr u, w_db w')" "w_tasks w' = w_tasks w"
    using assms(1) by (auto elim!: run_store)
  have mark: "mark_recalled = (\<lambda>m. m\<lparr>msg_policy_action := Some (str ''recalled'')\<rparr>)"
    by (simp add: mark_recalled_def fun_eq_iff)
  from q(1) have "w_db w' = (w_db w)\<lparr>messages := map_if (\<lambda>m. msg_id m = j) mark_recalled (messages (w_db w))\<rparr>"
    unfolding mark by (simp add: MarkMessageRecalled_def update_messages_def commit_def split: if_splits)
  then show "mark_recalled m \<in> set (messages (w_db w'))" using assms(2,3) by (auto simp: map_if_def)
  show "w_tasks w' = w_tasks w" by (rule q(2))
qed

lemma recall_after_justified:
  assumes "run (recall_after E acct to (Some (j, text))) w2 = ((), w')"
    and "w_db w2 = (w_db w)\<lparr>messages := messages (w_db w) @ [row]\<rparr>" and "w_tasks w2 = w_tasks w"
    and "latest_echo (acc_id acct) to (w_now w - secs * second) (w_db w) m" "msg_id m = j" "msg_body_text m = text"
    and "to = se_Endpoint (cm_Sender msg)" and "live_account E msg (w_db w) acct"
  shows "tasks_justified E msg w (Inr \<lparr>rs_MessageID = n, rs_IsReplay = False, rs_Action = str ''recalled''\<rparr>) w'"
proof -
  obtain x w3 where x: "run (store (MarkMessageRecalled j)) w2 = (x, w3)"
    by (cases "run (store (MarkMessageRecalled j)) w2")
  show ?thesis
  proof (cases x)
    case (Inl e)
    then have "w_tasks w' = w_tasks w" using assms(1,3) x store_outcome(1)[OF x] by (simp add: recall_after_def)
    then show ?thesis by (rule tasks_justified_same)
  next
    case (Inr u)
    have "m \<in> set (messages (w_db w2))" using assms(2,4) by (simp add: latest_echo_def)
    note marked = MarkMessageRecalled_done[OF x[unfolded Inr] this assms(5)]
    have w': "w' = w3\<lparr>w_tasks := w_tasks w @ [DispatchTask acct j to (recalled_text E text) (str ''recalled'')]\<rparr>"
      using assms(1,3) x Inr marked(2) by (simp add: recall_after_def)
    have labels: "str ''recalled'' \<noteq> str ''echoed_back''" by (simp add: str_def)
    show ?thesis
      unfolding tasks_justified_def justified_def
      using assms(4-8) marked(1) labels by (auto simp: w' intro!: exI[of _ secs] exI[of _ m])
  qed
qed

lemma handleRecall_justified:
  assumes "run (handleRecall E acct (acc_id acct) msg secs) w = (r, w')" and "live_account E msg (w_db w) acct"
  shows "tasks_justified E msg w r w'"
  using assms(1)
proof (cases rule: handleRecall_run)
  case rejected
  then show ?thesis by (simp add: tasks_justified_rejected)
next
  case (persisted found n w1)
  let ?to = "se_Endpoint (cm_Sender msg)"
  note q = quietD[OF persisted(1)]
  have "tasks_justified E msg w1 r w'"
  proof (rule persist_tasks[OF persisted(3)])
    fix w2 loc
    let ?act = "if found = None then action_name ActionClarify else str ''recalled''"
    let ?p = "recall_params E (w_now w) n acct (acc_id acct) msg (empty_doc\<lparr>pd_Recall := True\<rparr>) ?act"
    assume db: "w_db w2 = (w_db w1)\<lparr>messages := messages (w_db w1) @ [inbound_row ?p loc]\<rparr>"
      and t: "w_tasks w2 = w_tasks w1" and run: "run (recall_after E acct ?to found) w2 = ((), w')"
    show "tasks_justified E msg w1 (Inr \<lparr>rs_MessageID = ci_ID ?p, rs_IsReplay = False, rs_Action = ?act\<rparr>) w'"
    proof (cases found)
      case None
      then show ?thesis using run t by (intro tasks_justified_same) (simp add: recall_after_def)
    next
      case (Some x)
      obtain j original where x: "x = (j, original)" by (cases x)
      obtain m where "latest_echo (acc_id acct) ?to (w_now w - secs * second) (w_db w) m" "msg_id m = j" "msg_body_text m = original"
        by (rule FindRecentEcho_latest[OF persisted(2)[unfolded Some x]])
      then show ?thesis
        using recall_after_justified[OF run[unfolded Some x] db t, of secs m msg] assms(2) q Some by simp
    qed
  qed
  then show ?thesis using tasks_justified_quiet[OF persisted(1)] by simp
qed

text \<open>
  C11. An ingest starts at most one background task, and only on a fresh success. A delivery goes to a
  channel's non-empty consumer URL, is for the row just stored with action \<open>execute\<close> or \<open>routed\<close>, and
  its payload describes that row field by field. An echo answers the sender of a row stored as
  \<open>echo_back\<close>. A recall notice is for the sender's latest echoed message inside the recall window,
  quotes its text, and that message is marked as recalled.
\<close>

theorem ingest_tasks_justified:
  "let (r, w') = run (Ingest E D msg) w in tasks_justified E msg w r w'"
proof -
  obtain r w' where r: "run (Ingest E D msg) w = (r, w')" by (cases "run (Ingest E D msg) w")
  from r have "tasks_justified E msg w r w'"
  proof (cases rule: Ingest_run)
    case (rejected e)
    then show ?thesis by (simp add: tasks_justified_rejected)
  next
    case (accepted acct ch w1)
    have live: "live_account E msg (w_db w1) acct" using accepted(1) quietD(1)[OF accepted(2)] by simp
    have "tasks_justified E msg w1 r w'"
      using accepted(4) handleRecall_justified[OF _ live] handlePassthrough_justified
        handleStructured_justified[OF _ live] by (auto simp: handler_of_def split: if_splits)
    then show ?thesis using tasks_justified_quiet[OF accepted(2)] by simp
  qed
  then show ?thesis using r by simp
qed

section \<open>The decision\<close>

text \<open>The gate of a parsed document under the default thresholds, spelled out.\<close>

definition unknown_command :: "parsedDoc \<Rightarrow> bool" where
  "unknown_command doc \<longleftrightarrow> pd_Command doc \<noteq> [] \<and> \<not> pd_KnownCommand doc"

definition gate :: "unicode \<Rightarrow> parsedDoc \<Rightarrow> action" where
  "gate U doc =
     (if \<not> pd_OK doc \<or> pd_TargetKind doc = str ''target'' then ActionClarify
      else if ToUpper U (pd_Command doc) = str ''SOS'' then ActionExecute
      else if ToUpper U (pd_Command doc) \<in> {str ''MISSING'', str ''DAMAGE''} then ActionEchoBack
      else if pd_ShortIDMatch doc = str ''exact'' \<and> \<not> unknown_command doc then ActionExecute
      else if pd_ShortIDMatch doc \<notin> {str ''exact'', str ''levenshtein_1'', str ''levenshtein_2''} \<or>
        (pd_ShortIDMatch doc = str ''levenshtein_2'' \<and> unknown_command doc) then ActionClarify
      else ActionEchoBack)"

lemma Parse_target_no_command: "pr_has_target (Parse U text cfg) \<Longrightarrow> pr_command (Parse U text cfg) = []"
  by (auto simp: Parse_def Let_def zero_parse_result_def split: prod.splits if_splits)

lemma Resolve_match_in:
  assumes "mt_ContactID (resolve_rows U s rows) = Some i"
  shows "\<exists>row\<in>set rows. sr_ID row = i"
proof -
  have "closest U s rows b j = (b', Some i) \<Longrightarrow> j = Some i \<or> (\<exists>row\<in>set rows. sr_ID row = i)" for b j b'
    by (induction rows arbitrary: b j) (auto split: if_splits)
  then show ?thesis
    using assms by (auto simp: resolve_rows_def resolve_loop_result Let_def split: option.splits prod.splits if_splits
      dest: find_Some_in)
qed

lemma Decide_gate:
  assumes "pd_OK doc" and "pd_Command doc = pr_command pr" and "pd_KnownCommand doc = pr_known_command pr"
    and "pd_TargetKind doc = (if pr_has_target pr then str ''target'' else str ''none'')" and "pd_ShortIDMatch doc = m"
    and "pr_has_target pr \<Longrightarrow> pr_command pr = []"
  shows "Decide U (Score \<lparr>si_ShortIDMatch = m, si_HasTarget = pr_has_target pr, si_TargetMatch = [],
      si_HasCommand = (pr_command pr \<noteq> []), si_KnownCommand = pr_known_command pr\<rparr>) (pr_command pr)
      (pd_TargetKind doc) DefaultThresholds = gate U doc"
  using assms
  by (auto simp: Decide_default gate_def gate_executes_def gate_clarifies_def always_echoed_def target_doubt_def
      command_doubt_def known_match_def unknown_command_def ToUpper_def empty_doc_def str_def)

text \<open>
  C12. What the service decides on a text under the default thresholds, read off the stored document: an
  unparsable or targeted message always asks for clarification; an SOS is always forwarded and a
  MISSING or DAMAGE always echoed; otherwise a message is forwarded exactly when the short id matched
  exactly and the command, if any, is known, and clarification is asked exactly when the short id
  matched nothing or a two-edit match comes with an unknown command. The contact named in the document
  is always one of the tenant's own.
\<close>

theorem decide_default_gate:
  "let (r, w') = run (decide E t text cfg DefaultThresholds) w in
   case r of Inl e \<Rightarrow> e = Internal
   | Inr (doc, action, desc) \<Rightarrow> action = gate (e_uni E) doc \<and> pd_Confidence doc \<in> {0..1} \<and>
       (case pd_ContactID doc of None \<Rightarrow> True
        | Some i \<Rightarrow> \<exists>c\<in>set (contacts (w_db w)). ct_id c = i \<and> ct_tenant c = t)"
proof (cases "pr_ok (Parse (e_uni E) text cfg)")
  case False
  then show ?thesis by (simp add: decide_def gate_def empty_doc_def Let_def)
next
  case True
  let ?q = "ListContactShortIDs t"
  obtain x w1 where x: "run (store ?q) w = (x, w1)" by (cases "run (store ?q) w")
  have q: "x = fst (?q (w_db w)) \<or> x = Inl Failure" using store_read[OF x] by (auto simp: ListContactShortIDs_def)
  show ?thesis
  proof (cases x)
    case (Inl e)
    then show ?thesis using True x by (simp add: decide_def Resolve_def Let_def)
  next
    case (Inr rows)
    have own: "\<exists>c\<in>set (contacts (w_db w)). ct_id c = i \<and> ct_tenant c = t"
      if "mt_ContactID (resolve_rows U s rows) = Some i" for U s i
      using Resolve_match_in[OF that] q Inr by (auto simp: ListContactShortIDs_def)
    let ?pr = "Parse (e_uni E) text cfg"
    let ?m = "resolve_rows (e_uni E) (pr_short_id ?pr) rows"
    obtain doc desc where d: "run (decide E t text cfg DefaultThresholds) w =
        (Inr (doc, Decide (e_uni E) (pd_Confidence doc) (pr_command ?pr) (pd_TargetKind doc) DefaultThresholds, desc), w1)"
      and doc: "pd_OK doc" "pd_Command doc = pr_command ?pr" "pd_KnownCommand doc = pr_known_command ?pr"
        "pd_TargetKind doc = (if pr_has_target ?pr then str ''target'' else str ''none'')"
        "pd_ShortIDMatch doc = mt_ShortIDMatch ?m" "pd_ContactID doc = mt_ContactID ?m"
        "pd_Confidence doc = Score \<lparr>si_ShortIDMatch = mt_ShortIDMatch ?m, si_HasTarget = pr_has_target ?pr,
          si_TargetMatch = [], si_HasCommand = (pr_command ?pr \<noteq> []), si_KnownCommand = pr_known_command ?pr\<rparr>"
      using True x Inr by (simp add: decide_def Resolve_def Let_def)
    show ?thesis
      using d Decide_gate[OF doc(1-5) Parse_target_no_command] Score_facts own doc(6,7)
      by (auto split: option.splits)
  qed
qed

section \<open>Running the tasks\<close>

lemma hub_send_single:
  assumes "hub_registry E ty = Some a" and "run (ad_send a acct to body) w = (r, w')"
  shows "single_exchange w r w'"
  using assms(1)
  by (cases rule: hub_registry_cases)
    (use assms(2) in \<open>auto simp: ultramsg_adapter_def twilio_adapter_def telegram_adapter_def email_adapter_def email_Send_def
      dest: ultramsg_single twilio_single telegram_single SendRich_single\<close>)

text \<open>
  What running a task may record: a notice's outbound row, answering the message the task names, when
  the platform answered the one request sent; a delivery's mark, when the consumer acknowledged it.
\<close>

definition notice_row :: "Account \<Rightarrow> uuid \<Rightarrow> gostring \<Rightarrow> gostring \<Rightarrow> Message \<Rightarrow> bool" where
  "notice_row acct i body label row \<longleftrightarrow> msg_direction row = str ''outbound'' \<and> msg_tenant row = acc_tenant acct \<and>
     msg_account row = Some (acc_id acct) \<and> msg_body_text row = body \<and> msg_in_reply_to row = Some i \<and>
     msg_policy_action row = Some label \<and> msg_recipient_contact row = None \<and> msg_sender_endpoint row = None"

definition records_truthfully :: "task \<Rightarrow> world \<Rightarrow> world \<Rightarrow> bool" where
  "records_truthfully t w w' \<longleftrightarrow> (case t of
     DispatchTask acct i to body label \<Rightarrow> w_db w' = w_db w \<or>
       (\<exists>row rq status answer. w_db w' = (w_db w)\<lparr>messages := messages (w_db w) @ [row]\<rparr> \<and>
          notice_row acct i body label row \<and> w_sent w' = w_sent w @ [(rq, Reply status answer)])
   | ForwardTask url i f \<Rightarrow> (\<forall>j. fired (w_db w') j \<longrightarrow> fired (w_db w) j \<or>
       (j = i \<and> (\<exists>l. w_sent w' = w_sent w @ l \<and> acknowledged (forward_request url f) l))))"

lemma store_outbound:
  assumes "run (store (CreateOutboundMessage p)) w = (r, w')"
  shows "w_sent w' = w_sent w" "w_db w' = w_db w \<or> w_db w' = (w_db w)\<lparr>messages := messages (w_db w) @ [outbound_row p]\<rparr>"
  using store_outcome[OF assms] by (auto simp: CreateOutboundMessage_def commit_def)

lemma dispatchOutbound_records:
  assumes "run (dispatchOutbound E (hub_registry E) acct i to body label) w = (u, w')"
  shows "records_truthfully (DispatchTask acct i to body label) w w'"
proof (cases "acc_credentials acct = [] \<or> e_decrypt E (acc_credentials acct) = None \<or> hub_registry E (acc_type acct) = None")
  case True
  then have "w' = w" using assms by (auto simp: dispatchOutbound_def Get_def split: option.splits if_splits)
  then show ?thesis by (simp add: records_truthfully_def)
next
  case False
  then obtain tok a where tok: "e_decrypt E (acc_credentials acct) = Some tok" and a: "hub_registry E (acc_type acct) = Some a"
    by auto
  let ?oa = "\<lparr>oa_Type = acc_type acct, oa_Identifier = acc_platform_identifier acct, oa_Token = tok\<rparr>"
  obtain r w1 where send: "run (ad_send a ?oa to body) w = (r, w1)" by (cases "run (ad_send a ?oa to body) w")
  note single = hub_send_single[OF a send]
  show ?thesis
  proof (cases r)
    case (Inl e)
    then have "w' = w1" using assms False tok a send by (simp add: dispatchOutbound_def Get_def)
    then show ?thesis using single_exchange_frame(1)[OF single] by (simp add: records_truthfully_def)
  next
    case (Inr pmid)
    obtain rq status answer where sent: "w_sent w1 = w_sent w @ [(rq, Reply status answer)]"
      using single Inr by (auto simp: single_exchange_def) (metis net_reply.exhaust)
    define k where "k = (if pmid = [] then Suc (w_ids w1) else w_ids w1)"
    define p where "p = \<lparr>co_ID = e_new_id E k, co_TenantID = acc_tenant acct, co_AccountID = Some (acc_id acct),
      co_RecipientContactID = None, co_BodyText = body, co_PolicyAction = Some label, co_InReplyToMessageID = Some i,
      co_PlatformMessageID = (if pmid = [] then e_show_uuid E (e_new_id E (w_ids w1)) else pmid), co_ReceivedAt = w_now w1\<rparr>"
    let ?w2 = "w1\<lparr>w_ids := Suc k\<rparr>"
    obtain x where st: "run (store (CreateOutboundMessage p)) ?w2 = (x, w')"
      using assms False tok a send Inr
      by (cases "run (store (CreateOutboundMessage p)) ?w2") (auto simp: dispatchOutbound_def Get_def p_def k_def split: if_splits)
    have "notice_row acct i body label (outbound_row p)" by (simp add: notice_row_def outbound_row_def p_def)
    then show ?thesis
      using store_outbound[OF st] sent single_exchange_frame(1)[OF single] by (auto simp: records_truthfully_def)
  qed
qed

lemma dispatchOutbound_tasks:
  assumes "run (dispatchOutbound E (hub_registry E) acct i to body label) w = (u, w')"
  shows "w_tasks w' = w_tasks w"
proof (cases "acc_credentials acct = [] \<or> e_decrypt E (acc_credentials acct) = None \<or> hub_registry E (acc_type acct) = None")
  case True
  then show ?thesis using assms by (auto simp: dispatchOutbound_def Get_def split: option.splits if_splits)
next
  case False
  then obtain tok a where tok: "e_decrypt E (acc_credentials acct) = Some tok" and a: "hub_registry E (acc_type acct) = Some a"
    by auto
  let ?oa = "\<lparr>oa_Type = acc_type acct, oa_Identifier = acc_platform_identifier acct, oa_Token = tok\<rparr>"
  obtain r w1 where send: "run (ad_send a ?oa to body) w = (r, w1)" by (cases "run (ad_send a ?oa to body) w")
  note single = single_exchange_frame(2)[OF hub_send_single[OF a send]]
  show ?thesis
    using assms False tok a send single
    by (auto simp: dispatchOutbound_def Get_def split: sum.splits prod.splits if_splits dest!: store_outcome(1))
qed


text \<open>
  On an email account no echo or recall notice is ever sent or recorded: whatever the credentials,
  recipient and text, running the task changes nothing.
\<close>

theorem email_notices_never_sent:
  "run (run_task E D (hub_registry E) (DispatchTask (acct\<lparr>acc_type := TypeEmailSES\<rparr>) i to body label)) w = ((), w)"
  by (simp add: run_task_def dispatchOutbound_def Get_def hub_registry_def Register_def email_adapter_def
      email_Send_def SendRich_def plain_message_def split: option.split)

end
