(* ===== verification/Services.thy ===== *)
theory Services
  imports World
begin

text \<open>
  What the HTTP services of the hub share: a query whose failure becomes a service error, the request a
  handler sees (the tenant header, the path value, the body), and its answer (status and JSON body).
\<close>

section \<open>Queries with a service error\<close>

definition ask :: "(db_error \<Rightarrow> 'e) \<Rightarrow> 'a query \<Rightarrow> (world, 'e + 'a) prog" where
  "ask f q = State_Monad.bind (store q) (\<lambda>r. ret (case r of Inl e \<Rightarrow> Inl (f e) | Inr x \<Rightarrow> Inr x))"

lemma ask_Inr:
  assumes "run (ask f q) w = (Inr x, w')"
  shows "q (w_db w) = (Inr x, w_db w')" "w_tasks w' = w_tasks w" "w_sent w' = w_sent w" "w_now w' = w_now w"
    "w_ids w' = w_ids w" "w_net w' = w_net w"
proof -
  from assms obtain r where r: "run (store q) w = (r, w')" and x: "r = Inr x"
    by (auto simp: ask_def split: sum.splits prod.splits)
  then show "q (w_db w) = (Inr x, w_db w')" "w_tasks w' = w_tasks w" "w_sent w' = w_sent w" "w_now w' = w_now w"
    "w_ids w' = w_ids w" "w_net w' = w_net w"
    by (auto elim!: run_store)
qed

lemma ask_outcome:
  assumes "run (ask f q) w = (r, w')"
  shows "w_tasks w' = w_tasks w" "w_sent w' = w_sent w" "w_now w' = w_now w"
    "w_db w' = w_db w \<or> w_db w' = snd (q (w_db w))"
proof -
  from assms obtain x where "run (store q) w = (x, w')" by (auto simp: ask_def split: sum.splits prod.splits)
  from store_outcome[OF this]
  show "w_tasks w' = w_tasks w" "w_sent w' = w_sent w" "w_now w' = w_now w"
    "w_db w' = w_db w \<or> w_db w' = snd (q (w_db w))" by auto
qed

lemma ask_read:
  assumes "run (ask f q) w = (r, w')" and "\<And>d. snd (q d) = d"
  shows "quiet w w'"
proof -
  from assms(1) obtain x where "run (store q) w = (x, w')" by (auto simp: ask_def split: sum.splits prod.splits)
  from store_read(1)[OF this assms(2)] show ?thesis .
qed

lemma ask_Inl:
  assumes "run (ask f q) w = (Inl e, w')"
  shows "\<exists>x. e = f x"
  using assms by (auto simp: ask_def split: sum.splits prod.splits)

lemma run_ask_clean:
  "w_faults w = [] \<Longrightarrow> run (ask f q) w =
     ((case fst (q (w_db w)) of Inl e \<Rightarrow> Inl (f e) | Inr x \<Rightarrow> Inr x), w\<lparr>w_db := snd (q (w_db w))\<rparr>)"
  by (simp add: ask_def run_store_clean)

lemma ask_rel:
  assumes "\<And>d. R d d" and "\<And>d. R d (snd (q d))"
  shows "state_io_rel (\<lambda>w w'. R (w_db w) (w_db w')) (ask f q)"
proof (rule state_io_relI)
  fix r w w'
  assume "run (ask f q) w = (r, w')"
  then obtain x where "run (store q) w = (x, w')" by (auto simp: ask_def split: sum.splits prod.splits)
  from state_io_relD[OF store_rel[where R = R, OF assms] this] show "R (w_db w) (w_db w')" .
qed

section \<open>Requests and answers\<close>

text \<open>\<open>ar_body = []\<close> is a request with \<open>ContentLength\<close> zero.\<close>

record api_request =
  ar_tenant :: gostring
  ar_id :: gostring
  ar_body :: gostring

type_synonym answer = "nat \<times> json"

definition error_json :: "string \<Rightarrow> json" where
  "error_json code = JObj [(str ''error'', JStr (str code))]"

definition error_detail_json :: "string \<Rightarrow> gostring \<Rightarrow> json" where
  "error_detail_json code detail = JObj [(str ''error'', JStr (str code)), (str ''detail'', JStr detail)]"

definition no_tenant :: answer where
  "no_tenant = (400, error_json ''missing_or_invalid_tenant'')"

definition invalid_json :: answer where
  "invalid_json = (400, error_json ''invalid_json'')"

text \<open>\<open>tenantOf\<close>: the tenant of a request, or the answer without one.\<close>

definition with_tenant :: "env \<Rightarrow> api_request \<Rightarrow> (uuid \<Rightarrow> (world, answer) prog) \<Rightarrow> (world, answer) prog" where
  "with_tenant E rq f = (case e_parse_uuid E (ar_tenant rq) of None \<Rightarrow> ret no_tenant | Some t \<Rightarrow> f t)"

text \<open>\<open>idOf\<close>: an id in the path.\<close>

definition with_id :: "env \<Rightarrow> string \<Rightarrow> gostring \<Rightarrow> (uuid \<Rightarrow> (world, answer) prog) \<Rightarrow> (world, answer) prog" where
  "with_id E field raw f = (case e_parse_uuid E raw of None \<Rightarrow> ret (400, error_json (''invalid_'' @ field)) | Some i \<Rightarrow> f i)"

text \<open>A decoded body, or the answer to one that does not decode.\<close>

definition with_body :: "'a option \<Rightarrow> ('a \<Rightarrow> (world, answer) prog) \<Rightarrow> (world, answer) prog" where
  "with_body v f = (case v of None \<Rightarrow> ret invalid_json | Some x \<Rightarrow> f x)"

text \<open>The answer to what the service returned.\<close>

definition respond :: "('e \<Rightarrow> answer) \<Rightarrow> ('a \<Rightarrow> answer) \<Rightarrow> (world, 'e + 'a) prog \<Rightarrow> (world, answer) prog" where
  "respond fail ok p = State_Monad.bind p (\<lambda>r. ret (case r of Inl e \<Rightarrow> fail e | Inr x \<Rightarrow> ok x))"

text \<open>The body's members, those of the first value in it, as \<open>json.Decoder\<close> reads it; an empty body is an empty object where the handler allows it.\<close>

definition body_members :: "env \<Rightarrow> gostring \<Rightarrow> (gostring \<times> json) list option" where
  "body_members E body = Option.bind (e_first_json E body) struct_members"

definition optional_body :: "env \<Rightarrow> gostring \<Rightarrow> (gostring \<times> json) list option" where
  "optional_body E body = (if body = [] then Some [] else body_members E body)"

abbreviation json_nat :: "nat \<Rightarrow> json" where
  "json_nat n \<equiv> JNum (of_nat n)"

abbreviation json_int :: "int \<Rightarrow> json" where
  "json_int i \<equiv> JNum (of_int i)"

end
