(* ===== verification/Retention.thy ===== *)
theory Retention
  imports Services
begin

text \<open>
  Component \<open>internal/retention\<close>: deleting a tenant's old messages (purge) and removing one person's
  data (erasure by contact or by endpoint), with the HTTP handler whose requests are dry runs unless
  they say otherwise.
\<close>

section \<open>Purge\<close>

datatype retention_error = Invalid | NotFound | Failed

definition MinRetentionDays :: int where
  "MinRetentionDays = 7"

record PurgeResult =
  pu_DryRun :: bool
  pu_OlderThanDays :: int
  pu_Cutoff :: time
  pu_MessagesMatched :: nat
  pu_MessagesDeleted :: nat

text \<open>
  \<open>AddDate(0, 0, days)\<close> of a UTC time: the calendar day moves by \<open>days\<close>, computed in seconds as a
  64-bit integer that wraps around.
\<close>

definition int64 :: "int \<Rightarrow> int" where
  "int64 x = (x + 2 ^ 63) mod 2 ^ 64 - 2 ^ 63"

definition AddDays :: "time \<Rightarrow> int \<Rightarrow> time" where
  "AddDays t days = int64 (t div second + days * 86400) * second + t mod second"

abbreviation "failed \<equiv> \<lambda>_::db_error. Failed"

definition Purge :: "uuid \<Rightarrow> int \<Rightarrow> bool \<Rightarrow> (world, retention_error + PurgeResult) prog" where
  "Purge tenantID olderThanDays dryRun =
     (if olderThanDays < MinRetentionDays then ret (Inl Invalid)
      else State_Monad.bind now (\<lambda>current.
        let cutoff = AddDays current (- olderThanDays);
            res = \<lparr>pu_DryRun = dryRun, pu_OlderThanDays = olderThanDays, pu_Cutoff = cutoff,
              pu_MessagesMatched = 0, pu_MessagesDeleted = 0\<rparr>
        in attempt (ask failed (CountMessagesOlderThan tenantID cutoff)) (\<lambda>matched.
           let res = res\<lparr>pu_MessagesMatched := matched\<rparr> in
           if dryRun \<or> matched = 0 then ret (Inr res)
           else attempt (ask failed (ClearReplyLinksToPurgedMessages tenantID cutoff)) (\<lambda>_.
                attempt (ask failed (PurgeMessagesOlderThan tenantID cutoff)) (\<lambda>deleted.
                ret (Inr (res\<lparr>pu_MessagesDeleted := deleted\<rparr>)))))))"

section \<open>Erasure\<close>

record ErasureResult =
  er_DryRun :: bool
  er_ContactID :: "uuid option"
  er_Endpoints :: "gostring list"
  er_MessagesMatched :: nat
  er_MessagesRedacted :: nat
  er_EndpointsDeleted :: nat
  er_ContactDeleted :: bool

definition new_erasure :: "bool \<Rightarrow> uuid option \<Rightarrow> gostring list \<Rightarrow> ErasureResult" where
  "new_erasure dryRun c eps = \<lparr>er_DryRun = dryRun, er_ContactID = c, er_Endpoints = eps, er_MessagesMatched = 0,
     er_MessagesRedacted = 0, er_EndpointsDeleted = 0, er_ContactDeleted = False\<rparr>"

definition EraseEndpoint :: "uuid \<Rightarrow> gostring \<Rightarrow> bool \<Rightarrow> (world, retention_error + ErasureResult) prog" where
  "EraseEndpoint tenantID endpoint dryRun =
     (if TrimSpace endpoint = [] then ret (Inl Invalid)
      else attempt (ask failed (CountMessagesForEndpoint tenantID endpoint)) (\<lambda>matched.
        let res = (new_erasure dryRun None [endpoint])\<lparr>er_MessagesMatched := matched\<rparr> in
        if dryRun \<or> matched = 0 then ret (Inr res)
        else attempt (ask failed (RedactMessagesForEndpoint tenantID endpoint)) (\<lambda>n.
             ret (Inr (res\<lparr>er_MessagesRedacted := n\<rparr>)))))"

text \<open>The two loops over the contact's endpoints, blank ones skipped.\<close>

definition count_endpoint :: "uuid \<Rightarrow> gostring \<Rightarrow> ErasureResult \<Rightarrow> (world, retention_error + ErasureResult) prog" where
  "count_endpoint tenantID e res =
     (if TrimSpace e = [] then ret (Inr res)
      else attempt (ask failed (CountMessagesForEndpoint tenantID e)) (\<lambda>n.
        ret (Inr (res\<lparr>er_Endpoints := er_Endpoints res @ [e], er_MessagesMatched := er_MessagesMatched res + n\<rparr>))))"

definition redact_endpoint :: "uuid \<Rightarrow> gostring \<Rightarrow> ErasureResult \<Rightarrow> (world, retention_error + ErasureResult) prog" where
  "redact_endpoint tenantID e res =
     (if TrimSpace e = [] then ret (Inr res)
      else attempt (ask failed (RedactMessagesForEndpoint tenantID e)) (\<lambda>n.
        ret (Inr (res\<lparr>er_MessagesRedacted := er_MessagesRedacted res + n\<rparr>))))"

definition Erase :: "uuid \<Rightarrow> uuid \<Rightarrow> bool \<Rightarrow> (world, retention_error + ErasureResult) prog" where
  "Erase tenantID contactID dryRun =
     attempt (ask failed (CountMessagesForContact tenantID contactID)) (\<lambda>matched.
     attempt (ask failed (ListEndpointsForContact contactID)) (\<lambda>eps.
     attempt (for_each eps ((new_erasure dryRun (Some contactID) [])\<lparr>er_MessagesMatched := matched\<rparr>)
              (count_endpoint tenantID)) (\<lambda>res.
     if dryRun then ret (Inr res)
     else
     attempt (for_each eps res (redact_endpoint tenantID)) (\<lambda>res.
     attempt (ask failed (RedactMessagesForContact tenantID contactID)) (\<lambda>redacted.
     attempt (ask failed (DetachMessagesFromContact tenantID contactID)) (\<lambda>_.
     attempt (ask failed (DeleteEndpointsForContact contactID)) (\<lambda>deletedEps.
     attempt (ask failed (DeleteContactRow contactID tenantID)) (\<lambda>n.
     if n = 0 then ret (Inl NotFound)
     else ret (Inr (res\<lparr>er_MessagesRedacted := er_MessagesRedacted res + redacted,
            er_EndpointsDeleted := deletedEps, er_ContactDeleted := True\<rparr>))))))))))"

section \<open>The handler\<close>

definition dryRunOrDefault :: "bool option \<Rightarrow> bool" where
  "dryRunOrDefault v = (case v of None \<Rightarrow> True | Some b \<Rightarrow> b)"

definition PurgeResult_json :: "env \<Rightarrow> PurgeResult \<Rightarrow> json" where
  "PurgeResult_json E r = JObj [(str ''dry_run'', JBool (pu_DryRun r)),
     (str ''older_than_days'', json_int (pu_OlderThanDays r)),
     (str ''cutoff'', JStr (e_show_time E (pu_Cutoff r))),
     (str ''messages_matched'', json_nat (pu_MessagesMatched r)),
     (str ''messages_deleted'', json_nat (pu_MessagesDeleted r))]"

definition ErasureResult_json :: "env \<Rightarrow> ErasureResult \<Rightarrow> json" where
  "ErasureResult_json E r = JObj (
     [(str ''dry_run'', JBool (er_DryRun r))] @
     omit_none (str ''contact_id'') (map_option (\<lambda>i. JStr (e_show_uuid E i)) (er_ContactID r)) @
     [(str ''endpoints'', JArr (map JStr (er_Endpoints r))),
      (str ''messages_matched'', json_nat (er_MessagesMatched r)),
      (str ''messages_redacted'', json_nat (er_MessagesRedacted r)),
      (str ''endpoints_deleted'', json_nat (er_EndpointsDeleted r)),
      (str ''contact_deleted'', JBool (er_ContactDeleted r))])"

text \<open>\<open>fail\<close>; the two details are the texts of the two errors the service marks invalid.\<close>

definition retention_fail :: "gostring \<Rightarrow> retention_error \<Rightarrow> answer" where
  "retention_fail detail e = (case e of
     NotFound \<Rightarrow> (404, error_json ''not_found'')
   | Invalid \<Rightarrow> (400, error_detail_json ''invalid'' detail)
   | Failed \<Rightarrow> (500, error_json ''internal_error''))"

definition dry_run_field :: "env \<Rightarrow> (gostring \<times> json) list \<Rightarrow> bool option option" where
  "dry_run_field E kvs = decode_bool_ptr (members (e_uni E) (str ''dry_run'') kvs) None"

definition purge_handler :: "env \<Rightarrow> api_request \<Rightarrow> (world, answer) prog" where
  "purge_handler E rq = with_tenant E rq (\<lambda>tenant.
     case (do { kvs \<leftarrow> optional_body E (ar_body rq);
                days \<leftarrow> decode_int int64_min int64_max (members (e_uni E) (str ''older_than_days'') kvs) 0;
                dry \<leftarrow> dry_run_field E kvs; Some (days, dry) }) of
       None \<Rightarrow> ret invalid_json
     | Some (days, dry) \<Rightarrow> State_Monad.bind (Purge tenant days (dryRunOrDefault dry)) (\<lambda>r. ret (case r of
           Inl e \<Rightarrow> retention_fail (str ''invalid: older_than_days must be at least 7'') e
         | Inr res \<Rightarrow> (200, PurgeResult_json E res))))"

definition erase_handler :: "env \<Rightarrow> api_request \<Rightarrow> (world, answer) prog" where
  "erase_handler E rq = with_tenant E rq (\<lambda>tenant.
     case e_parse_uuid E (ar_id rq) of
       None \<Rightarrow> ret (400, error_json ''invalid_id'')
     | Some i \<Rightarrow> (case Option.bind (optional_body E (ar_body rq)) (dry_run_field E) of
         None \<Rightarrow> ret invalid_json
       | Some dry \<Rightarrow> State_Monad.bind (Erase tenant i (dryRunOrDefault dry)) (\<lambda>r. ret (case r of
             Inl e \<Rightarrow> retention_fail [] e
           | Inr res \<Rightarrow> (200, ErasureResult_json E res)))))"

definition erase_endpoint_handler :: "env \<Rightarrow> api_request \<Rightarrow> (world, answer) prog" where
  "erase_endpoint_handler E rq = with_tenant E rq (\<lambda>tenant.
     case (do { kvs \<leftarrow> optional_body E (ar_body rq);
                ep \<leftarrow> decode_string (members (e_uni E) (str ''endpoint'') kvs) [];
                dry \<leftarrow> dry_run_field E kvs; Some (ep, dry) }) of
       None \<Rightarrow> ret invalid_json
     | Some (ep, dry) \<Rightarrow> State_Monad.bind (EraseEndpoint tenant ep (dryRunOrDefault dry)) (\<lambda>r. ret (case r of
           Inl e \<Rightarrow> retention_fail (str ''invalid: endpoint is required'') e
         | Inr res \<Rightarrow> (200, ErasureResult_json E res))))"

end
