(* ===== verification/Retention_Facts.thy ===== *)
theory Retention_Facts
  imports Retention
begin

text \<open>
  What purge and erasure do to the database: exactly the old rows go, exactly one person's data goes,
  nothing happens on a dry run, and where the two fall short of what they promise.
\<close>

section \<open>Purge\<close>

definition reply_to_old :: "uuid \<Rightarrow> time \<Rightarrow> db \<Rightarrow> Message \<Rightarrow> bool" where
  "reply_to_old t cutoff d m \<longleftrightarrow> msg_tenant m = t \<and>
     (\<exists>old\<in>set (messages d). older_than t cutoff old \<and> msg_in_reply_to m = Some (msg_id old))"

definition unlinked :: "uuid \<Rightarrow> time \<Rightarrow> db \<Rightarrow> db" where
  "unlinked t cutoff d =
     d\<lparr>messages := map_if (reply_to_old t cutoff d) (\<lambda>m. m\<lparr>msg_in_reply_to := None\<rparr>) (messages d)\<rparr>"

definition purged :: "uuid \<Rightarrow> time \<Rightarrow> db \<Rightarrow> db" where
  "purged t cutoff d =
     d\<lparr>messages := filter (\<lambda>m. \<not> older_than t cutoff m) (messages (unlinked t cutoff d))\<rparr>"

lemma older_than_unlinked [simp]: "older_than t cutoff (m\<lparr>msg_in_reply_to := x\<rparr>) = older_than t cutoff m"
  by (simp add: older_than_def)

lemma ClearReplyLinks_eq:
  "ClearReplyLinksToPurgedMessages t cutoff d =
     commit d (unlinked t cutoff d) (count_rows (reply_to_old t cutoff d) (messages d))"
  by (simp add: ClearReplyLinksToPurgedMessages_def update_messages_def unlinked_def reply_to_old_def[abs_def])

lemma count_old_unlinked:
  "count_rows (older_than t cutoff) (messages (unlinked t cutoff d)) = count_rows (older_than t cutoff) (messages d)"
proof -
  have "count_rows (older_than t cutoff) (map_if P (\<lambda>m. m\<lparr>msg_in_reply_to := None\<rparr>) ms) =
      count_rows (older_than t cutoff) ms" for P ms
    by (induction ms) auto
  then show ?thesis by (simp add: unlinked_def)
qed

lemma purged_nothing:
  assumes "count_rows (older_than t cutoff) (messages d) = 0"
  shows "purged t cutoff d = d"
proof -
  have none: "\<forall>m\<in>set (messages d). \<not> older_than t cutoff m" using assms by (simp only: count_rows_zero)
  then have "map_if (reply_to_old t cutoff d) (\<lambda>m. m\<lparr>msg_in_reply_to := None\<rparr>) (messages d) = messages d"
    by (intro map_if_none) (auto simp: reply_to_old_def)
  moreover have "filter (\<lambda>m. \<not> older_than t cutoff m) (messages d) = messages d"
    using none by (simp add: filter_id_conv)
  ultimately show ?thesis by (simp add: purged_def unlinked_def)
qed

lemma Purge_query_eq:
  "PurgeMessagesOlderThan t cutoff (unlinked t cutoff d) =
     commit (unlinked t cutoff d) (purged t cutoff d) (count_rows (older_than t cutoff) (messages d))"
  by (simp add: PurgeMessagesOlderThan_def count_old_unlinked) (simp add: purged_def unlinked_def)

lemma purge_result:
  "let (r, w') = run (Purge t days dry) w; d = w_db w; cutoff = AddDays (w_now w) (- days) in
   case r of
     Inr res \<Rightarrow> 7 \<le> days \<and> pu_Cutoff res = cutoff \<and>
       pu_MessagesMatched res = count_rows (older_than t cutoff) (messages d) \<and>
       (if dry then w_db w' = d \<and> pu_MessagesDeleted res = 0
        else w_db w' = purged t cutoff d \<and> pu_MessagesDeleted res = pu_MessagesMatched res)
   | Inl e \<Rightarrow> (if days < 7 then e = Invalid \<and> w' = w
        else e = Failed \<and> (if dry then w_db w' = d else w_db w' \<in> {d, unlinked t cutoff d, purged t cutoff d}))"
proof (cases "days < 7")
  case True
  then show ?thesis by (simp add: Purge_def MinRetentionDays_def)
next
  case False
  let ?c = "AddDays (w_now w) (- days)"
  obtain r w' where r: "run (Purge t days dry) w = (r, w')" by (cases "run (Purge t days dry) w")
  let ?count = "ask failed (CountMessagesOlderThan t ?c)"
  obtain x w1 where x: "run ?count w = (x, w1)" by (cases "run ?count w")
  have q1: "w_db w1 = w_db w" using quietD(1)[OF ask_read[OF x]] by (simp add: CountMessagesOlderThan_def)
  show ?thesis
  proof (cases x)
    case (Inl e)
    then show ?thesis using r x False q1 ask_Inl[of failed _ w e w1]
      by (auto simp: Purge_def MinRetentionDays_def run_attempt Let_def)
  next
    case (Inr matched)
    have m: "matched = count_rows (older_than t ?c) (messages (w_db w))"
      using ask_Inr(1)[OF x[unfolded Inr]] by (auto simp: CountMessagesOlderThan_def)
    show ?thesis
    proof (cases "dry \<or> matched = 0")
      case True
      then show ?thesis using r x Inr False m q1 purged_nothing[of t ?c "w_db w"]
        by (auto simp: Purge_def MinRetentionDays_def run_attempt Let_def)
    next
      case go: False
      let ?clear = "ask failed (ClearReplyLinksToPurgedMessages t ?c)"
      let ?purge = "ask failed (PurgeMessagesOlderThan t ?c)"
      obtain y w2 where y: "run ?clear w1 = (y, w2)" by (cases "run ?clear w1")
      show ?thesis
      proof (cases y)
        case (Inl e)
        have "w_db w2 = w_db w \<or> w_db w2 = unlinked t ?c (w_db w)"
          using ask_outcome(4)[OF y] q1 by (auto simp: ClearReplyLinks_eq commit_def)
        then show ?thesis using r x y Inr Inl False go ask_Inl[of failed _ w1 e w2]
          by (auto simp: Purge_def MinRetentionDays_def run_attempt Let_def)
      next
        case y': (Inr n)
        then have d2: "w_db w2 = unlinked t ?c (w_db w)"
          using ask_Inr(1)[of failed "ClearReplyLinksToPurgedMessages t ?c" w1 n w2] y q1
          by (auto simp: ClearReplyLinks_eq commit_def split: if_splits)
        obtain z w3 where z: "run ?purge w2 = (z, w3)" by (cases "run ?purge w2")
        have d3: "w_db w3 = unlinked t ?c (w_db w) \<or> w_db w3 = purged t ?c (w_db w)"
          using ask_outcome(4)[OF z] d2 by (auto simp: Purge_query_eq commit_def)
        have d3': "z = Inr k \<Longrightarrow> w_db w3 = purged t ?c (w_db w) \<and> k = matched" for k
          using ask_Inr(1)[of failed "PurgeMessagesOlderThan t ?c" w2 k w3] z d2 m
          by (auto simp: Purge_query_eq commit_def split: if_splits)
        show ?thesis using r x y z Inr y' False go m d3 d3' ask_Inl[of failed _ w2 _ w3]
          by (cases z) (auto simp: Purge_def MinRetentionDays_def run_attempt Let_def)
      qed
    qed
  qed
qed


definition replies_in_tenant :: "db \<Rightarrow> bool" where
  "replies_in_tenant d \<longleftrightarrow> (\<forall>m\<in>set (messages d). \<forall>x\<in>set (messages d).
     msg_in_reply_to m = Some (msg_id x) \<longrightarrow> msg_tenant m = msg_tenant x)"

lemma unlinked_schema:
  assumes "schema_ok d"
  shows "schema_ok (unlinked t cutoff d)"
  unfolding unlinked_def map_if_def by (rule schema_ok_map_messages[OF assms]) simp

lemma unlinked_row:
  assumes "m \<in> set (messages (unlinked t cutoff d))"
  obtains m0 where "m0 \<in> set (messages d)" "msg_tenant m = msg_tenant m0" "msg_id m = msg_id m0"
    "msg_in_reply_to m = (if reply_to_old t cutoff d m0 then None else msg_in_reply_to m0)"
    "older_than t cutoff m = older_than t cutoff m0"
proof -
  from assms obtain m0 where m0: "m0 \<in> set (messages d)"
    "m = (if reply_to_old t cutoff d m0 then m0\<lparr>msg_in_reply_to := None\<rparr> else m0)"
    by (auto simp: unlinked_def map_if_def)
  then show thesis by (intro that[of m0]) auto
qed

lemma purged_reply_kept:
  assumes "schema_ok d" and "replies_in_tenant d" and "m \<in> set (messages (purged t cutoff d))"
  shows "fk (msg_in_reply_to m) (map msg_id (messages (purged t cutoff d)))"
proof (cases "msg_in_reply_to m")
  case (Some i)
  have "m \<in> set (messages (unlinked t cutoff d))" using assms(3) by (simp add: purged_def)
  then obtain m0 where m0: "m0 \<in> set (messages d)" "\<not> reply_to_old t cutoff d m0" "msg_in_reply_to m0 = Some i"
    using Some by (auto elim: unlinked_row split: if_splits)
  have "fk (msg_in_reply_to m0) (message_ids d)"
    using schema_okD(7)[OF assms(1)] m0(1) by (simp add: messages_ok_def message_refs_ok_def)
  then obtain x where x: "x \<in> set (messages d)" "msg_id x = i" using m0(3) by (auto simp: message_ids_def)
  have "msg_tenant m0 = msg_tenant x" using assms(2) m0 x by (auto simp: replies_in_tenant_def)
  then have "\<not> older_than t cutoff x" using m0 x by (auto simp: reply_to_old_def older_than_def)
  let ?x = "if reply_to_old t cutoff d x then x\<lparr>msg_in_reply_to := None\<rparr> else x"
  have "?x \<in> set (messages (unlinked t cutoff d))" using x(1) by (auto simp: unlinked_def map_if_def)
  moreover have "\<not> older_than t cutoff ?x" "msg_id ?x = i" using \<open>\<not> older_than t cutoff x\<close> x(2) by auto
  ultimately have "i \<in> set (map msg_id (messages (purged t cutoff d)))"
    unfolding purged_def by (auto simp del: if_split simp: image_iff intro!: bexI[of _ ?x])
  then show ?thesis using Some by simp
qed simp

lemma purged_schema:
  assumes "schema_ok d" and "replies_in_tenant d"
  shows "schema_ok (purged t cutoff d)"
proof -
  let ?u = "unlinked t cutoff d" and ?ms = "messages (purged t cutoff d)"
  have u: "schema_ok ?u" by (rule unlinked_schema[OF assms(1)])
  have p: "purged t cutoff d = ?u\<lparr>messages := ?ms\<rparr>" by (simp add: purged_def unlinked_def)
  have ok: "messages_ok (?u\<lparr>messages := messages ?u\<rparr>)" using schema_okD(7)[OF u] by simp
  have f: "?ms = filter (\<lambda>m. \<not> older_than t cutoff m) (messages ?u)" by (simp add: purged_def)
  have "messages_ok (?u\<lparr>messages := ?ms\<rparr>)"
    unfolding messages_ok_update_iff
  proof (intro conjI ballI)
    show "distinct (map msg_id ?ms)" "distinct (platform_keys ?ms)"
      using ok unfolding f messages_ok_update_iff by (auto simp: distinct_map_filter distinct_platform_keys_filter)
  next
    fix m assume m: "m \<in> set ?ms"
    then have mu: "m \<in> set (messages ?u)" by (simp add: f)
    show "fk (msg_in_reply_to m) (map msg_id ?ms)" by (rule purged_reply_kept[OF assms m])
    show "msg_tenant m \<in> set (tenant_ids ?u)" "fk (msg_account m) (account_ids ?u)" "fk (msg_channel m) (channel_ids ?u)"
      "fk (msg_sender_contact m) (contact_ids ?u)" "fk (msg_recipient_contact m) (contact_ids ?u)"
      using ok mu unfolding messages_ok_update_iff by blast+
  qed
  then show ?thesis using schema_ok_messages_update[OF u] p by metis
qed

lemma purge_succeeds:
  assumes "schema_ok (w_db w)" and "replies_in_tenant (w_db w)" and "w_faults w = []" and "7 \<le> days"
  shows "\<not> isl (fst (run (Purge t days dry) w)) \<and> schema_ok (w_db (snd (run (Purge t days dry) w)))"
proof -
  let ?c = "AddDays (w_now w) (- days)"
  have "run (ask failed (CountMessagesOlderThan t ?c)) w =
      (Inr (count_rows (older_than t ?c) (messages (w_db w))), w)"
    using assms(3) by (simp add: run_ask_clean CountMessagesOlderThan_def)
  moreover have "run (ask failed (ClearReplyLinksToPurgedMessages t ?c)) w =
      (Inr (count_rows (reply_to_old t ?c (w_db w)) (messages (w_db w))), w\<lparr>w_db := unlinked t ?c (w_db w)\<rparr>)"
    using assms(3) unlinked_schema[OF assms(1)] by (simp add: run_ask_clean ClearReplyLinks_eq commit_def)
  moreover have "run (ask failed (PurgeMessagesOlderThan t ?c)) (w\<lparr>w_db := unlinked t ?c (w_db w)\<rparr>) =
      (Inr (count_rows (older_than t ?c) (messages (w_db w))), w\<lparr>w_db := purged t ?c (w_db w)\<rparr>)"
    using assms(3) purged_schema[OF assms(1,2)] by (simp add: run_ask_clean Purge_query_eq commit_def)
  ultimately show ?thesis
    using assms purged_schema[OF assms(1,2)] by (simp add: Purge_def MinRetentionDays_def run_attempt Let_def)
qed


text \<open>An old message and a recent reply to it.\<close>

definition purge_world :: world where
  "purge_world = (fresh_world (empty_db\<lparr>tenants := [demo_tenant],
      messages := [plain_row 1 1 0, (plain_row 2 1 (50 * 86400 * second))\<lparr>msg_in_reply_to := Some 1\<rparr>]\<rparr>) [])
    \<lparr>w_now := 51 * 86400 * second\<rparr>"

lemma purge_world_ok: "schema_ok (w_db purge_world)" "replies_in_tenant (w_db purge_world)" "w_faults purge_world = []"
  by (simp_all add: purge_world_def fresh_world_def demo_db_simps replies_in_tenant_def)


text \<open>
  The seven-day floor does not hold for very large windows: 213503982334602 days pass the guard, the
  cutoff computed from them wraps around to about seventeen hours ago, and the purge deletes the
  tenant's messages of the last week and older, here one received a day ago.
\<close>

theorem purge_floor_wraps:
  "AddDays (w_now purge_world) (- 213503982334602) = w_now purge_world - 61184 * second \<and>
   (case run (Purge 1 213503982334602 False) purge_world of
      (Inr res, w') \<Rightarrow> pu_MessagesDeleted res = 2 \<and> messages (w_db w') = []
    | (Inl e, w') \<Rightarrow> False)"
proof -
  have c: "AddDays (w_now purge_world) (- 213503982334602) = w_now purge_world - 61184 * second"
    by (simp add: AddDays_def int64_def purge_world_def second_def)
  obtain r w' where r: "run (Purge 1 213503982334602 False) purge_world = (r, w')"
    by (cases "run (Purge 1 213503982334602 False) purge_world")
  have ok: "\<not> isl (fst (run (Purge 1 213503982334602 False) purge_world))"
    using purge_succeeds[of purge_world] purge_world_ok by simp
  then obtain res where res: "r = Inr res" using r by (cases r) auto
  have "w_db w' = purged 1 (w_now purge_world - 61184 * second) (w_db purge_world) \<and>
      pu_MessagesDeleted res = count_rows (older_than 1 (w_now purge_world - 61184 * second)) (messages (w_db purge_world))"
    using purge_result[of 1 213503982334602 False purge_world] r res c by (simp add: Let_def)
  then have "pu_MessagesDeleted res = 2 \<and> messages (w_db w') = []"
    by (simp add: purge_world_def fresh_world_def purged_def unlinked_def older_than_def plain_row_def second_def empty_db_def)
  then show ?thesis using c r res by simp
qed

section \<open>Erasure\<close>

text \<open>A row whose personal content is gone: everything an inbound row says about its sender but its parse.\<close>

definition content_gone :: "Message \<Rightarrow> bool" where
  "content_gone m \<longleftrightarrow> msg_sender_endpoint m = None \<and> msg_body_text m = [] \<and> msg_attachments m = None \<and>
     msg_location m = None \<and> msg_raw_payload m = redacted_mark"

text \<open>The fields erasure never touches.\<close>

definition same_record :: "Message \<Rightarrow> Message \<Rightarrow> bool" where
  "same_record m m' \<longleftrightarrow> msg_id m' = msg_id m \<and> msg_tenant m' = msg_tenant m \<and> msg_account m' = msg_account m \<and>
     msg_channel m' = msg_channel m \<and> msg_direction m' = msg_direction m \<and> msg_policy_action m' = msg_policy_action m \<and>
     msg_workflow_fired m' = msg_workflow_fired m \<and> msg_in_reply_to m' = msg_in_reply_to m \<and>
     msg_platform_id m' = msg_platform_id m \<and> msg_received_at m' = msg_received_at m \<and>
     msg_processed_at m' = msg_processed_at m"

definition names_contact :: "uuid \<Rightarrow> Message \<Rightarrow> bool" where
  "names_contact c m \<longleftrightarrow> msg_sender_contact m = Some c \<or> msg_recipient_contact m = Some c"

definition from_endpoint :: "gostring list \<Rightarrow> Message \<Rightarrow> bool" where
  "from_endpoint eps m \<longleftrightarrow> (\<exists>e\<in>set eps. TrimSpace e \<noteq> [] \<and> msg_sender_endpoint m = Some e)"

definition erased_row :: "uuid \<Rightarrow> uuid \<Rightarrow> gostring list \<Rightarrow> Message \<Rightarrow> Message \<Rightarrow> bool" where
  "erased_row t c eps m m' \<longleftrightarrow>
     (if msg_tenant m = t \<and> (names_contact c m \<or> from_endpoint eps m)
      then content_gone m' \<and> same_record m m' \<and> \<not> names_contact c m' \<and>
        (if names_contact c m then msg_sender_contact m' = None \<and> msg_recipient_contact m' = None
         else msg_sender_contact m' = msg_sender_contact m \<and> msg_recipient_contact m' = msg_recipient_contact m)
      else m' = m)"

lemma redact_simps [simp]:
  "content_gone (redact m)" "same_record m (redact m)" "names_contact c (redact m) = names_contact c m"
  "msg_tenant (redact m) = msg_tenant m" "msg_sender_contact (redact m) = msg_sender_contact m"
  "msg_recipient_contact (redact m) = msg_recipient_contact m" "\<not> from_endpoint eps (redact m)"
  "msg_sender_endpoint (redact m) = None"
  by (simp_all add: redact_def content_gone_def same_record_def names_contact_def from_endpoint_def)

text \<open>The state of a row after the endpoints \<open>eps\<close> have been redacted.\<close>

definition endpoint_redacted :: "uuid \<Rightarrow> gostring list \<Rightarrow> Message \<Rightarrow> Message \<Rightarrow> bool" where
  "endpoint_redacted t eps m m' \<longleftrightarrow> m' = (if msg_tenant m = t \<and> from_endpoint eps m then redact m else m)"

lemma endpoint_redacted_snoc:
  assumes "endpoint_redacted t eps m m'" and "TrimSpace e \<noteq> []"
  shows "endpoint_redacted t (eps @ [e]) m (if msg_tenant m' = t \<and> msg_sender_endpoint m' = Some e then redact m' else m')"
  using assms by (auto simp: endpoint_redacted_def from_endpoint_def split: if_splits)

lemma endpoint_redacted_blank:
  "TrimSpace e = [] \<Longrightarrow> endpoint_redacted t (eps @ [e]) m m' = endpoint_redacted t eps m m'"
  by (auto simp: endpoint_redacted_def from_endpoint_def)

definition endpoints_done :: "uuid \<Rightarrow> db \<Rightarrow> gostring list \<Rightarrow> db \<Rightarrow> bool" where
  "endpoints_done t d eps d' \<longleftrightarrow>
     (\<exists>ms. d' = d\<lparr>messages := ms\<rparr> \<and> list_all2 (endpoint_redacted t eps) (messages d) ms)"

lemma list_all2_map_if:
  "list_all2 P xs ys \<Longrightarrow> (\<And>x y. P x y \<Longrightarrow> Q x (if C y then f y else y)) \<Longrightarrow> list_all2 Q xs (map_if C f ys)"
  by (induction rule: list_all2_induct) auto

lemma RedactForEndpoint_done:
  assumes "endpoints_done t d eps d1" and "TrimSpace e \<noteq> []" and "RedactMessagesForEndpoint t e d1 = (Inr n, d2)"
  shows "endpoints_done t d (eps @ [e]) d2"
proof -
  obtain ms where ms: "d1 = d\<lparr>messages := ms\<rparr>" "list_all2 (endpoint_redacted t eps) (messages d) ms"
    using assms(1) by (auto simp: endpoints_done_def)
  let ?ms = "map_if (\<lambda>m. msg_tenant m = t \<and> msg_sender_endpoint m = Some e) redact ms"
  have "d2 = d\<lparr>messages := ?ms\<rparr>"
    using assms(3) ms(1) by (auto simp: RedactMessagesForEndpoint_def update_messages_def commit_def split: if_splits)
  moreover have "list_all2 (endpoint_redacted t (eps @ [e])) (messages d) ?ms"
    using ms(2) endpoint_redacted_snoc[OF _ assms(2)] by (rule list_all2_map_if) auto
  ultimately show ?thesis by (auto simp: endpoints_done_def)
qed

lemma redact_loop:
  assumes "run (for_each eps res (redact_endpoint t)) w = (Inr res', w')"
  shows "endpoints_done t (w_db w) eps (w_db w')"
  using assms
proof (rule for_each_invariant[where I = "\<lambda>ys r u. endpoints_done t (w_db w) ys (w_db u)"])
  show "endpoints_done t (w_db w) [] (w_db w)"
    by (auto simp: endpoints_done_def endpoint_redacted_def from_endpoint_def list_all2_same intro!: exI[of _ "messages (w_db w)"])
next
  fix ys e r u r' u'
  assume I: "endpoints_done t (w_db w) ys (w_db u)" and b: "run (redact_endpoint t e r) u = (Inr r', u')"
  show "endpoints_done t (w_db w) (ys @ [e]) (w_db u')"
  proof (cases "TrimSpace e = []")
    case True
    then show ?thesis using I b by (simp add: redact_endpoint_def endpoints_done_def endpoint_redacted_blank cong: list.rel_cong)
  next
    case False
    obtain n where "run (ask failed (RedactMessagesForEndpoint t e)) u = (Inr n, u')"
      using b False by (auto simp: redact_endpoint_def elim!: attempt_Inr)
    from RedactForEndpoint_done[OF I False ask_Inr(1)[OF this]] show ?thesis .
  qed
qed

lemma count_loop:
  assumes "run (for_each eps res (count_endpoint t)) w = (r, w')"
  shows "quiet w w'"
  using assms
proof (induction eps arbitrary: res w)
  case Nil
  then show ?case by simp
next
  case (Cons e eps)
  obtain x u where b: "run (count_endpoint t e res) w = (x, u)" by (cases "run (count_endpoint t e res) w")
  have "quiet w u"
    using b by (auto simp: count_endpoint_def CountMessagesForEndpoint_def split: if_splits elim!: attempt_cases dest!: ask_read)
  then show ?case using Cons b by (auto simp: run_for_each_Cons split: sum.splits dest: quiet_trans)
qed

lemma contact_redacted:
  assumes "endpoint_redacted t eps m m1"
    and "m2 = (if msg_tenant m1 = t \<and> names_contact c m1 then redact m1 else m1)"
    and "m3 = (if msg_tenant m2 = t \<and> names_contact c m2
               then m2\<lparr>msg_sender_contact := None, msg_recipient_contact := None\<rparr> else m2)"
  shows "erased_row t c eps m m3"
proof (cases "msg_tenant m = t")
  case False
  then show ?thesis using assms by (auto simp: endpoint_redacted_def erased_row_def)
next
  case True
  show ?thesis
    using assms True
    by (auto simp: endpoint_redacted_def erased_row_def content_gone_def same_record_def redact_def names_contact_def)
qed

lemma RedactForContact_eq:
  "RedactMessagesForContact t c = update_messages (\<lambda>m. msg_tenant m = t \<and> names_contact c m) redact"
  by (simp add: RedactMessagesForContact_def names_contact_def)

lemma DetachFromContact_eq:
  "DetachMessagesFromContact t c = update_messages (\<lambda>m. msg_tenant m = t \<and> names_contact c m)
     (\<lambda>m. m\<lparr>msg_sender_contact := None, msg_recipient_contact := None\<rparr>)"
  by (simp add: DetachMessagesFromContact_def names_contact_def)

lemma update_messages_Inr:
  "update_messages P f d = (Inr n, d') \<Longrightarrow> d' = d\<lparr>messages := map_if P f (messages d)\<rparr>"
  by (simp add: update_messages_def commit_def split: if_splits)

definition erased_db :: "uuid \<Rightarrow> uuid \<Rightarrow> db \<Rightarrow> db \<Rightarrow> bool" where
  "erased_db t c d d' \<longleftrightarrow>
     (\<exists>ms. list_all2 (erased_row t c (map ce_endpoint (filter (\<lambda>e. ce_contact e = c) (contact_endpoints d)))) (messages d) ms \<and>
        d' = d\<lparr>messages := ms, contacts := filter (\<lambda>x. \<not> (ct_id x = c \<and> ct_tenant x = t)) (contacts d),
               contact_endpoints := filter (\<lambda>e. ce_contact e \<noteq> c) (contact_endpoints d)\<rparr>) \<and>
     (\<exists>x\<in>set (contacts d). ct_id x = c \<and> ct_tenant x = t)"

lemma drop_contacts_Inr:
  assumes "DeleteContactRow c t d = (Inr n, d')" and "\<forall>e\<in>set (contact_endpoints d). ce_contact e \<noteq> c"
  shows "d' = d\<lparr>contacts := filter (\<lambda>x. \<not> (ct_id x = c \<and> ct_tenant x = t)) (contacts d)\<rparr>"
    "n \<noteq> 0 \<Longrightarrow> \<exists>x\<in>set (contacts d). ct_id x = c \<and> ct_tenant x = t"
proof -
  have "filter (\<lambda>e. ce_contact e \<notin> ct_id ` {x \<in> set (contacts d). ct_id x = c \<and> ct_tenant x = t}) (contact_endpoints d)
      = contact_endpoints d"
    using assms(2) by (auto simp: filter_id_conv)
  then show "d' = d\<lparr>contacts := filter (\<lambda>x. \<not> (ct_id x = c \<and> ct_tenant x = t)) (contacts d)\<rparr>"
    using assms(1) by (auto simp: DeleteContactRow_def drop_contacts_def Let_def commit_def split: if_splits)
  show "n \<noteq> 0 \<Longrightarrow> \<exists>x\<in>set (contacts d). ct_id x = c \<and> ct_tenant x = t"
    using assms(1) by (auto simp: DeleteContactRow_def drop_contacts_def Let_def commit_def filter_empty_conv split: if_splits)
qed

lemma Erase_steps:
  assumes "run (Erase t c False) w = (Inr res, w')"
  obtains matched w1 eps w2 res1 w3 res2 w4 k5 w5 k6 w6 k7 w7 n where
    "run (ask failed (CountMessagesForContact t c)) w = (Inr matched, w1)"
    "run (ask failed (ListEndpointsForContact c)) w1 = (Inr eps, w2)"
    "run (for_each eps ((new_erasure False (Some c) [])\<lparr>er_MessagesMatched := matched\<rparr>) (count_endpoint t)) w2 = (Inr res1, w3)"
    "run (for_each eps res1 (redact_endpoint t)) w3 = (Inr res2, w4)"
    "run (ask failed (RedactMessagesForContact t c)) w4 = (Inr k5, w5)"
    "run (ask failed (DetachMessagesFromContact t c)) w5 = (Inr k6, w6)"
    "run (ask failed (DeleteEndpointsForContact c)) w6 = (Inr k7, w7)"
    "run (ask failed (DeleteContactRow c t)) w7 = (Inr n, w')" "n \<noteq> 0" "er_ContactDeleted res"
  using assms unfolding Erase_def if_False
  by (elim attempt_Inr) (rule that, auto split: if_splits)

lemma Erase_result:
  assumes "run (Erase t c False) w = (Inr res, w')"
  shows "er_ContactDeleted res \<and> erased_db t c (w_db w) (w_db w')"
  using assms
proof (cases rule: Erase_steps)
  case (1 matched w1 eps w2 res1 w3 res2 w4 k5 w5 k6 w6 k7 w7 n)
  let ?eps = "map ce_endpoint (filter (\<lambda>e. ce_contact e = c) (contact_endpoints (w_db w)))"
  have d1: "w_db w1 = w_db w" using ask_Inr(1)[OF 1(1)] by (simp add: CountMessagesForContact_def)
  have eps: "eps = ?eps" and d3: "w_db w3 = w_db w"
    using ask_Inr(1)[OF 1(2)] d1 quietD(1)[OF count_loop[OF 1(3)]] by (auto simp: ListEndpointsForContact_def)
  obtain ms where ms: "w_db w4 = (w_db w)\<lparr>messages := ms\<rparr>" "list_all2 (endpoint_redacted t ?eps) (messages (w_db w)) ms"
    using redact_loop[OF 1(4)] d3 eps by (auto simp: endpoints_done_def)
  have d5: "w_db w5 = (w_db w)\<lparr>messages := map_if (\<lambda>m. msg_tenant m = t \<and> names_contact c m) redact ms\<rparr>" (is "_ = _\<lparr>messages := ?m5\<rparr>")
    using update_messages_Inr[OF ask_Inr(1)[OF 1(5), unfolded RedactForContact_eq]] ms(1) by simp
  have d6: "w_db w6 = (w_db w)\<lparr>messages := map_if (\<lambda>m. msg_tenant m = t \<and> names_contact c m)
      (\<lambda>m. m\<lparr>msg_sender_contact := None, msg_recipient_contact := None\<rparr>) ?m5\<rparr>" (is "_ = _\<lparr>messages := ?m6\<rparr>")
    using update_messages_Inr[OF ask_Inr(1)[OF 1(6), unfolded DetachFromContact_eq]] d5 by simp
  have rows: "list_all2 (erased_row t c ?eps) (messages (w_db w)) ?m6"
    unfolding map_if_def list_all2_map2
    by (rule list_all2_mono[OF ms(2)]) (rule contact_redacted[OF _ refl refl])
  have d7: "w_db w7 = (w_db w)\<lparr>messages := ?m6, contact_endpoints := filter (\<lambda>e. ce_contact e \<noteq> c) (contact_endpoints (w_db w))\<rparr>"
    using ask_Inr(1)[OF 1(7)] d6 by (auto simp: DeleteEndpointsForContact_def commit_def split: if_splits)
  note drop = drop_contacts_Inr[OF ask_Inr(1)[OF 1(8)]]
  have "w_db w' = (w_db w)\<lparr>messages := ?m6, contacts := filter (\<lambda>x. \<not> (ct_id x = c \<and> ct_tenant x = t)) (contacts (w_db w)),
      contact_endpoints := filter (\<lambda>e. ce_contact e \<noteq> c) (contact_endpoints (w_db w))\<rparr>"
    using drop(1) d7 by simp
  then show ?thesis using drop(2) 1(9,10) d7 rows by (auto simp: erased_db_def)
qed

text \<open>
  C25. An erasure of a contact that succeeds has deleted the tenant's contact and all its endpoints, and
  has stripped the content of exactly the tenant's messages that name the contact or were sent from one
  of its endpoints: sender, text, attachments, location and raw payload are gone, no such message names
  the contact any more, their other fields and every other row are as before.
\<close>

theorem erase_removes_contact:
  "case run (Erase t c False) w of
     (Inl e, w') \<Rightarrow> True
   | (Inr res, w') \<Rightarrow> er_ContactDeleted res \<and> erased_db t c (w_db w) (w_db w')"
  using Erase_result by (auto split: prod.splits sum.splits)

section \<open>Dry runs\<close>

lemma Purge_dry: "run (Purge t days True) w = (r, w') \<Longrightarrow> quiet w w'"
  by (auto simp: Purge_def Let_def CountMessagesOlderThan_def split: if_splits elim!: attempt_cases dest!: ask_read)

lemma EraseEndpoint_dry: "run (EraseEndpoint t e True) w = (r, w') \<Longrightarrow> quiet w w'"
  by (auto simp: EraseEndpoint_def Let_def CountMessagesForEndpoint_def split: if_splits elim!: attempt_cases dest!: ask_read)

lemma Erase_dry:
  assumes "run (Erase t c True) w = (r, w')"
  shows "quiet w w'"
proof -
  have "quiet w u" if "run (ask failed (CountMessagesForContact t c)) w = (x, u)" for w u x
    using ask_read[OF that] by (simp add: CountMessagesForContact_def)
  moreover have "quiet w u" if "run (ask failed (ListEndpointsForContact c)) w = (x, u)" for w u x
    using ask_read[OF that] by (simp add: ListEndpointsForContact_def)
  ultimately show ?thesis
    using assms by (auto simp: Erase_def elim!: attempt_cases) (meson count_loop quiet_trans)+
qed

text \<open>The body asks for the real thing: it decodes and says \<open>"dry_run": false\<close>.\<close>

definition asks_for_real :: "env \<Rightarrow> gostring \<Rightarrow> bool" where
  "asks_for_real E body = (case optional_body E body of None \<Rightarrow> False | Some kvs \<Rightarrow> dry_run_field E kvs = Some (Some False))"

lemma not_real: "optional_body E body = Some kvs \<Longrightarrow> dry_run_field E kvs = Some d \<Longrightarrow> \<not> asks_for_real E body \<Longrightarrow>
    dryRunOrDefault d = True"
  by (cases d) (auto simp: asks_for_real_def dryRunOrDefault_def)

text \<open>
  C26. Deleting is opt-in on the wire: unless the body of the request says \<open>dry_run: false\<close>, none of the
  three endpoints changes the database, sends anything or starts a task, whatever the rest of the
  request and whichever statements fail.
\<close>

theorem retention_dry_by_default:
  "asks_for_real E (ar_body rq) \<or>
   (quiet w (snd (run (purge_handler E rq) w)) \<and> quiet w (snd (run (erase_handler E rq) w)) \<and>
    quiet w (snd (run (erase_endpoint_handler E rq) w)))"
proof (cases "asks_for_real E (ar_body rq)")
  case False
  have "quiet w (snd (run (purge_handler E rq) w))"
    using not_real[OF _ _ False] Purge_dry
    by (auto simp: purge_handler_def with_tenant_def split: option.splits prod.splits Option.bind_splits)
  moreover have "quiet w (snd (run (erase_handler E rq) w))"
    using not_real[OF _ _ False] Erase_dry
    by (auto simp: erase_handler_def with_tenant_def split: option.splits prod.splits Option.bind_splits)
  moreover have "quiet w (snd (run (erase_endpoint_handler E rq) w))"
    using not_real[OF _ _ False] EraseEndpoint_dry
    by (auto simp: erase_endpoint_handler_def with_tenant_def split: option.splits prod.splits Option.bind_splits)
  ultimately show ?thesis by simp
qed simp

section \<open>What erasure misses\<close>

text \<open>
  Echo and recall notices survive every erasure: the row recorded for one quotes the message in its
  text, and without a recipient contact and a sender endpoint no erasure of any contact or endpoint
  changes it.
\<close>

theorem erasure_misses_notices:
  "erased_row t c eps (outbound_row (p\<lparr>co_RecipientContactID := None\<rparr>)) m' =
     (m' = outbound_row (p\<lparr>co_RecipientContactID := None\<rparr>))"
  by (auto simp: erased_row_def names_contact_def from_endpoint_def outbound_row_def)

definition foreign_contact :: Contact where
  "foreign_contact = \<lparr>ct_id = 5, ct_tenant = 1, ct_short_id = str ''hmb'', ct_display_name = [], ct_aoi = None,
     ct_role = None, ct_default_channel = None, ct_status = str ''active'', ct_metadata = JObj [],
     ct_created_at = 0, ct_updated_at = 0\<rparr>"

definition foreign_endpoint :: ContactEndpoint where
  "foreign_endpoint = \<lparr>ce_id = 9, ce_contact = 5, ce_channel = 3, ce_account = 7, ce_endpoint = str ''+1555'',
     ce_priority = 0, ce_capabilities = [], ce_last_seen = None, ce_failover = None\<rparr>"

definition two_tenants :: db where
  "two_tenants = empty_db\<lparr>tenants := [demo_tenant, demo_tenant\<lparr>tn_id := 2\<rparr>],
     accounts := [\<lparr>acc_id = 7, acc_tenant = 1, acc_type = str ''whatsapp'', acc_owner_type = [], acc_label = [],
       acc_platform_identifier = str ''1'', acc_credentials = [], acc_capabilities = [],
       acc_status = str ''active'', acc_created_at = 0\<rparr>],
     channels := [\<lparr>ch_id = 3, ch_tenant = 1, ch_name = [], ch_parser_config = JObj [], ch_workflow_url = None,
       ch_reply_policy = [], ch_thresholds = JObj [], ch_echo_back = True, ch_recall_window = 120,
       ch_retention_years = 7, ch_created_at = 0\<rparr>],
     contacts := [foreign_contact], contact_endpoints := [foreign_endpoint]\<rparr>"

text \<open>
  An erasure reaches into another tenant: tenant 2 asking to erase tenant 1's contact is told that
  it does not exist, and by then the contact's endpoints have been deleted.
\<close>

theorem erase_deletes_foreign_endpoints:
  "case run (Erase 2 5 False) (fresh_world two_tenants []) of
     (r, w') \<Rightarrow> r = Inl NotFound \<and> contact_endpoints two_tenants = [foreign_endpoint] \<and>
       w_db w' = two_tenants\<lparr>contact_endpoints := []\<rparr> \<and> contacts (w_db w') = [foreign_contact]"
proof -
  note row = foreign_contact_def foreign_endpoint_def
  have ok: "schema_ok two_tenants" "schema_ok (two_tenants\<lparr>contact_endpoints := []\<rparr>)"
    by (simp_all add: two_tenants_def demo_db_simps row)
  show ?thesis
    using ok
    by (simp add: Erase_def run_attempt run_ask_clean CountMessagesForContact_def ListEndpointsForContact_def
        count_endpoint_def redact_endpoint_def CountMessagesForEndpoint_def RedactMessagesForEndpoint_def
        RedactMessagesForContact_def DetachMessagesFromContact_def DeleteEndpointsForContact_def DeleteContactRow_def
        drop_contacts_def update_messages_def commit_def Let_def two_tenants_def empty_db_def row)
qed

end
