(* ===== verification/Replay.thy ===== *)
theory Replay
  imports Services Workflow Ingest
begin

text \<open>
  Component \<open>internal/replay\<close>: firing again the deliveries no consumer has acknowledged, rebuilt from the
  stored rows, one run per tenant at a time, with the HTTP handler.
\<close>

section \<open>Rebuilding the payload\<close>

definition storedParse :: "env \<Rightarrow> json option \<Rightarrow> (gostring \<times> gostring \<times> gostring) option" where
  "storedParse E stored = do {
     j \<leftarrow> stored;
     kvs \<leftarrow> struct_members j;
     command \<leftarrow> decode_string (members (e_uni E) (str ''command'') kvs) [];
     payload \<leftarrow> decode_string (members (e_uni E) (str ''payload'') kvs) [];
     contact \<leftarrow> decode_string (members (e_uni E) (str ''matched_contact_id'') kvs) [];
     Some (command, payload, contact) }"

text \<open>GeoJSON gives longitude first.\<close>

definition locationJSON :: "env \<Rightarrow> json option \<Rightarrow> json option" where
  "locationJSON E geo = do {
     j \<leftarrow> geo;
     kvs \<leftarrow> struct_members j;
     cs \<leftarrow> decode_floats (members (e_uni E) (str ''coordinates'') kvs) [];
     (if length cs < 2 then None else Some (location_json \<lparr>lo_Lat = cs ! 1, lo_Lng = cs ! 0\<rparr>)) }"

definition rebuildForward :: "env \<Rightarrow> ListUnfiredForwardsRow \<Rightarrow> Forward" where
  "rebuildForward E row =
     (let p = storedParse E (lu_Parsed row);
          contact = (case p of None \<Rightarrow> [] | Some (_, _, c) \<Rightarrow> if c \<noteq> [] \<and> c \<noteq> e_show_uuid E 0 then c else [])
      in \<lparr>fw_MessageID = e_show_uuid E (lu_ID row),
          fw_TenantID = e_show_uuid E (lu_TenantID row),
          fw_ChannelID = (case lu_ChannelID row of None \<Rightarrow> [] | Some i \<Rightarrow> e_show_uuid E i),
          fw_AccountID = (case lu_AccountID row of None \<Rightarrow> [] | Some i \<Rightarrow> e_show_uuid E i),
          fw_AccountType = lu_AccountType row,
          fw_Platform = Platform (lu_AccountType row),
          fw_ContactID = contact,
          fw_SenderEndpoint = deref (lu_SenderEndpoint row),
          fw_Command = (case p of None \<Rightarrow> [] | Some (c, _, _) \<Rightarrow> c),
          fw_Payload = (case p of None \<Rightarrow> [] | Some (_, x, _) \<Rightarrow> x),
          fw_Text = lu_BodyText row,
          fw_Attachments = lu_BodyAttachments row,
          fw_Location = locationJSON E (lu_BodyLocation row),
          fw_ReceivedAt = e_show_time E (lu_ReceivedAt row)\<rparr>)"

section \<open>A run\<close>

definition defaultLimit :: int where "defaultLimit = 100"
definition maxLimit :: int where "maxLimit = 1000"

definition clamp_limit :: "int \<Rightarrow> int" where
  "clamp_limit l = (let l = (if l \<le> 0 then defaultLimit else l) in if maxLimit < l then maxLimit else l)"

datatype replay_error = ReplayInvalid | AlreadyRunning | ReplayFailed

record ReplayRequest =
  rp_TenantID :: uuid
  rp_ChannelID :: "uuid option"
  rp_Since :: time
  rp_Limit :: int
  rp_DryRun :: bool

type_synonym replay_failure = "uuid \<times> (forward_error + db_error)"

record ReplayResult =
  rr_Candidates :: nat
  rr_Replayed :: nat
  rr_Failed :: nat
  rr_DryRun :: bool
  rr_Failures :: "replay_failure list"
  rr_MessageIDs :: "uuid list"

text \<open>The zero \<open>time.Time\<close>: January 1 of year 1, UTC.\<close>

definition zero_time :: time where
  "zero_time = - 62135596800 * second"

definition replayOne :: "env \<Rightarrow> Forwarder \<Rightarrow> ListUnfiredForwardsRow \<Rightarrow> (world, (forward_error + db_error) option) prog" where
  "replayOne E fw row =
     deliver_and_mark (forward_to E fw None) (deref (lu_WorkflowUrl row)) (rebuildForward E row) (lu_ID row)"

definition replay_row :: "env \<Rightarrow> Forwarder \<Rightarrow> bool \<Rightarrow> ListUnfiredForwardsRow \<Rightarrow> ReplayResult \<Rightarrow>
    (world, replay_error + ReplayResult) prog" where
  "replay_row E fw dry row res =
     (let res = res\<lparr>rr_MessageIDs := rr_MessageIDs res @ [lu_ID row]\<rparr> in
      if dry then ret (Inr res)
      else State_Monad.bind (replayOne E fw row) (\<lambda>r. ret (Inr (case r of
          Some e \<Rightarrow> res\<lparr>rr_Failed := Suc (rr_Failed res), rr_Failures := rr_Failures res @ [(lu_ID row, e)]\<rparr>
        | None \<Rightarrow> res\<lparr>rr_Replayed := Suc (rr_Replayed res)\<rparr>))))"

definition replay_query :: "env \<Rightarrow> ReplayRequest \<Rightarrow> ListUnfiredForwardsRow list query" where
  "replay_query E req =
     ListUnfiredForwards (e_geojson E) (rp_TenantID req) (rp_Since req) (nat (clamp_limit (rp_Limit req))) (rp_ChannelID req)"

text \<open>The part of \<open>Run\<close> between taking and giving back the tenant's slot.\<close>

definition replay_rows :: "env \<Rightarrow> Forwarder \<Rightarrow> ReplayRequest \<Rightarrow> (world, replay_error + ReplayResult) prog" where
  "replay_rows E fw req =
     attempt (ask (\<lambda>_. ReplayFailed) (replay_query E req)) (\<lambda>rows.
     for_each rows \<lparr>rr_Candidates = length rows, rr_Replayed = 0, rr_Failed = 0, rr_DryRun = rp_DryRun req,
         rr_Failures = [], rr_MessageIDs = []\<rparr> (replay_row E fw (rp_DryRun req)))"

text \<open>The tenants with a run in progress.\<close>

definition acquire :: "uuid \<Rightarrow> uuid set \<Rightarrow> bool \<times> uuid set" where
  "acquire tenant running = (if tenant \<in> running then (False, running) else (True, insert tenant running))"

definition release :: "uuid \<Rightarrow> uuid set \<Rightarrow> uuid set" where
  "release tenant running = running - {tenant}"

definition Run :: "env \<Rightarrow> Forwarder \<Rightarrow> ReplayRequest \<Rightarrow> uuid set \<Rightarrow>
    (world, (replay_error + ReplayResult) \<times> uuid set) prog" where
  "Run E fw req running =
     (if rp_TenantID req = 0 then ret (Inl ReplayInvalid, running)
      else if rp_DryRun req then State_Monad.bind (replay_rows E fw req) (\<lambda>r. ret (r, running))
      else
        let (ok, running') = acquire (rp_TenantID req) running in
        if \<not> ok then ret (Inl AlreadyRunning, running')
        else State_Monad.bind (replay_rows E fw req) (\<lambda>r. ret (r, release (rp_TenantID req) running')))"

section \<open>The handler\<close>

text \<open>\<open>show_err\<close> is the text of an error value.\<close>

definition ReplayResult_json :: "env \<Rightarrow> (forward_error + db_error \<Rightarrow> gostring) \<Rightarrow> ReplayResult \<Rightarrow> json" where
  "ReplayResult_json E show_err r = JObj (
     [(str ''candidates'', json_nat (rr_Candidates r)), (str ''replayed'', json_nat (rr_Replayed r)),
      (str ''failed'', json_nat (rr_Failed r)), (str ''dry_run'', JBool (rr_DryRun r))] @
     (if rr_Failures r = [] then [] else [(str ''failures'', JArr (map (\<lambda>(i, e). JObj
        [(str ''message_id'', uuid_json E i), (str ''error'', JStr (show_err e))]) (rr_Failures r)))]) @
     (if rr_MessageIDs r = [] then [] else [(str ''message_ids'', JArr (map (uuid_json E) (rr_MessageIDs r)))]))"

definition replay_answer :: "env \<Rightarrow> (forward_error + db_error \<Rightarrow> gostring) \<Rightarrow> replay_error + ReplayResult \<Rightarrow> answer" where
  "replay_answer E show_err r = (case r of
     Inl ReplayInvalid \<Rightarrow> (400, error_json ''invalid'')
   | Inl AlreadyRunning \<Rightarrow> (409, error_detail_json ''replay_in_progress''
       (str ''a replay is already running for this tenant; retry when it finishes, or use dry_run to inspect''))
   | Inl ReplayFailed \<Rightarrow> (500, error_json ''internal_error'')
   | Inr res \<Rightarrow> (200, ReplayResult_json E show_err res))"

text \<open>The four fields of the body.\<close>

definition replay_fields :: "env \<Rightarrow> gostring \<Rightarrow> (gostring \<times> gostring \<times> int \<times> bool) option" where
  "replay_fields E body = do {
     kvs \<leftarrow> optional_body E body;
     chan \<leftarrow> decode_string (members (e_uni E) (str ''channel_id'') kvs) [];
     since \<leftarrow> decode_string (members (e_uni E) (str ''since'') kvs) [];
     limit \<leftarrow> decode_int int32_min int32_max (members (e_uni E) (str ''limit'') kvs) 0;
     dry \<leftarrow> decode_bool (members (e_uni E) (str ''dry_run'') kvs) False;
     Some (chan, since, limit, dry) }"

definition replay_handler :: "env \<Rightarrow> (forward_error + db_error \<Rightarrow> gostring) \<Rightarrow> Forwarder \<Rightarrow> api_request \<Rightarrow> uuid set \<Rightarrow>
    (world, answer \<times> uuid set) prog" where
  "replay_handler E show_err fw rq running =
     (case e_parse_uuid E (ar_tenant rq) of
        None \<Rightarrow> ret (no_tenant, running)
      | Some tenant \<Rightarrow> (case replay_fields E (ar_body rq) of
          None \<Rightarrow> ret (invalid_json, running)
        | Some (chan, since, limit, dry) \<Rightarrow>
            if chan \<noteq> [] \<and> e_parse_uuid E chan = None then ret ((400, error_json ''invalid_channel_id''), running)
            else if since \<noteq> [] \<and> e_parse_time E since = None then ret ((400, error_json ''invalid_since''), running)
            else State_Monad.bind
              (Run E fw \<lparr>rp_TenantID = tenant, rp_ChannelID = (if chan = [] then None else e_parse_uuid E chan),
                 rp_Since = (case e_parse_time E since of Some t \<Rightarrow> if since = [] then zero_time else t | None \<Rightarrow> zero_time),
                 rp_Limit = limit, rp_DryRun = dry\<rparr> running)
              (\<lambda>(r, running). ret (replay_answer E show_err r, running))))"

end
