(* ===== verification/Replay_Facts.thy ===== *)
theory Replay_Facts
  imports Replay Ingest_Safety
begin

text \<open>
  What a replay guarantees: it sends what the live delivery would have sent, it marks only what was
  acknowledged, it accounts for every candidate, and only one run per tenant is under way.
\<close>

section \<open>The rebuilt payload\<close>

lemma members_omitted:
  assumes "ascii_name k" and "ascii_name n"
  shows "members U (str n) (omit_empty (str k) s @ kvs) =
      (if name_key k = name_key n \<and> s \<noteq> [] then JStr s # members U (str n) kvs else members U (str n) kvs)"
    "members U (str n) (omit_false (str k) b @ kvs) =
      (if name_key k = name_key n \<and> b then JBool True # members U (str n) kvs else members U (str n) kvs)"
  using assms by (simp_all add: omit_empty_def omit_false_def members_name)

lemma parsedDoc_members:
  assumes "parsedDoc_json E doc = JObj kvs"
  shows "members U (str ''command'') (kvs @ rest) =
      (if pd_Command doc = [] then [] else [JStr (pd_Command doc)]) @ members U (str ''command'') rest"
    "members U (str ''payload'') (kvs @ rest) =
      (if pd_Payload doc = [] then [] else [JStr (pd_Payload doc)]) @ members U (str ''payload'') rest"
    "members U (str ''matched_contact_id'') (kvs @ rest) =
      json_ptr (uuid_json E) (pd_ContactID doc) # members U (str ''matched_contact_id'') rest"
  using assms
  by (auto simp: parsedDoc_json_def members_omitted name_simps simp del: members_append)

lemma decode_doc_contact:
  "decode_string (json_ptr (uuid_json E) v # js) [] = decode_string js (case v of None \<Rightarrow> [] | Some i \<Rightarrow> e_show_uuid E i)"
  by (simp add: json_ptr_def uuid_json_def split: option.split)

lemma decode_doc_string:
  "decode_string ((if s = [] then [] else [JStr s]) @ js) [] = decode_string js s"
  by simp

text \<open>The text of a stored document, with or without the mark of an erasure.\<close>

lemma storedParse_doc:
  "storedParse E (Some (parsedDoc_json E doc)) =
     Some (pd_Command doc, pd_Payload doc, case pd_ContactID doc of None \<Rightarrow> [] | Some i \<Rightarrow> e_show_uuid E i)"
proof -
  obtain kvs where k: "parsedDoc_json E doc = JObj kvs" by (simp add: parsedDoc_json_def)
  show ?thesis using parsedDoc_members[OF k, of "e_uni E" "[]"]
    by (simp add: storedParse_def k decode_doc_contact decode_doc_string[where js = "[]", simplified])
qed

lemma storedParse_redacted:
  "storedParse E (Some (jsonb_concat (parsedDoc_json E doc) redacted_mark)) = storedParse E (Some (parsedDoc_json E doc))"
proof -
  obtain kvs where k: "parsedDoc_json E doc = JObj kvs" by (simp add: parsedDoc_json_def)
  have keep: "filter (\<lambda>(k, _). k \<noteq> str ''redacted'') kvs = kvs"
    using k by (auto simp: parsedDoc_json_def omit_empty_def omit_false_def)
  show ?thesis
    using parsedDoc_members[OF k, of "e_uni E" "[]"] parsedDoc_members[OF k, of "e_uni E" "[(str ''redacted'', JBool True)]"]
    by (simp add: storedParse_def k redacted_mark_def keep name_simps decode_doc_contact)
qed

text \<open>
  What the rebuilt payload relies on outside the repository: PostGIS reads a point as longitude and latitude and its
  \<open>ST_AsGeoJSON\<close> writes them in that order (which it does to nine decimals, so the coordinates are taken to have no
  more), and the text of a contact's id is neither empty nor that of the nil id.
\<close>

definition geojson_point :: "rat \<times> rat \<Rightarrow> json" where
  "geojson_point p = JObj [(str ''type'', JStr (str ''Point'')), (str ''coordinates'', JArr [JNum (fst p), JNum (snd p)])]"

definition point_returns :: "env \<Rightarrow> Location \<Rightarrow> bool" where
  "point_returns E l \<longleftrightarrow> float64 (lo_Lng l) \<and> float64 (lo_Lat l) \<and> e_geojson E = geojson_point \<and>
     e_geography E (str ''SRID=4326;POINT('' @ e_show_float E (lo_Lng l) @ str '' '' @ e_show_float E (lo_Lat l) @ str '')'') =
       Some (lo_Lng l, lo_Lat l)"

lemma locationJSON_point:
  assumes "point_returns E l"
  shows "locationJSON E (map_option (e_geojson E) (e_geography E (ewktPoint E (Some l)))) = Some (location_json l)"
  using assms by (cases l) (simp add: point_returns_def ewktPoint_def locationJSON_def geojson_point_def name_simps float64_def)

definition id_shows :: "env \<Rightarrow> uuid \<Rightarrow> bool" where
  "id_shows E i \<longleftrightarrow> e_show_uuid E i \<noteq> [] \<and> e_show_uuid E i \<noteq> e_show_uuid E 0"

definition stored_location :: "env \<Rightarrow> CanonicalMessage \<Rightarrow> (rat \<times> rat) option" where
  "stored_location E msg = (case bd_Location (cm_Body msg) of None \<Rightarrow> None
     | Some l \<Rightarrow> e_geography E (ewktPoint E (Some l)))"

lemma deref_textOrNull [simp]: "deref (textOrNull s) = s"
  by (simp add: deref_def textOrNull_def)


definition located_message :: CanonicalMessage where
  "located_message = demo_message\<lparr>cm_Body := \<lparr>bd_Text = Some (str ''42 STATUS ok''), bd_Attachments = [],
     bd_Location = Some \<lparr>lo_Lat = 0, lo_Lng = 0\<rparr>\<rparr>\<rparr>"

lemma f64_zero: "f64 0 = 0"
proof -
  have "fl k 0 = 0" for k
    using round_half_even_int[of 0] by (induction k) auto
  then show ?thesis by (simp only: f64_def)
qed

text \<open>The demo environment with GeoJSON points.\<close>

definition geo_env :: env where
  "geo_env = demo_env\<lparr>e_geojson := geojson_point\<rparr>"

definition demo_channel :: Channel where
  "demo_channel = \<lparr>ch_id = 9, ch_tenant = 1, ch_name = str ''field'', ch_parser_config = JObj [], ch_workflow_url = Some (str ''http://c''),
     ch_reply_policy = [], ch_thresholds = JObj [], ch_echo_back = True, ch_recall_window = 120, ch_retention_years = 1,
     ch_created_at = 0\<rparr>"


text \<open>
  An erased message can still reach the consumer: redaction keeps the parsed document, so a replay of
  a redacted row sends the command, the payload text and the matched contact of the original message.
\<close>

theorem replay_sends_erased_payload:
  "let f = rebuildForward E (unfired_row geo (redact (m\<lparr>msg_parsed := Some (parsedDoc_json E doc)\<rparr>)) c a) in
   fw_Text f = [] \<and> fw_SenderEndpoint f = [] \<and> fw_Command f = pd_Command doc \<and> fw_Payload f = pd_Payload doc \<and>
   fw_ContactID f = fw_ContactID (rebuildForward E (unfired_row geo (m\<lparr>msg_parsed := Some (parsedDoc_json E doc)\<rparr>) c a))"
  by (simp add: rebuildForward_def unfired_row_def redact_def storedParse_redacted storedParse_doc deref_def Let_def)

section \<open>A run accounts for every candidate\<close>

abbreviation row_request :: "env \<Rightarrow> ListUnfiredForwardsRow \<Rightarrow> http_request" where
  "row_request E row \<equiv> forward_request (deref (lu_WorkflowUrl row)) (rebuildForward E row)"

text \<open>The state of a run after the rows \<open>ys\<close>.\<close>

definition accounted :: "env \<Rightarrow> ListUnfiredForwardsRow list \<Rightarrow> world \<Rightarrow> ReplayResult \<Rightarrow> world \<Rightarrow> bool" where
  "accounted E ys w res u \<longleftrightarrow>
     rr_MessageIDs res = map lu_ID ys \<and> rr_Replayed res + rr_Failed res = length ys \<and>
     length (rr_Failures res) = rr_Failed res \<and> fst ` set (rr_Failures res) \<subseteq> lu_ID ` set ys \<and>
     message_ids (w_db u) = message_ids (w_db w) \<and>
     (\<exists>l. w_sent u = w_sent w @ l \<and>
        (\<forall>row\<in>set ys. lu_ID row \<in> fst ` set (rr_Failures res) \<or>
           (fired (w_db u) (lu_ID row) \<and> acknowledged (row_request E row) l)) \<and>
        (\<forall>j. fired (w_db u) j \<longrightarrow> fired (w_db w) j \<or>
           (\<exists>row\<in>set ys. lu_ID row = j \<and> acknowledged (row_request E row) l)))"

lemma acknowledged_append: "acknowledged rq l \<Longrightarrow> acknowledged rq (l @ l')" "acknowledged rq l' \<Longrightarrow> acknowledged rq (l @ l')"
  by (auto simp: acknowledged_def)

lemma accounted_step:
  assumes acc: "accounted E ys w res u" and row: "lu_ID row \<in> set (message_ids (w_db w))"
    and d: "run (replayOne E fw row) u = (r, u')"
  shows "accounted E (ys @ [row]) w
     (let res = res\<lparr>rr_MessageIDs := rr_MessageIDs res @ [lu_ID row]\<rparr> in case r of
          Some e \<Rightarrow> res\<lparr>rr_Failed := Suc (rr_Failed res), rr_Failures := rr_Failures res @ [(lu_ID row, e)]\<rparr>
        | None \<Rightarrow> res\<lparr>rr_Replayed := Suc (rr_Replayed res)\<rparr>) u'"
proof -
  note d' = d[unfolded replayOne_def]
  obtain l where l: "w_sent u = w_sent w @ l"
    "\<forall>row\<in>set ys. lu_ID row \<in> fst ` set (rr_Failures res) \<or> (fired (w_db u) (lu_ID row) \<and> acknowledged (row_request E row) l)"
    "\<forall>j. fired (w_db u) j \<longrightarrow> fired (w_db w) j \<or> (\<exists>row\<in>set ys. lu_ID row = j \<and> acknowledged (row_request E row) l)"
    using acc by (auto simp: accounted_def)
  obtain l' where l': "w_sent u' = w_sent u @ l'" using consumer.deliver_keeps(1)[OF d'] by blast
  have ids: "message_ids (w_db u') = message_ids (w_db w)"
    using consumer.deliver_keeps(2)[OF d'] acc by (simp add: accounted_def)
  have old: "\<forall>row\<in>set ys. lu_ID row \<in> fst ` set (rr_Failures res) \<or>
      (fired (w_db u') (lu_ID row) \<and> acknowledged (row_request E row) (l @ l'))"
    using l(2) consumer.deliver_keeps(3)[OF d'] acknowledged_append(1) by blast
  have new: "fired (w_db u') (lu_ID row) \<and> acknowledged (row_request E row) (l @ l')" if "r = None"
  proof -
    have "lu_ID row \<in> set (message_ids (w_db u))" using row acc by (simp add: accounted_def)
    from consumer.success_is_marked[OF d'[unfolded that] this] show ?thesis
      using l' acknowledged_append(2) by auto
  qed
  have marks: "fired (w_db w) j \<or> (\<exists>x\<in>set (ys @ [row]). lu_ID x = j \<and> acknowledged (row_request E x) (l @ l'))"
    if "fired (w_db u') j" for j
  proof (cases "fired (w_db u) j")
    case True
    with l(3) consider "fired (w_db w) j" | x where "x \<in> set ys" "lu_ID x = j" "acknowledged (row_request E x) l" by blast
    then show ?thesis by cases (auto dest: acknowledged_append(1))
  next
    case False
    from consumer.marks_only_acknowledged[OF d' that False] show ?thesis using l' by (auto dest: acknowledged_append(2))
  qed
  show ?thesis
    using acc l(1) l' ids old new marks unfolding accounted_def
    by (cases r) (auto simp: Let_def intro!: exI[of _ "l @ l'"])
qed

lemma replay_candidate:
  assumes "replay_query E req d = (Inr rows, d')" and "row \<in> set rows"
  obtains m c a where "m \<in> set (messages d)" "unfired (rp_TenantID req) (rp_Since req) (rp_ChannelID req) m"
    "row = unfired_row (e_geojson E) m c a" "ch_workflow_url c \<notin> {None, Some []}"
proof -
  define cand where "cand = (\<lambda>m. case (channel_of d (msg_channel m), account_of d (msg_account m)) of
             (Some c, Some a) \<Rightarrow>
               if unfired (rp_TenantID req) (rp_Since req) (rp_ChannelID req) m \<and> ch_workflow_url c \<notin> {None, Some []}
               then Some (unfired_row (e_geojson E) m c a) else None
           | _ \<Rightarrow> None)"
  have "rows = take (nat (clamp_limit (rp_Limit req))) (sort_key lu_ReceivedAt (List.map_filter cand (messages d)))"
    using assms(1) unfolding replay_query_def ListUnfiredForwards_def cand_def by auto
  then have "row \<in> set (List.map_filter cand (messages d))" using assms(2) by (auto dest: in_set_takeD)
  then obtain m where "m \<in> set (messages d)" "cand m = Some row" by (auto simp: List.map_filter_def)
  then show thesis using that unfolding cand_def by (auto split: option.splits if_splits)
qed

lemma replay_query_bounded: "replay_query E req d = (Inr rows, d') \<Longrightarrow> length rows \<le> 1000"
  by (auto simp: replay_query_def ListUnfiredForwards_def clamp_limit_def maxLimit_def defaultLimit_def Let_def)

lemma replay_rows_real:
  assumes "run (replay_rows E fw req) w = (r, w')" and "\<not> rp_DryRun req"
  shows "(\<exists>e. r = Inl e \<and> e = ReplayFailed \<and> quiet w w') \<or>
    (\<exists>rows res. fst (replay_query E req (w_db w)) = Inr rows \<and> r = Inr res \<and> rr_Candidates res = length rows \<and>
       rr_DryRun res = rp_DryRun req \<and> accounted E rows w res w')"
  using assms(1) unfolding replay_rows_def
proof (cases rule: attempt_cases)
  case (failed e)
  then show ?thesis using ask_Inl[OF failed(1)] ask_read[OF failed(1)] by (auto simp: replay_query_def ListUnfiredForwards_def)
next
  case (went_on rows w1)
  have q: "quiet w w1" using ask_read[OF went_on(1)] by (simp add: replay_query_def ListUnfiredForwards_def)
  have rows: "replay_query E req (w_db w) = (Inr rows, w_db w1)" by (rule ask_Inr(1)[OF went_on(1)])
  have known: "lu_ID row \<in> set (message_ids (w_db w))" if "row \<in> set rows" for row
  proof -
    from rows that show ?thesis by (rule replay_candidate) (auto simp: unfired_row_def message_ids_def)
  qed
  let ?zero = "\<lparr>rr_Candidates = length rows, rr_Replayed = 0, rr_Failed = 0, rr_DryRun = rp_DryRun req,
         rr_Failures = [], rr_MessageIDs = []\<rparr>"
  have loop: "\<exists>res. fst (run (for_each ys a (replay_row E fw False)) u) = Inr res \<and>
      rr_Candidates res = rr_Candidates a \<and> rr_DryRun res = rr_DryRun a \<and>
      accounted E (zs @ ys) w res (snd (run (for_each ys a (replay_row E fw False)) u))"
    if "accounted E zs w a u" "set ys \<subseteq> set rows" for ys zs a u
    using that
  proof (induction ys arbitrary: zs a u)
    case Nil
    then show ?case by simp
  next
    case (Cons row ys)
    obtain x u' where x: "run (replayOne E fw row) u = (x, u')" by (cases "run (replayOne E fw row) u")
    have "lu_ID row \<in> set (message_ids (w_db w))" using known Cons.prems(2) by simp
    note s = accounted_step[OF Cons.prems(1) this x]
    from Cons.IH[OF s] Cons.prems(2) show ?case
      by (cases x) (simp_all add: replay_row_def x Let_def)
  qed
  have start: "accounted E [] w ?zero w1" using quietD[OF q] by (simp add: accounted_def)
  from loop[OF start, of rows] went_on(2) assms(2) rows show ?thesis by auto
qed

lemma replay_rows_dry:
  assumes "run (replay_rows E fw req) w = (r, w')" and "rp_DryRun req"
  shows "quiet w w' \<and> (r = Inl ReplayFailed \<or>
    (\<exists>rows res. fst (replay_query E req (w_db w)) = Inr rows \<and> r = Inr res \<and> rr_MessageIDs res = map lu_ID rows \<and>
       rr_Candidates res = length rows \<and> rr_Replayed res = 0 \<and> rr_Failed res = 0))"
  using assms(1) unfolding replay_rows_def
proof (cases rule: attempt_cases)
  case (failed e)
  then show ?thesis using ask_Inl[OF failed(1)] ask_read[OF failed(1)] by (auto simp: replay_query_def ListUnfiredForwards_def)
next
  case (went_on rows w1)
  have q: "quiet w w1" using ask_read[OF went_on(1)] by (simp add: replay_query_def ListUnfiredForwards_def)
  have rows: "replay_query E req (w_db w) = (Inr rows, w_db w1)" by (rule ask_Inr(1)[OF went_on(1)])
  have "run (for_each ys a (replay_row E fw True)) u = (Inr (a\<lparr>rr_MessageIDs := rr_MessageIDs a @ map lu_ID ys\<rparr>), u)" for ys a u
    by (induction ys arbitrary: a) (auto simp: replay_row_def Let_def)
  then show ?thesis using went_on(2) assms(2) q rows by auto
qed

text \<open>
  C22. A run accounts for every candidate. It is refused for the nil tenant and while the tenant has
  another run, without touching anything, and gives the tenant's slot back whatever happens. A dry run
  only lists the candidates. A real run of at most 1000 candidates reports each as failed, or has it
  acknowledged by the consumer and marked; the two counts add up to the candidates, and no message is
  newly marked but a candidate the consumer acknowledged.
\<close>

theorem replay_run_accounts:
  "let ((r, running'), w') = run (Run E fw req running) w in
   running' = running \<and>
   (case r of
      Inl ReplayInvalid \<Rightarrow> rp_TenantID req = 0 \<and> w' = w
    | Inl AlreadyRunning \<Rightarrow> rp_TenantID req \<in> running \<and> \<not> rp_DryRun req \<and> w' = w
    | Inl ReplayFailed \<Rightarrow> quiet w w'
    | Inr res \<Rightarrow> (case fst (replay_query E req (w_db w)) of Inl _ \<Rightarrow> False | Inr rows \<Rightarrow>
        rr_MessageIDs res = map lu_ID rows \<and> rr_Candidates res = length rows \<and> length rows \<le> 1000 \<and>
        (if rp_DryRun req then quiet w w' \<and> rr_Replayed res = 0 \<and> rr_Failed res = 0
         else rp_TenantID req \<notin> running \<and> accounted E rows w res w')))"
proof -
  obtain r w' where r: "run (replay_rows E fw req) w = (r, w')" by (cases "run (replay_rows E fw req) w")
  have bound: "fst (replay_query E req (w_db w)) = Inr rows \<Longrightarrow> length rows \<le> 1000" for rows
    using replay_query_bounded[of E req "w_db w" rows "snd (replay_query E req (w_db w))"] by (simp add: prod_eq_iff)
  consider "rp_TenantID req = 0" | "rp_TenantID req \<noteq> 0" "rp_DryRun req"
    | "rp_TenantID req \<noteq> 0" "\<not> rp_DryRun req" "rp_TenantID req \<in> running"
    | "rp_TenantID req \<noteq> 0" "\<not> rp_DryRun req" "rp_TenantID req \<notin> running" by blast
  then show ?thesis
  proof cases
    case 1
    then show ?thesis by (simp add: Run_def)
  next
    case 2
    then show ?thesis using r replay_rows_dry[OF r 2(2)] bound by (auto simp: Run_def)
  next
    case 3
    then show ?thesis by (simp add: Run_def acquire_def)
  next
    case 4
    from replay_rows_real[OF r 4(2)] show ?thesis
    proof (elim disjE exE conjE)
      fix e assume "r = Inl e" "e = ReplayFailed" "quiet w w'"
      then show ?thesis using r 4 by (simp add: Run_def acquire_def release_def)
    next
      fix rows res
      assume "fst (replay_query E req (w_db w)) = Inr rows" "r = Inr res" "rr_Candidates res = length rows" "accounted E rows w res w'"
      then show ?thesis using r 4 bound by (simp add: Run_def acquire_def release_def accounted_def)
    qed
  qed
qed

end
