(* ===== verification/Outbound_Api.thy ===== *)
theory Outbound_Api
  imports Services Outbound Queries_Registry Ingest_Safety
begin

text \<open>
  Component \<open>internal/outboundapi\<close>: the consumer's way to send, as a reply to a stored message or to a
  contact or address, with the HTTP handler; and what a send records.
\<close>

section \<open>The service\<close>

datatype outbound_error = OutBadRequest | OutNotFound | OutFailed

record OutResult =
  or_MessageID :: uuid
  or_DispatchedTo :: gostring

record target =
  tg_tenantID :: uuid
  tg_accountID :: uuid
  tg_endpoint :: gostring
  tg_contactID :: "uuid option"
  tg_inReplyTo :: "uuid option"
  tg_rawPayload :: "json option"

text \<open>\<open>pgx.ErrNoRows\<close> is told apart, any other database error is not.\<close>

definition not_found :: "db_error \<Rightarrow> outbound_error" where
  "not_found e = (if e = NoRows then OutNotFound else OutFailed)"

definition outbound_token :: "env \<Rightarrow> Account \<Rightarrow> gostring option" where
  "outbound_token E acct =
     (if Tokenless (acc_type acct) then Some []
      else if acc_credentials acct = [] then None else e_decrypt E (acc_credentials acct))"

definition compose :: "env \<Rightarrow> Account \<Rightarrow> target \<Rightarrow> gostring \<Rightarrow> gostring \<Rightarrow> OutboundMessage" where
  "compose E acct tgt body subject =
     (if acc_type acct = TypeEmailSES
      then if tg_inReplyTo tgt \<noteq> None
           then BuildReply E (acc_platform_identifier acct) (tg_endpoint tgt) body (tg_rawPayload tgt)
           else BuildNew (acc_platform_identifier acct) (tg_endpoint tgt) subject body
      else plain_message (tg_endpoint tgt) body)"

definition send_to :: "env \<Rightarrow> registry \<Rightarrow> target \<Rightarrow> gostring \<Rightarrow> gostring \<Rightarrow> (world, outbound_error + OutResult) prog" where
  "send_to E reg tgt body subject =
     attempt (ask not_found (GetAccountByID (tg_accountID tgt))) (\<lambda>acct.
     case outbound_token E acct of
       None \<Rightarrow> ret (Inl OutFailed)
     | Some tok \<Rightarrow>
         State_Monad.bind (Dispatch reg \<lparr>oa_Type = acc_type acct, oa_Identifier = acc_platform_identifier acct, oa_Token = tok\<rparr>
             (compose E acct tgt body subject)) (\<lambda>r. case r of
           Inl _ \<Rightarrow> ret (Inl OutFailed)
         | Inr pmid \<Rightarrow>
             State_Monad.bind (if pmid = [] then State_Monad.bind (NewID E) (\<lambda>i. ret (e_show_uuid E i)) else ret pmid) (\<lambda>pmid.
             State_Monad.bind (NewID E) (\<lambda>newID.
             State_Monad.bind now (\<lambda>current.
             attempt (ask (\<lambda>_. OutFailed) (CreateOutboundMessage \<lparr>co_ID = newID, co_TenantID = tg_tenantID tgt,
                 co_AccountID = Some (tg_accountID tgt), co_RecipientContactID = tg_contactID tgt, co_BodyText = body,
                 co_PolicyAction = Some (str ''sent''), co_InReplyToMessageID = tg_inReplyTo tgt,
                 co_PlatformMessageID = pmid, co_ReceivedAt = current\<rparr>)) (\<lambda>outID.
             ret (Inr \<lparr>or_MessageID = outID, or_DispatchedTo = tg_endpoint tgt\<rparr>)))))))"

definition ReplyToMessage :: "env \<Rightarrow> registry \<Rightarrow> uuid \<Rightarrow> gostring \<Rightarrow> (world, outbound_error + OutResult) prog" where
  "ReplyToMessage E reg inReplyTo body =
     (if body = [] then ret (Inl OutBadRequest)
      else attempt (ask not_found (GetMessageForOutbound inReplyTo)) (\<lambda>row.
        case (mo_AccountID row, mo_SenderEndpoint row) of
          (Some acc, Some ep) \<Rightarrow>
            if ep = [] then ret (Inl OutNotFound)
            else send_to E reg \<lparr>tg_tenantID = mo_TenantID row, tg_accountID = acc, tg_endpoint = ep,
                   tg_contactID = mo_SenderContactID row, tg_inReplyTo = Some inReplyTo,
                   tg_rawPayload = Some (mo_RawPayload row)\<rparr> body []
        | _ \<Rightarrow> ret (Inl OutNotFound)))"

definition SendToContact :: "env \<Rightarrow> registry \<Rightarrow> uuid \<Rightarrow> uuid option \<Rightarrow> gostring \<Rightarrow> gostring \<Rightarrow>
    (world, outbound_error + OutResult) prog" where
  "SendToContact E reg contactID channelID body subject =
     (if body = [] then ret (Inl OutBadRequest)
      else attempt (ask not_found (GetOutboundEndpointForContact contactID channelID)) (\<lambda>row.
        send_to E reg \<lparr>tg_tenantID = oe_TenantID row, tg_accountID = oe_AccountID row, tg_endpoint = oe_Endpoint row,
          tg_contactID = Some contactID, tg_inReplyTo = None, tg_rawPayload = None\<rparr> body subject))"

definition SendToEndpoint :: "env \<Rightarrow> registry \<Rightarrow> uuid \<Rightarrow> gostring \<Rightarrow> gostring \<Rightarrow> gostring \<Rightarrow>
    (world, outbound_error + OutResult) prog" where
  "SendToEndpoint E reg channelID endpoint body subject =
     (if body = [] then ret (Inl OutBadRequest)
      else if endpoint = [] then ret (Inl OutBadRequest)
      else attempt (ask not_found (GetOutboundAccountForChannel channelID)) (\<lambda>(acc, tenant).
        send_to E reg \<lparr>tg_tenantID = tenant, tg_accountID = acc, tg_endpoint = endpoint,
          tg_contactID = None, tg_inReplyTo = None, tg_rawPayload = None\<rparr> body subject))"

section \<open>The handler\<close>

record sendRequest =
  sq_InReplyTo :: gostring
  sq_Recipient :: "(gostring \<times> gostring) option"
  sq_ChannelID :: gostring
  sq_Subject :: gostring
  sq_Text :: gostring

definition decode_recipient :: "env \<Rightarrow> (gostring \<times> json) list option \<Rightarrow> (gostring \<times> gostring) option option" where
  "decode_recipient E v = (case v of None \<Rightarrow> Some None
     | Some kvs \<Rightarrow> do { c \<leftarrow> str_field (e_uni E) ''contact_id'' kvs; e \<leftarrow> str_field (e_uni E) ''endpoint'' kvs; Some (Some (c, e)) })"

definition decode_send :: "env \<Rightarrow> gostring \<Rightarrow> sendRequest option" where
  "decode_send E body = do {
     kvs \<leftarrow> body_members E body;
     reply \<leftarrow> str_field (e_uni E) ''in_reply_to_message_id'' kvs;
     rk \<leftarrow> struct_ptr_field (members (e_uni E) (str ''recipient'') kvs) None;
     recipient \<leftarrow> decode_recipient E rk;
     chan \<leftarrow> str_field (e_uni E) ''channel_id'' kvs;
     subject \<leftarrow> str_field (e_uni E) ''subject'' kvs;
     body \<leftarrow> str_field (e_uni E) ''text'' kvs;
     Some \<lparr>sq_InReplyTo = reply, sq_Recipient = recipient, sq_ChannelID = chan, sq_Subject = subject, sq_Text = body\<rparr> }"

definition out_answer :: "env \<Rightarrow> outbound_error + OutResult \<Rightarrow> answer" where
  "out_answer E r = (case r of
     Inl OutBadRequest \<Rightarrow> (400, error_json ''bad_request'')
   | Inl OutNotFound \<Rightarrow> (404, error_json ''recipient_not_found'')
   | Inl OutFailed \<Rightarrow> (502, error_json ''dispatch_failed'')
   | Inr res \<Rightarrow> (202, JObj [(str ''message_id'', JStr (e_show_uuid E (or_MessageID res))),
        (str ''dispatched_to'', JStr (or_DispatchedTo res))]))"

text \<open>The one operation a well-formed request asks for, or the 400 it is answered with.\<close>

datatype send_op = OpReply uuid | OpContact uuid "uuid option" | OpEndpoint uuid gostring

definition send_op_of :: "env \<Rightarrow> sendRequest \<Rightarrow> answer + send_op" where
  "send_op_of E req =
     (let hasReply = (sq_InReplyTo req \<noteq> []);
          (contact, endpoint) = (case sq_Recipient req of None \<Rightarrow> ([], []) | Some r \<Rightarrow> r);
          hasRecipient = (contact \<noteq> [] \<or> endpoint \<noteq> [])
      in if hasReply = hasRecipient
         then Inl (400, error_detail_json ''invalid_target''
                (str ''set exactly one of in_reply_to_message_id or recipient''))
         else if sq_ChannelID req \<noteq> [] \<and> e_parse_uuid E (sq_ChannelID req) = None
         then Inl (400, error_json ''invalid_channel_id'')
         else
           let channelID = (if sq_ChannelID req = [] then None else e_parse_uuid E (sq_ChannelID req)) in
           if hasReply then (case e_parse_uuid E (sq_InReplyTo req) of
               None \<Rightarrow> Inl (400, error_json ''invalid_in_reply_to_message_id'')
             | Some i \<Rightarrow> Inr (OpReply i))
           else if contact \<noteq> [] \<and> endpoint \<noteq> []
           then Inl (400, error_detail_json ''invalid_recipient''
                  (str ''set exactly one of recipient.contact_id or recipient.endpoint''))
           else if contact \<noteq> [] then (case e_parse_uuid E contact of
               None \<Rightarrow> Inl (400, error_json ''invalid_contact_id'')
             | Some c \<Rightarrow> Inr (OpContact c channelID))
           else (case channelID of
               None \<Rightarrow> Inl (400, error_detail_json ''channel_id_required''
                  (str ''recipient.endpoint needs channel_id to resolve the sending account''))
             | Some c \<Rightarrow> Inr (OpEndpoint c endpoint)))"

definition run_op :: "env \<Rightarrow> registry \<Rightarrow> send_op \<Rightarrow> gostring \<Rightarrow> gostring \<Rightarrow> (world, outbound_error + OutResult) prog" where
  "run_op E reg op body subject = (case op of
     OpReply i \<Rightarrow> ReplyToMessage E reg i body
   | OpContact c chan \<Rightarrow> SendToContact E reg c chan body subject
   | OpEndpoint chan ep \<Rightarrow> SendToEndpoint E reg chan ep body subject)"

definition outbound_handler :: "env \<Rightarrow> registry \<Rightarrow> gostring \<Rightarrow> (world, answer) prog" where
  "outbound_handler E reg body = (case decode_send E body of
     None \<Rightarrow> ret invalid_json
   | Some req \<Rightarrow> (case send_op_of E req of
       Inl a \<Rightarrow> ret a
     | Inr op \<Rightarrow> State_Monad.bind (run_op E reg op (sq_Text req) (sq_Subject req)) (\<lambda>r. ret (out_answer E r))))"

end
