(* ===== verification/Outbound_Api_Facts.thy ===== *)
theory Outbound_Api_Facts
  imports Outbound_Api
begin

text \<open>What a send through the consumer's API reaches and records.\<close>

definition sent_row :: "target \<Rightarrow> gostring \<Rightarrow> Message \<Rightarrow> bool" where
  "sent_row tgt body row \<longleftrightarrow> msg_direction row = str ''outbound'' \<and> msg_tenant row = tg_tenantID tgt \<and>
     msg_account row = Some (tg_accountID tgt) \<and> msg_recipient_contact row = tg_contactID tgt \<and>
     msg_in_reply_to row = tg_inReplyTo tgt \<and> msg_body_text row = body \<and> msg_policy_action row = Some (str ''sent'')"

text \<open>
  A send that succeeds has had its one request answered by the platform and has recorded one row for
  it; a send that fails has at most sent that one request, and recorded a row only for one that was
  answered.
\<close>

definition sends_to :: "target \<Rightarrow> gostring \<Rightarrow> world \<Rightarrow> outbound_error + OutResult \<Rightarrow> world \<Rightarrow> bool" where
  "sends_to tgt body w r w' \<longleftrightarrow> w_tasks w' = w_tasks w \<and> length (w_sent w') \<le> Suc (length (w_sent w)) \<and>
     (let recorded = (\<lambda>row. w_db w' = (w_db w)\<lparr>messages := messages (w_db w) @ [row]\<rparr> \<and> sent_row tgt body row \<and>
          (\<exists>rq status answer. w_sent w' = w_sent w @ [(rq, Reply status answer)]))
      in case r of
           Inr res \<Rightarrow> or_DispatchedTo res = tg_endpoint tgt \<and> (\<exists>row. recorded row \<and> msg_id row = or_MessageID res)
         | Inl e \<Rightarrow> w_db w' = w_db w \<or> (\<exists>row. recorded row))"

lemma sends_to_quiet:
  assumes "quiet w w1"
  shows "sends_to tgt body w1 r w' = sends_to tgt body w r w'"
  using quietD[OF assms] by (cases r) (simp_all add: sends_to_def)

lemma sends_to_rejected: "quiet w w' \<Longrightarrow> sends_to tgt body w (Inl e) w'"
  by (simp add: sends_to_def quietD Let_def)

lemma CreateOutbound_recorded:
  assumes "run (ask f (CreateOutboundMessage p)) w = (r, w')"
  shows "w_tasks w' = w_tasks w" "w_sent w' = w_sent w"
    "w_db w' = w_db w \<or> w_db w' = (w_db w)\<lparr>messages := messages (w_db w) @ [outbound_row p]\<rparr>"
    "r = Inr i \<Longrightarrow> w_db w' = (w_db w)\<lparr>messages := messages (w_db w) @ [outbound_row p]\<rparr> \<and> i = co_ID p"
proof -
  show "w_tasks w' = w_tasks w" "w_sent w' = w_sent w" using ask_outcome[OF assms] by auto
  show "w_db w' = w_db w \<or> w_db w' = (w_db w)\<lparr>messages := messages (w_db w) @ [outbound_row p]\<rparr>"
    using ask_outcome(4)[OF assms] by (auto simp: CreateOutboundMessage_def commit_def)
  assume "r = Inr i"
  from ask_Inr(1)[OF assms[unfolded this]]
  show "w_db w' = (w_db w)\<lparr>messages := messages (w_db w) @ [outbound_row p]\<rparr> \<and> i = co_ID p"
    by (auto simp: CreateOutboundMessage_def commit_def split: if_splits)
qed

lemma send_to_sends:
  assumes "run (send_to E (hub_registry E) tgt body subject) w = (r, w')"
  shows "sends_to tgt body w r w'"
  using assms unfolding send_to_def
proof (cases rule: attempt_cases)
  case (failed e)
  have "quiet w w'" using ask_read[OF failed(1)] by (simp add: GetAccountByID_def)
  then show ?thesis using failed(2) by (auto intro: sends_to_rejected)
next
  case (went_on acct w1)
  have q: "quiet w w1" using ask_read[OF went_on(1)] by (simp add: GetAccountByID_def)
  show ?thesis
  proof (cases "outbound_token E acct")
    case None
    then show ?thesis using went_on(2) q by (auto intro: sends_to_rejected)
  next
    case (Some tok)
    let ?oa = "\<lparr>oa_Type = acc_type acct, oa_Identifier = acc_platform_identifier acct, oa_Token = tok\<rparr>"
    obtain s w2 where d: "run (Dispatch (hub_registry E) ?oa (compose E acct tgt body subject)) w1 = (s, w2)"
      by (cases "run (Dispatch (hub_registry E) ?oa (compose E acct tgt body subject)) w1")
    note single = hub.send_single[OF d]
    have "sends_to tgt body w1 r w'"
    proof (cases s)
      case (Inl e)
      then have "w' = w2" "r = Inl OutFailed" using went_on(2) Some d by auto
      then show ?thesis using single_exchange_frame[OF single] by (simp add: sends_to_def Let_def)
    next
      case (Inr pmid)
      obtain rq status answer where sent: "w_sent w2 = w_sent w1 @ [(rq, Reply status answer)]"
        using hub.send_success_answered d Inr by blast
      define k where "k = (if pmid = [] then Suc (w_ids w2) else w_ids w2)"
      define p where "p = \<lparr>co_ID = e_new_id E k, co_TenantID = tg_tenantID tgt,
                 co_AccountID = Some (tg_accountID tgt), co_RecipientContactID = tg_contactID tgt, co_BodyText = body,
                 co_PolicyAction = Some (str ''sent''), co_InReplyToMessageID = tg_inReplyTo tgt,
                 co_PlatformMessageID = (if pmid = [] then e_show_uuid E (e_new_id E (w_ids w2)) else pmid),
                 co_ReceivedAt = w_now w2\<rparr>"
      let ?w3 = "w2\<lparr>w_ids := Suc k\<rparr>"
      obtain x w4 where x: "run (ask (\<lambda>_. OutFailed) (CreateOutboundMessage p)) ?w3 = (x, w4)"
        by (cases "run (ask (\<lambda>_. OutFailed) (CreateOutboundMessage p)) ?w3")
      then have r: "w' = w4" "r = (case x of Inl e \<Rightarrow> Inl e | Inr i \<Rightarrow> Inr \<lparr>or_MessageID = i, or_DispatchedTo = tg_endpoint tgt\<rparr>)"
        using went_on(2) Some d Inr by (auto simp: run_attempt p_def k_def split: if_splits sum.splits)
      have "sent_row tgt body (outbound_row p)" "msg_id (outbound_row p) = co_ID p"
        by (simp_all add: sent_row_def outbound_row_def p_def)
      then show ?thesis
        using CreateOutbound_recorded[OF x] single_exchange_frame[OF single] sent r
        by (cases x) (auto simp: sends_to_def Let_def)
    qed
    then show ?thesis using sends_to_quiet[OF q] by simp
  qed
qed

section \<open>Where a send goes\<close>

text \<open>
  The destination of each way of addressing: the sender of the message replied to, over the account it
  came in on; the contact's outbound endpoint of highest priority; the given address over the channel's
  outbound account of highest priority.
\<close>

definition addresses :: "db \<Rightarrow> send_op \<Rightarrow> target \<Rightarrow> bool" where
  "addresses d op tgt \<longleftrightarrow> (case op of
     OpReply i \<Rightarrow> (\<exists>m\<in>set (messages d). msg_id m = i \<and> tg_inReplyTo tgt = Some i \<and> msg_tenant m = tg_tenantID tgt \<and>
        msg_account m = Some (tg_accountID tgt) \<and> msg_sender_endpoint m = Some (tg_endpoint tgt) \<and>
        tg_contactID tgt = msg_sender_contact m \<and> tg_endpoint tgt \<noteq> [])
   | OpContact c chan \<Rightarrow> tg_contactID tgt = Some c \<and> tg_inReplyTo tgt = None \<and>
        (\<exists>e\<in>set (contact_endpoints d). ce_contact e = c \<and> str ''outbound'' \<in> set (ce_capabilities e) \<and>
           (chan = None \<or> chan = Some (ce_channel e)) \<and> ce_endpoint e = tg_endpoint tgt \<and> ce_account e = tg_accountID tgt \<and>
           (\<exists>x\<in>set (contacts d). ct_id x = c \<and> ct_tenant x = tg_tenantID tgt))
   | OpEndpoint chan ep \<Rightarrow> tg_endpoint tgt = ep \<and> tg_contactID tgt = None \<and> tg_inReplyTo tgt = None \<and> ep \<noteq> [] \<and>
        (\<exists>l\<in>set (channel_accounts d). ca_channel l = chan \<and> outbound_link l \<and> ca_account l = tg_accountID tgt \<and>
           (\<exists>x\<in>set (channels d). ch_id x = chan \<and> ch_tenant x = tg_tenantID tgt)))"

lemma ReplyToMessage_sends:
  assumes "run (ReplyToMessage E (hub_registry E) i body) w = (r, w')"
  shows "(\<exists>e. r = Inl e \<and> quiet w w') \<or> (\<exists>tgt. addresses (w_db w) (OpReply i) tgt \<and> sends_to tgt body w r w')"
proof (cases "body = []")
  case False
  from assms False have "run (attempt (ask not_found (GetMessageForOutbound i)) (\<lambda>row.
        case (mo_AccountID row, mo_SenderEndpoint row) of
          (Some acc, Some ep) \<Rightarrow>
            if ep = [] then ret (Inl OutNotFound)
            else send_to E (hub_registry E) \<lparr>tg_tenantID = mo_TenantID row, tg_accountID = acc, tg_endpoint = ep,
                   tg_contactID = mo_SenderContactID row, tg_inReplyTo = Some i,
                   tg_rawPayload = Some (mo_RawPayload row)\<rparr> body []
        | _ \<Rightarrow> ret (Inl OutNotFound))) w = (r, w')" by (simp add: ReplyToMessage_def)
  then show ?thesis
  proof (cases rule: attempt_cases)
    case (failed e)
    then show ?thesis using ask_read[OF failed(1)] by (simp add: GetMessageForOutbound_def)
  next
    case (went_on row w1)
    have q: "quiet w w1" using ask_read[OF went_on(1)] by (simp add: GetMessageForOutbound_def)
    obtain m where m: "m \<in> set (messages (w_db w))" "msg_id m = i" "mo_AccountID row = msg_account m" "mo_TenantID row = msg_tenant m"
      "mo_SenderEndpoint row = msg_sender_endpoint m" "mo_SenderContactID row = msg_sender_contact m"
      using ask_Inr(1)[OF went_on(1)] by (auto simp: GetMessageForOutbound_def dest!: find_Some_in)
    show ?thesis
    proof (cases "\<exists>acc ep. mo_AccountID row = Some acc \<and> mo_SenderEndpoint row = Some ep \<and> ep \<noteq> []")
      case True
      then obtain acc ep where a: "mo_AccountID row = Some acc" "mo_SenderEndpoint row = Some ep" "ep \<noteq> []" by blast
      let ?tgt = "\<lparr>tg_tenantID = mo_TenantID row, tg_accountID = acc, tg_endpoint = ep,
                   tg_contactID = mo_SenderContactID row, tg_inReplyTo = Some i, tg_rawPayload = Some (mo_RawPayload row)\<rparr>"
      have "sends_to ?tgt body w1 r w'" using went_on(2) a by (intro send_to_sends) simp
      moreover have "addresses (w_db w) (OpReply i) ?tgt" using m a by (auto simp: addresses_def)
      ultimately show ?thesis using sends_to_quiet[OF q] by blast
    next
      case False
      then show ?thesis using went_on(2) q by (auto split: option.splits if_splits)
    qed
  qed
qed (use assms in \<open>auto simp: ReplyToMessage_def\<close>)

lemma SendToContact_sends:
  assumes "run (SendToContact E (hub_registry E) c chan body subject) w = (r, w')"
  shows "(\<exists>e. r = Inl e \<and> quiet w w') \<or> (\<exists>tgt. addresses (w_db w) (OpContact c chan) tgt \<and> sends_to tgt body w r w')"
proof (cases "body = []")
  case False
  let ?q = "GetOutboundEndpointForContact c chan"
  let ?tgt = "\<lambda>row. \<lparr>tg_tenantID = oe_TenantID row, tg_accountID = oe_AccountID row, tg_endpoint = oe_Endpoint row,
          tg_contactID = Some c, tg_inReplyTo = None, tg_rawPayload = None\<rparr>"
  from assms False have "run (attempt (ask not_found ?q) (\<lambda>row. send_to E (hub_registry E) (?tgt row) body subject)) w = (r, w')"
    by (simp add: SendToContact_def)
  then show ?thesis
  proof (cases rule: attempt_cases)
    case (failed e)
    then show ?thesis using ask_read[OF failed(1)] by (simp add: GetOutboundEndpointForContact_def)
  next
    case (went_on row w1)
    have q: "quiet w w1" using ask_read[OF went_on(1)] by (simp add: GetOutboundEndpointForContact_def)
    obtain e x where "e \<in> set (contact_endpoints (w_db w))" "x \<in> set (contacts (w_db w))" "ct_id x = ce_contact e"
      "ce_contact e = c" "str ''outbound'' \<in> set (ce_capabilities e)" "chan = None \<or> chan = Some (ce_channel e)"
      "row = \<lparr>oe_Endpoint = ce_endpoint e, oe_AccountID = ce_account e, oe_ChannelID = ce_channel e, oe_TenantID = ct_tenant x\<rparr>"
      using ask_Inr(1)[OF went_on(1)] by (auto simp: GetOutboundEndpointForContact_def dest!: first_of_in)
    then have "addresses (w_db w) (OpContact c chan) (?tgt row)" by (auto simp: addresses_def)
    then show ?thesis using send_to_sends[OF went_on(2)] sends_to_quiet[OF q] by blast
  qed
qed (use assms in \<open>auto simp: SendToContact_def\<close>)

lemma SendToEndpoint_sends:
  assumes "run (SendToEndpoint E (hub_registry E) chan ep body subject) w = (r, w')"
  shows "(\<exists>e. r = Inl e \<and> quiet w w') \<or> (\<exists>tgt. addresses (w_db w) (OpEndpoint chan ep) tgt \<and> sends_to tgt body w r w')"
proof (cases "body = [] \<or> ep = []")
  case False
  let ?q = "GetOutboundAccountForChannel chan"
  let ?tgt = "\<lambda>row. \<lparr>tg_tenantID = snd row, tg_accountID = fst row, tg_endpoint = ep,
          tg_contactID = None, tg_inReplyTo = None, tg_rawPayload = None\<rparr>"
  from assms False have "run (attempt (ask not_found ?q) (\<lambda>row. send_to E (hub_registry E) (?tgt row) body subject)) w = (r, w')"
    by (simp add: SendToEndpoint_def case_prod_unfold)
  then show ?thesis
  proof (cases rule: attempt_cases)
    case (failed e)
    then show ?thesis using ask_read[OF failed(1)] by (simp add: GetOutboundAccountForChannel_def)
  next
    case (went_on row w1)
    have q: "quiet w w1" using ask_read[OF went_on(1)] by (simp add: GetOutboundAccountForChannel_def)
    obtain l x where "(l, x) \<in> set (linked_channels (\<lambda>l. ca_channel l = chan \<and> outbound_link l) (w_db w))"
      "row = (ca_account l, ch_tenant x)"
      using ask_Inr(1)[OF went_on(1)] by (auto simp: GetOutboundAccountForChannel_def dest!: first_of_in)
    then have "addresses (w_db w) (OpEndpoint chan ep) (?tgt row)" using False by (auto simp: addresses_def in_linked_channels)
    then show ?thesis using send_to_sends[OF went_on(2)] sends_to_quiet[OF q] by blast
  qed
qed (use assms in \<open>auto simp: SendToEndpoint_def split: if_splits\<close>)


end
