(* ===== verification/Service_Frame.thy ===== *)
theory Service_Frame
  imports Ingest_Safety Replay Outbound_Api Retention
begin

text \<open>
  What a relation between databases needs so that every service keeps it: to be reflexive and transitive, and
  to be kept by the few statements that write. One locale states it for the services that only add to the
  message log, and one that extends it for retention; each service is carried through once, from its
  statements, under every pattern of failing statements.
\<close>

section \<open>The services that add to the log\<close>

locale service_frame =
  fixes R :: "db \<Rightarrow> db \<Rightarrow> bool"
  assumes R_refl: "R d d"
    and R_trans: "R a b \<Longrightarrow> R b c \<Longrightarrow> R a c"
    and CreateInbound: "R d (snd (CreateInboundMessage g p d))"
    and CreateOutbound: "R d (snd (CreateOutboundMessage q d))"
    and MarkRecalled: "R d (snd (MarkMessageRecalled i d))"
    and MarkFired: "R d (snd (MarkWorkflowFired i d))"

sublocale service_frame \<subseteq> programs: frame "\<lambda>(w :: world) w'. R (w_db w) (w_db w')"
proof (rule frame.intro)
  fix s t u :: world
  show "R (w_db s) (w_db s)" by (rule R_refl)
  show "R (w_db s) (w_db t) \<Longrightarrow> R (w_db t) (w_db u) \<Longrightarrow> R (w_db s) (w_db u)" by (rule R_trans)
qed

context service_frame
begin

abbreviation keeps :: "(world, 'a) prog \<Rightarrow> bool" where
  "keeps \<equiv> state_io_rel (\<lambda>w w'. R (w_db w) (w_db w'))"

lemma keeps_store: "(\<And>d. R d (snd (q d))) \<Longrightarrow> keeps (store q)"
  by (rule store_rel) (rule R_refl)

lemma keeps_ask: "(\<And>d. R d (snd (q d))) \<Longrightarrow> keeps (ask f q)"
  by (rule ask_rel) (rule R_refl)

lemma read_refl: "snd (q d) = d \<Longrightarrow> R d (snd (q d))"
  by (simp add: R_refl)

lemma reads:
  "R d (snd (GetAccountByID i d))" "R d (snd (GetInboundChannelForAccount i d))"
  "R d (snd (GetMessageIDByPlatformID a p d))" "R d (snd (FindRecentEchoForSender a e t d))"
  "R d (snd (ListContactShortIDs i d))" "R d (snd (GetMessageForOutbound i d))"
  "R d (snd (GetOutboundEndpointForContact c ch d))" "R d (snd (GetOutboundAccountForChannel i d))"
  "R d (snd (ListUnfiredForwards g i t n ch d))"
  by (simp_all add: R_refl GetAccountByID_def GetInboundChannelForAccount_def GetMessageIDByPlatformID_def
      FindRecentEchoForSender_def ListContactShortIDs_def GetMessageForOutbound_def
      GetOutboundEndpointForContact_def GetOutboundAccountForChannel_def ListUnfiredForwards_def)

lemmas writes = CreateInbound CreateOutbound MarkRecalled MarkFired

lemmas others = other_rel[where R = R, OF R_refl]

lemmas rules = programs.frame_rules programs.frame_for_each keeps_store keeps_ask others writes reads

lemma keeps_same_db: "(\<And>w r w'. run p w = (r, w') \<Longrightarrow> w_db w' = w_db w) \<Longrightarrow> keeps p"
  by (rule state_io_relI) (simp add: R_refl)

lemma keeps_when: "keeps p \<Longrightarrow> keeps (when_prog b p)"
  by (simp add: when_prog_def programs.frame_ret)

lemma keeps_persist:
  assumes "\<And>i. keeps (after i)"
  shows "keeps (persist E p act after)"
  unfolding persist_def
  by (intro programs.frame_bind keeps_store writes reads)
    (auto split: sum.splits db_error.splits intro!: rules assms)

lemma keeps_resolveChannel: "keeps (resolveChannel E D i)"
  unfolding resolveChannel_def by (intro rules)

lemma keeps_Resolve: "keeps (Resolve E t s)"
  unfolding Resolve_def by (intro rules)

lemma keeps_handlePassthrough: "keeps (handlePassthrough E D acct i msg ch)"
  unfolding handlePassthrough_def Let_def by (intro rules keeps_persist keeps_when)

lemma keeps_handleRecall: "keeps (handleRecall E acct i msg n)"
  unfolding handleRecall_def Let_def
  by (intro rules)
    (auto split: sum.splits db_error.splits option.splits intro!: rules keeps_persist)

lemma keeps_decide: "keeps (decide E t s cfg th)"
  unfolding decide_def Let_def by (intro rules keeps_Resolve)

lemma keeps_handleStructured: "keeps (handleStructured E D acct i msg ch)"
  unfolding handleStructured_def Let_def
  by (intro rules keeps_decide keeps_persist keeps_when)

lemma keeps_Ingest: "keeps (Ingest E D msg)"
  unfolding Ingest_def
  by (intro rules)
    (auto split: sum.splits db_error.splits intro!: rules keeps_resolveChannel keeps_handleRecall
      keeps_handlePassthrough keeps_handleStructured)


lemma keeps_hub_send:
  assumes "hub_registry E ty = Some a"
  shows "keeps (ad_send a acct to body)"
proof (rule keeps_same_db)
  fix w r w'
  assume "run (ad_send a acct to body) w = (r, w')"
  then show "w_db w' = w_db w" by (rule single_exchange_frame(1)[OF hub_send_single[OF assms]])
qed

lemma keeps_dispatchOutbound: "keeps (dispatchOutbound E (hub_registry E) acct i to body label)"
  unfolding dispatchOutbound_def
  by (intro rules) (auto simp: Get_def split: option.splits sum.splits intro!: rules keeps_hub_send)

lemma keeps_forward: "keeps (forward_to E fw dl url f)"
  by (rule keeps_same_db) (rule consumer.forward_db)

lemma keeps_deliver: "keeps (deliver_and_mark (forward_to E fw dl) url f i)"
  unfolding deliver_and_mark_def by (intro rules keeps_forward)

lemma keeps_run_task: "keeps (run_task E D (hub_registry E) t)"
  unfolding run_task_def
  by (cases t) (auto split: option.splits intro!: rules keeps_dispatchOutbound keeps_deliver)

lemma keeps_replay_rows: "keeps (replay_rows E fw req)"
  unfolding replay_rows_def replay_row_def replayOne_def replay_query_def Let_def
  by (intro rules keeps_deliver)

lemma keeps_Run: "keeps (Run E fw req running)"
  unfolding Run_def Let_def
  by (auto split: prod.splits intro!: rules keeps_replay_rows)

lemma keeps_Dispatch: "keeps (Dispatch (hub_registry E) acct msg)"
  by (rule keeps_same_db) (rule hub.send_db)

lemma keeps_send_to: "keeps (send_to E (hub_registry E) tgt body subject)"
  unfolding send_to_def by (intro rules keeps_Dispatch)

lemma keeps_outbound_handler: "keeps (outbound_handler E (hub_registry E) body)"
  unfolding outbound_handler_def run_op_def ReplyToMessage_def SendToContact_def SendToEndpoint_def
  by (auto split: option.splits sum.splits send_op.splits prod.splits intro!: rules keeps_send_to)

lemma keeps_ingest_handler: "keeps (ingest_handler E D body)"
  unfolding ingest_handler_def by (auto split: option.splits intro!: rules keeps_Ingest)

lemma keeps_replay_handler: "keeps (replay_handler E show fw rq running)"
  unfolding replay_handler_def by (auto split: option.splits prod.splits intro!: rules keeps_Run)

end

section \<open>Retention\<close>

locale retention_frame = service_frame +
  assumes ClearLinks: "R d (snd (ClearReplyLinksToPurgedMessages t time d))"
    and PurgeOld: "R d (snd (PurgeMessagesOlderThan t time d))"
    and RedactEndpoint: "R d (snd (RedactMessagesForEndpoint t ep d))"
    and RedactContact: "R d (snd (RedactMessagesForContact t c d))"
    and Detach: "R d (snd (DetachMessagesFromContact t c d))"
    and DeleteEndpoints: "R d (snd (DeleteEndpointsForContact c d))"
    and DeleteRow: "R d (snd (DeleteContactRow c t d))"
begin

lemma retention_reads:
  "R d (snd (CountMessagesOlderThan t time d))" "R d (snd (CountMessagesForEndpoint t ep d))"
  "R d (snd (CountMessagesForContact t c d))" "R d (snd (ListEndpointsForContact c d))"
  by (simp_all add: R_refl CountMessagesOlderThan_def CountMessagesForEndpoint_def CountMessagesForContact_def
      ListEndpointsForContact_def)

lemmas retention_rules = rules retention_reads ClearLinks PurgeOld RedactEndpoint RedactContact Detach DeleteEndpoints DeleteRow

lemma keeps_Purge: "keeps (Purge t days dry)"
  unfolding Purge_def Let_def by (intro retention_rules)

lemma keeps_EraseEndpoint: "keeps (EraseEndpoint t ep dry)"
  unfolding EraseEndpoint_def Let_def by (intro retention_rules)

lemma keeps_Erase: "keeps (Erase t c dry)"
  unfolding Erase_def count_endpoint_def redact_endpoint_def by (intro retention_rules)

lemma keeps_retention_handlers:
  "keeps (purge_handler E rq)" "keeps (erase_handler E rq)" "keeps (erase_endpoint_handler E rq)"
  unfolding purge_handler_def erase_handler_def erase_endpoint_handler_def with_tenant_def
  by (auto split: option.splits prod.splits intro!: retention_rules keeps_Purge keeps_Erase keeps_EraseEndpoint)

end

end
