(* ===== verification/Log_Frame.thy ===== *)
theory Log_Frame
  imports Service_Frame
begin

text \<open>
  What every service but retention leaves alone: the registry tables, and the message log, to which rows
  are only added. The service frame is interpreted for that relation, so that it is carried
  through each service from its queries.
\<close>

section \<open>The relation\<close>

text \<open>A stored row may only be marked as delivered, and its action may only become \<open>recalled\<close>.\<close>

definition kept_message :: "Message \<Rightarrow> Message \<Rightarrow> bool" where
  "kept_message m m' \<longleftrightarrow>
     m' = m\<lparr>msg_policy_action := msg_policy_action m', msg_workflow_fired := msg_workflow_fired m'\<rparr> \<and>
     msg_policy_action m' \<in> {msg_policy_action m, Some (str ''recalled'')} \<and>
     msg_workflow_fired m \<le> msg_workflow_fired m'"

definition log_kept :: "db \<Rightarrow> db \<Rightarrow> bool" where
  "log_kept d d' \<longleftrightarrow> d' = d\<lparr>messages := messages d'\<rparr> \<and>
     (\<exists>old new. messages d' = old @ new \<and> list_all2 kept_message (messages d) old)"

lemma kept_message_refl [simp]: "kept_message m m"
  by (simp add: kept_message_def)

lemma kept_message_trans: "kept_message a b \<Longrightarrow> kept_message b c \<Longrightarrow> kept_message a c"
  by (cases a; cases b; cases c) (auto simp: kept_message_def)

lemma kept_messages_refl [simp]: "list_all2 kept_message ms ms"
  by (simp add: list.rel_refl)

lemma log_kept_refl [simp]: "log_kept d d"
  unfolding log_kept_def by (intro conjI exI[of _ "messages d"] exI[of _ "[]"]) simp_all

lemma log_kept_trans:
  assumes "log_kept d e" and "log_kept e f"
  shows "log_kept d f"
proof -
  obtain o1 n1 where e: "e = d\<lparr>messages := messages e\<rparr>" "messages e = o1 @ n1" "list_all2 kept_message (messages d) o1"
    using assms(1) by (auto simp: log_kept_def)
  obtain o2 n2 where f: "f = e\<lparr>messages := messages f\<rparr>" "messages f = o2 @ n2" "list_all2 kept_message (messages e) o2"
    using assms(2) by (auto simp: log_kept_def)
  obtain a b where ab: "o2 = a @ b" "list_all2 kept_message o1 a"
    using f(3) unfolding e(2) by (auto simp: list_all2_append1)
  have "list_all2 kept_message (messages d) a"
    using list_all2_trans[OF kept_message_trans e(3) ab(2)] by simp
  moreover have "f = d\<lparr>messages := messages f\<rparr>" using e(1) f(1) by (cases d; cases e; cases f) auto
  ultimately show ?thesis unfolding log_kept_def using f(2) ab(1) by (metis append.assoc)
qed

text \<open>What \<open>log_kept\<close> says of one row.\<close>

lemma log_kept_row:
  assumes "log_kept d d'" and "m \<in> set (messages d)"
  shows "\<exists>m'\<in>set (messages d'). kept_message m m'"
proof -
  obtain old new where "messages d' = old @ new" "list_all2 kept_message (messages d) old"
    using assms(1) by (auto simp: log_kept_def)
  moreover obtain i where "i < length (messages d)" "messages d ! i = m"
    using assms(2) by (auto simp: in_set_conv_nth)
  ultimately have "kept_message m (old ! i)" "old ! i \<in> set (messages d')"
    by (auto simp: list_all2_conv_all_nth)
  then show ?thesis by blast
qed

section \<open>The queries\<close>

lemma log_kept_added: "log_kept d (d\<lparr>messages := messages d @ [m]\<rparr>)"
  unfolding log_kept_def by (intro conjI exI[of _ "messages d"] exI[of _ "[m]"]) simp_all

lemma log_kept_updated:
  assumes "\<And>m. kept_message m (f m)"
  shows "log_kept d (d\<lparr>messages := map_if P f (messages d)\<rparr>)"
proof -
  have "list_all2 kept_message (messages d) (map_if P f (messages d))"
    by (simp add: map_if_def list_all2_conv_all_nth assms)
  then have "\<exists>old new. map_if P f (messages d) = old @ new \<and> list_all2 kept_message (messages d) old"
    by (metis append_Nil2)
  then show ?thesis unfolding log_kept_def by simp
qed

lemma log_kept_CreateInboundMessage: "log_kept d (snd (CreateInboundMessage g p d))"
  by (auto simp: CreateInboundMessage_def commit_def log_kept_added split: option.splits)

lemma log_kept_CreateOutboundMessage: "log_kept d (snd (CreateOutboundMessage p d))"
  by (simp add: CreateOutboundMessage_def commit_def log_kept_added)

lemma log_kept_MarkMessageRecalled: "log_kept d (snd (MarkMessageRecalled i d))"
  by (auto simp: MarkMessageRecalled_def update_messages_def commit_def kept_message_def intro!: log_kept_updated)

lemma log_kept_MarkWorkflowFired: "log_kept d (snd (MarkWorkflowFired i d))"
  by (auto simp: MarkWorkflowFired_def update_messages_def commit_def kept_message_def intro!: log_kept_updated)

interpretation msglog: service_frame log_kept
proof (rule service_frame.intro)
  show "log_kept a b \<Longrightarrow> log_kept b c \<Longrightarrow> log_kept a c" for a b c by (rule log_kept_trans)
qed (rule log_kept_refl log_kept_CreateInboundMessage log_kept_CreateOutboundMessage
    log_kept_MarkMessageRecalled log_kept_MarkWorkflowFired)+


end
