(* ===== verification/Channels.thy ===== *)
theory Channels
  imports Services Ingest
begin

text \<open>
  Component \<open>internal/channels\<close>: creating and updating the channels that decide how inbound traffic is
  parsed and where it is delivered, and the links between channels and accounts, with the HTTP handlers.
\<close>

section \<open>Views and inputs\<close>

datatype channels_error = ChannelNotFound | ChannelInvalid string | ChannelFailed

record ChannelView =
  cv_ID :: uuid
  cv_TenantID :: uuid
  cv_Name :: gostring
  cv_ParserConfig :: json
  cv_Mode :: gostring
  cv_WorkflowURL :: gostring
  cv_ReplyPolicy :: gostring
  cv_ConfidenceThresholds :: json
  cv_EchoBackEnabled :: bool
  cv_RecallWindowSeconds :: int
  cv_CreatedAt :: time

record LinkView =
  lv_ChannelID :: uuid
  lv_AccountID :: uuid
  lv_Direction :: gostring
  lv_Priority :: int
  lv_RoutingFilter :: "json option"
  lv_AccountType :: gostring
  lv_PlatformIdentifier :: gostring
  lv_AccountLabel :: gostring
  lv_AccountStatus :: gostring

record CreateChannelInput =
  nc_TenantID :: uuid
  nc_Name :: gostring
  nc_ParserConfig :: "json option"
  nc_WorkflowURL :: gostring
  nc_ReplyPolicy :: gostring
  nc_ConfidenceThresholds :: "json option"
  nc_EchoBackEnabled :: "bool option"
  nc_RecallWindowSeconds :: "int option"

record UpdateChannelInput =
  pc_Name :: "gostring option"
  pc_ParserConfig :: "json option"
  pc_WorkflowURL :: "gostring option"
  pc_ReplyPolicy :: "gostring option"
  pc_ConfidenceThresholds :: "json option"
  pc_EchoBackEnabled :: "bool option"
  pc_RecallWindowSeconds :: "int option"

record LinkInput =
  li_ChannelID :: uuid
  li_AccountID :: uuid
  li_TenantID :: uuid
  li_Direction :: gostring
  li_Priority :: int
  li_RoutingFilter :: "json option"

section \<open>Defaults and vocabularies\<close>

definition DefaultCommands :: "gostring list" where
  "DefaultCommands = map str [''STATUS'', ''NEEDS'', ''DAMAGE'', ''MISSING'', ''RESOURCE'', ''HERE'', ''NOTE'', ''SOS'']"

definition DefaultReplyPolicy :: gostring where
  "DefaultReplyPolicy = str ''reply_to_sender''"

definition DefaultConfidenceThresholds :: json where
  "DefaultConfidenceThresholds = JObj [(str ''high'', JNum (9/10)), (str ''medium'', JNum (5/10))]"

definition DefaultRecallWindowSeconds :: int where
  "DefaultRecallWindowSeconds = 120"

definition default_parser_config :: json where
  "default_parser_config = JObj [(str ''commands'', JArr (map JStr DefaultCommands)), (str ''mode'', JStr (str ''structured''))]"

definition validDirections :: "gostring set" where
  "validDirections = {str ''inbound'', str ''outbound'', str ''both''}"

definition validReplyPolicies :: "gostring set" where
  "validReplyPolicies = {str ''reply_to_sender'', str ''broadcast'', str ''custom''}"

definition validModes :: "gostring set" where
  "validModes = {str ''structured'', str ''passthrough''}"

text \<open>The column default of \<open>audit_retention_years\<close>, which no insert names.\<close>

definition default_retention_years :: int where
  "default_retention_years = 7"

section \<open>Validation\<close>

text \<open>Both validators decode the structs that ingest decodes; \<open>None\<close> is acceptance.\<close>

definition validateParserConfig :: "env \<Rightarrow> json \<Rightarrow> channels_error option" where
  "validateParserConfig E j = (case parser_settings (e_uni E) j of
     None \<Rightarrow> Some (ChannelInvalid ''invalid: parser_config must be a JSON object'')
   | Some (commands, mode) \<Rightarrow>
       if mode \<noteq> [] \<and> mode \<notin> validModes
       then Some (ChannelInvalid ''invalid: parser_config.mode must be structured or passthrough'') else None)"

definition validateThresholds :: "env \<Rightarrow> json \<Rightarrow> channels_error option" where
  "validateThresholds E j = (case threshold_settings (e_uni E) j of
     None \<Rightarrow> Some (ChannelInvalid ''invalid: confidence_thresholds must be a JSON object'')
   | Some (Some high, Some medium) \<Rightarrow>
       if high < 0 \<or> 1 < high
       then Some (ChannelInvalid ''invalid: confidence_thresholds.high must be between 0 and 1'')
       else if medium < 0 \<or> 1 < medium
       then Some (ChannelInvalid ''invalid: confidence_thresholds.medium must be between 0 and 1'')
       else if high < medium
       then Some (ChannelInvalid ''invalid: confidence_thresholds.medium cannot exceed high'')
       else None
   | _ \<Rightarrow> Some (ChannelInvalid ''invalid: confidence_thresholds needs both high and medium''))"

definition toAPI_channel :: "env \<Rightarrow> Channel \<Rightarrow> ChannelView" where
  "toAPI_channel E c =
     (let mode = (case Option.bind (struct_members (ch_parser_config c))
                    (\<lambda>kvs. decode_string (members (e_uni E) (str ''mode'') kvs) []) of
                    None \<Rightarrow> [] | Some m \<Rightarrow> m)
      in \<lparr>cv_ID = ch_id c, cv_TenantID = ch_tenant c, cv_Name = ch_name c, cv_ParserConfig = ch_parser_config c,
          cv_Mode = (if mode = [] then str ''structured'' else mode),
          cv_WorkflowURL = deref (ch_workflow_url c), cv_ReplyPolicy = ch_reply_policy c,
          cv_ConfidenceThresholds = ch_thresholds c, cv_EchoBackEnabled = ch_echo_back c,
          cv_RecallWindowSeconds = ch_recall_window c, cv_CreatedAt = ch_created_at c\<rparr>)"

definition linkToAPI :: "ChannelAccount \<Rightarrow> LinkView" where
  "linkToAPI l = \<lparr>lv_ChannelID = ca_channel l, lv_AccountID = ca_account l, lv_Direction = ca_direction l,
     lv_Priority = ca_priority l, lv_RoutingFilter = ca_routing_filter l, lv_AccountType = [],
     lv_PlatformIdentifier = [], lv_AccountLabel = [], lv_AccountStatus = []\<rparr>"

definition link_with_account :: "LinkRow \<Rightarrow> LinkView" where
  "link_with_account r = \<lparr>lv_ChannelID = ln_ChannelID r, lv_AccountID = ln_AccountID r, lv_Direction = ln_Direction r,
     lv_Priority = ln_Priority r, lv_RoutingFilter = ln_RoutingFilter r, lv_AccountType = ln_Type r,
     lv_PlatformIdentifier = ln_PlatformIdentifier r, lv_AccountLabel = ln_Label r, lv_AccountStatus = ln_Status r\<rparr>"

section \<open>The service\<close>

abbreviation "channel_failed \<equiv> \<lambda>_::db_error. ChannelFailed"

definition channel_missing :: "db_error \<Rightarrow> channels_error" where
  "channel_missing e = (if e = NoRows then ChannelNotFound else ChannelFailed)"

definition List_channels :: "env \<Rightarrow> uuid \<Rightarrow> (world, channels_error + ChannelView list) prog" where
  "List_channels E tenantID =
     attempt (ask channel_failed (ListChannelsForTenant tenantID)) (\<lambda>rows. ret (Inr (map (toAPI_channel E) rows)))"

definition Get_channel :: "env \<Rightarrow> uuid \<Rightarrow> uuid \<Rightarrow> (world, channels_error + ChannelView) prog" where
  "Get_channel E i tenantID =
     attempt (ask channel_missing (GetChannelForTenant i tenantID)) (\<lambda>row. ret (Inr (toAPI_channel E row)))"

definition ListLinks :: "env \<Rightarrow> uuid \<Rightarrow> uuid \<Rightarrow> (world, channels_error + LinkView list) prog" where
  "ListLinks E channelID tenantID =
     attempt (Get_channel E channelID tenantID) (\<lambda>_.
     attempt (ask channel_failed (ListAccountLinksForChannel channelID)) (\<lambda>rows.
     ret (Inr (map link_with_account rows))))"

definition Link :: "env \<Rightarrow> LinkInput \<Rightarrow> (world, channels_error + LinkView) prog" where
  "Link E inp =
     (if li_Direction inp \<notin> validDirections
      then ret (Inl (ChannelInvalid ''invalid: direction must be inbound, outbound or both''))
      else
        attempt (Get_channel E (li_ChannelID inp) (li_TenantID inp)) (\<lambda>_.
        attempt (ask channel_missing (GetAccountForTenant (li_AccountID inp) (li_TenantID inp))) (\<lambda>_.
        attempt (ask channel_failed (LinkAccountToChannel \<lparr>ca_channel = li_ChannelID inp, ca_account = li_AccountID inp,
            ca_direction = li_Direction inp, ca_priority = li_Priority inp, ca_routing_filter = li_RoutingFilter inp\<rparr>)) (\<lambda>row.
        ret (Inr (linkToAPI row))))))"

definition Unlink :: "env \<Rightarrow> uuid \<Rightarrow> uuid \<Rightarrow> uuid \<Rightarrow> (world, channels_error + unit) prog" where
  "Unlink E channelID accountID tenantID =
     attempt (Get_channel E channelID tenantID) (\<lambda>_.
     attempt (ask channel_failed (UnlinkAccountFromChannel channelID accountID)) (\<lambda>n.
     ret (if n = 0 then Inl ChannelNotFound else Inr ())))"

text \<open>The row a creation stores once its fields are filled in.\<close>

definition new_channel :: "CreateChannelInput \<Rightarrow> uuid \<Rightarrow> time \<Rightarrow> gostring \<Rightarrow> json \<Rightarrow> json \<Rightarrow> Channel" where
  "new_channel inp i t policy cfg th = \<lparr>ch_id = i, ch_tenant = nc_TenantID inp, ch_name = nc_Name inp,
     ch_parser_config = cfg, ch_workflow_url = textOrNull (nc_WorkflowURL inp), ch_reply_policy = policy,
     ch_thresholds = th, ch_echo_back = coalesce (nc_EchoBackEnabled inp) True,
     ch_recall_window = coalesce (nc_RecallWindowSeconds inp) DefaultRecallWindowSeconds,
     ch_retention_years = default_retention_years, ch_created_at = t\<rparr>"

definition Create_channel :: "env \<Rightarrow> CreateChannelInput \<Rightarrow> (world, channels_error + ChannelView) prog" where
  "Create_channel E inp =
     (let policy = (if nc_ReplyPolicy inp = [] then DefaultReplyPolicy else nc_ReplyPolicy inp);
          cfg = coalesce (nc_ParserConfig inp) default_parser_config;
          th = coalesce (nc_ConfidenceThresholds inp) DefaultConfidenceThresholds
      in if TrimSpace (nc_Name inp) = [] then ret (Inl (ChannelInvalid ''invalid: name is required''))
         else if policy \<notin> validReplyPolicies
         then ret (Inl (ChannelInvalid ''invalid: reply_policy must be reply_to_sender, broadcast or custom''))
         else case validateParserConfig E cfg of Some e \<Rightarrow> ret (Inl e)
         | None \<Rightarrow> (case validateThresholds E th of Some e \<Rightarrow> ret (Inl e)
           | None \<Rightarrow> do {
               newID \<leftarrow> NewID E;
               current \<leftarrow> now;
               attempt (ask channel_failed (CreateChannel (new_channel inp newID current policy cfg th))) (\<lambda>row.
               ret (Inr (toAPI_channel E row))) }))"

definition check_given :: "(json \<Rightarrow> channels_error option) \<Rightarrow> json option \<Rightarrow> channels_error option" where
  "check_given validate j = (case j of None \<Rightarrow> None | Some x \<Rightarrow> validate x)"

definition Update_channel :: "env \<Rightarrow> uuid \<Rightarrow> uuid \<Rightarrow> UpdateChannelInput \<Rightarrow> (world, channels_error + ChannelView) prog" where
  "Update_channel E i tenantID inp =
     (if (case pc_Name inp of None \<Rightarrow> False | Some n \<Rightarrow> TrimSpace n = [])
      then ret (Inl (ChannelInvalid ''invalid: name cannot be empty''))
      else if (case pc_ReplyPolicy inp of None \<Rightarrow> False | Some p \<Rightarrow> p \<notin> validReplyPolicies)
      then ret (Inl (ChannelInvalid ''invalid: reply_policy must be reply_to_sender, broadcast or custom''))
      else case check_given (validateParserConfig E) (pc_ParserConfig inp) of Some e \<Rightarrow> ret (Inl e)
      | None \<Rightarrow> (case check_given (validateThresholds E) (pc_ConfidenceThresholds inp) of Some e \<Rightarrow> ret (Inl e)
        | None \<Rightarrow>
            attempt (ask channel_missing (UpdateChannel \<lparr>uc_Name = pc_Name inp, uc_ParserConfig = pc_ParserConfig inp,
                uc_WorkflowUrl = pc_WorkflowURL inp, uc_ReplyPolicy = pc_ReplyPolicy inp,
                uc_ConfidenceThresholds = pc_ConfidenceThresholds inp, uc_EchoBackEnabled = pc_EchoBackEnabled inp,
                uc_RecallWindowSeconds = pc_RecallWindowSeconds inp, uc_ID = i, uc_TenantID = tenantID\<rparr>)) (\<lambda>row.
            ret (Inr (toAPI_channel E row)))))"

section \<open>The handlers\<close>

definition ChannelView_json :: "env \<Rightarrow> ChannelView \<Rightarrow> json" where
  "ChannelView_json E c = JObj (
     [(str ''id'', uuid_json E (cv_ID c)), (str ''tenant_id'', uuid_json E (cv_TenantID c)),
      (str ''name'', JStr (cv_Name c)), (str ''parser_config'', cv_ParserConfig c), (str ''mode'', JStr (cv_Mode c))] @
     omit_empty (str ''workflow_url'') (cv_WorkflowURL c) @
     [(str ''reply_policy'', JStr (cv_ReplyPolicy c)), (str ''confidence_thresholds'', cv_ConfidenceThresholds c),
      (str ''echo_back_enabled'', JBool (cv_EchoBackEnabled c)),
      (str ''recall_window_seconds'', json_int (cv_RecallWindowSeconds c)),
      (str ''created_at'', JStr (e_show_time E (cv_CreatedAt c)))])"

definition LinkView_json :: "env \<Rightarrow> LinkView \<Rightarrow> json" where
  "LinkView_json E l = JObj (
     [(str ''channel_id'', uuid_json E (lv_ChannelID l)), (str ''account_id'', uuid_json E (lv_AccountID l)),
      (str ''direction'', JStr (lv_Direction l)), (str ''priority'', json_int (lv_Priority l))] @
     omit_none (str ''routing_filter'') (lv_RoutingFilter l) @
     omit_empty (str ''account_type'') (lv_AccountType l) @
     omit_empty (str ''platform_identifier'') (lv_PlatformIdentifier l) @
     omit_empty (str ''account_label'') (lv_AccountLabel l) @
     omit_empty (str ''account_status'') (lv_AccountStatus l))"

definition channels_fail :: "channels_error \<Rightarrow> answer" where
  "channels_fail e = (case e of
     ChannelNotFound \<Rightarrow> (404, error_json ''not_found'')
   | ChannelInvalid detail \<Rightarrow> (400, error_detail_json ''invalid'' (str detail))
   | ChannelFailed \<Rightarrow> (500, error_json ''internal_error''))"

definition decode_create_channel :: "env \<Rightarrow> uuid \<Rightarrow> gostring \<Rightarrow> CreateChannelInput option" where
  "decode_create_channel E tenant body = do {
     kvs \<leftarrow> body_members E body;
     name \<leftarrow> str_field (e_uni E) ''name'' kvs;
     url \<leftarrow> str_field (e_uni E) ''workflow_url'' kvs;
     policy \<leftarrow> str_field (e_uni E) ''reply_policy'' kvs;
     echo \<leftarrow> decode_bool_ptr (members (e_uni E) (str ''echo_back_enabled'') kvs) None;
     recall \<leftarrow> decode_int_ptr int32_min int32_max (members (e_uni E) (str ''recall_window_seconds'') kvs) None;
     Some \<lparr>nc_TenantID = tenant, nc_Name = name,
       nc_ParserConfig = decode_raw (members (e_uni E) (str ''parser_config'') kvs), nc_WorkflowURL = url,
       nc_ReplyPolicy = policy,
       nc_ConfidenceThresholds = decode_raw (members (e_uni E) (str ''confidence_thresholds'') kvs),
       nc_EchoBackEnabled = echo, nc_RecallWindowSeconds = recall\<rparr> }"

definition decode_update_channel :: "env \<Rightarrow> gostring \<Rightarrow> UpdateChannelInput option" where
  "decode_update_channel E body = do {
     kvs \<leftarrow> body_members E body;
     name \<leftarrow> ptr_field (e_uni E) ''name'' kvs;
     url \<leftarrow> ptr_field (e_uni E) ''workflow_url'' kvs;
     policy \<leftarrow> ptr_field (e_uni E) ''reply_policy'' kvs;
     echo \<leftarrow> decode_bool_ptr (members (e_uni E) (str ''echo_back_enabled'') kvs) None;
     recall \<leftarrow> decode_int_ptr int32_min int32_max (members (e_uni E) (str ''recall_window_seconds'') kvs) None;
     Some \<lparr>pc_Name = name, pc_ParserConfig = decode_raw (members (e_uni E) (str ''parser_config'') kvs),
       pc_WorkflowURL = url, pc_ReplyPolicy = policy,
       pc_ConfidenceThresholds = decode_raw (members (e_uni E) (str ''confidence_thresholds'') kvs),
       pc_EchoBackEnabled = echo, pc_RecallWindowSeconds = recall\<rparr> }"

record linkRequest =
  lq_AccountID :: gostring
  lq_Direction :: gostring
  lq_Priority :: "int option"
  lq_RoutingFilter :: "json option"

definition decode_link :: "env \<Rightarrow> gostring \<Rightarrow> linkRequest option" where
  "decode_link E body = do {
     kvs \<leftarrow> body_members E body;
     acc \<leftarrow> str_field (e_uni E) ''account_id'' kvs;
     dir \<leftarrow> str_field (e_uni E) ''direction'' kvs;
     prio \<leftarrow> decode_int_ptr int32_min int32_max (members (e_uni E) (str ''priority'') kvs) None;
     Some \<lparr>lq_AccountID = acc, lq_Direction = dir, lq_Priority = prio,
       lq_RoutingFilter = decode_raw (members (e_uni E) (str ''routing_filter'') kvs)\<rparr> }"

definition create_channel_handler :: "env \<Rightarrow> api_request \<Rightarrow> (world, answer) prog" where
  "create_channel_handler E rq = with_tenant E rq (\<lambda>tenant.
     with_body (decode_create_channel E tenant (ar_body rq)) (\<lambda>inp.
     respond channels_fail (\<lambda>c. (201, ChannelView_json E c)) (Create_channel E inp)))"

definition update_channel_handler :: "env \<Rightarrow> api_request \<Rightarrow> (world, answer) prog" where
  "update_channel_handler E rq = with_tenant E rq (\<lambda>tenant. with_id E ''id'' (ar_id rq) (\<lambda>i.
     with_body (decode_update_channel E (ar_body rq)) (\<lambda>inp.
     respond channels_fail (\<lambda>c. (200, ChannelView_json E c)) (Update_channel E i tenant inp))))"

definition list_channels_handler :: "env \<Rightarrow> api_request \<Rightarrow> (world, answer) prog" where
  "list_channels_handler E rq = with_tenant E rq (\<lambda>tenant.
     respond channels_fail (\<lambda>cs. (200, JArr (map (ChannelView_json E) cs))) (List_channels E tenant))"

definition get_channel_handler :: "env \<Rightarrow> api_request \<Rightarrow> (world, answer) prog" where
  "get_channel_handler E rq = with_tenant E rq (\<lambda>tenant. with_id E ''id'' (ar_id rq) (\<lambda>i.
     respond channels_fail (\<lambda>c. (200, ChannelView_json E c)) (Get_channel E i tenant)))"

definition list_links_handler :: "env \<Rightarrow> api_request \<Rightarrow> (world, answer) prog" where
  "list_links_handler E rq = with_tenant E rq (\<lambda>tenant. with_id E ''id'' (ar_id rq) (\<lambda>i.
     respond channels_fail (\<lambda>ls. (200, JArr (map (LinkView_json E) ls))) (ListLinks E i tenant)))"

definition link_handler :: "env \<Rightarrow> api_request \<Rightarrow> (world, answer) prog" where
  "link_handler E rq = with_tenant E rq (\<lambda>tenant. with_id E ''id'' (ar_id rq) (\<lambda>channelID.
     with_body (decode_link E (ar_body rq)) (\<lambda>req.
     case e_parse_uuid E (lq_AccountID req) of
       None \<Rightarrow> ret (400, error_json ''invalid_account_id'')
     | Some accountID \<Rightarrow>
         respond channels_fail (\<lambda>l. (201, LinkView_json E l))
           (Link E \<lparr>li_ChannelID = channelID, li_AccountID = accountID, li_TenantID = tenant,
              li_Direction = (if lq_Direction req = [] then str ''both'' else lq_Direction req),
              li_Priority = coalesce (lq_Priority req) 100, li_RoutingFilter = lq_RoutingFilter req\<rparr>))))"

text \<open>\<open>account\<close> is the second path value; a 204 has no body.\<close>

definition unlink_handler :: "env \<Rightarrow> gostring \<Rightarrow> api_request \<Rightarrow> (world, answer) prog" where
  "unlink_handler E account rq = with_tenant E rq (\<lambda>tenant. with_id E ''id'' (ar_id rq) (\<lambda>channelID.
     with_id E ''account_id'' account (\<lambda>accountID.
     respond channels_fail (\<lambda>_. (204, JNull)) (Unlink E channelID accountID tenant))))"

end
