(* ===== verification/Accounts.thy ===== *)
theory Accounts
  imports Services Ingest
begin

text \<open>
  Component \<open>internal/accounts\<close>: the accounts messages arrive on and are sent from, with their
  credentials encrypted at rest, the lookup the webhook service resolves inbound traffic by, and the
  HTTP handlers.
\<close>

section \<open>Views and inputs\<close>

datatype accounts_error = AccountNotHere | AccountInvalid | AccountFailed

text \<open>The view of an account has no credentials.\<close>

record AccountView =
  av_ID :: uuid
  av_TenantID :: uuid
  av_Type :: gostring
  av_OwnerType :: gostring
  av_Label :: gostring
  av_PlatformIdentifier :: gostring
  av_Capabilities :: "gostring list"
  av_Status :: gostring
  av_CreatedAt :: time

text \<open>\<open>None\<close> is the nil slice, which the driver writes as \<open>NULL\<close>.\<close>

record CreateAccountInput =
  na_TenantID :: uuid
  na_Type :: gostring
  na_OwnerType :: gostring
  na_Label :: gostring
  na_PlatformIdentifier :: gostring
  na_Status :: gostring
  na_Capabilities :: "gostring list option"
  na_Credentials :: gostring

record UpdateAccountInput =
  pa_Label :: "gostring option"
  pa_Status :: "gostring option"
  pa_Capabilities :: "gostring list option"
  pa_Credentials :: "gostring option"

definition toAPI_account :: "Account \<Rightarrow> AccountView" where
  "toAPI_account a = \<lparr>av_ID = acc_id a, av_TenantID = acc_tenant a, av_Type = acc_type a,
     av_OwnerType = acc_owner_type a, av_Label = acc_label a,
     av_PlatformIdentifier = acc_platform_identifier a, av_Capabilities = acc_capabilities a,
     av_Status = acc_status a, av_CreatedAt = acc_created_at a\<rparr>"

section \<open>The service\<close>

abbreviation "account_failed \<equiv> \<lambda>_::db_error. AccountFailed"

definition account_missing :: "db_error \<Rightarrow> accounts_error" where
  "account_missing e = (if e = NoRows then AccountNotHere else AccountFailed)"

text \<open>
  Encrypting draws a fresh nonce, so the parameter takes the counter of the world's random numbers.
\<close>

definition Encrypt :: "env \<Rightarrow> gostring \<Rightarrow> (world, accounts_error + bytes) prog" where
  "Encrypt E plain = State (\<lambda>w. (case e_encrypt E (w_ids w) plain of None \<Rightarrow> Inl AccountFailed | Some c \<Rightarrow> Inr c,
     w\<lparr>w_ids := Suc (w_ids w)\<rparr>))"

text \<open>The insert: the capabilities column is \<open>NOT NULL\<close>.\<close>

definition insert_account :: "CreateAccountInput \<Rightarrow> uuid \<Rightarrow> time \<Rightarrow> bytes \<Rightarrow> Account query" where
  "insert_account inp i t encrypted = (case na_Capabilities inp of
     None \<Rightarrow> (\<lambda>d. (Inl Constraint, d))
   | Some caps \<Rightarrow> CreateAccount \<lparr>acc_id = i, acc_tenant = na_TenantID inp, acc_type = na_Type inp,
       acc_owner_type = na_OwnerType inp, acc_label = na_Label inp,
       acc_platform_identifier = na_PlatformIdentifier inp, acc_credentials = encrypted,
       acc_capabilities = caps, acc_status = na_Status inp, acc_created_at = t\<rparr>)"

definition Create_account :: "env \<Rightarrow> CreateAccountInput \<Rightarrow> (world, accounts_error + AccountView) prog" where
  "Create_account E inp =
     (if na_TenantID inp = 0 \<or> na_Type inp = [] \<or> na_OwnerType inp = [] \<or> na_PlatformIdentifier inp = [] \<or> na_Status inp = []
      then ret (Inl AccountInvalid)
      else attempt (if na_Credentials inp = [] then ret (Inr []) else Encrypt E (na_Credentials inp)) (\<lambda>encrypted. do {
        newID \<leftarrow> NewID E;
        current \<leftarrow> now;
        attempt (ask account_failed (insert_account inp newID current encrypted)) (\<lambda>row.
        ret (Inr (toAPI_account row))) }))"

definition Get_account :: "uuid \<Rightarrow> uuid \<Rightarrow> (world, accounts_error + AccountView) prog" where
  "Get_account i tenantID =
     attempt (ask account_missing (GetAccountForTenant i tenantID)) (\<lambda>row. ret (Inr (toAPI_account row)))"

definition List_accounts :: "uuid \<Rightarrow> (world, accounts_error + AccountView list) prog" where
  "List_accounts tenantID =
     attempt (ask account_failed (ListAccountsForTenant tenantID)) (\<lambda>rows. ret (Inr (map toAPI_account rows)))"

text \<open>
  The channel id travels as a text, empty for none; it is read back only when it parses.
\<close>

definition routed_view :: "env \<Rightarrow> Account \<times> uuid option \<Rightarrow> AccountView \<times> uuid option" where
  "routed_view E r = (case r of (a, c) \<Rightarrow>
     let shown = (case c of None \<Rightarrow> [] | Some i \<Rightarrow> e_show_uuid E i)
     in (toAPI_account a, if shown = [] then None else e_parse_uuid E shown))"

definition ListWithRouting :: "env \<Rightarrow> uuid \<Rightarrow> (world, accounts_error + (AccountView \<times> uuid option) list) prog" where
  "ListWithRouting E tenantID =
     attempt (ask account_failed (ListAccountsWithRoutingForTenant tenantID)) (\<lambda>rows. ret (Inr (map (routed_view E) rows)))"

definition Update_account :: "env \<Rightarrow> uuid \<Rightarrow> uuid \<Rightarrow> UpdateAccountInput \<Rightarrow> (world, accounts_error + AccountView) prog" where
  "Update_account E i tenantID inp =
     attempt (ask account_missing (GetAccountForTenant i tenantID)) (\<lambda>cur.
     attempt (case pa_Credentials inp of None \<Rightarrow> ret (Inr (acc_credentials cur)) | Some p \<Rightarrow> Encrypt E p) (\<lambda>creds.
     attempt (ask account_failed (UpdateAccount \<lparr>ua_ID = i, ua_TenantID = tenantID,
         ua_Label = coalesce (pa_Label inp) (acc_label cur), ua_Status = coalesce (pa_Status inp) (acc_status cur),
         ua_Capabilities = coalesce (pa_Capabilities inp) (acc_capabilities cur), ua_CredentialsEncrypted = creds\<rparr>)) (\<lambda>row.
     ret (Inr (toAPI_account row)))))"

definition listenerToAccountType :: "gostring \<rightharpoonup> gostring" where
  "listenerToAccountType = [str ''whatsapp-ultramsg'' \<mapsto> str ''whatsapp'']"

definition Lookup :: "gostring \<Rightarrow> gostring \<Rightarrow> (world, accounts_error + (uuid \<times> uuid)) prog" where
  "Lookup accType identifier =
     (let ty = (case listenerToAccountType accType of Some m \<Rightarrow> m | None \<Rightarrow> accType)
      in ask account_missing (LookupAccount ty identifier))"

definition Delete_account :: "uuid \<Rightarrow> uuid \<Rightarrow> (world, accounts_error + unit) prog" where
  "Delete_account i tenantID =
     attempt (ask account_failed (DeleteAccount i tenantID)) (\<lambda>n. ret (if n = 0 then Inl AccountNotHere else Inr ()))"

section \<open>The handlers\<close>

definition account_fields :: "env \<Rightarrow> AccountView \<Rightarrow> (gostring \<times> json) list" where
  "account_fields E a =
     [(str ''id'', uuid_json E (av_ID a)), (str ''tenant_id'', uuid_json E (av_TenantID a)),
      (str ''type'', JStr (av_Type a)), (str ''owner_type'', JStr (av_OwnerType a)), (str ''label'', JStr (av_Label a)),
      (str ''platform_identifier'', JStr (av_PlatformIdentifier a)),
      (str ''capabilities'', JArr (map JStr (av_Capabilities a))),
      (str ''status'', JStr (av_Status a)), (str ''created_at'', JStr (e_show_time E (av_CreatedAt a)))]"

definition AccountView_json :: "env \<Rightarrow> AccountView \<Rightarrow> json" where
  "AccountView_json E a = JObj (account_fields E a)"

definition AccountWithRouting_json :: "env \<Rightarrow> AccountView \<times> uuid option \<Rightarrow> json" where
  "AccountWithRouting_json E r = (case r of (a, c) \<Rightarrow>
     JObj (account_fields E a @ [(str ''inbound_channel_id'', json_ptr (uuid_json E) c)]))"

definition accounts_fail :: "accounts_error \<Rightarrow> answer" where
  "accounts_fail e = (case e of
     AccountNotHere \<Rightarrow> (404, error_json ''not_found'')
   | AccountInvalid \<Rightarrow> (400, error_json ''invalid'')
   | AccountFailed \<Rightarrow> (500, error_json ''internal_error''))"

text \<open>A list or its nil: the last member decides, null and absence are nil.\<close>

definition strings_ptr :: "json list \<Rightarrow> gostring list option option" where
  "strings_ptr js = (case decode_strings js [] of None \<Rightarrow> None
     | Some xs \<Rightarrow> Some (if js = [] \<or> last js = JNull then None else Some xs))"

definition decode_create_account :: "env \<Rightarrow> uuid \<Rightarrow> gostring \<Rightarrow> CreateAccountInput option" where
  "decode_create_account E tenant body = do {
     kvs \<leftarrow> body_members E body;
     ty \<leftarrow> str_field (e_uni E) ''type'' kvs;
     owner \<leftarrow> str_field (e_uni E) ''owner_type'' kvs;
     label \<leftarrow> str_field (e_uni E) ''label'' kvs;
     ident \<leftarrow> str_field (e_uni E) ''platform_identifier'' kvs;
     status \<leftarrow> str_field (e_uni E) ''status'' kvs;
     caps \<leftarrow> strings_ptr (members (e_uni E) (str ''capabilities'') kvs);
     creds \<leftarrow> str_field (e_uni E) ''credentials'' kvs;
     Some \<lparr>na_TenantID = tenant, na_Type = ty, na_OwnerType = owner, na_Label = label, na_PlatformIdentifier = ident,
       na_Status = status, na_Capabilities = caps, na_Credentials = creds\<rparr> }"

definition decode_update_account :: "env \<Rightarrow> gostring \<Rightarrow> UpdateAccountInput option" where
  "decode_update_account E body = do {
     kvs \<leftarrow> body_members E body;
     label \<leftarrow> ptr_field (e_uni E) ''label'' kvs;
     status \<leftarrow> ptr_field (e_uni E) ''status'' kvs;
     caps \<leftarrow> strings_ptr (members (e_uni E) (str ''capabilities'') kvs);
     creds \<leftarrow> ptr_field (e_uni E) ''credentials'' kvs;
     Some \<lparr>pa_Label = label, pa_Status = status, pa_Capabilities = caps, pa_Credentials = creds\<rparr> }"

definition create_account_handler :: "env \<Rightarrow> api_request \<Rightarrow> (world, answer) prog" where
  "create_account_handler E rq = with_tenant E rq (\<lambda>tenant.
     with_body (decode_create_account E tenant (ar_body rq)) (\<lambda>inp.
     respond accounts_fail (\<lambda>a. (201, AccountView_json E a)) (Create_account E inp)))"

definition list_accounts_handler :: "env \<Rightarrow> api_request \<Rightarrow> (world, answer) prog" where
  "list_accounts_handler E rq = with_tenant E rq (\<lambda>tenant.
     respond accounts_fail (\<lambda>rs. (200, JArr (map (AccountWithRouting_json E) rs))) (ListWithRouting E tenant))"

text \<open>The two query parameters, empty when absent.\<close>

definition lookup_handler :: "env \<Rightarrow> gostring \<Rightarrow> gostring \<Rightarrow> (world, answer) prog" where
  "lookup_handler E accType identifier =
     (if accType = [] \<or> identifier = [] then ret (400, error_json ''type and identifier are required'')
      else respond accounts_fail (\<lambda>(a, t). (200, JObj [(str ''account_id'', uuid_json E a), (str ''tenant_id'', uuid_json E t)]))
        (Lookup accType identifier))"

definition update_account_handler :: "env \<Rightarrow> api_request \<Rightarrow> (world, answer) prog" where
  "update_account_handler E rq = with_tenant E rq (\<lambda>tenant. with_id E ''id'' (ar_id rq) (\<lambda>i.
     with_body (decode_update_account E (ar_body rq)) (\<lambda>inp.
     respond accounts_fail (\<lambda>a. (200, AccountView_json E a)) (Update_account E i tenant inp))))"

definition delete_account_handler :: "env \<Rightarrow> api_request \<Rightarrow> (world, answer) prog" where
  "delete_account_handler E rq = with_tenant E rq (\<lambda>tenant. with_id E ''id'' (ar_id rq) (\<lambda>i.
     respond accounts_fail (\<lambda>_. (204, JNull)) (Delete_account i tenant)))"

end
