(* ===== verification/Tenants.thy ===== *)
theory Tenants
  imports Services Ingest
begin

text \<open>
  Component \<open>internal/tenants\<close>: the bootstrap path into an empty database, with the HTTP handlers, whose
  requests carry no tenant.
\<close>

datatype tenants_error = TenantNotFound | TenantInvalid string | TenantFailed

definition validPlans :: "gostring set" where
  "validPlans = {str ''starter'', str ''pro'', str ''enterprise''}"

definition DefaultPlan :: gostring where
  "DefaultPlan = str ''starter''"

record CreateTenantInput =
  nt_ID :: "uuid option"
  nt_Name :: gostring
  nt_Plan :: gostring
  nt_Settings :: "json option"

definition tenant_missing :: "db_error \<Rightarrow> tenants_error" where
  "tenant_missing e = (if e = NoRows then TenantNotFound else TenantFailed)"

definition Get_tenant :: "uuid \<Rightarrow> (world, tenants_error + Tenant) prog" where
  "Get_tenant i = ask tenant_missing (GetTenant i)"

definition List_tenants :: "(world, tenants_error + Tenant list) prog" where
  "List_tenants = ask (\<lambda>_. TenantFailed) ListTenants"

text \<open>A creation with an id that exists already returns the existing tenant.\<close>

definition Create_tenant :: "env \<Rightarrow> CreateTenantInput \<Rightarrow> (world, tenants_error + Tenant) prog" where
  "Create_tenant E inp =
     (let plan = (if nt_Plan inp = [] then DefaultPlan else nt_Plan inp) in
      if TrimSpace (nt_Name inp) = [] then ret (Inl (TenantInvalid ''invalid: name is required''))
      else if plan \<notin> validPlans then ret (Inl (TenantInvalid ''invalid: plan must be starter, pro or enterprise''))
      else do {
        fresh \<leftarrow> NewID E;
        current \<leftarrow> now;
        r \<leftarrow> store (CreateTenant \<lparr>tn_id = coalesce (nt_ID inp) fresh, tn_name = nt_Name inp, tn_plan = plan,
          tn_created_at = current, tn_settings = coalesce (nt_Settings inp) (JObj [])\<rparr>);
        case r of
          Inr row \<Rightarrow> ret (Inr row)
        | Inl NoRows \<Rightarrow> Get_tenant (coalesce (nt_ID inp) fresh)
        | Inl _ \<Rightarrow> ret (Inl TenantFailed) })"

definition Tenant_json :: "env \<Rightarrow> Tenant \<Rightarrow> json" where
  "Tenant_json E t = JObj [(str ''id'', uuid_json E (tn_id t)), (str ''name'', JStr (tn_name t)),
     (str ''plan'', JStr (tn_plan t)), (str ''settings'', tn_settings t),
     (str ''created_at'', JStr (e_show_time E (tn_created_at t)))]"

definition tenants_fail :: "tenants_error \<Rightarrow> answer" where
  "tenants_fail e = (case e of
     TenantNotFound \<Rightarrow> (404, error_json ''not_found'')
   | TenantInvalid detail \<Rightarrow> (400, error_detail_json ''invalid'' (str detail))
   | TenantFailed \<Rightarrow> (500, error_json ''internal_error''))"

definition decode_create_tenant :: "env \<Rightarrow> gostring \<Rightarrow> (gostring \<times> CreateTenantInput) option" where
  "decode_create_tenant E body = do {
     kvs \<leftarrow> body_members E body;
     i \<leftarrow> str_field (e_uni E) ''id'' kvs;
     name \<leftarrow> str_field (e_uni E) ''name'' kvs;
     plan \<leftarrow> str_field (e_uni E) ''plan'' kvs;
     Some (i, \<lparr>nt_ID = None, nt_Name = name, nt_Plan = plan,
       nt_Settings = decode_raw (members (e_uni E) (str ''settings'') kvs)\<rparr>) }"

definition create_tenant_handler :: "env \<Rightarrow> api_request \<Rightarrow> (world, answer) prog" where
  "create_tenant_handler E rq = with_body (decode_create_tenant E (ar_body rq)) (\<lambda>(i, inp).
     if i \<noteq> [] \<and> e_parse_uuid E i = None then ret (400, error_detail_json ''invalid'' (str ''id must be a UUID''))
     else respond tenants_fail (\<lambda>t. (201, Tenant_json E t))
       (Create_tenant E (inp\<lparr>nt_ID := (if i = [] then None else e_parse_uuid E i)\<rparr>)))"

definition get_tenant_handler :: "env \<Rightarrow> api_request \<Rightarrow> (world, answer) prog" where
  "get_tenant_handler E rq = with_id E ''id'' (ar_id rq) (\<lambda>i.
     respond tenants_fail (\<lambda>t. (200, Tenant_json E t)) (Get_tenant i))"

definition list_tenants_handler :: "env \<Rightarrow> api_request \<Rightarrow> (world, answer) prog" where
  "list_tenants_handler E rq =
     respond tenants_fail (\<lambda>ts. (200, JArr (map (Tenant_json E) ts))) List_tenants"

end
