(* ===== verification/Contacts.thy ===== *)
theory Contacts
  imports Services Ingest
begin

text \<open>
  Component \<open>internal/contacts\<close>: the address book, its short ids and their collision checks, the bulk
  import from CSV, and the HTTP handlers.
\<close>

section \<open>Views and inputs\<close>

datatype contacts_error = ContactNotFound | ContactConflict | ContactInvalid | ContactFailed

record ContactView =
  xv_ID :: uuid
  xv_TenantID :: uuid
  xv_ShortID :: gostring
  xv_DisplayName :: gostring
  xv_AOIID :: "gostring option"
  xv_Role :: "gostring option"
  xv_Status :: gostring
  xv_Metadata :: json
  xv_CreatedAt :: time
  xv_UpdatedAt :: time

record CreateContactInput =
  nx_TenantID :: uuid
  nx_ShortID :: gostring
  nx_DisplayName :: gostring
  nx_AOIID :: "gostring option"
  nx_Role :: "gostring option"
  nx_Status :: gostring
  nx_Metadata :: "json option"

record UpdateContactInput =
  px_DisplayName :: "gostring option"
  px_AOIID :: "gostring option"
  px_Role :: "gostring option"
  px_Status :: "gostring option"
  px_Metadata :: "json option"

record ShortIDCheckResult =
  sc_Exists :: bool
  sc_Suggestions :: "gostring list"

definition toAPI_contact :: "Contact \<Rightarrow> ContactView" where
  "toAPI_contact c = \<lparr>xv_ID = ct_id c, xv_TenantID = ct_tenant c, xv_ShortID = ct_short_id c,
     xv_DisplayName = ct_display_name c, xv_AOIID = ct_aoi c, xv_Role = ct_role c, xv_Status = ct_status c,
     xv_Metadata = ct_metadata c, xv_CreatedAt = ct_created_at c, xv_UpdatedAt = ct_updated_at c\<rparr>"

section \<open>The service\<close>

abbreviation "contact_failed \<equiv> \<lambda>_::db_error. ContactFailed"

definition contact_missing :: "db_error \<Rightarrow> contacts_error" where
  "contact_missing e = (if e = NoRows then ContactNotFound else ContactFailed)"

definition new_contact :: "CreateContactInput \<Rightarrow> uuid \<Rightarrow> time \<Rightarrow> Contact" where
  "new_contact inp i t = \<lparr>ct_id = i, ct_tenant = nx_TenantID inp, ct_short_id = nx_ShortID inp,
     ct_display_name = nx_DisplayName inp, ct_aoi = nx_AOIID inp, ct_role = nx_Role inp, ct_default_channel = None,
     ct_status = (if nx_Status inp = [] then str ''active'' else nx_Status inp),
     ct_metadata = coalesce (nx_Metadata inp) (JObj []), ct_created_at = t, ct_updated_at = t\<rparr>"

definition Create_contact :: "env \<Rightarrow> CreateContactInput \<Rightarrow> (world, contacts_error + ContactView) prog" where
  "Create_contact E inp =
     (if nx_TenantID inp = 0 \<or> nx_ShortID inp = [] \<or> nx_DisplayName inp = [] then ret (Inl ContactInvalid)
      else do {
        r \<leftarrow> store (GetContactByShortID (nx_TenantID inp) (nx_ShortID inp));
        case r of
          Inr _ \<Rightarrow> ret (Inl ContactConflict)
        | Inl NoRows \<Rightarrow> do {
            current \<leftarrow> now;
            newID \<leftarrow> NewID E;
            attempt (ask contact_failed (CreateContact (new_contact inp newID current))) (\<lambda>row.
            ret (Inr (toAPI_contact row))) }
        | Inl _ \<Rightarrow> ret (Inl ContactFailed) })"

definition Get_contact :: "uuid \<Rightarrow> uuid \<Rightarrow> (world, contacts_error + ContactView) prog" where
  "Get_contact i tenantID =
     attempt (ask contact_missing (GetContactForTenant i tenantID)) (\<lambda>row. ret (Inr (toAPI_contact row)))"

definition List_contacts :: "uuid \<Rightarrow> (world, contacts_error + ContactView list) prog" where
  "List_contacts tenantID =
     attempt (ask contact_failed (ListContactsForTenant tenantID)) (\<lambda>rows. ret (Inr (map toAPI_contact rows)))"

definition Update_contact :: "uuid \<Rightarrow> uuid \<Rightarrow> UpdateContactInput \<Rightarrow> (world, contacts_error + ContactView) prog" where
  "Update_contact i tenantID inp =
     attempt (ask contact_missing (GetContactForTenant i tenantID)) (\<lambda>cur. do {
       current \<leftarrow> now;
       attempt (ask contact_failed (UpdateContact \<lparr>up_ID = i, up_TenantID = tenantID,
           up_DisplayName = coalesce (px_DisplayName inp) (ct_display_name cur),
           up_AoiID = (if px_AOIID inp = None then ct_aoi cur else px_AOIID inp),
           up_Role = (if px_Role inp = None then ct_role cur else px_Role inp),
           up_Status = coalesce (px_Status inp) (ct_status cur),
           up_Metadata = coalesce (px_Metadata inp) (ct_metadata cur), up_UpdatedAt = current\<rparr>)) (\<lambda>row.
       ret (Inr (toAPI_contact row))) })"

definition Delete_contact :: "uuid \<Rightarrow> uuid \<Rightarrow> (world, contacts_error + unit) prog" where
  "Delete_contact i tenantID =
     attempt (ask contact_failed (DeleteContact i tenantID)) (\<lambda>n. ret (if n = 0 then Inl ContactNotFound else Inr ()))"

text \<open>The loop over the short ids: an equal one exists, a near one is suggested.\<close>

fun short_id_loop :: "gostring \<Rightarrow> ShortIDRow list \<Rightarrow> ShortIDCheckResult \<Rightarrow> ShortIDCheckResult" where
  "short_id_loop shortID [] res = res"
| "short_id_loop shortID (r # rows) res =
     (if sr_ShortID r = shortID then short_id_loop shortID rows (res\<lparr>sc_Exists := True\<rparr>)
      else let d = Levenshtein shortID (sr_ShortID r) in
        if 0 < d \<and> d \<le> 2
        then short_id_loop shortID rows (res\<lparr>sc_Suggestions := sc_Suggestions res @ [sr_ShortID r]\<rparr>)
        else short_id_loop shortID rows res)"

definition ShortIDCheck :: "uuid \<Rightarrow> gostring \<Rightarrow> (world, contacts_error + ShortIDCheckResult) prog" where
  "ShortIDCheck tenantID shortID =
     attempt (ask contact_failed (ListContactShortIDs tenantID)) (\<lambda>rows.
     ret (Inr (short_id_loop shortID rows \<lparr>sc_Exists = False, sc_Suggestions = []\<rparr>)))"

section \<open>Bulk import\<close>

text \<open>
  What the CSV reader returns on one \<open>Read\<close>: a record, an error with its text, or the end of the file.
  A file is the sequence of these results; it need not end.
\<close>

datatype csv_read = CsvRecord "gostring list" | CsvError gostring | CsvEOF

type_synonym csv_file = "nat \<Rightarrow> csv_read"

datatype row_reason = MalformedCSV gostring | CreateFailed contacts_error

record BulkResult =
  br_Created :: nat
  br_Skipped :: nat
  br_Errors :: "(nat \<times> row_reason) list"

datatype import_error = ReadHeader gostring | MissingColumn string

text \<open>The column of a name: the last header cell that reads so.\<close>

fun columns :: "unicode \<Rightarrow> gostring list \<Rightarrow> nat \<Rightarrow> (gostring \<rightharpoonup> nat)" where
  "columns U [] i = Map.empty"
| "columns U (h # hs) i = (\<lambda>n. case columns U hs (Suc i) n of Some j \<Rightarrow> Some j
     | None \<Rightarrow> if ToLower U (TrimSpace h) = n then Some i else None)"

definition cell :: "(gostring \<rightharpoonup> nat) \<Rightarrow> gostring list \<Rightarrow> string \<Rightarrow> gostring" where
  "cell col rec name = (case col (str name) of None \<Rightarrow> []
     | Some i \<Rightarrow> if i < length rec then TrimSpace (rec ! i) else [])"

definition row_input :: "uuid \<Rightarrow> (gostring \<rightharpoonup> nat) \<Rightarrow> gostring list \<Rightarrow> CreateContactInput" where
  "row_input tenantID col rec = \<lparr>nx_TenantID = tenantID, nx_ShortID = cell col rec ''short_id'',
     nx_DisplayName = cell col rec ''display_name'', nx_AOIID = textOrNull (cell col rec ''aoi_id''),
     nx_Role = textOrNull (cell col rec ''role''), nx_Status = cell col rec ''status'', nx_Metadata = None\<rparr>"

text \<open>One data row: the result it adds to and the state it leaves.\<close>

definition import_row :: "env \<Rightarrow> uuid \<Rightarrow> (gostring \<rightharpoonup> nat) \<Rightarrow> nat \<Rightarrow> csv_read \<Rightarrow> BulkResult \<Rightarrow> world \<Rightarrow> BulkResult \<times> world" where
  "import_row E tenantID col rowNum rd res w = (case rd of
     CsvEOF \<Rightarrow> (res, w)
   | CsvError e \<Rightarrow> (res\<lparr>br_Errors := br_Errors res @ [(rowNum, MalformedCSV e)]\<rparr>, w)
   | CsvRecord rec \<Rightarrow> (case run (Create_contact E (row_input tenantID col rec)) w of
         (Inl e, w') \<Rightarrow> (res\<lparr>br_Errors := br_Errors res @ [(rowNum, CreateFailed e)]\<rparr>, w')
       | (Inr _, w') \<Rightarrow> (res\<lparr>br_Created := Suc (br_Created res)\<rparr>, w')))"

text \<open>The loop: it returns when \<open>Read\<close> reports the end of the file, and only then.\<close>

partial_function (option) import_rows :: "env \<Rightarrow> uuid \<Rightarrow> (gostring \<rightharpoonup> nat) \<Rightarrow> csv_file \<Rightarrow> nat \<Rightarrow> BulkResult \<Rightarrow>
    world \<Rightarrow> (BulkResult \<times> world) option" where
  "import_rows E tenantID col file rowNum res w =
     (if file (Suc rowNum) = CsvEOF then Some (res\<lparr>br_Skipped := length (br_Errors res)\<rparr>, w)
      else case import_row E tenantID col (Suc rowNum) (file (Suc rowNum)) res w of
        (res', w') \<Rightarrow> import_rows E tenantID col file (Suc rowNum) res' w')"

definition BulkImport :: "env \<Rightarrow> uuid \<Rightarrow> csv_file \<Rightarrow> world \<Rightarrow> ((import_error + BulkResult) \<times> world) option" where
  "BulkImport E tenantID file w = (case file 0 of
     CsvEOF \<Rightarrow> Some (Inl (ReadHeader (str ''EOF'')), w)
   | CsvError e \<Rightarrow> Some (Inl (ReadHeader e), w)
   | CsvRecord header \<Rightarrow>
       (let col = columns (e_uni E) header 0 in
        if col (str ''short_id'') = None then Some (Inl (MissingColumn ''short_id''), w)
        else if col (str ''display_name'') = None then Some (Inl (MissingColumn ''display_name''), w)
        else map_option (\<lambda>(res, w'). (Inr res, w'))
          (import_rows E tenantID col file 0 \<lparr>br_Created = 0, br_Skipped = 0, br_Errors = []\<rparr> w)))"

section \<open>The handlers\<close>

definition ContactView_json :: "env \<Rightarrow> ContactView \<Rightarrow> json" where
  "ContactView_json E c = JObj
     [(str ''id'', uuid_json E (xv_ID c)), (str ''tenant_id'', uuid_json E (xv_TenantID c)),
      (str ''short_id'', JStr (xv_ShortID c)), (str ''display_name'', JStr (xv_DisplayName c)),
      (str ''aoi_id'', json_ptr JStr (xv_AOIID c)), (str ''role'', json_ptr JStr (xv_Role c)),
      (str ''status'', JStr (xv_Status c)), (str ''metadata'', xv_Metadata c),
      (str ''created_at'', JStr (e_show_time E (xv_CreatedAt c))), (str ''updated_at'', JStr (e_show_time E (xv_UpdatedAt c)))]"

text \<open>A slice that was never appended to is nil, written as null.\<close>

definition nil_array :: "json list \<Rightarrow> json" where
  "nil_array js = (if js = [] then JNull else JArr js)"

definition ShortIDCheck_json :: "ShortIDCheckResult \<Rightarrow> json" where
  "ShortIDCheck_json r = JObj [(str ''exists'', JBool (sc_Exists r)),
     (str ''suggestions'', nil_array (map JStr (sc_Suggestions r)))]"

definition BulkResult_json :: "(row_reason \<Rightarrow> gostring) \<Rightarrow> BulkResult \<Rightarrow> json" where
  "BulkResult_json show_reason r = JObj [(str ''created'', json_nat (br_Created r)), (str ''skipped'', json_nat (br_Skipped r)),
     (str ''errors'', nil_array (map (\<lambda>(n, e). JObj [(str ''row'', json_nat n), (str ''reason'', JStr (show_reason e))]) (br_Errors r)))]"

definition contacts_fail :: "contacts_error \<Rightarrow> answer" where
  "contacts_fail e = (case e of
     ContactNotFound \<Rightarrow> (404, error_json ''not_found'')
   | ContactConflict \<Rightarrow> (409, error_json ''short_id_conflict'')
   | ContactInvalid \<Rightarrow> (400, error_json ''invalid'')
   | ContactFailed \<Rightarrow> (500, error_json ''internal_error''))"

definition decode_create_contact :: "env \<Rightarrow> uuid \<Rightarrow> gostring \<Rightarrow> CreateContactInput option" where
  "decode_create_contact E tenant body = do {
     kvs \<leftarrow> body_members E body;
     short \<leftarrow> str_field (e_uni E) ''short_id'' kvs;
     name \<leftarrow> str_field (e_uni E) ''display_name'' kvs;
     aoi \<leftarrow> ptr_field (e_uni E) ''aoi_id'' kvs;
     role \<leftarrow> ptr_field (e_uni E) ''role'' kvs;
     status \<leftarrow> str_field (e_uni E) ''status'' kvs;
     Some \<lparr>nx_TenantID = tenant, nx_ShortID = short, nx_DisplayName = name, nx_AOIID = aoi, nx_Role = role,
       nx_Status = status, nx_Metadata = decode_raw (members (e_uni E) (str ''metadata'') kvs)\<rparr> }"

definition decode_update_contact :: "env \<Rightarrow> gostring \<Rightarrow> UpdateContactInput option" where
  "decode_update_contact E body = do {
     kvs \<leftarrow> body_members E body;
     name \<leftarrow> ptr_field (e_uni E) ''display_name'' kvs;
     aoi \<leftarrow> ptr_field (e_uni E) ''aoi_id'' kvs;
     role \<leftarrow> ptr_field (e_uni E) ''role'' kvs;
     status \<leftarrow> ptr_field (e_uni E) ''status'' kvs;
     Some \<lparr>px_DisplayName = name, px_AOIID = aoi, px_Role = role, px_Status = status,
       px_Metadata = decode_raw (members (e_uni E) (str ''metadata'') kvs)\<rparr> }"

definition create_contact_handler :: "env \<Rightarrow> api_request \<Rightarrow> (world, answer) prog" where
  "create_contact_handler E rq = with_tenant E rq (\<lambda>tenant.
     with_body (decode_create_contact E tenant (ar_body rq)) (\<lambda>inp.
     respond contacts_fail (\<lambda>c. (201, ContactView_json E c)) (Create_contact E inp)))"

definition list_contacts_handler :: "env \<Rightarrow> api_request \<Rightarrow> (world, answer) prog" where
  "list_contacts_handler E rq = with_tenant E rq (\<lambda>tenant.
     respond contacts_fail (\<lambda>cs. (200, JArr (map (ContactView_json E) cs))) (List_contacts tenant))"

definition update_contact_handler :: "env \<Rightarrow> api_request \<Rightarrow> (world, answer) prog" where
  "update_contact_handler E rq = with_tenant E rq (\<lambda>tenant. with_id E ''id'' (ar_id rq) (\<lambda>i.
     with_body (decode_update_contact E (ar_body rq)) (\<lambda>inp.
     respond contacts_fail (\<lambda>c. (200, ContactView_json E c)) (Update_contact i tenant inp))))"

definition delete_contact_handler :: "env \<Rightarrow> api_request \<Rightarrow> (world, answer) prog" where
  "delete_contact_handler E rq = with_tenant E rq (\<lambda>tenant. with_id E ''id'' (ar_id rq) (\<lambda>i.
     respond contacts_fail (\<lambda>_. (204, JNull)) (Delete_contact i tenant)))"

definition short_id_check_handler :: "env \<Rightarrow> gostring \<Rightarrow> api_request \<Rightarrow> (world, answer) prog" where
  "short_id_check_handler E shortID rq = with_tenant E rq (\<lambda>tenant.
     if shortID = [] then ret (400, error_json ''short_id required'')
     else respond contacts_fail (\<lambda>r. (200, ShortIDCheck_json r)) (ShortIDCheck tenant shortID))"

definition import_error_text :: "import_error \<Rightarrow> gostring" where
  "import_error_text e = (case e of ReadHeader r \<Rightarrow> str ''read header: '' @ r
     | MissingColumn c \<Rightarrow> str ''csv missing required column: '' @ str c)"

definition bulk_import_handler :: "env \<Rightarrow> (row_reason \<Rightarrow> gostring) \<Rightarrow> api_request \<Rightarrow> csv_file \<Rightarrow> world \<Rightarrow> (answer \<times> world) option" where
  "bulk_import_handler E show_reason rq file w = (case e_parse_uuid E (ar_tenant rq) of
     None \<Rightarrow> Some (no_tenant, w)
   | Some tenant \<Rightarrow> map_option (\<lambda>(r, w'). (case r of
         Inl e \<Rightarrow> (400, JObj [(str ''error'', JStr (import_error_text e))])
       | Inr res \<Rightarrow> (200, BulkResult_json show_reason res), w')) (BulkImport E tenant file w))"

end
