(* ===== verification/Messagelog.thy ===== *)
theory Messagelog
  imports Services Ingest
begin

text \<open>
  Component \<open>internal/messagelog\<close>: the recent messages of a tenant as a console shows them, with the HTTP
  handler.
\<close>

section \<open>The service\<close>

definition DefaultLimit :: int where "DefaultLimit = 50"
definition MaxLimit :: int where "MaxLimit = 500"

record ParsedView =
  pv_Command :: gostring
  pv_ShortID :: gostring
  pv_Target :: gostring
  pv_Payload :: gostring
  pv_Confidence :: rat
  pv_MatchKind :: gostring
  pv_Passthrough :: bool

record MessageView =
  mv_ID :: uuid
  mv_Direction :: gostring
  mv_SenderEndpoint :: gostring
  mv_BodyText :: gostring
  mv_PolicyAction :: gostring
  mv_ChannelName :: gostring
  mv_WorkflowFired :: bool
  mv_ReceivedAt :: time
  mv_Parsed :: "ParsedView option"

definition decode_parsed :: "unicode \<Rightarrow> json \<Rightarrow> ParsedView option" where
  "decode_parsed U j = do {
     kvs \<leftarrow> struct_members j;
     command \<leftarrow> str_field U ''command'' kvs;
     short \<leftarrow> str_field U ''short_id'' kvs;
     tgt \<leftarrow> str_field U ''target'' kvs;
     payload \<leftarrow> str_field U ''payload'' kvs;
     confidence \<leftarrow> decode_float (members U (str ''confidence'') kvs) 0;
     kind \<leftarrow> str_field U ''short_id_match'' kvs;
     pass \<leftarrow> decode_bool (members U (str ''passthrough'') kvs) False;
     Some \<lparr>pv_Command = command, pv_ShortID = short, pv_Target = tgt, pv_Payload = payload,
       pv_Confidence = confidence, pv_MatchKind = kind, pv_Passthrough = pass\<rparr> }"

definition message_view :: "env \<Rightarrow> ListRecentMessagesRow \<Rightarrow> MessageView" where
  "message_view E r = \<lparr>mv_ID = lr_ID r, mv_Direction = lr_Direction r, mv_SenderEndpoint = deref (lr_SenderEndpoint r),
     mv_BodyText = lr_BodyText r, mv_PolicyAction = deref (lr_PolicyAction r), mv_ChannelName = deref (lr_ChannelName r),
     mv_WorkflowFired = lr_WorkflowFired r, mv_ReceivedAt = lr_ReceivedAt r,
     mv_Parsed = Option.bind (lr_Parsed r) (decode_parsed (e_uni E))\<rparr>"

definition effective_limit :: "int \<Rightarrow> int" where
  "effective_limit limit = (if limit \<le> 0 then DefaultLimit else if MaxLimit < limit then MaxLimit else limit)"

definition List_messages :: "env \<Rightarrow> uuid \<Rightarrow> int \<Rightarrow> (world, unit + MessageView list) prog" where
  "List_messages E tenantID limit =
     attempt (ask (\<lambda>_. ()) (ListRecentMessagesForTenant tenantID (nat (effective_limit limit)))) (\<lambda>rows.
     ret (Inr (map (message_view E) rows)))"

section \<open>The handler\<close>

definition ParsedView_json :: "ParsedView \<Rightarrow> json" where
  "ParsedView_json p = JObj (
     omit_empty (str ''command'') (pv_Command p) @ omit_empty (str ''short_id'') (pv_ShortID p) @
     omit_empty (str ''target'') (pv_Target p) @ omit_empty (str ''payload'') (pv_Payload p) @
     [(str ''confidence'', JNum (pv_Confidence p))] @
     omit_empty (str ''short_id_match'') (pv_MatchKind p) @ omit_false (str ''passthrough'') (pv_Passthrough p))"

definition MessageView_json :: "env \<Rightarrow> MessageView \<Rightarrow> json" where
  "MessageView_json E m = JObj (
     [(str ''id'', uuid_json E (mv_ID m)), (str ''direction'', JStr (mv_Direction m))] @
     omit_empty (str ''sender_endpoint'') (mv_SenderEndpoint m) @
     [(str ''body_text'', JStr (mv_BodyText m))] @
     omit_empty (str ''policy_action'') (mv_PolicyAction m) @ omit_empty (str ''channel_name'') (mv_ChannelName m) @
     [(str ''workflow_fired'', JBool (mv_WorkflowFired m)), (str ''received_at'', JStr (e_show_time E (mv_ReceivedAt m)))] @
     omit_none (str ''parsed'') (map_option ParsedView_json (mv_Parsed m)))"

definition list_messages_handler :: "env \<Rightarrow> gostring \<Rightarrow> api_request \<Rightarrow> (world, answer) prog" where
  "list_messages_handler E limit rq = with_tenant E rq (\<lambda>tenant.
     respond (\<lambda>_. (500, error_json ''internal_error''))
       (\<lambda>ms. (200, JObj [(str ''messages'', JArr (map (MessageView_json E) ms)), (str ''count'', json_nat (length ms))]))
       (List_messages E tenant (Atoi limit)))"

end
