(* ===== verification/Diagnostics.thy ===== *)
theory Diagnostics
  imports Services Ingest_Facts
begin

text \<open>
  Component \<open>internal/diagnostics\<close>: the shape of a tenant's configuration and the gaps that keep messages
  from a consumer, with the HTTP handler.
\<close>

section \<open>The report\<close>

datatype severity = SeverityBlocking | SeverityWarning

record Finding =
  fi_Severity :: severity
  fi_Code :: gostring
  fi_Summary :: gostring
  fi_Remedy :: gostring

record Counts =
  cn_Accounts :: nat
  cn_Channels :: nat
  cn_Contacts :: nat
  cn_Messages :: nat

record Report =
  rp_Tenant :: uuid
  rp_Healthy :: bool
  rp_Counts :: Counts
  rp_Findings :: "Finding list"

definition no_accounts :: Finding where
  "no_accounts = \<lparr>fi_Severity = SeverityBlocking, fi_Code = str ''no_accounts'',
     fi_Summary = str ''No accounts. The webhook cannot match an inbound message to this tenant, so every message is acknowledged and dropped.'',
     fi_Remedy = str (''POST /v1/accounts with the platform identifier your provider sends (for UltraMSG that is the instance id). '' @
       ''Note the account type is '' @ [CHR 0x27] @ ''whatsapp'' @ [CHR 0x27] @ '', not the listener id '' @ [CHR 0x27] @
       ''whatsapp-ultramsg'' @ [CHR 0x27] @ ''.'')\<rparr>"

definition unlinked_account :: "env \<Rightarrow> Account \<Rightarrow> Finding" where
  "unlinked_account E a = \<lparr>fi_Severity = SeverityBlocking, fi_Code = str ''account_not_linked_to_channel'',
     fi_Summary = str ''Account '' @ e_quote E (acc_label a) @ str '' ('' @ acc_type a @ str '' '' @ acc_platform_identifier a @
       str '') is not linked to any inbound channel. Messages arriving on it are stored and forwarded nowhere.'',
     fi_Remedy = str ''POST /v1/channels to create a channel, then POST /v1/channels/{id}/accounts with account_id='' @
       e_show_uuid E (acc_id a) @ str '' and direction=\"both\".''\<rparr>"

definition no_workflow :: "env \<Rightarrow> uuid \<times> gostring \<Rightarrow> Finding" where
  "no_workflow E c = \<lparr>fi_Severity = SeverityWarning, fi_Code = str ''channel_has_no_workflow_url'',
     fi_Summary = str ''Channel '' @ e_quote E (snd c) @
       str '' has no workflow_url. Messages on it are parsed and stored, but nothing is forwarded to a consumer.'',
     fi_Remedy = str ''PATCH /v1/channels/'' @ e_show_uuid E (fst c) @
       str '' with {\"workflow_url\":\"https://your-service/hook\"}. Harmless to leave unset if you read the database directly.''\<rparr>"

definition no_contacts :: Finding where
  "no_contacts = \<lparr>fi_Severity = SeverityWarning, fi_Code = str ''no_contacts'',
     fi_Summary = str (''No contacts. Messages will be received, but no short id can resolve, so commands land as '' @ [CHR 0x27] @
       ''clarify'' @ [CHR 0x27] @ '' rather than '' @ [CHR 0x27] @ ''execute'' @ [CHR 0x27] @ ''.''),
     fi_Remedy = str ''POST /v1/contacts, or POST /v1/contacts/bulk-import to load an address book.''\<rparr>"

definition hasBlocking :: "Finding list \<Rightarrow> bool" where
  "hasBlocking fs = list_ex (\<lambda>f. fi_Severity f = SeverityBlocking) fs"

text \<open>The findings in the order they are appended.\<close>

definition findings_of :: "env \<Rightarrow> Counts \<Rightarrow> Account list \<Rightarrow> (uuid \<times> gostring) list \<Rightarrow> Finding list" where
  "findings_of E n unroutable noWorkflow =
     (if cn_Accounts n = 0 then [no_accounts] else []) @ map (unlinked_account E) unroutable @
     map (no_workflow E) noWorkflow @ (if cn_Contacts n = 0 then [no_contacts] else [])"

definition Run_diagnostics :: "env \<Rightarrow> uuid \<Rightarrow> (world, unit + Report) prog" where
  "Run_diagnostics E tenantID =
     attempt (ask (\<lambda>_. ()) (CountAccountsForTenant tenantID)) (\<lambda>a.
     attempt (ask (\<lambda>_. ()) (CountChannelsForTenant tenantID)) (\<lambda>c.
     attempt (ask (\<lambda>_. ()) (CountContactsForTenant tenantID)) (\<lambda>x.
     attempt (ask (\<lambda>_. ()) (CountMessagesForTenant tenantID)) (\<lambda>m.
     attempt (ask (\<lambda>_. ()) (ListUnroutableAccounts tenantID)) (\<lambda>unroutable.
     attempt (ask (\<lambda>_. ()) (ListChannelsWithoutWorkflow tenantID)) (\<lambda>noWorkflow.
     let n = \<lparr>cn_Accounts = a, cn_Channels = c, cn_Contacts = x, cn_Messages = m\<rparr>;
         fs = findings_of E n unroutable noWorkflow
     in ret (Inr \<lparr>rp_Tenant = tenantID, rp_Healthy = (\<not> hasBlocking fs), rp_Counts = n, rp_Findings = fs\<rparr>)))))))"

section \<open>The handler\<close>

definition severity_name :: "severity \<Rightarrow> gostring" where
  "severity_name s = (case s of SeverityBlocking \<Rightarrow> str ''blocking'' | SeverityWarning \<Rightarrow> str ''warning'')"

definition Finding_json :: "Finding \<Rightarrow> json" where
  "Finding_json f = JObj [(str ''severity'', JStr (severity_name (fi_Severity f))), (str ''code'', JStr (fi_Code f)),
     (str ''summary'', JStr (fi_Summary f)), (str ''remedy'', JStr (fi_Remedy f))]"

definition Report_json :: "env \<Rightarrow> Report \<Rightarrow> json" where
  "Report_json E r = JObj [(str ''tenant_id'', uuid_json E (rp_Tenant r)), (str ''healthy'', JBool (rp_Healthy r)),
     (str ''counts'', JObj [(str ''accounts'', json_nat (cn_Accounts (rp_Counts r))),
        (str ''channels'', json_nat (cn_Channels (rp_Counts r))), (str ''contacts'', json_nat (cn_Contacts (rp_Counts r))),
        (str ''messages'', json_nat (cn_Messages (rp_Counts r)))]),
     (str ''findings'', JArr (map Finding_json (rp_Findings r)))]"

definition diagnostics_handler :: "env \<Rightarrow> api_request \<Rightarrow> (world, answer) prog" where
  "diagnostics_handler E rq = with_tenant E rq (\<lambda>tenant.
     respond (\<lambda>_. (500, error_json ''internal_error'')) (\<lambda>r. (200, Report_json E r)) (Run_diagnostics E tenant))"

section \<open>What the report says\<close>

lemma hasBlocking_findings:
  "hasBlocking (findings_of E n us ws) \<longleftrightarrow> cn_Accounts n = 0 \<or> us \<noteq> []"
  by (cases us) (auto simp: hasBlocking_def findings_of_def no_accounts_def unlinked_account_def no_workflow_def
      no_contacts_def list_ex_iff)

text \<open>What a run without a failing statement reports.\<close>

lemma run_diagnostics_clean:
  assumes "w_faults w = []"
  shows "\<exists>rep ws. run (Run_diagnostics E t) w = (Inr rep, w) \<and>
     rp_Healthy rep = (\<not> hasBlocking (rp_Findings rep)) \<and>
     cn_Accounts (rp_Counts rep) = count_rows (\<lambda>a. acc_tenant a = t) (accounts (w_db w)) \<and>
     rp_Findings rep = findings_of E (rp_Counts rep)
       (case fst (ListUnroutableAccounts t (w_db w)) of Inr us \<Rightarrow> us | Inl _ \<Rightarrow> []) ws"
proof -
  have w: "w\<lparr>w_db := w_db w\<rparr> = w" by simp
  show ?thesis
    unfolding Run_diagnostics_def
    by (simp add: run_ask_clean[OF assms] run_attempt w Let_def
        CountAccountsForTenant_def CountChannelsForTenant_def CountContactsForTenant_def
        CountMessagesForTenant_def ListUnroutableAccounts_def ListChannelsWithoutWorkflow_def) blast
qed

lemma unlinked_findings:
  "filter (\<lambda>f. fi_Code f = str ''account_not_linked_to_channel'') (findings_of E n us ws) = map (unlinked_account E) us"
  by (simp add: findings_of_def filter_empty_conv no_accounts_def unlinked_account_def no_workflow_def no_contacts_def
      filter_map o_def)

text \<open>Under the foreign keys the accounts without a link are those no channel is resolved for.\<close>

lemma unroutable_accounts:
  assumes "schema_ok d"
  shows "\<exists>us. fst (ListUnroutableAccounts t d) = Inr us \<and>
    set us = {a \<in> set (accounts d). acc_tenant a = t \<and> inbound_channel (acc_id a) d = None}"
  using inbound_channel_None[OF assms] by (auto simp: ListUnroutableAccounts_def)


definition linked_db :: db where
  "linked_db = empty_db\<lparr>tenants := [\<lparr>tn_id = 1, tn_name = [], tn_plan = [], tn_created_at = 0, tn_settings = JNull\<rparr>],
     accounts := [demo_account]\<rparr>"


end
