(* ===== verification/Export.thy ===== *)
theory Export
  imports Services Ingest
begin

text \<open>
  Component \<open>internal/export\<close>: a tenant's messages and contacts as JSON Lines, read page by page behind a
  keyset cursor, with the HTTP handler. The page loop is one function used for both; other requests may
  change the database between two pages.
\<close>

section \<open>Records\<close>

definition pageSize :: nat where "pageSize = 500"

definition id_ptr :: "env \<Rightarrow> uuid option \<Rightarrow> json" where
  "id_ptr E = json_ptr (uuid_json E)"

definition export_message_json :: "env \<Rightarrow> bool \<Rightarrow> Message \<Rightarrow> json" where
  "export_message_json E includeRaw m = JObj (
     [(str ''id'', uuid_json E (msg_id m)), (str ''tenant_id'', uuid_json E (msg_tenant m)),
      (str ''account_id'', id_ptr E (msg_account m)), (str ''channel_id'', id_ptr E (msg_channel m)),
      (str ''direction'', JStr (msg_direction m)), (str ''sender_contact_id'', id_ptr E (msg_sender_contact m)),
      (str ''recipient_contact_id'', id_ptr E (msg_recipient_contact m))] @
     omit_empty (str ''sender_endpoint'') (deref (msg_sender_endpoint m)) @
     [(str ''body_text'', JStr (msg_body_text m))] @
     omit_none (str ''body_attachments'') (msg_attachments m) @
     omit_none (str ''body_location'') (map_option (e_geojson E) (msg_location m)) @
     omit_none (str ''parsed'') (msg_parsed m) @
     omit_empty (str ''policy_action'') (deref (msg_policy_action m)) @
     [(str ''workflow_fired'', JBool (msg_workflow_fired m)),
      (str ''in_reply_to_message_id'', id_ptr E (msg_in_reply_to m)),
      (str ''platform_message_id'', JStr (msg_platform_id m))] @
     (if includeRaw then [(str ''raw_payload'', msg_raw_payload m)] else []) @
     [(str ''received_at'', JStr (e_show_time E (msg_received_at m))),
      (str ''processed_at'', json_ptr (\<lambda>t. JStr (e_show_time E t)) (msg_processed_at m))])"

definition export_endpoint_json :: "env \<Rightarrow> ContactEndpoint \<Rightarrow> json" where
  "export_endpoint_json E e = JObj [(str ''id'', uuid_json E (ce_id e)), (str ''channel_id'', uuid_json E (ce_channel e)),
     (str ''account_id'', uuid_json E (ce_account e)), (str ''endpoint'', JStr (ce_endpoint e)),
     (str ''priority'', json_int (ce_priority e)), (str ''capabilities'', JArr (map JStr (ce_capabilities e))),
     (str ''last_seen_at'', json_ptr (\<lambda>t. JStr (e_show_time E t)) (ce_last_seen e))]"

text \<open>A contact row with its endpoints.\<close>

definition export_contact_json :: "env \<Rightarrow> Contact \<times> ContactEndpoint list \<Rightarrow> json" where
  "export_contact_json E r = (case r of (c, eps) \<Rightarrow> JObj (
     [(str ''id'', uuid_json E (ct_id c)), (str ''tenant_id'', uuid_json E (ct_tenant c)),
      (str ''short_id'', JStr (ct_short_id c)), (str ''display_name'', JStr (ct_display_name c))] @
     omit_empty (str ''aoi_id'') (deref (ct_aoi c)) @ omit_empty (str ''role'') (deref (ct_role c)) @
     [(str ''default_channel_id'', id_ptr E (ct_default_channel c)), (str ''status'', JStr (ct_status c)),
      (str ''metadata'', ct_metadata c), (str ''created_at'', JStr (e_show_time E (ct_created_at c))),
      (str ''updated_at'', JStr (e_show_time E (ct_updated_at c))),
      (str ''endpoints'', JArr (map (export_endpoint_json E) eps))]))"

section \<open>The page loop\<close>

datatype export_error = ExportQuery | ExportWrite

type_synonym cursor = "time \<times> uuid"

text \<open>
  Writing the rows of a page: \<open>wr n\<close> tells whether writing the line after \<open>n\<close> lines succeeds. The
  result is whether all were written, and the lines written so far.
\<close>

fun emit_rows :: "(nat \<Rightarrow> bool) \<Rightarrow> ('row \<Rightarrow> json) \<Rightarrow> 'row list \<Rightarrow> json list \<Rightarrow> bool \<times> json list" where
  "emit_rows wr enc [] out = (True, out)"
| "emit_rows wr enc (r # rows) out =
     (if wr (length out) then emit_rows wr enc rows (out @ [enc r]) else (False, out))"

text \<open>
  The loop from page \<open>n\<close> on: \<open>fetch\<close> reads the page after the cursor, \<open>key\<close> is the cursor of a row, and
  \<open>between n\<close> is what others do to the database between page \<open>n\<close> and the next. The length of the output
  is the count the code keeps.
\<close>

partial_function (option) export_loop :: "(nat \<Rightarrow> db \<Rightarrow> db) \<Rightarrow> (nat \<Rightarrow> bool) \<Rightarrow>
    (cursor \<Rightarrow> (world, export_error + 'row list) prog) \<Rightarrow> ('row \<Rightarrow> cursor) \<Rightarrow> ('row \<Rightarrow> json) \<Rightarrow>
    nat \<Rightarrow> cursor \<Rightarrow> json list \<Rightarrow> world \<Rightarrow> ((export_error option \<times> json list) \<times> world) option" where
  "export_loop between wr fetch key enc n cur out w =
     (case run (fetch cur) w of (r, w') \<Rightarrow> (case r of
        Inl e \<Rightarrow> Some ((Some e, out), w')
      | Inr rows \<Rightarrow>
          if rows = [] then Some ((None, out), w')
          else (case emit_rows wr enc rows out of (ok, out') \<Rightarrow>
            if \<not> ok then Some ((Some ExportWrite, out'), w')
            else if length rows < pageSize then Some ((None, out'), w')
            else export_loop between wr fetch key enc (Suc n) (key (last rows)) out'
                   (w'\<lparr>w_db := between n (w_db w')\<rparr>))))"

definition start_cursor :: cursor where
  "start_cursor = (- 62135596800 * second, 0)"

definition message_key :: "Message \<Rightarrow> cursor" where
  "message_key m = (msg_received_at m, msg_id m)"

definition fetch_messages :: "uuid \<Rightarrow> cursor \<Rightarrow> (world, export_error + Message list) prog" where
  "fetch_messages tenantID cur = ask (\<lambda>_. ExportQuery) (ExportMessagesPage tenantID pageSize (fst cur) (snd cur))"

definition Messages :: "(nat \<Rightarrow> db \<Rightarrow> db) \<Rightarrow> (nat \<Rightarrow> bool) \<Rightarrow> env \<Rightarrow> uuid \<Rightarrow> bool \<Rightarrow> world \<Rightarrow>
    ((export_error option \<times> json list) \<times> world) option" where
  "Messages between wr E tenantID includeRaw =
     export_loop between wr (fetch_messages tenantID) message_key (export_message_json E includeRaw) 0 start_cursor []"

definition contact_key :: "Contact \<times> ContactEndpoint list \<Rightarrow> cursor" where
  "contact_key r = (ct_created_at (fst r), ct_id (fst r))"

text \<open>A page of contacts and the endpoints of all of them, grouped by contact.\<close>

definition fetch_contacts :: "uuid \<Rightarrow> cursor \<Rightarrow> (world, export_error + (Contact \<times> ContactEndpoint list) list) prog" where
  "fetch_contacts tenantID cur =
     attempt (ask (\<lambda>_. ExportQuery) (ExportContactsPage tenantID pageSize (fst cur) (snd cur))) (\<lambda>rows.
     if rows = [] then ret (Inr [])
     else attempt (ask (\<lambda>_. ExportQuery) (ExportEndpointsForContacts (map ct_id rows))) (\<lambda>eps.
       ret (Inr (map (\<lambda>c. (c, filter (\<lambda>e. ce_contact e = ct_id c) eps)) rows))))"

definition Contacts_export :: "(nat \<Rightarrow> db \<Rightarrow> db) \<Rightarrow> (nat \<Rightarrow> bool) \<Rightarrow> env \<Rightarrow> uuid \<Rightarrow> world \<Rightarrow>
    ((export_error option \<times> json list) \<times> world) option" where
  "Contacts_export between wr E tenantID =
     export_loop between wr (fetch_contacts tenantID) contact_key (export_contact_json E) 0 start_cursor []"

section \<open>The handler\<close>

text \<open>
  The status is sent before the first row; a failure appends one line that says so, if it can be
  written.
\<close>

definition export_error_line :: "nat \<Rightarrow> json" where
  "export_error_line n = JObj [(str ''export_error'',
     JStr (str ''export failed after '' @ nat_digits n @ str '' records; the file is incomplete''))]"

definition stream_answer :: "(nat \<Rightarrow> bool) \<Rightarrow> export_error option \<times> json list \<Rightarrow> nat \<times> json list" where
  "stream_answer wr r = (case r of (None, out) \<Rightarrow> (200, out)
     | (Some _, out) \<Rightarrow> (200, if wr (length out) then out @ [export_error_line (length out)] else out))"

definition export_handler :: "(nat \<Rightarrow> bool) \<Rightarrow> env \<Rightarrow> api_request \<Rightarrow>
    (uuid \<Rightarrow> world \<Rightarrow> ((export_error option \<times> json list) \<times> world) option) \<Rightarrow> world \<Rightarrow> ((nat \<times> json list) \<times> world) option" where
  "export_handler wr E rq export w = (case e_parse_uuid E (ar_tenant rq) of
     None \<Rightarrow> Some ((400, [error_json ''missing_or_invalid_tenant'']), w)
   | Some tenant \<Rightarrow> map_option (\<lambda>(r, w'). (stream_answer wr r, w')) (export tenant w))"

definition messages_export_handler :: "(nat \<Rightarrow> db \<Rightarrow> db) \<Rightarrow> (nat \<Rightarrow> bool) \<Rightarrow> env \<Rightarrow> gostring \<Rightarrow> api_request \<Rightarrow>
    world \<Rightarrow> ((nat \<times> json list) \<times> world) option" where
  "messages_export_handler between wr E include_raw rq =
     export_handler wr E rq (\<lambda>tenant. Messages between wr E tenant (include_raw = str ''true''))"

definition contacts_export_handler :: "(nat \<Rightarrow> db \<Rightarrow> db) \<Rightarrow> (nat \<Rightarrow> bool) \<Rightarrow> env \<Rightarrow> api_request \<Rightarrow>
    world \<Rightarrow> ((nat \<times> json list) \<times> world) option" where
  "contacts_export_handler between wr E rq = export_handler wr E rq (Contacts_export between wr E)"

section \<open>An export only reads\<close>

lemma export_loop_reads:
  assumes "export_loop between wr fetch key enc n cur out w = Some (x, w')"
    and "\<And>n d. between n d = d" and "\<And>cur w r w'. run (fetch cur) w = (r, w') \<Longrightarrow> w_db w' = w_db w"
  shows "w_db w' = w_db w"
proof -
  let ?P = "\<lambda>between (wr :: nat \<Rightarrow> bool) fetch (key :: 'a \<Rightarrow> cursor) (enc :: 'a \<Rightarrow> json) (n :: nat) (cur :: cursor) (out :: json list) w res.
    (\<forall>n d. between n d = d) \<longrightarrow> (\<forall>cur w r w'. run (fetch cur) w = (r, w') \<longrightarrow> w_db w' = w_db w) \<longrightarrow>
    w_db (snd res) = w_db (w :: world)"
  have "?P between wr fetch key enc n cur out w (x, w')"
  proof (rule export_loop.raw_induct[where P = ?P, OF _ assms(1)])
    fix loop and between :: "nat \<Rightarrow> db \<Rightarrow> db" and wr and fetch :: "cursor \<Rightarrow> (world, export_error + 'a list) prog" and key and enc
      and n :: nat and cur and out and w and res
    assume IH: "\<And>between wr fetch key enc n cur out w res.
        loop between wr fetch key enc n cur out w = Some res \<Longrightarrow> ?P between wr fetch key enc n cur out w res"
      and eq: "(case run (fetch cur) w of (r, w') \<Rightarrow> (case r of
        Inl e \<Rightarrow> Some ((Some e, out), w')
      | Inr rows \<Rightarrow>
          if rows = [] then Some ((None, out), w')
          else (case emit_rows wr enc rows out of (ok, out') \<Rightarrow>
            if \<not> ok then Some ((Some ExportWrite, out'), w')
            else if length rows < pageSize then Some ((None, out'), w')
            else loop between wr fetch key enc (Suc n) (key (last rows)) out' (w'\<lparr>w_db := between n (w_db w')\<rparr>)))) = Some res"
    show "?P between wr fetch key enc n cur out w res"
    proof (intro impI)
      assume b: "\<forall>n d. between n d = d" and f: "\<forall>cur w r w'. run (fetch cur) w = (r, w') \<longrightarrow> w_db w' = w_db w"
      obtain r w1 where page: "run (fetch cur) w = (r, w1)" by fastforce
      then have "w_db w1 = w_db w" using f by blast
      then show "w_db (snd res) = w_db w"
        using eq b f by (auto simp: page split: sum.splits prod.splits if_splits dest!: IH)
    qed
  qed
  then show ?thesis using assms(2,3) by simp
qed

lemma fetch_messages_reads: "run (fetch_messages t cur) w = (r, w') \<Longrightarrow> w_db w' = w_db w"
  using ask_read[of _ "ExportMessagesPage t pageSize (fst cur) (snd cur)" w r w']
  by (simp add: fetch_messages_def ExportMessagesPage_def quiet_def)

lemma fetch_contacts_reads: "run (fetch_contacts t cur) w = (r, w') \<Longrightarrow> w_db w' = w_db w"
  unfolding fetch_contacts_def
  by (elim attempt_cases) (auto split: if_splits elim!: attempt_cases dest!: ask_read
      simp: ExportContactsPage_def ExportEndpointsForContacts_def quiet_def)

lemma export_handlers_read:
  "messages_export_handler (\<lambda>_ d. d) wr E raw rq w = Some (x, w') \<Longrightarrow> w_db w' = w_db w"
  "contacts_export_handler (\<lambda>_ d. d) wr E rq w = Some (x, w') \<Longrightarrow> w_db w' = w_db w"
  unfolding messages_export_handler_def contacts_export_handler_def export_handler_def Messages_def Contacts_export_def
  by (auto split: option.splits dest!: export_loop_reads intro: fetch_messages_reads fetch_contacts_reads)

section \<open>The keyset pager\<close>

text \<open>
  What a page fetch promises on a database nobody changes: the rows of a table beyond the cursor in the
  order of their keys, as many as a page holds; and keys are unique.
\<close>

locale pager =
  fixes fetch :: "cursor \<Rightarrow> (world, export_error + 'row list) prog"
    and key :: "'row \<Rightarrow> cursor"
    and table :: "db \<Rightarrow> 'row list"
    and mine :: "'row \<Rightarrow> bool"
  assumes fetch_page: "w_faults w = [] \<Longrightarrow>
      run (fetch cur) w = (Inr (take pageSize (sort_key key (filter (\<lambda>r. cur < key r) (table (w_db w))))), w)"
    and fetch_rows: "run (fetch cur) w = (Inr rows, w') \<Longrightarrow> w_db w' = w_db w \<and>
      rows = take pageSize (sort_key key (filter (\<lambda>r. cur < key r) (table (w_db w))))"
    and keys_unique: "schema_ok d \<Longrightarrow> distinct (map key (table d))"
    and table_mine: "r \<in> set (table d) \<Longrightarrow> mine r"
begin

definition beyond :: "db \<Rightarrow> cursor \<Rightarrow> 'row list" where
  "beyond d cur = sort_key key (filter (\<lambda>r. cur < key r) (table d))"

lemma beyond_set: "set (beyond d cur) = {r \<in> set (table d). cur < key r}"
  by (auto simp: beyond_def)

text \<open>The rows beyond the last row of a page are the rest of the rows beyond its cursor.\<close>

lemma beyond_page:
  assumes "schema_ok d" and "n < length (beyond d cur)"
  shows "beyond d (key (beyond d cur ! n)) = drop (Suc n) (beyond d cur)"
proof -
  let ?b = "beyond d cur" let ?k = "key (?b ! n)"
  have dist: "distinct (map key ?b)"
    using keys_unique[OF assms(1)] by (simp add: beyond_def distinct_map inj_on_def)
  have sorted: "sorted (map key ?b)" by (simp add: beyond_def)
  have strict: "i < j \<Longrightarrow> j < length ?b \<Longrightarrow> key (?b ! i) < key (?b ! j)" for i j
    using sorted_wrt_nth_less[of "(<)" "map key ?b" i j] sorted dist by (simp add: strict_sorted_iff)
  have split: "filter (\<lambda>r. ?k < key r) ?b = drop (Suc n) ?b"
  proof -
    have "key r \<le> ?k" if "r \<in> set (take (Suc n) ?b)" for r
    proof -
      obtain i where "i \<le> n" "r = ?b ! i" using \<open>r \<in> _\<close> by (auto simp: in_set_conv_nth less_Suc_eq_le)
      then show ?thesis using strict[of i n] assms(2) by (cases "i = n") auto
    qed
    then have low: "filter (\<lambda>r. ?k < key r) (take (Suc n) ?b) = []" by (force simp: filter_empty_conv)
    have "?k < key r" if "r \<in> set (drop (Suc n) ?b)" for r
    proof -
      obtain i where "i < length ?b - Suc n" "r = ?b ! (Suc n + i)" using \<open>r \<in> _\<close> by (auto simp: in_set_conv_nth)
      then show ?thesis using strict[of n "Suc n + i"] by simp
    qed
    then have "filter (\<lambda>r. ?k < key r) (drop (Suc n) ?b) = drop (Suc n) ?b" by (simp add: filter_id_conv)
    with low have "filter (\<lambda>r. ?k < key r) (take (Suc n) ?b @ drop (Suc n) ?b) = drop (Suc n) ?b" by (simp only: filter_append append_Nil)
    then show ?thesis by simp
  qed
  have "cur < ?k" using assms(2) nth_mem[OF assms(2)] by (simp add: beyond_set)
  then have "filter (\<lambda>r. ?k < key r) (table d) = filter (\<lambda>r. ?k < key r) (filter (\<lambda>r. cur < key r) (table d))"
    by (auto intro: filter_cong)
  then have "beyond d ?k = filter (\<lambda>r. ?k < key r) ?b"
    by (simp add: beyond_def filter_sort)
  with split show ?thesis by simp
qed

lemma emit_all: "(\<And>n. wr n) \<Longrightarrow> emit_rows wr enc rows out = (True, out @ map enc rows)"
  by (induction rows arbitrary: out) auto

lemma loop_complete:
  assumes "schema_ok (w_db w)" and "w_faults w = []" and "\<And>n. wr n"
  shows "export_loop (\<lambda>_ d. d) wr fetch key enc n cur out w =
    Some ((None, out @ map enc (beyond (w_db w) cur)), w)"
proof (induction "length (beyond (w_db w) cur)" arbitrary: n cur out rule: less_induct)
  case less
  let ?b = "beyond (w_db w) cur"
  have page: "run (fetch cur) w = (Inr (take pageSize ?b), w)"
    using fetch_page[OF assms(2)] by (simp add: beyond_def)
  show ?case
  proof (cases "length ?b < pageSize")
    case True
    then show ?thesis
      by (subst export_loop.simps) (auto simp: page emit_all[OF assms(3)])
  next
    case False
    then have l: "length ?b > pageSize - 1" "pageSize \<noteq> 0" by (auto simp: pageSize_def)
    then have last: "last (take pageSize ?b) = ?b ! (pageSize - 1)"
      using False by (subst last_conv_nth) (auto simp: min_def)
    have rest: "beyond (w_db w) (key (last (take pageSize ?b))) = drop pageSize ?b"
      unfolding last using beyond_page[OF assms(1) l(1)] l(2) by simp
    have "export_loop (\<lambda>_ d. d) wr fetch key enc (Suc n) (key (last (take pageSize ?b))) (out @ map enc (take pageSize ?b)) w =
        Some ((None, (out @ map enc (take pageSize ?b)) @ map enc (drop pageSize ?b)), w)"
      using less[of "key (last (take pageSize ?b))"] l False unfolding rest by simp
    moreover have "map enc (take pageSize ?b) @ map enc (drop pageSize ?b) = map enc ?b"
      by (simp flip: map_append)
    ultimately show ?thesis
      using False l by (subst export_loop.simps) (auto simp: page emit_all[OF assms(3)])
  qed
qed

lemma emit_prefix: "\<exists>k. emit_rows wr enc rows out = (k = length rows, out @ map enc (take k rows)) \<and> k \<le> length rows"
proof (induction rows arbitrary: out)
  case Nil
  show ?case by simp
next
  case (Cons r rows)
  from Cons.IH[of "out @ [enc r]"] obtain k where
    "emit_rows wr enc rows (out @ [enc r]) = (k = length rows, (out @ [enc r]) @ map enc (take k rows))" "k \<le> length rows" by blast
  then show ?case by (cases "wr (length out)") (auto intro!: exI[of _ "if wr (length out) then Suc k else 0"])
qed

lemma fetch_increasing:
  assumes "run (fetch cur) w = (Inr rows, w1)" and "schema_ok (w_db w)"
  shows "w_db w1 = w_db w" and "sorted_wrt (<) (map key rows)" and "\<forall>r\<in>set rows. cur < key r \<and> mine r"
proof -
  let ?b = "sort_key key (filter (\<lambda>r. cur < key r) (table (w_db w)))"
  have rows: "rows = take pageSize ?b" and "w_db w1 = w_db w" using fetch_rows[OF assms(1)] by auto
  then show "w_db w1 = w_db w" by simp
  have "distinct (map key ?b)" using keys_unique[OF assms(2)] by (simp add: distinct_map inj_on_def)
  then have "sorted_wrt (<) (map key ?b)" by (simp add: strict_sorted_iff)
  then show "sorted_wrt (<) (map key rows)" by (simp add: rows take_map sorted_wrt_take flip: take_map)
  show "\<forall>r\<in>set rows. cur < key r \<and> mine r" by (auto simp: rows dest!: in_set_takeD intro: table_mine)
qed

lemma keys_below_last:
  assumes "sorted_wrt (<) (map key rows)" and "r \<in> set rows"
  shows "key r \<le> key (last rows)"
proof -
  have "sorted (map key rows)" using assms(1) by (simp add: strict_sorted_iff)
  moreover obtain i where "i < length rows" "r = rows ! i" using assms(2) by (auto simp: in_set_conv_nth)
  moreover have "rows \<noteq> []" using assms(2) by auto
  ultimately show ?thesis using sorted_nth_mono[of "map key rows" i "length rows - 1"]
    by (simp add: last_conv_nth)
qed

lemma increasing_append:
  assumes "sorted_wrt (<) (map key rows)" and "\<forall>r\<in>set rows. cur < key r \<and> mine r" and "rows \<noteq> []"
    and "sorted_wrt (<) (map key rs)" and "\<forall>r\<in>set rs. key (last rows) < key r \<and> mine r"
  shows "sorted_wrt (<) (map key (rows @ rs)) \<and> (\<forall>r\<in>set (rows @ rs). cur < key r \<and> mine r)"
proof -
  have "key r < key r'" if "r \<in> set rows" "r' \<in> set rs" for r r'
    using keys_below_last[OF assms(1) that(1)] assms(5) that(2) by force
  moreover have last: "cur < key (last rows)" using assms(2,3) by simp
  have "cur < key r" if "r \<in> set rs" for r
    using less_trans[OF last] assms(5) that by blast
  ultimately show ?thesis using assms by (auto simp: sorted_wrt_append)
qed

text \<open>Whatever happens between the pages, the keys of the rows written go up.\<close>

lemma loop_increasing:
  assumes "export_loop between wr fetch key enc n cur out w = Some ((e, out'), w')"
    and "schema_ok (w_db w)" and "\<And>n d. schema_ok d \<Longrightarrow> schema_ok (between n d)"
  shows "\<exists>rs. out' = out @ map enc rs \<and> sorted_wrt (<) (map key rs) \<and> (\<forall>r\<in>set rs. cur < key r \<and> mine r)"
proof -
  let ?P = "\<lambda>(between :: nat \<Rightarrow> db \<Rightarrow> db) wr fetch' key' enc (n :: nat) cur out w res.
    fetch' = fetch \<longrightarrow> key' = key \<longrightarrow> schema_ok (w_db w) \<longrightarrow> (\<forall>n d. schema_ok d \<longrightarrow> schema_ok (between n d)) \<longrightarrow>
    (\<exists>rs. snd (fst res) = out @ map enc rs \<and> sorted_wrt (<) (map key rs) \<and> (\<forall>r\<in>set rs. cur < key r \<and> mine r))"
  have "?P between wr fetch key enc n cur out w ((e, out'), w')"
  proof (rule export_loop.raw_induct[where P = ?P, OF _ assms(1)])
    fix loop and between :: "nat \<Rightarrow> db \<Rightarrow> db" and wr and fetch' and key' and enc and n :: nat and cur and out and w and res
    assume IH: "\<And>between wr fetch' key' enc n cur out w res.
        loop between wr fetch' key' enc n cur out w = Some res \<Longrightarrow> ?P between wr fetch' key' enc n cur out w res"
      and eq: "(case run (fetch' cur) w of (r, w') \<Rightarrow> (case r of
        Inl e \<Rightarrow> Some ((Some e, out), w')
      | Inr rows \<Rightarrow>
          if rows = [] then Some ((None, out), w')
          else (case emit_rows wr enc rows out of (ok, out') \<Rightarrow>
            if \<not> ok then Some ((Some ExportWrite, out'), w')
            else if length rows < pageSize then Some ((None, out'), w')
            else loop between wr fetch' key' enc (Suc n) (key' (last rows)) out' (w'\<lparr>w_db := between n (w_db w')\<rparr>)))) = Some res"
    show "?P between wr fetch' key' enc n cur out w res"
    proof (intro impI)
      assume [simp]: "fetch' = fetch" "key' = key" and ok: "schema_ok (w_db w)"
        and keep: "\<forall>n d. schema_ok d \<longrightarrow> schema_ok (between n d)"
      obtain r w1 where page: "run (fetch cur) w = (r, w1)" by fastforce
      show "\<exists>rs. snd (fst res) = out @ map enc rs \<and> sorted_wrt (<) (map key rs) \<and> (\<forall>r\<in>set rs. cur < key r \<and> mine r)"
      proof (cases r)
        case (Inl e)
        then show ?thesis using eq page by (auto intro: exI[of _ "[]"])
      next
        case (Inr rows)
        note f = fetch_increasing[OF page[unfolded Inr] ok]
        obtain k where k: "emit_rows wr enc rows out = (k = length rows, out @ map enc (take k rows))" "k \<le> length rows"
          using emit_prefix by blast
        have first: "sorted_wrt (<) (map key (take k rows)) \<and> (\<forall>r\<in>set (take k rows). cur < key r \<and> mine r)"
          using f(2,3) by (auto simp: sorted_wrt_take simp flip: take_map dest: in_set_takeD)
        show ?thesis
        proof (cases "rows = [] \<or> k \<noteq> length rows \<or> length rows < pageSize")
          case True
          then have "snd (fst res) = out @ map enc (take k rows)"
            using eq by (auto simp: page Inr k(1) split: if_splits)
          with first show ?thesis by blast
        next
          case False
          then have step: "loop between wr fetch key enc (Suc n) (key (last rows)) (out @ map enc rows)
              (w1\<lparr>w_db := between n (w_db w1)\<rparr>) = Some res" and ne: "rows \<noteq> []"
            using eq by (auto simp: page Inr k(1))
          obtain rs where rs: "snd (fst res) = (out @ map enc rows) @ map enc rs" "sorted_wrt (<) (map key rs)"
              "\<forall>r\<in>set rs. key (last rows) < key r \<and> mine r"
            using IH[OF step] ok keep f(1) by auto
          then show ?thesis using increasing_append[OF f(2,3) ne rs(2,3)]
            by (intro exI[of _ "rows @ rs"]) simp
        qed
      qed
    qed
  qed
  then show ?thesis using assms(2,3) by auto
qed

end

section \<open>The two exports\<close>

definition message_table :: "uuid \<Rightarrow> db \<Rightarrow> Message list" where
  "message_table t d = filter (\<lambda>m. msg_tenant m = t) (messages d)"

definition endpoints_of :: "db \<Rightarrow> Contact \<Rightarrow> ContactEndpoint list" where
  "endpoints_of d c = sort_desc ce_priority (filter (\<lambda>e. ce_contact e = ct_id c) (contact_endpoints d))"

definition contact_table :: "uuid \<Rightarrow> db \<Rightarrow> (Contact \<times> ContactEndpoint list) list" where
  "contact_table t d = map (\<lambda>c. (c, endpoints_of d c)) (filter (\<lambda>c. ct_tenant c = t) (contacts d))"

lemma sort_key_map: "sort_key f (map g xs) = map g (sort_key (\<lambda>x. f (g x)) xs)"
proof (induction xs)
  case (Cons x xs)
  have "insort_key f (g x) (map g ys) = map g (insort_key (\<lambda>x. f (g x)) x ys)" for ys
    by (induction ys) auto
  with Cons show ?case by simp
qed simp

lemma filter_sort_desc: "filter P (sort_desc k xs) = sort_desc k (filter P xs)"
  by (simp add: sort_desc_def rev_filter flip: filter_sort)

lemma fetch_messages_page:
  "fst (ExportMessagesPage t pageSize (fst cur) (snd cur) d) =
     Inr (take pageSize (sort_key message_key (filter (\<lambda>m. cur < message_key m) (message_table t d))))"
  by (simp add: ExportMessagesPage_def message_table_def message_key_def[abs_def] conj_commute)

interpretation messages_pager: pager "fetch_messages t" message_key "message_table t" "\<lambda>m. msg_tenant m = t" for t
proof
  fix w :: world and cur d rows w' r
  show "run (fetch_messages t cur) w = (Inr (take pageSize (sort_key message_key
      (filter (\<lambda>r. cur < message_key r) (message_table t (w_db w))))), w)" if "w_faults w = []"
    using that fetch_messages_page by (simp add: fetch_messages_def run_ask_clean) (simp add: ExportMessagesPage_def)
  show "w_db w' = w_db w \<and> rows = take pageSize (sort_key message_key
      (filter (\<lambda>r. cur < message_key r) (message_table t (w_db w))))"
    if "run (fetch_messages t cur) w = (Inr rows, w')"
  proof -
    from ask_Inr(1)[OF that[unfolded fetch_messages_def]]
    have "fst (ExportMessagesPage t pageSize (fst cur) (snd cur) (w_db w)) = Inr rows" and "w_db w' = w_db w"
      by (auto simp: ExportMessagesPage_def)
    then show ?thesis by (simp add: fetch_messages_page)
  qed
  show "distinct (map message_key (message_table t d))" if "schema_ok d"
  proof -
    have "distinct (map msg_id (message_table t d))"
      using schema_okD(7)[OF that] by (simp add: message_table_def messages_ok_def message_ids_def distinct_map_filter)
    then show ?thesis by (auto simp: distinct_map message_key_def inj_on_def)
  qed
  show "r \<in> set (message_table t d) \<Longrightarrow> msg_tenant r = t" by (simp add: message_table_def)
qed

lemma fetch_contacts_rows:
  assumes "fst (ExportContactsPage t pageSize (fst cur) (snd cur) d) = Inr rows"
    and "fst (ExportEndpointsForContacts (map ct_id rows) d) = Inr eps"
  shows "map (\<lambda>c. (c, filter (\<lambda>e. ce_contact e = ct_id c) eps)) rows =
     take pageSize (sort_key contact_key (filter (\<lambda>r. cur < contact_key r) (contact_table t d)))"
proof -
  have rows: "rows = take pageSize (sort_key (\<lambda>c. (ct_created_at c, ct_id c))
      (filter (\<lambda>c. cur < (ct_created_at c, ct_id c)) (filter (\<lambda>c. ct_tenant c = t) (contacts d))))"
    using assms(1) by (simp add: ExportContactsPage_def conj_commute)
  have "filter (\<lambda>e. ce_contact e = ct_id c) eps = endpoints_of d c" if "c \<in> set rows" for c
  proof -
    have "filter (\<lambda>e. ce_contact e = ct_id c) eps = filter (\<lambda>e. ce_contact e = ct_id c)
        (sort_desc ce_priority (filter (\<lambda>e. ce_contact e \<in> ct_id ` set rows) (contact_endpoints d)))"
      using assms(2) by (auto simp: ExportEndpointsForContacts_def sort_key_stable)
    also have "\<dots> = endpoints_of d c"
      using that by (auto simp: filter_sort_desc endpoints_of_def intro!: arg_cong[of _ _ "sort_desc ce_priority"] filter_cong)
    finally show ?thesis .
  qed
  then have "map (\<lambda>c. (c, filter (\<lambda>e. ce_contact e = ct_id c) eps)) rows = map (\<lambda>c. (c, endpoints_of d c)) rows" by simp
  then show ?thesis
    by (simp add: rows contact_table_def contact_key_def filter_map o_def sort_key_map take_map)
qed

interpretation contacts_pager: pager "fetch_contacts t" contact_key "contact_table t" "\<lambda>r. ct_tenant (fst r) = t" for t
proof
  fix w :: world and cur d rows w' r
  note defs = ExportContactsPage_def ExportEndpointsForContacts_def
  show "run (fetch_contacts t cur) w = (Inr (take pageSize (sort_key contact_key
      (filter (\<lambda>r. cur < contact_key r) (contact_table t (w_db w))))), w)" if "w_faults w = []"
  proof -
    obtain page where page: "fst (ExportContactsPage t pageSize (fst cur) (snd cur) (w_db w)) = Inr page"
      by (simp add: ExportContactsPage_def)
    obtain eps where eps: "fst (ExportEndpointsForContacts (map ct_id page) (w_db w)) = Inr eps"
      by (simp add: ExportEndpointsForContacts_def)
    have "run (fetch_contacts t cur) w = (Inr (map (\<lambda>c. (c, filter (\<lambda>e. ce_contact e = ct_id c) eps)) page), w)"
      using page eps that by (simp add: fetch_contacts_def run_attempt run_ask_clean) (simp add: defs)
    then show ?thesis using fetch_contacts_rows[OF page eps] by simp
  qed
  show "w_db w' = w_db w \<and> rows = take pageSize (sort_key contact_key
      (filter (\<lambda>r. cur < contact_key r) (contact_table t (w_db w))))"
    if "run (fetch_contacts t cur) w = (Inr rows, w')"
  proof -
    from that[unfolded fetch_contacts_def] obtain page w1
      where one: "run (ask (\<lambda>_. ExportQuery) (ExportContactsPage t pageSize (fst cur) (snd cur))) w = (Inr page, w1)"
        and rest: "run (if page = [] then ret (Inr []) else attempt (ask (\<lambda>_. ExportQuery) (ExportEndpointsForContacts (map ct_id page)))
          (\<lambda>eps. ret (Inr (map (\<lambda>c. (c, filter (\<lambda>e. ce_contact e = ct_id c) eps)) page)))) w1 = (Inr rows, w')"
      by (elim attempt_Inr)
    have page: "fst (ExportContactsPage t pageSize (fst cur) (snd cur) (w_db w)) = Inr page" and w1: "w_db w1 = w_db w"
      using ask_Inr(1)[OF one] by (auto simp: defs)
    obtain eps where eps: "fst (ExportEndpointsForContacts (map ct_id page) (w_db w)) = Inr eps"
      by (simp add: ExportEndpointsForContacts_def)
    have "w_db w' = w_db w \<and> rows = map (\<lambda>c. (c, filter (\<lambda>e. ce_contact e = ct_id c) eps)) page"
    proof (cases "page = []")
      case True
      then show ?thesis using rest w1 by simp
    next
      case False
      then obtain eps' w2 where "run (ask (\<lambda>_. ExportQuery) (ExportEndpointsForContacts (map ct_id page))) w1 = (Inr eps', w2)"
          "rows = map (\<lambda>c. (c, filter (\<lambda>e. ce_contact e = ct_id c) eps')) page" "w2 = w'"
        using rest by (auto elim!: attempt_Inr)
      with ask_Inr(1)[OF this(1)] eps w1 show ?thesis by (auto simp: defs)
    qed
    then show ?thesis using fetch_contacts_rows[OF page eps] by simp
  qed
  show "distinct (map contact_key (contact_table t d))" if "schema_ok d"
  proof -
    have "distinct (map ct_id (filter (\<lambda>c. ct_tenant c = t) (contacts d)))"
      using schema_okD(5)[OF that] by (simp add: contacts_ok_def contact_ids_def distinct_map_filter)
    then show ?thesis by (auto simp: distinct_map contact_table_def contact_key_def inj_on_def)
  qed
  show "r \<in> set (contact_table t d) \<Longrightarrow> ct_tenant (fst r) = t" by (auto simp: contact_table_def)
qed

lemma pager_start:
  assumes "\<forall>r\<in>set rows. start_cursor < key r"
  shows "filter (\<lambda>r. start_cursor < key r) rows = rows"
  using assms by (simp add: filter_id_conv)

lemma messages_complete:
  assumes "schema_ok (w_db w)" and "w_faults w = []"
    and "\<forall>m\<in>set (messages (w_db w)). start_cursor < message_key m"
  shows "Messages (\<lambda>_ d. d) (\<lambda>_. True) E t raw w = Some ((None,
        map (export_message_json E raw) (sort_key message_key (filter (\<lambda>m. msg_tenant m = t) (messages (w_db w))))), w)"
proof -
  have "filter (\<lambda>m. start_cursor < message_key m) (message_table t (w_db w)) = message_table t (w_db w)"
    using assms(3) by (intro pager_start) (auto simp: message_table_def)
  then show ?thesis
    using messages_pager.loop_complete[OF assms(1,2), of "\<lambda>_. True"]
    by (simp add: Messages_def messages_pager.beyond_def message_table_def)
qed

lemma contacts_complete:
  assumes "schema_ok (w_db w)" and "w_faults w = []"
    and "\<forall>c\<in>set (contacts (w_db w)). start_cursor < (ct_created_at c, ct_id c)"
  shows "Contacts_export (\<lambda>_ d. d) (\<lambda>_. True) E t w = Some ((None,
        map (export_contact_json E) (sort_key contact_key (map (\<lambda>c. (c, sort_desc ce_priority
          (filter (\<lambda>e. ce_contact e = ct_id c) (contact_endpoints (w_db w))))) (filter (\<lambda>c. ct_tenant c = t) (contacts (w_db w)))))), w)"
proof -
  have "filter (\<lambda>r. start_cursor < contact_key r) (contact_table t (w_db w)) = contact_table t (w_db w)"
    using assms(3) by (intro pager_start) (auto simp: contact_table_def contact_key_def)
  then show ?thesis
    using contacts_pager.loop_complete[OF assms(1,2), of "\<lambda>_. True"]
    by (simp add: Contacts_export_def contacts_pager.beyond_def contact_table_def endpoints_of_def)
qed

text \<open>
  C6. An export of a database that nobody changes ends and is complete: every message (every contact, with its
  endpoints by falling priority) of the tenant, each once, in the order of its cursor key, and none of another
  tenant, however many pages it takes.
\<close>

theorem export_is_complete:
  assumes "schema_ok (w_db w)" and "w_faults w = []"
    and "\<forall>m\<in>set (messages (w_db w)). start_cursor < message_key m"
    and "\<forall>c\<in>set (contacts (w_db w)). start_cursor < (ct_created_at c, ct_id c)"
  shows "Messages (\<lambda>_ d. d) (\<lambda>_. True) E t raw w = Some ((None,
        map (export_message_json E raw) (sort_key message_key (filter (\<lambda>m. msg_tenant m = t) (messages (w_db w))))), w) \<and>
     Contacts_export (\<lambda>_ d. d) (\<lambda>_. True) E t w = Some ((None,
        map (export_contact_json E) (sort_key contact_key (map (\<lambda>c. (c, sort_desc ce_priority
          (filter (\<lambda>e. ce_contact e = ct_id c) (contact_endpoints (w_db w))))) (filter (\<lambda>c. ct_tenant c = t) (contacts (w_db w)))))), w)"
  using messages_complete[OF assms(1-3)] contacts_complete[OF assms(1,2,4)] by (rule conjI)

text \<open>
  C7. Whatever other requests do to the database between two pages, and whichever statements and writes fail: the lines
  of an export are rows of the tenant in strictly increasing order of their cursor keys, so none appears twice.
\<close>

theorem export_never_repeats:
  assumes "schema_ok (w_db w)" and "\<And>n d. schema_ok d \<Longrightarrow> schema_ok (between n d)"
  shows "(\<forall>e out w'. Messages between wr E t raw w = Some ((e, out), w') \<longrightarrow> (\<exists>rs. out = map (export_message_json E raw) rs \<and>
      sorted_wrt (<) (map message_key rs) \<and> (\<forall>m\<in>set rs. msg_tenant m = t))) \<and>
    (\<forall>e out w'. Contacts_export between wr E t w = Some ((e, out), w') \<longrightarrow> (\<exists>rs. out = map (export_contact_json E) rs \<and>
      sorted_wrt (<) (map contact_key rs) \<and> (\<forall>r\<in>set rs. ct_tenant (fst r) = t)))"
proof (intro conjI allI impI)
  fix e out w'
  show "\<exists>rs. out = map (export_message_json E raw) rs \<and> sorted_wrt (<) (map message_key rs) \<and> (\<forall>m\<in>set rs. msg_tenant m = t)"
    if "Messages between wr E t raw w = Some ((e, out), w')"
    using messages_pager.loop_increasing[OF that[unfolded Messages_def] assms] by auto
  show "\<exists>rs. out = map (export_contact_json E) rs \<and> sorted_wrt (<) (map contact_key rs) \<and> (\<forall>r\<in>set rs. ct_tenant (fst r) = t)"
    if "Contacts_export between wr E t w = Some ((e, out), w')"
    using contacts_pager.loop_increasing[OF that[unfolded Contacts_export_def] assms] by auto
qed

subsection \<open>At a concrete database\<close>

text \<open>Two messages of one tenant, the later one stored first.\<close>

definition export_world :: world where
  "export_world = fresh_world (empty_db\<lparr>tenants := [demo_tenant],
     messages := [plain_row 5 1 900, plain_row 6 1 400]\<rparr>) []"

lemma export_world_ok: "schema_ok (w_db export_world)" "w_faults export_world = []"
  by (simp_all add: export_world_def demo_db_simps)

theorem export_is_complete_witness:
  "Messages (\<lambda>_ d. d) (\<lambda>_. True) demo_env 1 False export_world =
     Some ((None, [export_message_json demo_env False (plain_row 6 1 400), export_message_json demo_env False (plain_row 5 1 900)]), export_world)"
  using export_is_complete[OF export_world_ok, of demo_env 1 False]
  by (simp add: export_world_def plain_row_def message_key_def start_cursor_def empty_db_def second_def)

lemma export_world_run:
  "Messages (\<lambda>_ _. empty_db) (\<lambda>n. n < 1) demo_env 1 False export_world =
     Some ((Some ExportWrite, [export_message_json demo_env False (plain_row 6 1 400)]), export_world)"
proof -
  have "run (fetch_messages 1 start_cursor) export_world = (Inr [plain_row 6 1 400, plain_row 5 1 900], export_world)"
    by (simp add: export_world_def fetch_messages_def run_ask_clean ExportMessagesPage_def plain_row_def pageSize_def
        start_cursor_def second_def empty_db_def)
  then show ?thesis by (simp add: Messages_def export_loop.simps)
qed

theorem export_never_repeats_witness:
  "case Messages (\<lambda>_ _. empty_db) (\<lambda>n. n < 1) demo_env 1 False export_world of None \<Rightarrow> False
   | Some ((_, out), _) \<Rightarrow> out \<noteq> [] \<and> (\<exists>rs. out = map (export_message_json demo_env False) rs \<and> sorted_wrt (<) (map message_key rs))"
proof -
  have "schema_ok empty_db" by (simp add: demo_db_simps)
  then have "\<exists>rs. [export_message_json demo_env False (plain_row 6 1 400)] = map (export_message_json demo_env False) rs \<and>
      sorted_wrt (<) (map message_key rs) \<and> (\<forall>m\<in>set rs. msg_tenant m = 1)"
    using export_never_repeats[OF export_world_ok(1), of "\<lambda>_ _. empty_db" "\<lambda>n. n < 1" demo_env 1 False] export_world_run by blast
  then show ?thesis unfolding export_world_run option.case prod.case by (intro conjI list.distinct(2)) (elim exE conjE, rule exI, erule (1) conjI)
qed

end
