(* ===== verification/Registry_Frame.thy ===== *)
theory Registry_Frame
  imports Service_Frame Channels Accounts Tenants Contacts Messagelog Diagnostics
begin

text \<open>
  The registry services (tenants, accounts, channels and their links, contacts) under a relation that their
  statements keep, and the invariant of the hub's database: the constraints of the migration, links that
  never cross tenants, and channels whose configuration ingest can read.
\<close>

section \<open>The invariant\<close>

text \<open>A channel with a name, a known reply policy, a readable parser configuration and ordered thresholds.\<close>

definition channel_wf :: "unicode \<Rightarrow> Channel \<Rightarrow> bool" where
  "channel_wf U c \<longleftrightarrow> TrimSpace (ch_name c) \<noteq> [] \<and> ch_reply_policy c \<in> validReplyPolicies \<and>
     (case parser_settings U (ch_parser_config c) of None \<Rightarrow> False | Some (_, mode) \<Rightarrow> mode = [] \<or> mode \<in> validModes) \<and>
     (case threshold_settings U (ch_thresholds c) of Some (Some high, Some medium) \<Rightarrow> 0 \<le> medium \<and> medium \<le> high \<and> high \<le> 1
      | _ \<Rightarrow> False)"

text \<open>The two ends of a link and the tenant they share.\<close>

definition linkable :: "uuid \<Rightarrow> uuid \<Rightarrow> db \<Rightarrow> bool" where
  "linkable chan acc d \<longleftrightarrow> (\<exists>c\<in>set (channels d). \<exists>a\<in>set (accounts d).
     ch_id c = chan \<and> acc_id a = acc \<and> ch_tenant c = acc_tenant a)"

definition hub_ok :: "unicode \<Rightarrow> db \<Rightarrow> bool" where
  "hub_ok U d \<longleftrightarrow> schema_ok d \<and> list_all (\<lambda>l. linkable (ca_channel l) (ca_account l) d) (channel_accounts d) \<and>
     list_all (channel_wf U) (channels d)"

text \<open>An update that gives only values the service accepts.\<close>

definition update_valid :: "unicode \<Rightarrow> UpdateChannelParams \<Rightarrow> bool" where
  "update_valid U p \<longleftrightarrow> (\<forall>c. channel_wf U c \<longrightarrow> channel_wf U (updated_channel p c))"

section \<open>The services\<close>

locale registry_frame = retention_frame +
  fixes U :: unicode
  assumes AddTenant: "R d (snd (CreateTenant tnt d))"
    and AddAccount: "R d (snd (CreateAccount act d))"
    and ChangeAccount: "R d (snd (UpdateAccount pa d))"
    and DropAccount: "R d (snd (DeleteAccount i t d))"
    and AddContact: "R d (snd (CreateContact ctc d))"
    and ChangeContact: "R d (snd (UpdateContact pc d))"
    and DropContact: "R d (snd (DeleteContact i t d))"
    and AddChannel: "channel_wf U ch \<Longrightarrow> R d (snd (CreateChannel ch d))"
    and ChangeChannel: "update_valid U pch \<Longrightarrow> R d (snd (UpdateChannel pch d))"
    and AddLink: "linkable (ca_channel l) (ca_account l) d \<Longrightarrow> R d (snd (LinkAccountToChannel l d))"
    and DropLink: "R d (snd (UnlinkAccountFromChannel chan acc d))"
begin

lemma registry_reads:
  "R d (snd (GetTenant i d))" "R d (snd (ListTenants d))" "R d (snd (GetAccountForTenant i t d))"
  "R d (snd (ListAccountsForTenant t d))" "R d (snd (ListAccountsWithRoutingForTenant t d))"
  "R d (snd (LookupAccount ty ident d))" "R d (snd (GetChannelForTenant i t d))" "R d (snd (ListChannelsForTenant t d))"
  "R d (snd (ListAccountLinksForChannel i d))" "R d (snd (GetContactByShortID t s d))"
  "R d (snd (GetContactForTenant i t d))" "R d (snd (ListContactsForTenant t d))"
  by (simp_all add: R_refl GetTenant_def ListTenants_def GetAccountForTenant_def ListAccountsForTenant_def
      ListAccountsWithRoutingForTenant_def LookupAccount_def GetChannelForTenant_def ListChannelsForTenant_def
      ListAccountLinksForChannel_def GetContactByShortID_def GetContactForTenant_def ListContactsForTenant_def)

lemma report_reads:
  "R d (snd (CountAccountsForTenant t d))" "R d (snd (CountChannelsForTenant t d))" "R d (snd (CountContactsForTenant t d))"
  "R d (snd (CountMessagesForTenant t d))" "R d (snd (ListChannelsWithoutWorkflow t d))" "R d (snd (ListUnroutableAccounts t d))"
  "R d (snd (ListRecentMessagesForTenant t n d))"
  by (simp_all add: R_refl CountAccountsForTenant_def CountChannelsForTenant_def CountContactsForTenant_def
      CountMessagesForTenant_def ListChannelsWithoutWorkflow_def ListUnroutableAccounts_def ListRecentMessagesForTenant_def)

lemmas registry_rules = rules registry_reads report_reads AddTenant AddAccount ChangeAccount DropAccount AddContact
  ChangeContact DropContact DropLink

lemma keeps_respond: "keeps p \<Longrightarrow> keeps (respond fail ok p)"
  unfolding respond_def by (intro rules)

lemma keeps_with_tenant: "(\<And>t. keeps (f t)) \<Longrightarrow> keeps (with_tenant E rq f)"
  unfolding with_tenant_def by (auto split: option.splits intro!: rules)

lemma keeps_with_id: "(\<And>i. keeps (f i)) \<Longrightarrow> keeps (with_id E field raw f)"
  unfolding with_id_def by (auto split: option.splits intro!: rules)

lemma keeps_with_body: "(\<And>x. keeps (f x)) \<Longrightarrow> keeps (with_body v f)"
  unfolding with_body_def by (auto split: option.splits intro!: rules)

lemmas handler_rules = keeps_respond keeps_with_tenant keeps_with_id keeps_with_body

lemma keeps_tenant_handlers:
  "keeps (create_tenant_handler E rq)" "keeps (get_tenant_handler E rq)" "keeps (list_tenants_handler E rq)"
  unfolding create_tenant_handler_def get_tenant_handler_def list_tenants_handler_def Create_tenant_def Get_tenant_def
    List_tenants_def Let_def
  by (auto split: prod.splits sum.splits db_error.splits intro!: handler_rules registry_rules)

lemma keeps_Encrypt: "keeps (Encrypt E plain)"
  by (rule keeps_same_db) (auto simp: Encrypt_def)

lemma keeps_insert_account: "R d (snd (insert_account inp i t enc d))"
  by (auto simp: insert_account_def R_refl AddAccount split: option.splits)

lemma keeps_account_handlers:
  "keeps (create_account_handler E rq)" "keeps (list_accounts_handler E rq)" "keeps (lookup_handler E ty ident)"
  "keeps (update_account_handler E rq)" "keeps (delete_account_handler E rq)"
  unfolding create_account_handler_def list_accounts_handler_def lookup_handler_def update_account_handler_def
    delete_account_handler_def Create_account_def ListWithRouting_def Lookup_def Update_account_def Delete_account_def Let_def
  by (auto split: option.splits intro!: handler_rules registry_rules keeps_Encrypt keeps_insert_account)

lemma keeps_Create_contact: "keeps (Create_contact E inp)"
  unfolding Create_contact_def
  by (auto split: sum.splits db_error.splits intro!: registry_rules)

lemma keeps_contact_handlers:
  "keeps (create_contact_handler E rq)" "keeps (list_contacts_handler E rq)" "keeps (update_contact_handler E rq)"
  "keeps (delete_contact_handler E rq)" "keeps (short_id_check_handler E s rq)"
  unfolding create_contact_handler_def list_contacts_handler_def update_contact_handler_def delete_contact_handler_def
    short_id_check_handler_def List_contacts_def Update_contact_def Delete_contact_def ShortIDCheck_def
  by (auto intro!: handler_rules registry_rules keeps_Create_contact)

lemma keeps_report_handlers: "keeps (diagnostics_handler E rq)" "keeps (list_messages_handler E limit rq)"
  unfolding diagnostics_handler_def Run_diagnostics_def list_messages_handler_def List_messages_def Let_def
  by (auto intro!: handler_rules registry_rules)

lemma validated_channel:
  assumes "TrimSpace (nc_Name inp) \<noteq> []" and "policy \<in> validReplyPolicies"
    and "validateParserConfig E cfg = None" and "validateThresholds E th = None"
  shows "channel_wf (e_uni E) (new_channel inp i t policy cfg th)"
  using assms
  by (auto simp: channel_wf_def new_channel_def validateParserConfig_def validateThresholds_def
      split: option.splits if_splits)

lemma keeps_Create_channel:
  assumes "U = e_uni E"
  shows "keeps (Create_channel E inp)"
  unfolding Create_channel_def Let_def
  by (auto split: option.splits intro!: rules keeps_ask AddChannel validated_channel simp: assms)

lemma validated_update:
  assumes "\<not> (case uc_Name p of None \<Rightarrow> False | Some n \<Rightarrow> TrimSpace n = [])"
    and "\<not> (case uc_ReplyPolicy p of None \<Rightarrow> False | Some q \<Rightarrow> q \<notin> validReplyPolicies)"
    and "check_given (validateParserConfig E) (uc_ParserConfig p) = None"
    and "check_given (validateThresholds E) (uc_ConfidenceThresholds p) = None"
  shows "update_valid (e_uni E) p"
proof -
  have "case parser_settings (e_uni E) (coalesce (uc_ParserConfig p) (ch_parser_config c)) of None \<Rightarrow> False
      | Some (_, mode) \<Rightarrow> mode = [] \<or> mode \<in> validModes" if "channel_wf (e_uni E) c" for c
    using that assms(3) by (cases "uc_ParserConfig p")
      (auto simp: channel_wf_def coalesce_def check_given_def validateParserConfig_def split: option.splits if_splits)
  moreover have "case threshold_settings (e_uni E) (coalesce (uc_ConfidenceThresholds p) (ch_thresholds c)) of
      Some (Some high, Some medium) \<Rightarrow> 0 \<le> medium \<and> medium \<le> high \<and> high \<le> 1 | _ \<Rightarrow> False" if "channel_wf (e_uni E) c" for c
    using that assms(4) by (cases "uc_ConfidenceThresholds p")
      (auto simp: channel_wf_def coalesce_def check_given_def validateThresholds_def split: option.splits if_splits)
  ultimately show ?thesis
    using assms(1,2) by (auto simp: update_valid_def channel_wf_def updated_channel_def coalesce_def split: option.splits)
qed

lemma keeps_Update_channel:
  assumes "U = e_uni E"
  shows "keeps (Update_channel E i t inp)"
proof -
  have "R d (snd (UpdateChannel p d))"
    if "\<not> (case uc_Name p of None \<Rightarrow> False | Some n \<Rightarrow> TrimSpace n = [])"
      "\<not> (case uc_ReplyPolicy p of None \<Rightarrow> False | Some q \<Rightarrow> q \<notin> validReplyPolicies)"
      "check_given (validateParserConfig E) (uc_ParserConfig p) = None"
      "check_given (validateThresholds E) (uc_ConfidenceThresholds p) = None" for p d
    using ChangeChannel[OF validated_update[OF that, folded assms]] .
  then show ?thesis
    unfolding Update_channel_def by (auto split: option.splits intro!: rules keeps_ask)
qed

text \<open>A link is made after both ends were found in the caller's tenant, so it is between linkable ends.\<close>

lemma Get_channel_found:
  assumes "run (Get_channel E i t) w = (Inr v, w1)"
  shows "w_db w1 = w_db w" and "\<exists>c\<in>set (channels (w_db w)). ch_id c = i \<and> ch_tenant c = t"
proof -
  from assms obtain row w2 where "run (ask channel_missing (GetChannelForTenant i t)) w = (Inr row, w2)" "w2 = w1"
    unfolding Get_channel_def by (elim attempt_Inr) auto
  from ask_Inr(1)[OF this(1)] this(2)
  show "w_db w1 = w_db w" "\<exists>c\<in>set (channels (w_db w)). ch_id c = i \<and> ch_tenant c = t"
    by (auto simp: GetChannelForTenant_def channel_in_def dest!: find_Some_in)
qed

lemma GetAccount_found:
  assumes "run (ask f (GetAccountForTenant i t)) w = (Inr a, w1)"
  shows "w_db w1 = w_db w" and "\<exists>a\<in>set (accounts (w_db w)). acc_id a = i \<and> acc_tenant a = t"
  using ask_Inr(1)[OF assms] by (auto simp: GetAccountForTenant_def account_in_def dest!: find_Some_in)

lemma keeps_checked:
  assumes "keeps p" and "\<And>x w w1 r w2. run p w = (Inr x, w1) \<Longrightarrow> run (f x) w1 = (r, w2) \<Longrightarrow> R (w_db w1) (w_db w2)"
  shows "keeps (attempt p f)"
proof (rule state_io_relI)
  fix r w w2
  assume "run (attempt p f) w = (r, w2)"
  then show "R (w_db w) (w_db w2)"
  proof (cases rule: attempt_cases)
    case (failed e)
    then show ?thesis using state_io_relD[OF assms(1)] by blast
  next
    case (went_on x w1)
    then show ?thesis using state_io_relD[OF assms(1)] assms(2) R_trans by blast
  qed
qed

lemma keeps_Link: "keeps (Link E inp)"
proof -
  let ?l = "\<lparr>ca_channel = li_ChannelID inp, ca_account = li_AccountID inp,
      ca_direction = li_Direction inp, ca_priority = li_Priority inp, ca_routing_filter = li_RoutingFilter inp\<rparr>"
  have last_step: "R (w_db w2) (w_db w3)"
    if chan: "run (Get_channel E (li_ChannelID inp) (li_TenantID inp)) w = (Inr c, w1)"
      and acc: "run (ask channel_missing (GetAccountForTenant (li_AccountID inp) (li_TenantID inp))) w1 = (Inr a, w2)"
      and run: "run (attempt (ask channel_failed (LinkAccountToChannel ?l)) (\<lambda>row. ret (Inr (linkToAPI row)))) w2 = (r, w3)"
    for c a r w w1 w2 w3
  proof -
    obtain x where "run (ask channel_failed (LinkAccountToChannel ?l)) w2 = (x, w3)"
      using run by (elim attempt_cases) auto
    moreover have "linkable (li_ChannelID inp) (li_AccountID inp) (w_db w2)"
      using Get_channel_found[OF chan] GetAccount_found[OF acc] unfolding linkable_def by metis
    ultimately show ?thesis
      using ask_outcome(4) AddLink[of ?l "w_db w2"] R_refl by fastforce
  qed
  have get: "keeps (Get_channel E i t)" for i t
    unfolding Get_channel_def by (intro registry_rules)
  have find: "keeps (ask channel_missing (GetAccountForTenant i t))" for i t
    by (intro keeps_ask registry_reads)
  show ?thesis
    unfolding Link_def
  proof (rule programs.frame_if)
    show "keeps (ret (Inl (ChannelInvalid ''invalid: direction must be inbound, outbound or both'')))"
      by (rule programs.frame_ret)
  next
    show "keeps (attempt (Get_channel E (li_ChannelID inp) (li_TenantID inp)) (\<lambda>_.
        attempt (ask channel_missing (GetAccountForTenant (li_AccountID inp) (li_TenantID inp))) (\<lambda>_.
        attempt (ask channel_failed (LinkAccountToChannel ?l)) (\<lambda>row. ret (Inr (linkToAPI row))))))"
    proof (rule keeps_checked[OF get])
      fix c w w1 r w2
      assume chan: "run (Get_channel E (li_ChannelID inp) (li_TenantID inp)) w = (Inr c, w1)"
        and rest: "run (attempt (ask channel_missing (GetAccountForTenant (li_AccountID inp) (li_TenantID inp))) (\<lambda>_.
          attempt (ask channel_failed (LinkAccountToChannel ?l)) (\<lambda>row. ret (Inr (linkToAPI row))))) w1 = (r, w2)"
      from rest show "R (w_db w1) (w_db w2)"
      proof (cases rule: attempt_cases)
        case (failed e)
        then show ?thesis using state_io_relD[OF find] by blast
      next
        case (went_on a w')
        then show ?thesis
          using state_io_relD[OF find went_on(1)] last_step[OF chan went_on] R_trans by blast
      qed
    qed
  qed
qed

lemma keeps_channel_handlers:
  assumes "U = e_uni E"
  shows "keeps (create_channel_handler E rq)" "keeps (update_channel_handler E rq)" "keeps (list_channels_handler E rq)"
    "keeps (get_channel_handler E rq)" "keeps (list_links_handler E rq)" "keeps (link_handler E rq)" "keeps (unlink_handler E acc rq)"
proof -
  show "keeps (create_channel_handler E rq)" "keeps (update_channel_handler E rq)"
    unfolding create_channel_handler_def update_channel_handler_def
    by (intro handler_rules keeps_Create_channel keeps_Update_channel assms)+
  show "keeps (list_channels_handler E rq)" "keeps (get_channel_handler E rq)" "keeps (list_links_handler E rq)"
    "keeps (unlink_handler E acc rq)"
    unfolding list_channels_handler_def get_channel_handler_def list_links_handler_def unlink_handler_def
      List_channels_def Get_channel_def ListLinks_def Unlink_def
    by (intro handler_rules registry_rules)+
  show "keeps (link_handler E rq)"
    unfolding link_handler_def by (auto split: option.splits intro!: handler_rules registry_rules keeps_Link)
qed

text \<open>The bulk import, when it returns.\<close>

lemma keeps_import_row: "import_row E t col n rd res w = (res', w') \<Longrightarrow> R (w_db w) (w_db w')"
  using state_io_relD[OF keeps_Create_contact]
  by (auto simp: import_row_def R_refl split: csv_read.splits prod.splits sum.splits)

lemma keeps_import_rows: "import_rows E t col csv n res w = Some (res', w') \<Longrightarrow> R (w_db w) (w_db w')"
proof -
  assume run: "import_rows E t col csv n res w = Some (res', w')"
  let ?P = "\<lambda>(E :: env) (t :: uuid) (col :: gostring \<rightharpoonup> nat) (csv :: csv_file) (n :: nat) (res :: BulkResult) w r. R (w_db w) (w_db (snd r))"
  have "?P E t col csv n res w (res', w')"
  proof (rule import_rows.raw_induct[where P = ?P, OF _ run])
    fix loop and E :: env and t :: uuid and col and csv :: csv_file and n :: nat and res :: BulkResult and w r
    assume IH: "\<And>E t col csv n res w r. loop E t col csv n res w = Some r \<Longrightarrow> R (w_db w) (w_db (snd r))"
      and eq: "(if csv (Suc n) = CsvEOF then Some (res\<lparr>br_Skipped := length (br_Errors res)\<rparr>, w)
        else case import_row E t col (Suc n) (csv (Suc n)) res w of (res', w') \<Rightarrow> loop E t col csv (Suc n) res' w') = Some r"
    show "R (w_db w) (w_db (snd r))"
    proof (cases "csv (Suc n) = CsvEOF")
      case True
      then show ?thesis using eq by (auto simp: R_refl)
    next
      case False
      obtain res1 w1 where row: "import_row E t col (Suc n) (csv (Suc n)) res w = (res1, w1)" by fastforce
      then have "R (w_db w1) (w_db (snd r))" using eq False by (auto intro: IH)
      then show ?thesis using keeps_import_row[OF row] R_trans by blast
    qed
  qed
  then show ?thesis by simp
qed

lemma keeps_bulk_import: "bulk_import_handler E show rq csv w = Some (a, w') \<Longrightarrow> R (w_db w) (w_db w')"
  by (auto simp: bulk_import_handler_def BulkImport_def Let_def R_refl split: option.splits csv_read.splits if_splits
      dest!: keeps_import_rows)

end

section \<open>The invariant is kept by every statement\<close>

text \<open>What the routing part of the invariant reads of a database.\<close>

definition same_routing :: "db \<Rightarrow> db \<Rightarrow> bool" where
  "same_routing d d' \<longleftrightarrow> accounts d' = accounts d \<and> channels d' = channels d \<and> channel_accounts d' = channel_accounts d"

lemma hub_ok_same_routing:
  assumes "same_routing d d'" and "schema_ok d \<Longrightarrow> schema_ok d'"
  shows "hub_ok U d \<longrightarrow> hub_ok U d'"
  using assms by (simp add: hub_ok_def same_routing_def linkable_def)

lemma commit_same_routing:
  assumes "same_routing d d'"
  shows "hub_ok U d \<longrightarrow> hub_ok U (snd (commit d d' r))"
  by (rule hub_ok_same_routing) (use assms in \<open>auto simp: commit_def same_routing_def\<close>)

lemma update_messages_ok: "hub_ok U d \<longrightarrow> hub_ok U (snd (update_messages P f d))"
  unfolding update_messages_def by (rule commit_same_routing) (simp add: same_routing_def)

lemma hub_ok_message_writes:
  "hub_ok U d \<longrightarrow> hub_ok U (snd (CreateInboundMessage g p d))" "hub_ok U d \<longrightarrow> hub_ok U (snd (CreateOutboundMessage q d))"
  "hub_ok U d \<longrightarrow> hub_ok U (snd (MarkMessageRecalled i d))" "hub_ok U d \<longrightarrow> hub_ok U (snd (MarkWorkflowFired i d))"
  using update_messages_ok
  by (auto simp: CreateInboundMessage_def CreateOutboundMessage_def MarkMessageRecalled_def MarkWorkflowFired_def
      same_routing_def split: option.splits prod.splits intro!: commit_same_routing[rule_format]) (metis snd_conv)+

lemma hub_ok_retention_writes:
  "hub_ok U d \<longrightarrow> hub_ok U (snd (ClearReplyLinksToPurgedMessages t time d))"
  "hub_ok U d \<longrightarrow> hub_ok U (snd (PurgeMessagesOlderThan t time d))"
  "hub_ok U d \<longrightarrow> hub_ok U (snd (RedactMessagesForEndpoint t ep d))"
  "hub_ok U d \<longrightarrow> hub_ok U (snd (RedactMessagesForContact t c d))"
  "hub_ok U d \<longrightarrow> hub_ok U (snd (DetachMessagesFromContact t c d))"
  "hub_ok U d \<longrightarrow> hub_ok U (snd (DeleteEndpointsForContact c d))"
  "hub_ok U d \<longrightarrow> hub_ok U (snd (DeleteContactRow c t d))"
  unfolding ClearReplyLinksToPurgedMessages_def PurgeMessagesOlderThan_def RedactMessagesForEndpoint_def
    RedactMessagesForContact_def DetachMessagesFromContact_def DeleteEndpointsForContact_def DeleteContactRow_def
    drop_contacts_def Let_def
  by (rule update_messages_ok commit_same_routing, (simp add: same_routing_def)?)+

lemma hub_ok_contact_writes:
  "hub_ok U d \<longrightarrow> hub_ok U (snd (CreateTenant t d))" "hub_ok U d \<longrightarrow> hub_ok U (snd (CreateContact c d))"
  "hub_ok U d \<longrightarrow> hub_ok U (snd (UpdateContact p d))" "hub_ok U d \<longrightarrow> hub_ok U (snd (DeleteContact i tt d))"
  by (auto simp: CreateTenant_def CreateContact_def UpdateContact_def DeleteContact_def drop_contacts_def Let_def
      same_routing_def split: option.splits intro!: commit_same_routing[rule_format])

text \<open>A statement on the routing tables: it takes effect only when the constraints hold afterwards.\<close>

lemma commit_hub_ok:
  assumes "hub_ok U d \<Longrightarrow> schema_ok d' \<Longrightarrow>
     list_all (\<lambda>l. linkable (ca_channel l) (ca_account l) d') (channel_accounts d') \<and> list_all (channel_wf U) (channels d')"
  shows "hub_ok U d \<longrightarrow> hub_ok U (snd (commit d d' r))"
  using assms by (auto simp: commit_def hub_ok_def)

lemma linkable_more:
  assumes "linkable c a d" and "set (channels d) \<subseteq> set (channels d')" and "set (accounts d) \<subseteq> set (accounts d')"
  shows "linkable c a d'"
  using assms by (auto simp: linkable_def)

lemma hub_ok_CreateAccount: "hub_ok U d \<longrightarrow> hub_ok U (snd (CreateAccount a d))"
  unfolding CreateAccount_def
  by (rule commit_hub_ok) (auto simp: hub_ok_def list_all_iff intro!: linkable_more[of _ _ d "d\<lparr>accounts := accounts d @ [a]\<rparr>"])

lemma hub_ok_CreateChannel: "channel_wf U c \<Longrightarrow> hub_ok U d \<longrightarrow> hub_ok U (snd (CreateChannel c d))"
  unfolding CreateChannel_def
  by (rule commit_hub_ok) (auto simp: hub_ok_def list_all_iff intro!: linkable_more[of _ _ d "d\<lparr>channels := channels d @ [c]\<rparr>"])

text \<open>Rows changed without their ids and tenants still link.\<close>

lemma linkable_changed:
  assumes "linkable c a d" and "map (\<lambda>x. (ch_id x, ch_tenant x)) (channels d') = map (\<lambda>x. (ch_id x, ch_tenant x)) (channels d)"
    and "map (\<lambda>x. (acc_id x, acc_tenant x)) (accounts d') = map (\<lambda>x. (acc_id x, acc_tenant x)) (accounts d)"
  shows "linkable c a d'"
proof -
  have "linkable c a e \<longleftrightarrow> (\<exists>t. (c, t) \<in> set (map (\<lambda>x. (ch_id x, ch_tenant x)) (channels e)) \<and>
      (a, t) \<in> set (map (\<lambda>x. (acc_id x, acc_tenant x)) (accounts e)))" for e
    by (force simp: linkable_def)
  then show ?thesis using assms by (simp only:)
qed

lemma hub_ok_changed:
  assumes "map (\<lambda>x. (ch_id x, ch_tenant x)) (channels d') = map (\<lambda>x. (ch_id x, ch_tenant x)) (channels d)"
    and "map (\<lambda>x. (acc_id x, acc_tenant x)) (accounts d') = map (\<lambda>x. (acc_id x, acc_tenant x)) (accounts d)"
    and "channel_accounts d' = channel_accounts d" and "list_all (channel_wf U) (channels d) \<Longrightarrow> list_all (channel_wf U) (channels d')"
  shows "hub_ok U d \<longrightarrow> hub_ok U (snd (commit d d' r))"
proof (rule commit_hub_ok)
  assume "hub_ok U d"
  then show "list_all (\<lambda>l. linkable (ca_channel l) (ca_account l) d') (channel_accounts d') \<and> list_all (channel_wf U) (channels d')"
    using assms(3,4) linkable_changed[OF _ assms(1,2)] by (simp add: hub_ok_def list_all_iff)
qed

lemma map_map_if: "(\<And>x. g (f x) = g x) \<Longrightarrow> map g (map_if P f xs) = map g xs"
  by (simp add: map_if_def)

lemma hub_ok_UpdateAccount: "hub_ok U d \<longrightarrow> hub_ok U (snd (UpdateAccount p d))"
  unfolding UpdateAccount_def
  by (auto split: option.split simp: updated_account_def map_map_if intro!: hub_ok_changed[rule_format])

lemma hub_ok_UpdateChannel: "update_valid U p \<Longrightarrow> hub_ok U d \<longrightarrow> hub_ok U (snd (UpdateChannel p d))"
proof (cases "List.find (channel_in (uc_ID p) (uc_TenantID p)) (channels d)")
  case None
  then show ?thesis by (simp add: UpdateChannel_def)
next
  case (Some c)
  assume "update_valid U p"
  then have "list_all (channel_wf U) (channels d) \<Longrightarrow>
      list_all (channel_wf U) (map_if (channel_in (uc_ID p) (uc_TenantID p)) (updated_channel p) (channels d))"
    by (auto simp: list_all_iff map_if_def update_valid_def)
  then show ?thesis
    unfolding UpdateChannel_def Some option.case
    by (intro hub_ok_changed) (simp_all add: updated_channel_def map_map_if)
qed

text \<open>An account can only be deleted when no link names it.\<close>

lemma hub_ok_DeleteAccount: "hub_ok U d \<longrightarrow> hub_ok U (snd (DeleteAccount i t d))"
  unfolding DeleteAccount_def
proof (rule commit_hub_ok)
  let ?d' = "d\<lparr>accounts := filter (\<lambda>a. \<not> account_in i t a) (accounts d)\<rparr>"
  assume ok: "hub_ok U d" and ok': "schema_ok ?d'"
  have "linkable (ca_channel l) (ca_account l) ?d'" if l: "l \<in> set (channel_accounts d)" for l
  proof -
    obtain c a where ca: "c \<in> set (channels d)" "a \<in> set (accounts d)" "ch_id c = ca_channel l" "acc_id a = ca_account l" "ch_tenant c = acc_tenant a"
      using ok l by (auto simp: hub_ok_def list_all_iff linkable_def)
    have "ca_account l \<in> acc_id ` set (accounts ?d')"
      using schema_okD(4)[OF ok'] l by (auto simp: channel_accounts_ok_def account_ids_def)
    then obtain a' where a': "a' \<in> set (accounts ?d')" "acc_id a' = ca_account l" by auto
    moreover have "a' = a"
      using schema_okD(2)[of d] ok ca(2,4) a' by (auto simp: hub_ok_def accounts_ok_def account_ids_def distinct_map inj_on_def)
    ultimately show ?thesis using ca by (auto simp: linkable_def)
  qed
  then show "list_all (\<lambda>l. linkable (ca_channel l) (ca_account l) ?d') (channel_accounts ?d') \<and> list_all (channel_wf U) (channels ?d')"
    using ok by (simp add: hub_ok_def list_all_iff)
qed

lemma hub_ok_links:
  "linkable (ca_channel l) (ca_account l) d \<Longrightarrow> hub_ok U d \<longrightarrow> hub_ok U (snd (LinkAccountToChannel l d))"
  "hub_ok U d \<longrightarrow> hub_ok U (snd (UnlinkAccountFromChannel chan acc d))"
  unfolding LinkAccountToChannel_def UnlinkAccountFromChannel_def
  by (auto intro!: commit_hub_ok[rule_format])
    (auto simp: hub_ok_def list_all_iff map_if_def linkable_def)

interpretation hubinv: registry_frame "\<lambda>d d'. hub_ok U d \<longrightarrow> hub_ok U d'" U for U
  by (unfold_locales; (rule hub_ok_message_writes hub_ok_retention_writes hub_ok_contact_writes hub_ok_CreateAccount
      hub_ok_UpdateAccount hub_ok_DeleteAccount hub_ok_links(2))?)
    (auto intro: hub_ok_CreateChannel[rule_format] hub_ok_UpdateChannel[rule_format] hub_ok_links(1)[rule_format])

end
