(* ===== verification/Server.thy ===== *)
theory Server
  imports Registry_Frame Export
begin

text \<open>
  The HTTP server of the channels service as \<open>cmd/server/main.go\<close> puts it together: the route tables of
  the handlers, the bearer check in front of them, the health check and the console, the request id, and
  the state they share. Then the steps the service takes: requests, background tasks, and what the world
  outside does between them.
\<close>

section \<open>Requests and responses\<close>

text \<open>
  A request with its path split at the slashes (a trailing slash gives an empty last segment), its query
  parameters, and the headers the service reads. \<open>sr_writes n\<close> is whether writing the line after \<open>n\<close>
  lines of a streamed response succeeds.
\<close>

record server_request =
  sr_method :: gostring
  sr_path :: "gostring list"
  sr_query :: "string \<Rightarrow> gostring"
  sr_auth :: gostring
  sr_tenant :: gostring
  sr_request_id :: gostring
  sr_body :: gostring
  sr_writes :: "nat \<Rightarrow> bool"

datatype response_body = JsonLines "json list" | Page gostring | NoBody

record server_response =
  sp_status :: nat
  sp_body :: response_body
  sp_request_id :: gostring

text \<open>
  What \<open>main\<close> wires together; the CSV reader, the texts of errors and the console page come from outside.
\<close>

record server_config =
  sc_env :: env
  sc_token :: gostring
  sc_csv :: "gostring \<Rightarrow> csv_file"
  sc_show_reason :: "row_reason \<Rightarrow> gostring"
  sc_show_error :: "forward_error + db_error \<Rightarrow> gostring"
  sc_page :: gostring
  sc_random :: "nat \<Rightarrow> nat list"

text \<open>The default command set and thresholds \<open>main\<close> passes to ingest, with a forwarder.\<close>

definition main_deps :: Deps where
  "main_deps = \<lparr>dp_ParserCfg = \<lparr>Commands = map str [''STATUS'', ''NEEDS'', ''DAMAGE'', ''MISSING'', ''RESOURCE'', ''HERE'', ''NOTE'', ''SOS'']\<rparr>,
     dp_Thresholds = DefaultThresholds, dp_Forwarder = Some NewForwarder\<rparr>"

record server =
  sv_world :: world
  sv_running :: "uuid set"
  sv_ready :: bool
  sv_minted :: nat

section \<open>Routes\<close>

datatype segment = Lit string | Wild

datatype endpoint =
    ListMessages | PurgeMessages | EraseContact | EraseByEndpoint
  | ListChannels | CreateChannelEP | GetChannelEP | UpdateChannelEP | ListLinksEP | LinkEP | UnlinkEP
  | ExportMessages | ExportContacts
  | ShortIDCheckEP | BulkImportEP | ListContactsEP | CreateContactEP | UpdateContactEP | DeleteContactEP
  | SendOutbound | IngestEP | ReplayEP
  | ListTenantsEP | CreateTenantEP | GetTenantEP
  | LookupEP | ListAccountsEP | CreateAccountEP | UpdateAccountEP | DeleteAccountEP
  | DiagnosticsEP

type_synonym route = "string \<times> segment list \<times> endpoint"

definition messagelog_routes :: "route list" where
  "messagelog_routes = [(''GET'', [Lit ''v1'', Lit ''messages''], ListMessages)]"

definition retention_routes :: "route list" where
  "retention_routes = [(''POST'', [Lit ''v1'', Lit ''retention'', Lit ''purge''], PurgeMessages),
     (''POST'', [Lit ''v1'', Lit ''contacts'', Wild, Lit ''erase''], EraseContact),
     (''POST'', [Lit ''v1'', Lit ''retention'', Lit ''erase-endpoint''], EraseByEndpoint)]"

definition channels_routes :: "route list" where
  "channels_routes = [(''GET'', [Lit ''v1'', Lit ''channels''], ListChannels),
     (''POST'', [Lit ''v1'', Lit ''channels''], CreateChannelEP),
     (''GET'', [Lit ''v1'', Lit ''channels'', Wild], GetChannelEP),
     (''PATCH'', [Lit ''v1'', Lit ''channels'', Wild], UpdateChannelEP),
     (''GET'', [Lit ''v1'', Lit ''channels'', Wild, Lit ''accounts''], ListLinksEP),
     (''POST'', [Lit ''v1'', Lit ''channels'', Wild, Lit ''accounts''], LinkEP),
     (''DELETE'', [Lit ''v1'', Lit ''channels'', Wild, Lit ''accounts'', Wild], UnlinkEP)]"

definition export_routes :: "route list" where
  "export_routes = [(''GET'', [Lit ''v1'', Lit ''export'', Lit ''messages''], ExportMessages),
     (''GET'', [Lit ''v1'', Lit ''export'', Lit ''contacts''], ExportContacts)]"

definition contacts_routes :: "route list" where
  "contacts_routes = [(''GET'', [Lit ''v1'', Lit ''contacts'', Lit ''short_id_check''], ShortIDCheckEP),
     (''POST'', [Lit ''v1'', Lit ''contacts'', Lit ''bulk-import''], BulkImportEP),
     (''GET'', [Lit ''v1'', Lit ''contacts''], ListContactsEP),
     (''POST'', [Lit ''v1'', Lit ''contacts''], CreateContactEP),
     (''PATCH'', [Lit ''v1'', Lit ''contacts'', Wild], UpdateContactEP),
     (''DELETE'', [Lit ''v1'', Lit ''contacts'', Wild], DeleteContactEP)]"

definition outbound_routes :: "route list" where
  "outbound_routes = [(''POST'', [Lit ''v1'', Lit ''outbound''], SendOutbound)]"

definition ingest_routes :: "route list" where
  "ingest_routes = [(''POST'', [Lit ''v1'', Lit ''ingest''], IngestEP)]"

definition replay_routes :: "route list" where
  "replay_routes = [(''POST'', [Lit ''v1'', Lit ''workflows'', Lit ''replay''], ReplayEP)]"

definition tenants_routes :: "route list" where
  "tenants_routes = [(''GET'', [Lit ''v1'', Lit ''tenants''], ListTenantsEP),
     (''POST'', [Lit ''v1'', Lit ''tenants''], CreateTenantEP),
     (''GET'', [Lit ''v1'', Lit ''tenants'', Wild], GetTenantEP)]"

definition accounts_routes :: "route list" where
  "accounts_routes = [(''GET'', [Lit ''v1'', Lit ''accounts'', Lit ''lookup''], LookupEP),
     (''GET'', [Lit ''v1'', Lit ''accounts''], ListAccountsEP),
     (''POST'', [Lit ''v1'', Lit ''accounts''], CreateAccountEP),
     (''PATCH'', [Lit ''v1'', Lit ''accounts'', Wild], UpdateAccountEP),
     (''DELETE'', [Lit ''v1'', Lit ''accounts'', Wild], DeleteAccountEP)]"

definition diagnostics_routes :: "route list" where
  "diagnostics_routes = [(''GET'', [Lit ''v1'', Lit ''diagnostics''], DiagnosticsEP)]"

definition v1_routes :: "route list" where
  "v1_routes = accounts_routes @ ingest_routes @ contacts_routes @ outbound_routes @ channels_routes @
     replay_routes @ tenants_routes @ diagnostics_routes @ messagelog_routes @ export_routes @ retention_routes"

text \<open>
  \<open>http.ServeMux\<close>: a wildcard matches one segment that is not empty, a \<open>GET\<close> pattern also serves
  \<open>HEAD\<close>; a path that only other methods serve is answered with 405. The result carries the values of
  the wildcards.
\<close>

fun match_path :: "segment list \<Rightarrow> gostring list \<Rightarrow> gostring list option" where
  "match_path [] [] = Some []"
| "match_path (Lit s # ps) (x # xs) = (if x = str s then match_path ps xs else None)"
| "match_path (Wild # ps) (x # xs) = (if x = [] then None else map_option (\<lambda>vs. x # vs) (match_path ps xs))"
| "match_path _ _ = None"

definition method_matches :: "string \<Rightarrow> gostring \<Rightarrow> bool" where
  "method_matches m method \<longleftrightarrow> method = str m \<or> (m = ''GET'' \<and> method = str ''HEAD'')"

datatype 'h mux_result = Found 'h "gostring list" | MethodNotAllowed | PathNotFound

fun mux_lookup :: "(string \<times> segment list \<times> 'h) list \<Rightarrow> gostring \<Rightarrow> gostring list \<Rightarrow> bool \<Rightarrow> 'h mux_result" where
  "mux_lookup [] method path seen = (if seen then MethodNotAllowed else PathNotFound)"
| "mux_lookup ((m, pat, h) # rs) method path seen = (case match_path pat path of
     None \<Rightarrow> mux_lookup rs method path seen
   | Some vs \<Rightarrow> if method_matches m method then Found h vs else mux_lookup rs method path True)"

text \<open>
  The outer mux sends a path to the guarded routes: the exact paths, and the subtrees registered with a
  trailing slash. A subtree without its slash is redirected to it.
\<close>

definition guarded_paths :: "string list list" where
  "guarded_paths = [[''v1'', ''accounts''], [''v1'', ''ingest''], [''v1'', ''contacts''], [''v1'', ''outbound''],
     [''v1'', ''channels''], [''v1'', ''workflows'', ''replay''], [''v1'', ''tenants''], [''v1'', ''diagnostics''], [''v1'', ''messages'']]"

definition guarded_subtrees :: "string list list" where
  "guarded_subtrees = [[''v1'', ''accounts''], [''v1'', ''contacts''], [''v1'', ''channels''], [''v1'', ''tenants''],
     [''v1'', ''export''], [''v1'', ''retention'']]"

definition path_of :: "string list \<Rightarrow> gostring list" where
  "path_of p = map str p"

definition below :: "gostring list \<Rightarrow> gostring list \<Rightarrow> bool" where
  "below p path \<longleftrightarrow> length p < length path \<and> take (length p) path = p"

definition guarded :: "gostring list \<Rightarrow> bool" where
  "guarded path \<longleftrightarrow> path \<in> set (map path_of guarded_paths) \<or> list_ex (\<lambda>p. below (path_of p) path) guarded_subtrees"

definition redirected :: "gostring list \<Rightarrow> bool" where
  "redirected path \<longleftrightarrow> \<not> guarded path \<and> path \<in> set (map path_of guarded_subtrees)"

section \<open>Handlers\<close>

text \<open>The guard compares the token after \<open>Bearer \<close> with the configured one.\<close>

definition bearerPrefix :: gostring where
  "bearerPrefix = str ''Bearer ''"

definition WithBearerAuth :: "gostring \<Rightarrow> gostring \<Rightarrow> bool" where
  "WithBearerAuth want header \<longleftrightarrow>
     take (length bearerPrefix) header = bearerPrefix \<and> drop (length bearerPrefix) header = want"

type_synonym reply = "nat \<times> response_body"

definition json_reply :: "answer \<Rightarrow> reply" where
  "json_reply a = (fst a, if fst a = 204 then NoBody else JsonLines [snd a])"

text \<open>A handler as a step of the server; \<open>None\<close> is a handler that does not return.\<close>

definition on_world :: "(world, answer) prog \<Rightarrow> server \<Rightarrow> (reply \<times> server) option" where
  "on_world p s = (case run p (sv_world s) of (a, w) \<Rightarrow> Some (json_reply a, s\<lparr>sv_world := w\<rparr>))"

definition path_value :: "nat \<Rightarrow> gostring list \<Rightarrow> gostring" where
  "path_value n vs = (if n < length vs then vs ! n else [])"

definition api_of :: "server_request \<Rightarrow> gostring list \<Rightarrow> api_request" where
  "api_of rq vs = \<lparr>ar_tenant = sr_tenant rq, ar_id = path_value 0 vs, ar_body = sr_body rq\<rparr>"

definition streamed :: "((nat \<times> json list) \<times> world) option \<Rightarrow> server \<Rightarrow> (reply \<times> server) option" where
  "streamed r s = map_option (\<lambda>((status, out), w). ((status, JsonLines out), s\<lparr>sv_world := w\<rparr>)) r"

fun serve_endpoint :: "server_config \<Rightarrow> endpoint \<Rightarrow> gostring list \<Rightarrow> server_request \<Rightarrow> server \<Rightarrow> (reply \<times> server) option" where
  "serve_endpoint C ListMessages vs rq s = on_world (list_messages_handler (sc_env C) (sr_query rq ''limit'') (api_of rq vs)) s"
| "serve_endpoint C PurgeMessages vs rq s = on_world (purge_handler (sc_env C) (api_of rq vs)) s"
| "serve_endpoint C EraseContact vs rq s = on_world (erase_handler (sc_env C) (api_of rq vs)) s"
| "serve_endpoint C EraseByEndpoint vs rq s = on_world (erase_endpoint_handler (sc_env C) (api_of rq vs)) s"
| "serve_endpoint C ListChannels vs rq s = on_world (list_channels_handler (sc_env C) (api_of rq vs)) s"
| "serve_endpoint C CreateChannelEP vs rq s = on_world (create_channel_handler (sc_env C) (api_of rq vs)) s"
| "serve_endpoint C GetChannelEP vs rq s = on_world (get_channel_handler (sc_env C) (api_of rq vs)) s"
| "serve_endpoint C UpdateChannelEP vs rq s = on_world (update_channel_handler (sc_env C) (api_of rq vs)) s"
| "serve_endpoint C ListLinksEP vs rq s = on_world (list_links_handler (sc_env C) (api_of rq vs)) s"
| "serve_endpoint C LinkEP vs rq s = on_world (link_handler (sc_env C) (api_of rq vs)) s"
| "serve_endpoint C UnlinkEP vs rq s = on_world (unlink_handler (sc_env C) (path_value 1 vs) (api_of rq vs)) s"
| "serve_endpoint C ExportMessages vs rq s =
     streamed (messages_export_handler (\<lambda>_ d. d) (sr_writes rq) (sc_env C) (sr_query rq ''include_raw'') (api_of rq vs) (sv_world s)) s"
| "serve_endpoint C ExportContacts vs rq s =
     streamed (contacts_export_handler (\<lambda>_ d. d) (sr_writes rq) (sc_env C) (api_of rq vs) (sv_world s)) s"
| "serve_endpoint C ShortIDCheckEP vs rq s = on_world (short_id_check_handler (sc_env C) (sr_query rq ''short_id'') (api_of rq vs)) s"
| "serve_endpoint C BulkImportEP vs rq s = map_option (\<lambda>(a, w). (json_reply a, s\<lparr>sv_world := w\<rparr>))
     (bulk_import_handler (sc_env C) (sc_show_reason C) (api_of rq vs) (sc_csv C (sr_body rq)) (sv_world s))"
| "serve_endpoint C ListContactsEP vs rq s = on_world (list_contacts_handler (sc_env C) (api_of rq vs)) s"
| "serve_endpoint C CreateContactEP vs rq s = on_world (create_contact_handler (sc_env C) (api_of rq vs)) s"
| "serve_endpoint C UpdateContactEP vs rq s = on_world (update_contact_handler (sc_env C) (api_of rq vs)) s"
| "serve_endpoint C DeleteContactEP vs rq s = on_world (delete_contact_handler (sc_env C) (api_of rq vs)) s"
| "serve_endpoint C SendOutbound vs rq s = on_world (outbound_handler (sc_env C) (hub_registry (sc_env C)) (sr_body rq)) s"
| "serve_endpoint C IngestEP vs rq s = on_world (ingest_handler (sc_env C) main_deps (sr_body rq)) s"
| "serve_endpoint C ReplayEP vs rq s =
     (case run (replay_handler (sc_env C) (sc_show_error C) NewForwarder (api_of rq vs) (sv_running s)) (sv_world s) of
        ((a, running), w) \<Rightarrow> Some (json_reply a, s\<lparr>sv_world := w, sv_running := running\<rparr>))"
| "serve_endpoint C ListTenantsEP vs rq s = on_world (list_tenants_handler (sc_env C) (api_of rq vs)) s"
| "serve_endpoint C CreateTenantEP vs rq s = on_world (create_tenant_handler (sc_env C) (api_of rq vs)) s"
| "serve_endpoint C GetTenantEP vs rq s = on_world (get_tenant_handler (sc_env C) (api_of rq vs)) s"
| "serve_endpoint C LookupEP vs rq s = on_world (lookup_handler (sc_env C) (sr_query rq ''type'') (sr_query rq ''identifier'')) s"
| "serve_endpoint C ListAccountsEP vs rq s = on_world (list_accounts_handler (sc_env C) (api_of rq vs)) s"
| "serve_endpoint C CreateAccountEP vs rq s = on_world (create_account_handler (sc_env C) (api_of rq vs)) s"
| "serve_endpoint C UpdateAccountEP vs rq s = on_world (update_account_handler (sc_env C) (api_of rq vs)) s"
| "serve_endpoint C DeleteAccountEP vs rq s = on_world (delete_account_handler (sc_env C) (api_of rq vs)) s"
| "serve_endpoint C DiagnosticsEP vs rq s = on_world (diagnostics_handler (sc_env C) (api_of rq vs)) s"

text \<open>The guarded mux, then the outer one with the health check and the console.\<close>

definition error_text :: "nat \<Rightarrow> reply" where
  "error_text status = (status, Page (if status = 405 then str ''Method Not Allowed'' else str ''404 page not found''))"

definition serve_v1 :: "server_config \<Rightarrow> server_request \<Rightarrow> server \<Rightarrow> (reply \<times> server) option" where
  "serve_v1 C rq s = (case mux_lookup v1_routes (sr_method rq) (sr_path rq) False of
     Found ep vs \<Rightarrow> serve_endpoint C ep vs rq s
   | MethodNotAllowed \<Rightarrow> Some (error_text 405, s)
   | PathNotFound \<Rightarrow> Some (error_text 404, s))"

definition unauthorized :: reply where
  "unauthorized = (401, JsonLines [error_json ''unauthorized''])"

definition handleHealthz :: "server \<Rightarrow> reply" where
  "handleHealthz s = (if sv_ready s then (200, JsonLines [JObj [(str ''status'', JStr (str ''ok''))]])
     else (503, JsonLines [JObj [(str ''status'', JStr (str ''unavailable''))]]))"

datatype open_route = Healthz | Console

definition open_routes :: "(string \<times> segment list \<times> open_route) list" where
  "open_routes = [(''GET'', [Lit ''healthz''], Healthz), (''GET'', [Lit ''console''], Console)]"

definition serve_mux :: "server_config \<Rightarrow> server_request \<Rightarrow> server \<Rightarrow> (reply \<times> server) option" where
  "serve_mux C rq s =
     (if guarded (sr_path rq) then
        (if WithBearerAuth (sc_token C) (sr_auth rq) then serve_v1 C rq s else Some (unauthorized, s))
      else if redirected (sr_path rq) then Some ((301, NoBody), s)
      else (case mux_lookup open_routes (sr_method rq) (sr_path rq) False of
          Found Healthz _ \<Rightarrow> Some (handleHealthz s, s)
        | Found Console _ \<Rightarrow> Some ((200, Page (sc_page C)), s)
        | MethodNotAllowed \<Rightarrow> Some (error_text 405, s)
        | PathNotFound \<Rightarrow> Some (error_text 404, s)))"

text \<open>
  A minted request id: sixteen random bytes with the version and variant bits of a UUID set, in hexadecimal.
\<close>

definition hex_byte :: "nat \<Rightarrow> gostring" where
  "hex_byte b = (let digit = (\<lambda>n. if n < 10 then 48 + n else 87 + n) in [digit (b div 16 mod 16), digit (b mod 16)])"

definition newRequestID :: "nat list \<Rightarrow> gostring" where
  "newRequestID bytes =
     (let b = bytes[6 := bytes ! 6 mod 16 + 64, 8 := bytes ! 8 mod 64 + 128];
          hex = (\<lambda>i j. concat (map hex_byte (take (j - i) (drop i b)))); dash = str ''-''
      in hex 0 4 @ dash @ hex 4 6 @ dash @ hex 6 8 @ dash @ hex 8 10 @ dash @ hex 10 16)"

definition serve :: "server_config \<Rightarrow> server_request \<Rightarrow> server \<Rightarrow> (server_response \<times> server) option" where
  "serve C rq s =
     (let (i, s') = (if sr_request_id rq = [] then (newRequestID (sc_random C (sv_minted s)), s\<lparr>sv_minted := Suc (sv_minted s)\<rparr>)
        else (sr_request_id rq, s))
      in map_option (\<lambda>((status, body), s''). (\<lparr>sp_status = status, sp_body = body, sp_request_id = i\<rparr>, s'')) (serve_mux C rq s'))"

section \<open>Steps of the service\<close>

definition drop_task :: "nat \<Rightarrow> world \<Rightarrow> world" where
  "drop_task k w = w\<lparr>w_tasks := take k (w_tasks w) @ drop (Suc k) (w_tasks w)\<rparr>"

text \<open>
  One request served, one background task run, the readiness switched, or a move of the world outside: the
  clock, the answers the network will give and the faults of the database connection.
\<close>

inductive hub_step :: "server_config \<Rightarrow> server \<Rightarrow> server \<Rightarrow> bool" for C where
  Request: "serve C rq s = Some (resp, s') \<Longrightarrow> hub_step C s s'"
| Task: "k < length (w_tasks (sv_world s)) \<Longrightarrow>
    run (run_task (sc_env C) main_deps (hub_registry (sc_env C)) (w_tasks (sv_world s) ! k)) (drop_task k (sv_world s)) = ((), w) \<Longrightarrow>
    hub_step C s (s\<lparr>sv_world := w\<rparr>)"
| Ready: "hub_step C s (s\<lparr>sv_ready := b\<rparr>)"
| Outside: "hub_step C s (s\<lparr>sv_world := (sv_world s)\<lparr>w_now := t, w_net := net, w_faults := faults\<rparr>\<rparr>)"

inductive reachable :: "server_config \<Rightarrow> server \<Rightarrow> server \<Rightarrow> bool" for C where
  Start: "reachable C s s"
| Step: "reachable C s s' \<Longrightarrow> hub_step C s' s'' \<Longrightarrow> reachable C s s''"

inductive_cases hub_stepE: "hub_step C s s'"

text \<open>A relation that every handler keeps is kept by \<open>serve\<close>.\<close>

context registry_frame
begin

lemma on_world_keeps:
  "on_world p s = Some (a, s') \<Longrightarrow> keeps p \<Longrightarrow> R (w_db (sv_world s)) (w_db (sv_world s'))"
  by (auto simp: on_world_def split: prod.splits dest: state_io_relD)

lemma serve_endpoint_keeps:
  assumes "U = e_uni (sc_env C)" and "serve_endpoint C ep vs rq s = Some (a, s')"
  shows "R (w_db (sv_world s)) (w_db (sv_world s'))"
proof (cases ep)
  case ReplayEP
  then show ?thesis using assms(2) state_io_relD[OF keeps_replay_handler] by (auto split: prod.splits)
next
  case BulkImportEP
  then show ?thesis using assms(2) by (auto dest!: keeps_bulk_import)
next
  case ExportMessages
  then show ?thesis using assms(2) by (auto simp: streamed_def R_refl dest!: export_handlers_read)
next
  case ExportContacts
  then show ?thesis using assms(2) by (auto simp: streamed_def R_refl dest!: export_handlers_read)
qed (use assms(2) in \<open>auto elim!: on_world_keeps intro: keeps_report_handlers keeps_retention_handlers
    keeps_channel_handlers[OF assms(1)] keeps_contact_handlers keeps_outbound_handler keeps_ingest_handler
    keeps_tenant_handlers keeps_account_handlers\<close>)

lemma serve_keeps:
  assumes "U = e_uni (sc_env C)" and "serve C rq s = Some (a, s')"
  shows "R (w_db (sv_world s)) (w_db (sv_world s'))"
  using assms(2)
  by (auto simp: serve_def serve_mux_def serve_v1_def Let_def R_refl split: if_splits mux_result.splits open_route.splits
      dest!: serve_endpoint_keeps[OF assms(1)])

lemma hub_step_keeps:
  assumes "U = e_uni (sc_env C)" and "hub_step C s s'"
  shows "R (w_db (sv_world s)) (w_db (sv_world s'))"
  using assms(2)
proof cases
  case (Request rq resp)
  then show ?thesis using serve_keeps[OF assms(1)] by blast
next
  case (Task k w)
  then show ?thesis using state_io_relD[OF keeps_run_task Task(3)] by (simp add: drop_task_def)
qed (simp_all add: R_refl)

lemma reachable_keeps:
  assumes "U = e_uni (sc_env C)" and "reachable C s s'"
  shows "R (w_db (sv_world s)) (w_db (sv_world s'))"
  using assms(2)
  by induction (auto intro: R_refl R_trans hub_step_keeps[OF assms(1)])

end

end
