(* ===== verification/Server_Facts.thy ===== *)
theory Server_Facts
  imports Server Ingest_Facts
begin

text \<open>
  What the channels service guarantees as a whole: its database invariant in every reachable state, the
  routes its table serves, and what a caller without the token can do.
\<close>

section \<open>The invariant\<close>

lemma reachable_hub_ok:
  assumes "hub_ok (e_uni (sc_env C)) (w_db (sv_world s))" and "reachable C s s'"
  shows "hub_ok (e_uni (sc_env C)) (w_db (sv_world s'))"
  using hubinv.reachable_keeps[OF refl assms(2)] assms(1) by blast

lemma inbound_channel_in_tenant:
  assumes "hub_ok U d" and "a \<in> set (accounts d)" and "inbound_channel (acc_id a) d = Some c"
  shows "c \<in> set (channels d)" and "ch_tenant c = acc_tenant a"
proof -
  from assms(3) obtain l where l: "l \<in> set (channel_accounts d)" "ca_account l = acc_id a" and c: "c \<in> set (channels d)" "ch_id c = ca_channel l"
    by (auto simp: inbound_channel_def first_of_def linked_channels_def split: list.splits dest!: hd_sort_desc_in)
  from assms(1) l(1) obtain c' a' where l': "c' \<in> set (channels d)" "a' \<in> set (accounts d)" "ch_id c' = ca_channel l"
      "acc_id a' = ca_account l" "ch_tenant c' = acc_tenant a'"
    by (auto simp: hub_ok_def list_all_iff linkable_def)
  have "schema_ok d" using assms(1) by (simp add: hub_ok_def)
  then have "c' = c" "a' = a"
    using l l' c assms(2) schema_okD(2,3)[of d]
    by (auto simp: channels_ok_def channel_ids_def accounts_ok_def account_ids_def distinct_map inj_on_def)
  with c l' show "c \<in> set (channels d)" "ch_tenant c = acc_tenant a" by auto
qed


section \<open>Routes\<close>

definition route_served :: "route \<Rightarrow> bool" where
  "route_served r \<longleftrightarrow> (\<forall>path vs. match_path (fst (snd r)) path = Some vs \<longrightarrow>
     guarded path \<and> mux_lookup v1_routes (str (fst r)) path False = Found (snd (snd r)) vs)"

lemma match_path_Lit: "match_path (Lit x # ps) path = Some vs \<longleftrightarrow> (\<exists>rest. path = str x # rest \<and> match_path ps rest = Some vs)"
  by (cases path) auto

lemma match_path_Wild: "match_path (Wild # ps) path = Some vs \<longleftrightarrow>
   (\<exists>v rest us. path = v # rest \<and> v \<noteq> [] \<and> vs = v # us \<and> match_path ps rest = Some us)"
  by (cases path) auto

lemma match_path_Nil: "match_path [] path = Some vs \<longleftrightarrow> path = [] \<and> vs = []"
  by (cases path) auto

lemmas match_path_iffs = match_path_Lit match_path_Wild match_path_Nil

lemmas route_tables = v1_routes_def accounts_routes_def ingest_routes_def contacts_routes_def outbound_routes_def
  channels_routes_def replay_routes_def tenants_routes_def diagnostics_routes_def messagelog_routes_def
  export_routes_def retention_routes_def

lemma guarded_below: "guarded (str a # str b # rest) \<longleftrightarrow>
    a = ''v1'' \<and> (if rest = [] then b \<in> {''accounts'', ''ingest'', ''contacts'', ''outbound'', ''channels'', ''tenants'', ''diagnostics'', ''messages''}
      else b \<in> {''accounts'', ''contacts'', ''channels'', ''tenants'', ''export'', ''retention''} \<or> (b = ''workflows'' \<and> rest = [str ''replay'']))"
  by (auto simp: guarded_def guarded_paths_def guarded_subtrees_def path_of_def below_def)

lemma routes_served: "list_all route_served v1_routes"
proof -
  note served = route_served_def match_path_iffs guarded_below route_tables method_matches_def
  show ?thesis
    unfolding v1_routes_def list_all_append
    unfolding route_tables list.pred_inject
    by (intro conjI TrueI; auto simp: served)
qed

text \<open>
  C3. Every route the handlers register is mounted and none hides another: a request whose method and path match a
  route is passed to that route's handler with the values of its wildcards when it carries the token, and is answered
  401 when it does not.
\<close>

theorem routes_reach_their_handlers:
  assumes "(m, pat, ep) \<in> set v1_routes" and "match_path pat (sr_path rq) = Some vs" and "sr_method rq = str m"
  shows "serve_mux C rq s =
     (if WithBearerAuth (sc_token C) (sr_auth rq) then serve_endpoint C ep vs rq s else Some (unauthorized, s))"
  using routes_served assms by (auto simp: list_all_iff route_served_def serve_mux_def serve_v1_def)

text \<open>What the mux answers without the token.\<close>

definition open_reply :: "server_config \<Rightarrow> server_request \<Rightarrow> bool \<Rightarrow> reply" where
  "open_reply C rq ready = (if guarded (sr_path rq) then unauthorized
     else if redirected (sr_path rq) then (301, NoBody)
     else (case mux_lookup open_routes (sr_method rq) (sr_path rq) False of
         Found Healthz _ \<Rightarrow> handleHealthz \<lparr>sv_world = fresh_world empty_db [], sv_running = {}, sv_ready = ready, sv_minted = 0\<rparr>
       | Found Console _ \<Rightarrow> (200, Page (sc_page C))
       | MethodNotAllowed \<Rightarrow> error_text 405
       | PathNotFound \<Rightarrow> error_text 404))"

lemma serve_mux_open:
  "\<not> WithBearerAuth (sc_token C) (sr_auth rq) \<Longrightarrow> serve_mux C rq s = Some (open_reply C rq (sv_ready s), s)"
  by (simp add: serve_mux_def open_reply_def handleHealthz_def split: mux_result.split open_route.split)

lemma open_reply_status:
  "guarded (sr_path rq) \<Longrightarrow> fst (open_reply C rq b) = 401" "fst (open_reply C rq b) \<in> {200, 301, 401, 404, 405, 503}"
  by (auto simp: open_reply_def unauthorized_def error_text_def handleHealthz_def split: mux_result.split open_route.split)

text \<open>
  C4. Without the token a caller learns nothing and changes nothing: the answer does not depend on the database, the
  network, the clock or the replays in progress, all of which it leaves as they are, and it is 401 for every guarded
  path.
\<close>

theorem no_token_no_access:
  assumes "\<not> WithBearerAuth (sc_token C) (sr_auth rq)"
  shows "\<exists>resp k. (\<forall>w running. serve C rq (s\<lparr>sv_world := w, sv_running := running\<rparr>) =
       Some (resp, s\<lparr>sv_world := w, sv_running := running, sv_minted := k\<rparr>)) \<and>
     (guarded (sr_path rq) \<longrightarrow> sp_status resp = 401) \<and> sp_status resp \<in> {200, 301, 401, 404, 405, 503}"
proof -
  let ?k = "if sr_request_id rq = [] then Suc (sv_minted s) else sv_minted s"
  let ?i = "if sr_request_id rq = [] then newRequestID (sc_random C (sv_minted s)) else sr_request_id rq"
  let ?r = "open_reply C rq (sv_ready s)"
  let ?resp = "\<lparr>sp_status = fst ?r, sp_body = snd ?r, sp_request_id = ?i\<rparr>"
  have "serve C rq (s\<lparr>sv_world := w, sv_running := running\<rparr>) =
      Some (?resp, s\<lparr>sv_world := w, sv_running := running, sv_minted := ?k\<rparr>)" for w running
    by (cases s) (simp add: serve_def serve_mux_open[OF assms] Let_def case_prod_unfold)
  moreover have "guarded (sr_path rq) \<longrightarrow> sp_status ?resp = 401" "sp_status ?resp \<in> {200, 301, 401, 404, 405, 503}"
    using open_reply_status by simp_all
  ultimately show ?thesis by blast
qed

section \<open>At a concrete server\<close>

definition demo_config :: server_config where
  "demo_config = \<lparr>sc_env = demo_env, sc_token = str ''s3cret'',
     sc_csv = (\<lambda>_ _. CsvEOF), sc_show_reason = (\<lambda>_. []), sc_show_error = (\<lambda>_. []), sc_page = str ''<html>'',
     sc_random = (\<lambda>_. replicate 16 0)\<rparr>"

text \<open>An account linked to a channel created with the defaults.\<close>

definition routed_db :: db where
  "routed_db = empty_db\<lparr>tenants := [demo_tenant], accounts := [demo_account],
     channels := [new_channel \<lparr>nc_TenantID = 1, nc_Name = str ''field'', nc_ParserConfig = None, nc_WorkflowURL = [], nc_ReplyPolicy = [],
       nc_ConfidenceThresholds = None, nc_EchoBackEnabled = None, nc_RecallWindowSeconds = None\<rparr> 3 0
       DefaultReplyPolicy default_parser_config DefaultConfidenceThresholds],
     channel_accounts := [\<lparr>ca_channel = 3, ca_account = 7, ca_direction = str ''both'', ca_priority = 100, ca_routing_filter = None\<rparr>]\<rparr>"

definition demo_server :: server where
  "demo_server = \<lparr>sv_world = fresh_world routed_db [], sv_running = {}, sv_ready = False, sv_minted = 0\<rparr>"

definition demo_request :: server_request where
  "demo_request = \<lparr>sr_method = str ''GET'', sr_path = [str ''v1'', str ''channels'', str ''3''], sr_query = (\<lambda>_. []),
     sr_auth = [], sr_tenant = str ''1'', sr_request_id = [], sr_body = [], sr_writes = (\<lambda>_. True)\<rparr>"

lemma default_settings:
  "parser_settings U default_parser_config = Some (DefaultCommands, str ''structured'')"
  "threshold_settings U DefaultConfidenceThresholds = Some (Some (High DefaultThresholds), Some (Medium DefaultThresholds))"
  by (simp_all add: parser_settings_def default_parser_config_def threshold_settings_def DefaultConfidenceThresholds_def
      DefaultCommands_def DefaultThresholds_def tenths_def name_simps float64_of_unit)

lemma default_gate_bounds:
  "0 \<le> Medium DefaultThresholds" "Medium DefaultThresholds \<le> High DefaultThresholds" "High DefaultThresholds \<le> 1"
  using tenths_bounds(1,7) by (simp_all add: DefaultThresholds_def)

lemma default_channel_wf:
  "TrimSpace (nc_Name inp) \<noteq> [] \<Longrightarrow> channel_wf U (new_channel inp i t DefaultReplyPolicy default_parser_config DefaultConfidenceThresholds)"
  by (simp add: channel_wf_def new_channel_def default_settings validReplyPolicies_def DefaultReplyPolicy_def validModes_def
      default_gate_bounds)

lemma routed_db_ok: "hub_ok U routed_db"
proof -
  have "schema_ok routed_db" by (simp add: routed_db_def demo_db_simps demo_account_def new_channel_def)
  moreover have "TrimSpace (str ''field'') \<noteq> []" by code_simp
  ultimately show ?thesis
    by (simp add: hub_ok_def routed_db_def linkable_def demo_account_def default_channel_wf) (simp add: new_channel_def)
qed


theorem routes_witness: "serve_mux demo_config demo_request demo_server = Some (unauthorized, demo_server)"
  using routes_reach_their_handlers[of "''GET''" "[Lit ''v1'', Lit ''channels'', Wild]" GetChannelEP demo_request "[str ''3'']" demo_config demo_server]
  by (simp add: v1_routes_def channels_routes_def demo_request_def demo_config_def WithBearerAuth_def bearerPrefix_def)

theorem no_token_witness:
  "\<exists>resp k. serve demo_config demo_request demo_server = Some (resp, demo_server\<lparr>sv_minted := k\<rparr>) \<and> sp_status resp = 401"
proof -
  have "\<not> WithBearerAuth (sc_token demo_config) (sr_auth demo_request)" and g: "guarded (sr_path demo_request)"
    by (simp_all add: demo_request_def demo_config_def WithBearerAuth_def bearerPrefix_def guarded_below)
  from no_token_no_access[OF this(1), of demo_server] obtain resp k where
    r: "\<forall>w running. serve demo_config demo_request (demo_server\<lparr>sv_world := w, sv_running := running\<rparr>) =
       Some (resp, demo_server\<lparr>sv_world := w, sv_running := running, sv_minted := k\<rparr>)" "sp_status resp = 401"
    using g by blast
  from r(1)[rule_format, of "sv_running demo_server" "sv_world demo_server"] r(2) show ?thesis by auto
qed

section \<open>Default channels\<close>

lemma schema_ok_channel_added:
  assumes "schema_ok d" and "ch_tenant c \<in> set (tenant_ids d)" and "ch_id c \<notin> set (channel_ids d)"
  shows "schema_ok (d\<lparr>channels := channels d @ [c]\<rparr>)"
proof -
  let ?d = "d\<lparr>channels := channels d @ [c]\<rparr>"
  have ids: "tenant_ids ?d = tenant_ids d" "account_ids ?d = account_ids d" "contact_ids ?d = contact_ids d"
    "endpoint_ids ?d = endpoint_ids d" "message_ids ?d = message_ids d" "channel_ids ?d = channel_ids d @ [ch_id c]"
    by (simp_all add: ids_defs)
  have grow: "fk r (channel_ids d) \<Longrightarrow> fk r (channel_ids d @ [ch_id c])" for r by (cases r) auto
  note ok = schema_okD[OF assms(1)]
  have "tenants_ok ?d" "accounts_ok ?d" "channels_ok ?d" "channel_accounts_ok ?d"
    using ok(1-4) assms(2,3) by (auto simp: tenants_ok_def accounts_ok_def channels_ok_def channel_accounts_ok_def ids)
  moreover have "contacts_ok ?d" "contact_endpoints_ok ?d"
    using ok(5,6) grow by (auto simp: contacts_ok_def contact_endpoints_ok_def ids)
  moreover have "messages_ok ?d"
    using ok(7) grow by (auto simp: messages_ok_def message_refs_ok_def ids)
  ultimately show ?thesis by (simp add: schema_ok_def)
qed



end
