(* ===== verification/Receiver.thy ===== *)
theory Receiver
  imports World Canonical
begin

text \<open>
  The webhook service (\<open>webhook-go\<close>): what it takes from outside the repository, the state its requests
  and its drain worker share, one HTTP exchange, and the account resolvers of \<open>internal/accounts\<close>.
\<close>

section \<open>Operations from outside\<close>

text \<open>
  RFC 3339 texts of times, JSON syntax (of a whole text, and of the first value of one), the text a JSON
  value was written in and the one it is encoded as, form syntax, the HMAC-SHA1 and base64 of a signature,
  base64 and quoted-printable decoding, \<open>strconv.ParseFloat\<close>, mail syntax, the encoding of two query parameters, and which URLs parse.
  \<open>we_media_type\<close> gives the media type, the boundary parameter and whether there was an error;
  \<open>we_read_mail\<close> the content type, the transfer encoding and the body; \<open>we_parts\<close> the same three of each part
  of a multipart body up to the first error.
\<close>

record wenv =
  we_uni :: unicode
  we_show_time :: "time \<Rightarrow> gostring"
  we_parse_json :: "gostring \<Rightarrow> json option"
  we_first_json :: "gostring \<Rightarrow> json option"
  we_raw_text :: "json \<Rightarrow> gostring"
  we_show_json :: "json \<Rightarrow> gostring"
  we_parse_query :: "gostring \<Rightarrow> (gostring \<times> gostring) list option"
  we_sign :: "gostring \<Rightarrow> gostring \<Rightarrow> gostring"
  we_base64 :: "gostring \<Rightarrow> gostring option"
  we_quoted_printable :: "gostring \<Rightarrow> gostring option"
  we_parse_float :: "gostring \<Rightarrow> rat option"
  we_media_type :: "gostring \<Rightarrow> gostring \<times> gostring \<times> bool"
  we_read_mail :: "gostring \<Rightarrow> (gostring \<times> gostring \<times> gostring) option"
  we_parts :: "gostring \<Rightarrow> gostring \<Rightarrow> (gostring \<times> gostring \<times> gostring) list"
  we_parse_address :: "gostring \<Rightarrow> (gostring \<times> gostring) option"
  we_lookup_query :: "gostring \<Rightarrow> gostring \<Rightarrow> gostring"
  we_valid_url :: "gostring \<Rightarrow> bool"

text \<open>
  \<open>ParseFloat\<close> also accepts \<open>NaN\<close> and \<open>Inf\<close>, which are no rationals: a magnitude beyond every double stands
  for them. \<open>json.Marshal\<close> refuses such a number.
\<close>

definition finite_float :: "rat \<Rightarrow> bool" where
  "finite_float x \<longleftrightarrow> \<bar>x\<bar> < 2 ^ 1024"

definition Marshal :: "CanonicalMessage \<Rightarrow> json option" where
  "Marshal m = (case bd_Location (cm_Body m) of
     None \<Rightarrow> Some (message_json m)
   | Some l \<Rightarrow> if finite_float (lo_Lat l) \<and> finite_float (lo_Lng l) then Some (message_json m) else None)"

section \<open>State\<close>

text \<open>The requests the service sends.\<close>

datatype outgoing =
    LookupRequest gostring gostring
  | IngestRequest gostring gostring gostring gostring
  | ConfirmRequest gostring

text \<open>
  The clock, the answers the network will give with the microseconds they take, the exchanges so far with the
  time each ended, the resolver's cache and the queue.
\<close>

record 'q receiver =
  rc_now :: time
  rc_net :: "(nat \<times> net_reply) list"
  rc_sent :: "(time \<times> outgoing \<times> net_reply) list"
  rc_cache :: "gostring \<rightharpoonup> gostring \<times> time"
  rc_queue :: 'q

type_synonym ('q, 'a) rprog = "('q receiver, 'a) prog"

definition seconds :: "nat \<Rightarrow> nat" where
  "seconds n = 1000000 * n"

definition exchange :: "nat \<Rightarrow> outgoing \<Rightarrow> ('q, net_reply) rprog" where
  "exchange limit rq = State (\<lambda>s.
     let (t, r) = (case rc_net s of [] \<Rightarrow> (0, NetError) | x # _ \<Rightarrow> x);
         (t, r) = (if limit \<le> t then (limit, NetError) else (t, r));
         ended = rc_now s + int t
     in (r, s\<lparr>rc_now := ended, rc_net := tl (rc_net s), rc_sent := rc_sent s @ [(ended, rq, r)]\<rparr>))"

text \<open>What \<open>net/http\<close> sends as the value of a header: no control character but the tab.\<close>

definition valid_header :: "gostring \<Rightarrow> bool" where
  "valid_header v \<longleftrightarrow> list_all (\<lambda>c. c = 9 \<or> (32 \<le> c \<and> c \<noteq> 127)) v"

definition bearer :: "gostring \<Rightarrow> gostring" where
  "bearer secret = str ''Bearer '' @ secret"

section \<open>Account resolution\<close>

datatype resolve_error = AccountUnknown | LookupFailed

definition lookupCacheTTL :: time where
  "lookupCacheTTL = 60 * second"

record HTTPResolver =
  hr_lookupURL :: gostring
  hr_token :: gostring

definition base_path :: "gostring \<Rightarrow> string \<Rightarrow> gostring" where
  "base_path baseURL path = TrimRight (\<lambda>c. c = 47) baseURL @ str path"

definition NewHTTPResolver :: "gostring \<Rightarrow> gostring \<Rightarrow> HTTPResolver" where
  "NewHTTPResolver baseURL secret = \<lparr>hr_lookupURL = base_path baseURL ''/v1/accounts/lookup'', hr_token = secret\<rparr>"

definition cache_key :: "gostring \<Rightarrow> gostring \<Rightarrow> gostring" where
  "cache_key platform identifier = platform @ [0] @ identifier"

definition cached :: "gostring \<Rightarrow> 'q receiver \<Rightarrow> gostring option" where
  "cached key s = (case rc_cache s key of None \<Rightarrow> None
     | Some (acc, expires) \<Rightarrow> if expires < rc_now s then None else Some acc)"

definition store_account :: "gostring \<Rightarrow> gostring \<Rightarrow> 'q receiver \<Rightarrow> 'q receiver" where
  "store_account key acc s = s\<lparr>rc_cache := (rc_cache s)(key \<mapsto> (acc, rc_now s + lookupCacheTTL))\<rparr>"

text \<open>The account id of a lookup response.\<close>

definition lookup_body :: "wenv \<Rightarrow> gostring \<Rightarrow> gostring option" where
  "lookup_body W body = do {
     j \<leftarrow> we_first_json W body;
     kvs \<leftarrow> struct_members j;
     acc \<leftarrow> str_field (we_uni W) ''account_id'' kvs;
     _ \<leftarrow> str_field (we_uni W) ''tenant_id'' kvs;
     Some acc }"

definition Resolve_account :: "wenv \<Rightarrow> HTTPResolver \<Rightarrow> gostring \<Rightarrow> gostring \<Rightarrow> ('q, resolve_error + gostring) rprog" where
  "Resolve_account W r platform identifier =
     (let key = cache_key platform identifier; url = hr_lookupURL r @ str ''?'' @ we_lookup_query W platform identifier
      in State_Monad.bind (gets (cached key)) (\<lambda>hit. case hit of
        Some acc \<Rightarrow> ret (Inr acc)
      | None \<Rightarrow>
          if \<not> we_valid_url W url \<or> \<not> valid_header (bearer (hr_token r)) then ret (Inl LookupFailed)
          else State_Monad.bind (exchange (seconds 10) (LookupRequest url (bearer (hr_token r)))) (\<lambda>resp. case resp of
            NetError \<Rightarrow> ret (Inl LookupFailed)
          | Reply code body \<Rightarrow>
              if code = 404 then ret (Inl AccountUnknown)
              else if 200 \<le> code \<and> code < 300 then
                (case lookup_body W body of
                   None \<Rightarrow> ret (Inl LookupFailed)
                 | Some acc \<Rightarrow>
                     if acc = [] then ret (Inl AccountUnknown)
                     else State_Monad.bind (modify (store_account key acc)) (\<lambda>_. ret (Inr acc)))
              else ret (Inl LookupFailed))))"

text \<open>The resolver over a static map, which only the tests use.\<close>

fun string_map :: "(gostring \<times> json) list \<Rightarrow> (gostring \<rightharpoonup> gostring) option" where
  "string_map [] = Some Map.empty"
| "string_map ((k, JStr v) # kvs) = map_option (\<lambda>m. (\<lambda>x. case m x of None \<Rightarrow> if x = k then Some v else None | Some y \<Rightarrow> Some y)) (string_map kvs)"
| "string_map ((k, JNull) # kvs) = map_option (\<lambda>m. (\<lambda>x. case m x of None \<Rightarrow> if x = k then Some [] else None | Some y \<Rightarrow> Some y)) (string_map kvs)"
| "string_map (_ # kvs) = None"

fun account_map :: "(gostring \<times> json) list \<Rightarrow> (gostring \<rightharpoonup> gostring \<rightharpoonup> gostring) option" where
  "account_map [] = Some Map.empty"
| "account_map ((k, v) # kvs) = (case struct_members v of None \<Rightarrow> None | Some sub \<Rightarrow> (case string_map sub of None \<Rightarrow> None
     | Some m \<Rightarrow> map_option (\<lambda>rest. (\<lambda>x. case rest x of None \<Rightarrow> if x = k then Some m else None | Some y \<Rightarrow> Some y)) (account_map kvs)))"

definition NewConfigResolver :: "wenv \<Rightarrow> gostring \<Rightarrow> (gostring \<rightharpoonup> gostring \<rightharpoonup> gostring) option" where
  "NewConfigResolver W s = (if TrimSpace s = [] then Some Map.empty
     else Option.bind (we_parse_json W (TrimSpace s)) (\<lambda>j. Option.bind (struct_members j) account_map))"

definition Resolve_config :: "(gostring \<rightharpoonup> gostring \<rightharpoonup> gostring) \<Rightarrow> gostring \<Rightarrow> gostring \<Rightarrow> resolve_error + gostring" where
  "Resolve_config m platform identifier = (case Option.bind (m platform) (\<lambda>sub. sub identifier) of
     None \<Rightarrow> Inl AccountUnknown | Some i \<Rightarrow> Inr i)"

section \<open>Listeners\<close>

text \<open>
  What a listener reads of an inbound request: \<open>ib_length\<close> is the declared length (zero when there is none),
  \<open>ib_size\<close> the number of bytes that come, and \<open>ib_body\<close> their text, \<open>None\<close> when reading them fails.
\<close>

record inbound =
  ib_method :: gostring
  ib_path :: "gostring list"
  ib_uri :: gostring
  ib_query :: "string \<Rightarrow> gostring"
  ib_header :: "string \<Rightarrow> gostring"
  ib_request_id :: gostring
  ib_length :: nat
  ib_size :: nat
  ib_body :: "gostring option"

text \<open>
  A listener: its id, its path, the check of a request's authenticity, and the parse, which yields the
  messages to forward or asks the platform to retry (\<open>Inl ()\<close>).
\<close>

record 'q listener =
  ls_ID :: gostring
  ls_Path :: "string list"
  ls_Verify :: "inbound \<Rightarrow> gostring \<Rightarrow> bool"
  ls_Parse :: "inbound \<Rightarrow> gostring \<Rightarrow> ('q, unit + CanonicalMessage list) rprog"

text \<open>
  \<open>resolver.Resolve\<close> as every listener uses it: an unknown account drops the message, a failed lookup asks
  for a retry.
\<close>

definition with_account :: "('q, resolve_error + gostring) rprog \<Rightarrow> (gostring \<Rightarrow> ('q, unit + CanonicalMessage list) rprog) \<Rightarrow>
    ('q, unit + CanonicalMessage list) rprog" where
  "with_account resolve f = State_Monad.bind resolve (\<lambda>r. case r of
     Inl AccountUnknown \<Rightarrow> ret (Inr [])
   | Inl LookupFailed \<Rightarrow> ret (Inl ())
   | Inr acc \<Rightarrow> f acc)"

definition empty_sender :: Sender where
  "empty_sender = \<lparr>se_Endpoint = [], se_Platform = [], se_Handle = None, se_FullName = None, se_FirstName = None,
     se_LastName = None, se_Email = None, se_AvatarURL = None\<rparr>"

definition nonempty :: "gostring \<Rightarrow> gostring option" where
  "nonempty s = (if s = [] then None else Some s)"

text \<open>The shared secret of a listener: none configured fails closed.\<close>

definition secret_matches :: "gostring \<Rightarrow> gostring \<Rightarrow> bool" where
  "secret_matches secret given \<longleftrightarrow> secret \<noteq> [] \<and> given = secret"

end
