(* ===== verification/Message_Queue.thy ===== *)
theory Message_Queue
  imports Receiver "HOL-Library.Multiset"
begin

text \<open>
  \<open>internal/queue\<close> of the webhook service: the interface the rest of the service depends on, the in-memory
  queue, and the adapter to Amazon SQS over the part of its client that \<open>sqs.go\<close> names.
\<close>

section \<open>The interface\<close>

text \<open>A delivery is its message and the handle it is acknowledged by. A \<open>bool\<close> is whether there was no error.\<close>

record ('q, 'h) Queue =
  qu_Enqueue :: "CanonicalMessage \<Rightarrow> ('q, bool) prog"
  qu_Receive :: "('q, (CanonicalMessage \<times> 'h) list option) prog"
  qu_Ack :: "'h \<Rightarrow> ('q, bool) prog"
  qu_Nack :: "'h \<Rightarrow> ('q, bool) prog"

definition on_queue :: "('q, 'a) prog \<Rightarrow> ('q, 'a) rprog" where
  "on_queue p = State (\<lambda>s. case run p (rc_queue s) of (a, q) \<Rightarrow> (a, s\<lparr>rc_queue := q\<rparr>))"

text \<open>
  What a queue promises. \<open>holds q hs\<close> are the messages that the queue and the outstanding deliveries \<open>hs\<close>
  keep between them, whatever the order of the deliveries: none of them goes but by an acknowledgement, and a message enqueued without an error is
  one of them.
\<close>

locale queue =
  fixes Q :: "('q, 'h) Queue" and holds :: "'q \<Rightarrow> 'h list \<Rightarrow> CanonicalMessage set"
    and carries :: "'h \<Rightarrow> CanonicalMessage" and fit :: "CanonicalMessage \<Rightarrow> bool"
  assumes order: "mset hs = mset hs' \<Longrightarrow> holds q hs = holds q hs'"
    and enqueue: "run (qu_Enqueue Q m) q = (ok, q') \<Longrightarrow> fit m \<Longrightarrow> holds q hs \<union> (if ok then {m} else {}) \<subseteq> holds q' hs"
    and receive: "run (qu_Receive Q) q = (Some ds, q') \<Longrightarrow> holds q hs \<subseteq> holds q' (hs @ map snd ds)"
    and received: "run (qu_Receive Q) q = (Some ds, q') \<Longrightarrow> (m, h) \<in> set ds \<Longrightarrow> carries h = m"
    and receive_failed: "run (qu_Receive Q) q = (None, q') \<Longrightarrow> holds q hs \<subseteq> holds q' hs"
    and ack: "run (qu_Ack Q h) q = (ok, q') \<Longrightarrow> h \<in> set hs \<Longrightarrow> holds q hs \<subseteq> insert (carries h) (holds q' (remove1 h hs))"
    and nack: "run (qu_Nack Q h) q = (ok, q') \<Longrightarrow> h \<in> set hs \<Longrightarrow> holds q hs \<subseteq> holds q' (remove1 h hs)"

text \<open>A durable queue keeps its messages without the help of the process that received them.\<close>

locale durable_queue = queue +
  assumes durable: "holds q hs \<subseteq> holds q []"

section \<open>The queue in memory\<close>

type_synonym memory = "CanonicalMessage list"

definition NewMemory :: memory where
  "NewMemory = []"

definition Memory_Enqueue :: "CanonicalMessage \<Rightarrow> (memory, bool) prog" where
  "Memory_Enqueue m = State (\<lambda>items. (True, items @ [m]))"

definition Memory_Receive :: "(memory, (CanonicalMessage \<times> CanonicalMessage) list option) prog" where
  "Memory_Receive = State (\<lambda>items. (Some (map (\<lambda>m. (m, m)) items), []))"

definition memDelivery_Ack :: "CanonicalMessage \<Rightarrow> (memory, bool) prog" where
  "memDelivery_Ack m = ret True"

definition memDelivery_Nack :: "CanonicalMessage \<Rightarrow> (memory, bool) prog" where
  "memDelivery_Nack m = Memory_Enqueue m"

definition Memory :: "(memory, CanonicalMessage) Queue" where
  "Memory = \<lparr>qu_Enqueue = Memory_Enqueue, qu_Receive = Memory_Receive, qu_Ack = memDelivery_Ack, qu_Nack = memDelivery_Nack\<rparr>"

definition memory_holds :: "memory \<Rightarrow> CanonicalMessage list \<Rightarrow> CanonicalMessage set" where
  "memory_holds items hs = set items \<union> set hs"

lemmas Memory_defs = Memory_def Memory_Enqueue_def Memory_Receive_def memDelivery_Ack_def memDelivery_Nack_def memory_holds_def

lemma subset_remove1: "h \<in> set hs \<Longrightarrow> set hs \<subseteq> insert h (set (remove1 h hs))"
  by (metis insertI1 insertI2 in_set_remove1 subsetI)

interpretation mem: queue Memory memory_holds "\<lambda>m. m" "\<lambda>_. True"
proof
  show "memory_holds q hs \<subseteq> insert h (memory_holds q' (remove1 h hs))"
    if "run (qu_Ack Memory h) q = (ok, q')" "h \<in> set hs" for h q ok q' hs
    using that subset_remove1[of h hs] by (auto simp: Memory_defs)
  show "memory_holds q hs \<subseteq> memory_holds q' (remove1 h hs)"
    if "run (qu_Nack Memory h) q = (ok, q')" "h \<in> set hs" for h q ok q' hs
    using that subset_remove1[of h hs] by (auto simp: Memory_defs)
qed (auto simp: Memory_defs image_image dest: mset_eq_setD)

section \<open>The SQS adapter\<close>

record sqs_message =
  sm_Body :: "gostring option"
  sm_ReceiptHandle :: "gostring option"

text \<open>The client operations: the queue URL, then the input; a receive takes the batch size and the wait.\<close>

record 's sqsAPI =
  sa_SendMessage :: "gostring \<Rightarrow> gostring \<Rightarrow> ('s, bool) prog"
  sa_ReceiveMessage :: "gostring \<Rightarrow> nat \<Rightarrow> nat \<Rightarrow> ('s, sqs_message list option) prog"
  sa_DeleteMessage :: "gostring \<Rightarrow> gostring \<Rightarrow> ('s, bool) prog"
  sa_ChangeMessageVisibility :: "gostring \<Rightarrow> gostring \<Rightarrow> nat \<Rightarrow> ('s, bool) prog"

definition sqsMaxMessages :: nat where
  "sqsMaxMessages = 10"

definition sqsWaitSeconds :: nat where
  "sqsWaitSeconds = 20"

definition SQS_Enqueue :: "wenv \<Rightarrow> 's sqsAPI \<Rightarrow> gostring \<Rightarrow> CanonicalMessage \<Rightarrow> ('s, bool) prog" where
  "SQS_Enqueue W client queueURL m = (case Marshal m of None \<Rightarrow> ret False
     | Some j \<Rightarrow> sa_SendMessage client queueURL (we_show_json W j))"

definition Unmarshal :: "wenv \<Rightarrow> gostring \<Rightarrow> CanonicalMessage option" where
  "Unmarshal W body = Option.bind (we_parse_json W body) (decode_webhook_message (we_uni W))"

text \<open>A message without a body or handle, or with a body that cannot be read, is passed over.\<close>

definition sqs_delivery :: "wenv \<Rightarrow> sqs_message \<Rightarrow> (CanonicalMessage \<times> gostring) option" where
  "sqs_delivery W m = (case (sm_Body m, sm_ReceiptHandle m) of
     (Some body, Some h) \<Rightarrow> map_option (\<lambda>msg. (msg, h)) (Unmarshal W body) | _ \<Rightarrow> None)"

definition SQS_Receive :: "wenv \<Rightarrow> 's sqsAPI \<Rightarrow> gostring \<Rightarrow> ('s, (CanonicalMessage \<times> gostring) list option) prog" where
  "SQS_Receive W client queueURL = State_Monad.bind (sa_ReceiveMessage client queueURL sqsMaxMessages sqsWaitSeconds)
     (\<lambda>r. ret (map_option (List.map_filter (sqs_delivery W)) r))"

definition sqsDelivery_Ack :: "'s sqsAPI \<Rightarrow> gostring \<Rightarrow> gostring \<Rightarrow> ('s, bool) prog" where
  "sqsDelivery_Ack client queueURL h = sa_DeleteMessage client queueURL h"

definition sqsDelivery_Nack :: "'s sqsAPI \<Rightarrow> gostring \<Rightarrow> gostring \<Rightarrow> ('s, bool) prog" where
  "sqsDelivery_Nack client queueURL h = sa_ChangeMessageVisibility client queueURL h 0"

definition NewSQS :: "wenv \<Rightarrow> 's sqsAPI \<Rightarrow> gostring \<Rightarrow> ('s, gostring) Queue" where
  "NewSQS W client queueURL = \<lparr>qu_Enqueue = SQS_Enqueue W client queueURL, qu_Receive = SQS_Receive W client queueURL,
     qu_Ack = sqsDelivery_Ack client queueURL, qu_Nack = sqsDelivery_Nack client queueURL\<rparr>"

lemmas SQS_defs = NewSQS_def SQS_Enqueue_def SQS_Receive_def sqsDelivery_Ack_def sqsDelivery_Nack_def

text \<open>
  What SQS documents: \<open>keeps\<close> are the bodies the queue and its dead-letter queue hold, seen or not. A send
  that succeeds adds its body, a deletion removes no body but the one its receipt handle stands for, and
  nothing else removes any.
\<close>

locale sqs_broker =
  fixes client :: "'s sqsAPI" and queueURL :: gostring and keeps :: "'s \<Rightarrow> gostring set" and body_of :: "gostring \<Rightarrow> gostring"
  assumes send: "run (sa_SendMessage client queueURL b) s = (ok, s') \<Longrightarrow> keeps s \<union> (if ok then {b} else {}) \<subseteq> keeps s'"
    and get: "run (sa_ReceiveMessage client queueURL n t) s = (r, s') \<Longrightarrow> keeps s \<subseteq> keeps s'"
    and got: "run (sa_ReceiveMessage client queueURL n t) s = (Some ms, s') \<Longrightarrow> x \<in> set ms \<Longrightarrow>
      sm_Body x = Some b \<Longrightarrow> sm_ReceiptHandle x = Some h \<Longrightarrow> body_of h = b"
    and delete: "run (sa_DeleteMessage client queueURL h) s = (ok, s') \<Longrightarrow> keeps s \<subseteq> insert (body_of h) (keeps s')"
    and visibility: "run (sa_ChangeMessageVisibility client queueURL h v) s = (ok, s') \<Longrightarrow> keeps s \<subseteq> keeps s'"

text \<open>The messages the adapter can read off the bodies of the queue, and the messages it reads back as sent.\<close>

definition sqs_holds :: "wenv \<Rightarrow> ('s \<Rightarrow> gostring set) \<Rightarrow> 's \<Rightarrow> gostring list \<Rightarrow> CanonicalMessage set" where
  "sqs_holds W keeps s hs = {m. \<exists>b\<in>keeps s. Unmarshal W b = Some m}"

definition sqs_carries :: "wenv \<Rightarrow> (gostring \<Rightarrow> gostring) \<Rightarrow> gostring \<Rightarrow> CanonicalMessage" where
  "sqs_carries W body_of h = (case Unmarshal W (body_of h) of None \<Rightarrow> undefined | Some m \<Rightarrow> m)"

definition sqs_fit :: "wenv \<Rightarrow> CanonicalMessage \<Rightarrow> bool" where
  "sqs_fit W m \<longleftrightarrow> (case Marshal m of None \<Rightarrow> True | Some j \<Rightarrow> Unmarshal W (we_show_json W j) = Some m)"

context sqs_broker
begin

lemma received_body:
  assumes "run (SQS_Receive W client queueURL) s = (Some ds, s')" and "(m, h) \<in> set ds"
  shows "Unmarshal W (body_of h) = Some m"
proof -
  obtain r where r: "run (sa_ReceiveMessage client queueURL sqsMaxMessages sqsWaitSeconds) s = (Some r, s')"
      and ds: "ds = List.map_filter (sqs_delivery W) r"
    using assms(1) by (auto simp: SQS_Receive_def split: prod.splits)
  from assms(2) obtain x where x: "x \<in> set r" "sqs_delivery W x = Some (m, h)"
    unfolding ds by (auto simp: List.map_filter_def)
  then obtain b where "sm_Body x = Some b" "sm_ReceiptHandle x = Some h" "Unmarshal W b = Some m"
    by (auto simp: sqs_delivery_def split: option.splits)
  then show ?thesis using got[OF r x(1)] by simp
qed

lemma adapter_durable: "durable_queue (NewSQS W client queueURL) (sqs_holds W keeps) (sqs_carries W body_of) (sqs_fit W)"
proof
  show "sqs_holds W keeps q hs \<union> (if ok then {m} else {}) \<subseteq> sqs_holds W keeps q' hs"
    if "run (qu_Enqueue (NewSQS W client queueURL) m) q = (ok, q')" "sqs_fit W m" for m q ok q' hs
  proof (cases "Marshal m")
    case None
    then show ?thesis using that by (simp add: SQS_defs sqs_holds_def)
  next
    case (Some j)
    then have "keeps q \<union> (if ok then {we_show_json W j} else {}) \<subseteq> keeps q'" "Unmarshal W (we_show_json W j) = Some m"
      using that send by (auto simp: SQS_defs sqs_fit_def)
    then show ?thesis by (auto simp: sqs_holds_def split: if_splits)
  qed
  show "sqs_holds W keeps q hs \<subseteq> sqs_holds W keeps q' (hs @ map snd ds)"
    if "run (qu_Receive (NewSQS W client queueURL)) q = (Some ds, q')" for q ds q' hs
    using that get by (fastforce simp: SQS_defs sqs_holds_def split: prod.splits)
  show "sqs_holds W keeps q hs \<subseteq> sqs_holds W keeps q' hs"
    if "run (qu_Receive (NewSQS W client queueURL)) q = (None, q')" for q q' hs
    using that get by (fastforce simp: SQS_defs sqs_holds_def split: prod.splits)
  show "sqs_carries W body_of h = m"
    if "run (qu_Receive (NewSQS W client queueURL)) q = (Some ds, q')" "(m, h) \<in> set ds" for q ds q' m h
    using received_body[OF _ that(2)] that(1) by (simp add: NewSQS_def sqs_carries_def)
  show "sqs_holds W keeps q hs \<subseteq> insert (sqs_carries W body_of h) (sqs_holds W keeps q' (remove1 h hs))"
    if "run (qu_Ack (NewSQS W client queueURL) h) q = (ok, q')" "h \<in> set hs" for h q ok q' hs
    using that delete by (fastforce simp: SQS_defs sqs_holds_def sqs_carries_def)
  show "sqs_holds W keeps q hs \<subseteq> sqs_holds W keeps q' (remove1 h hs)"
    if "run (qu_Nack (NewSQS W client queueURL) h) q = (ok, q')" "h \<in> set hs" for h q ok q' hs
    using that visibility by (fastforce simp: SQS_defs sqs_holds_def)
qed (simp_all add: sqs_holds_def)

sublocale adapter: durable_queue "NewSQS W client queueURL" "sqs_holds W keeps" "sqs_carries W body_of" "sqs_fit W" for W
  by (rule adapter_durable)

end

text \<open>The messages of the listeners fit: the adapter reads back what \<open>canonical_round_trip\<close> gives it.\<close>

lemma sqs_fit_representable:
  assumes "\<And>j. we_parse_json W (we_show_json W j) = Some j" and "representable m" and "me_RawPayload (cm_Meta m) = Some raw"
  shows "sqs_fit W m"
proof (cases "Marshal m")
  case (Some j)
  then have "j = message_json m" by (auto simp: Marshal_def split: option.splits if_splits)
  moreover have "m\<lparr>cm_Meta := (cm_Meta m)\<lparr>me_RawPayload := Some raw\<rparr>\<rparr> = m" using assms(3) by simp
  ultimately show ?thesis
    using Some assms(1,3) webhook_round_trip[OF assms(2), of "we_uni W"]
    by (simp add: sqs_fit_def Unmarshal_def json_ptr_def)
qed (simp add: sqs_fit_def)

section \<open>A concrete broker\<close>

text \<open>A broker whose receipt handles are the bodies, as an instance of the contract.\<close>

definition list_broker :: "gostring list sqsAPI" where
  "list_broker = \<lparr>sa_SendMessage = (\<lambda>url b. State (\<lambda>bs. (True, bs @ [b]))),
     sa_ReceiveMessage = (\<lambda>url n t. State (\<lambda>bs. (Some (map (\<lambda>b. \<lparr>sm_Body = Some b, sm_ReceiptHandle = Some b\<rparr>) (take n bs)), bs))),
     sa_DeleteMessage = (\<lambda>url h. State (\<lambda>bs. (True, filter (\<lambda>b. b \<noteq> h) bs))),
     sa_ChangeMessageVisibility = (\<lambda>url h v. ret True)\<rparr>"

interpretation list_broker: sqs_broker list_broker url set "\<lambda>h. h" for url
  by unfold_locales (auto simp: list_broker_def)

end
