(* ===== verification/Drain.thy ===== *)
theory Drain
  imports Message_Queue
begin

text \<open>
  \<open>internal/publisher\<close> and \<open>internal/drain\<close>: how a buffered message is forwarded to the channels service, and
  the worker that drains the queue into the publisher with a bounded number of deliveries at a time.
\<close>

section \<open>The publisher\<close>

datatype publish_error = PermanentError nat | Transient

definition IsPermanent :: "publish_error \<Rightarrow> bool" where
  "IsPermanent e \<longleftrightarrow> (case e of PermanentError _ \<Rightarrow> True | Transient \<Rightarrow> False)"

record Publisher =
  pb_ingestURL :: gostring
  pb_token :: gostring

definition NewHTTP :: "gostring \<Rightarrow> gostring \<Rightarrow> Publisher" where
  "NewHTTP baseURL secret = \<lparr>pb_ingestURL = base_path baseURL ''/v1/ingest'', pb_token = secret\<rparr>"

definition classify :: "nat \<Rightarrow> publish_error option" where
  "classify code =
     (if 200 \<le> code \<and> code < 300 then None
      else if code = 429 then Some Transient
      else if 400 \<le> code \<and> code < 500 then Some (PermanentError code)
      else Some Transient)"

text \<open>The request of a message, if it can be built and sent; a reply is awaited for 15 seconds.\<close>

definition ingest_request :: "wenv \<Rightarrow> Publisher \<Rightarrow> CanonicalMessage \<Rightarrow> outgoing option" where
  "ingest_request W p m = (case Marshal m of None \<Rightarrow> None
     | Some j \<Rightarrow>
         let auth = bearer (pb_token p); key = me_PlatformMessageID (cm_Meta m)
         in if we_valid_url W (pb_ingestURL p) \<and> valid_header auth \<and> valid_header key
            then Some (IngestRequest (pb_ingestURL p) auth key (we_show_json W j)) else None)"

definition Publish :: "wenv \<Rightarrow> Publisher \<Rightarrow> CanonicalMessage \<Rightarrow> ('q, publish_error option) rprog" where
  "Publish W p m = (case ingest_request W p m of
     None \<Rightarrow> ret (Some Transient)
   | Some rq \<Rightarrow> State_Monad.bind (exchange (seconds 15) rq) (\<lambda>resp. ret (case resp of
       NetError \<Rightarrow> Some Transient | Reply code body \<Rightarrow> classify code)))"

lemma classify_None: "classify code = None \<longleftrightarrow> 200 \<le> code \<and> code < 300"
  by (simp add: classify_def)

lemma classify_Permanent: "classify code = Some (PermanentError n) \<longleftrightarrow> n = code \<and> 400 \<le> code \<and> code < 500 \<and> code \<noteq> 429"
  by (auto simp: classify_def)

section \<open>The worker\<close>

record ('q, 'h) Worker =
  wk_queue :: "('q, 'h) Queue"
  wk_pub :: Publisher
  wk_concurrency :: nat

definition receiveBackoff :: time where
  "receiveBackoff = second"

definition NewWorker :: "('q, 'h) Queue \<Rightarrow> Publisher \<Rightarrow> int \<Rightarrow> ('q, 'h) Worker" where
  "NewWorker q pub concurrency =
     \<lparr>wk_queue = q, wk_pub = pub, wk_concurrency = nat (if concurrency < 1 then 1 else concurrency)\<rparr>"

type_synonym 'h delivery = "CanonicalMessage \<times> 'h"

text \<open>What follows the publish: an acknowledgement, or the return of the message whatever the failure was.\<close>

definition settle :: "('q, 'h) Worker \<Rightarrow> 'h delivery \<Rightarrow> publish_error option \<Rightarrow> ('q, bool) rprog" where
  "settle w d err = (case err of
     Some _ \<Rightarrow> on_queue (qu_Nack (wk_queue w) (snd d))
   | None \<Rightarrow> on_queue (qu_Ack (wk_queue w) (snd d)))"

definition handle :: "wenv \<Rightarrow> ('q, 'h) Worker \<Rightarrow> 'h delivery \<Rightarrow> ('q, unit) rprog" where
  "handle W w d = do { err \<leftarrow> Publish W (wk_pub w) (fst d); _ \<leftarrow> settle w d err; ret () }"

primrec handle_all :: "wenv \<Rightarrow> ('q, 'h) Worker \<Rightarrow> 'h delivery list \<Rightarrow> ('q, unit) rprog" where
  "handle_all W w [] = ret ()"
| "handle_all W w (d # ds) = do { _ \<leftarrow> handle W w d; handle_all W w ds }"

text \<open>
  A pass of the worker when each delivery ends before the next begins, as at concurrency one: the number of
  deliveries, or the error of the receive.
\<close>

definition drainOnce :: "wenv \<Rightarrow> ('q, 'h) Worker \<Rightarrow> ('q, nat option) rprog" where
  "drainOnce W w = do {
     r \<leftarrow> on_queue (qu_Receive (wk_queue w));
     case r of None \<Rightarrow> ret None
     | Some ds \<Rightarrow> do { _ \<leftarrow> handle_all W w ds; ret (Some (length ds)) } }"

text \<open>
  The worker in general: the deliveries of the batch not yet started, and the running ones, each with the
  outcome of its publish once it has one. The slots of the semaphore bound the running ones. \<open>Stop\<close> is the
  end of the process, and the deliveries it held, at any moment.
\<close>

record ('q, 'h) drain =
  dr_recv :: "'q receiver"
  dr_waiting :: "'h delivery list"
  dr_running :: "('h delivery \<times> publish_error option option) list"

definition remove_nth :: "nat \<Rightarrow> 'a list \<Rightarrow> 'a list" where
  "remove_nth i xs = take i xs @ drop (Suc i) xs"

inductive drain_step :: "wenv \<Rightarrow> ('q, 'h) Worker \<Rightarrow> ('q, 'h) drain \<Rightarrow> ('q, 'h) drain \<Rightarrow> bool" for W w where
  Received: "dr_waiting s = [] \<Longrightarrow> dr_running s = [] \<Longrightarrow> run (on_queue (qu_Receive (wk_queue w))) (dr_recv s) = (Some ds, r) \<Longrightarrow>
    drain_step W w s (s\<lparr>dr_recv := r, dr_waiting := ds\<rparr>)"
| Backoff: "dr_waiting s = [] \<Longrightarrow> dr_running s = [] \<Longrightarrow> run (on_queue (qu_Receive (wk_queue w))) (dr_recv s) = (None, r) \<Longrightarrow>
    drain_step W w s (s\<lparr>dr_recv := r\<lparr>rc_now := rc_now r + receiveBackoff\<rparr>\<rparr>)"
| Begin: "dr_waiting s = d # ds \<Longrightarrow> length (dr_running s) < wk_concurrency w \<Longrightarrow>
    drain_step W w s (s\<lparr>dr_waiting := ds, dr_running := dr_running s @ [(d, None)]\<rparr>)"
| Published: "i < length (dr_running s) \<Longrightarrow> dr_running s ! i = (d, None) \<Longrightarrow>
    run (Publish W (wk_pub w) (fst d)) (dr_recv s) = (err, r) \<Longrightarrow>
    drain_step W w s (s\<lparr>dr_recv := r, dr_running := (dr_running s)[i := (d, Some err)]\<rparr>)"
| Settled: "i < length (dr_running s) \<Longrightarrow> dr_running s ! i = (d, Some err) \<Longrightarrow>
    run (settle w d err) (dr_recv s) = (ok, r) \<Longrightarrow>
    drain_step W w s (s\<lparr>dr_recv := r, dr_running := remove_nth i (dr_running s)\<rparr>)"

definition stop_process :: "('q, 'h) drain \<Rightarrow> ('q, 'h) drain" where
  "stop_process s = s\<lparr>dr_recv := (dr_recv s)\<lparr>rc_cache := Map.empty\<rparr>, dr_waiting := [], dr_running := []\<rparr>"

end
