(* ===== verification/Listener_Telegram.thy ===== *)
theory Listener_Telegram
  imports Receiver
begin

text \<open>
  \<open>internal/listeners/telegram\<close>: the update a bot's webhook posts, decoded, checked and turned into at most
  one canonical message.
\<close>

section \<open>Updates\<close>

record tg_user =
  tu_ID :: int
  tu_IsBot :: bool
  tu_FirstName :: gostring
  tu_LastName :: gostring
  tu_Username :: gostring

record tg_chat =
  tc_ID :: int
  tc_Type :: gostring

record tg_file =
  tf_FileID :: gostring
  tf_MimeType :: gostring
  tf_FileName :: gostring

record tg_geo =
  tl_Latitude :: rat
  tl_Longitude :: rat

text \<open>A message; the one it replies to is a message again, of which only the id is read.\<close>

record tg_fields =
  tm_MessageID :: int
  tm_From :: "tg_user option"
  tm_Chat :: tg_chat
  tm_Date :: int
  tm_Text :: gostring
  tm_Caption :: gostring
  tm_Photo :: "gostring list"
  tm_Voice :: "tg_file option"
  tm_Audio :: "tg_file option"
  tm_Video :: "tg_file option"
  tm_VideoNote :: "tg_file option"
  tm_Animation :: "tg_file option"
  tm_Document :: "tg_file option"
  tm_Sticker :: "tg_file option"
  tm_Location :: "tg_geo option"

datatype tg_message = TgMessage (tm_fields: tg_fields) (tm_reply: "tg_message option")

section \<open>Decoding\<close>

definition int_field :: "unicode \<Rightarrow> string \<Rightarrow> (gostring \<times> json) list \<Rightarrow> int option" where
  "int_field U n kvs = decode_int int64_min int64_max (members U (str n) kvs) 0"

text \<open>A pointer to a struct decoded by \<open>f\<close>.\<close>

definition struct_ptr :: "unicode \<Rightarrow> string \<Rightarrow> ((gostring \<times> json) list \<Rightarrow> 'a option) \<Rightarrow> (gostring \<times> json) list \<Rightarrow> 'a option option" where
  "struct_ptr U n f kvs = (case struct_ptr_field (members U (str n) kvs) None of None \<Rightarrow> None
     | Some None \<Rightarrow> Some None | Some (Some sub) \<Rightarrow> map_option Some (f sub))"

definition decode_user :: "unicode \<Rightarrow> (gostring \<times> json) list \<Rightarrow> tg_user option" where
  "decode_user U kvs = do {
     i \<leftarrow> int_field U ''id'' kvs;
     bot \<leftarrow> decode_bool (members U (str ''is_bot'') kvs) False;
     fn \<leftarrow> str_field U ''first_name'' kvs;
     ln \<leftarrow> str_field U ''last_name'' kvs;
     un \<leftarrow> str_field U ''username'' kvs;
     Some \<lparr>tu_ID = i, tu_IsBot = bot, tu_FirstName = fn, tu_LastName = ln, tu_Username = un\<rparr> }"

definition decode_chat :: "unicode \<Rightarrow> (gostring \<times> json) list \<Rightarrow> tg_chat option" where
  "decode_chat U kvs = do { i \<leftarrow> int_field U ''id'' kvs; ty \<leftarrow> str_field U ''type'' kvs; Some \<lparr>tc_ID = i, tc_Type = ty\<rparr> }"

definition decode_file :: "unicode \<Rightarrow> (gostring \<times> json) list \<Rightarrow> tg_file option" where
  "decode_file U kvs = do {
     i \<leftarrow> str_field U ''file_id'' kvs;
     m \<leftarrow> str_field U ''mime_type'' kvs;
     n \<leftarrow> str_field U ''file_name'' kvs;
     Some \<lparr>tf_FileID = i, tf_MimeType = m, tf_FileName = n\<rparr> }"

definition decode_geo :: "unicode \<Rightarrow> (gostring \<times> json) list \<Rightarrow> tg_geo option" where
  "decode_geo U kvs = do {
     lat \<leftarrow> decode_float (members U (str ''latitude'') kvs) 0;
     lng \<leftarrow> decode_float (members U (str ''longitude'') kvs) 0;
     Some \<lparr>tl_Latitude = lat, tl_Longitude = lng\<rparr> }"

definition decode_photo :: "unicode \<Rightarrow> json \<Rightarrow> gostring option" where
  "decode_photo U j = Option.bind (struct_members j) (str_field U ''file_id'')"

fun decode_photos :: "unicode \<Rightarrow> json list \<Rightarrow> gostring list \<Rightarrow> gostring list option" where
  "decode_photos U [] v = Some v"
| "decode_photos U (JNull # js) v = decode_photos U js []"
| "decode_photos U (JArr xs # js) v =
     (case decode_each (decode_photo U) xs of None \<Rightarrow> None | Some ps \<Rightarrow> decode_photos U js ps)"
| "decode_photos U (_ # js) v = None"

definition decode_tg_fields :: "unicode \<Rightarrow> (gostring \<times> json) list \<Rightarrow> tg_fields option" where
  "decode_tg_fields U kvs = do {
     i \<leftarrow> int_field U ''message_id'' kvs;
     from \<leftarrow> struct_ptr U ''from'' (decode_user U) kvs;
     ckvs \<leftarrow> struct_field (members U (str ''chat'') kvs);
     chat \<leftarrow> decode_chat U ckvs;
     date \<leftarrow> int_field U ''date'' kvs;
     text \<leftarrow> str_field U ''text'' kvs;
     caption \<leftarrow> str_field U ''caption'' kvs;
     photo \<leftarrow> decode_photos U (members U (str ''photo'') kvs) [];
     voice \<leftarrow> struct_ptr U ''voice'' (decode_file U) kvs;
     audio \<leftarrow> struct_ptr U ''audio'' (decode_file U) kvs;
     video \<leftarrow> struct_ptr U ''video'' (decode_file U) kvs;
     note \<leftarrow> struct_ptr U ''video_note'' (decode_file U) kvs;
     animation \<leftarrow> struct_ptr U ''animation'' (decode_file U) kvs;
     document \<leftarrow> struct_ptr U ''document'' (decode_file U) kvs;
     sticker \<leftarrow> struct_ptr U ''sticker'' (decode_file U) kvs;
     location \<leftarrow> struct_ptr U ''location'' (decode_geo U) kvs;
     Some \<lparr>tm_MessageID = i, tm_From = from, tm_Chat = chat, tm_Date = date, tm_Text = text, tm_Caption = caption,
       tm_Photo = photo, tm_Voice = voice, tm_Audio = audio, tm_Video = video, tm_VideoNote = note,
       tm_Animation = animation, tm_Document = document, tm_Sticker = sticker, tm_Location = location\<rparr> }"

text \<open>The nesting of replies goes down in the JSON value.\<close>

definition kvs_size :: "(gostring \<times> json) list \<Rightarrow> nat" where
  "kvs_size kvs = sum_list (map (\<lambda>kv. size (snd kv)) kvs)"

lemma size_JObj: "size (JObj kvs) > kvs_size kvs"
  unfolding kvs_size_def by (induction kvs) auto

lemma kvs_size_append [simp]: "kvs_size (a @ b) = kvs_size a + kvs_size b"
  by (simp add: kvs_size_def)

lemma struct_ptr_field_size:
  "struct_ptr_field js v = Some (Some sub) \<Longrightarrow> js \<noteq> [] \<Longrightarrow>
   kvs_size sub < sum_list (map size js) + (case v of None \<Rightarrow> 0 | Some old \<Rightarrow> kvs_size old)"
proof (induction js v rule: struct_ptr_field.induct)
  case (2 js v)
  then show ?case by (cases js) (auto split: option.splits)
next
  case (3 kvs js v)
  then show ?case using size_JObj[of kvs] by (cases js) (auto split: option.splits)
qed auto

lemma members_size: "sum_list (map size (members U n kvs)) \<le> kvs_size kvs"
  by (induction kvs) (auto simp: members_Cons kvs_size_def)

function decode_tg :: "unicode \<Rightarrow> (gostring \<times> json) list \<Rightarrow> tg_message option" where
  "decode_tg U kvs = (case decode_tg_fields U kvs of None \<Rightarrow> None
     | Some f \<Rightarrow> (case struct_ptr_field (members U (str ''reply_to_message'') kvs) None of
         None \<Rightarrow> None
       | Some None \<Rightarrow> Some (TgMessage f None)
       | Some (Some sub) \<Rightarrow> map_option (\<lambda>r. TgMessage f (Some r)) (decode_tg U sub)))"
  by pat_completeness auto
termination
proof (relation "measure (\<lambda>(U, kvs). kvs_size kvs)")
  fix U kvs f r sub
  assume sub: "struct_ptr_field (members U (str ''reply_to_message'') kvs) None = Some r" "r = Some sub"
  then have "members U (str ''reply_to_message'') kvs \<noteq> []" by auto
  then have "kvs_size sub < kvs_size kvs"
    using struct_ptr_field_size[of "members U (str ''reply_to_message'') kvs" None sub] sub
      members_size[of U "str ''reply_to_message''" kvs] by simp
  then show "((U, sub), U, kvs) \<in> measure (\<lambda>(U, kvs). kvs_size kvs)" by simp
qed simp

declare decode_tg.simps [simp del]

record tg_update =
  ud_UpdateID :: int
  ud_Message :: "tg_message option"

definition decode_update :: "unicode \<Rightarrow> json \<Rightarrow> tg_update option" where
  "decode_update U j = do {
     kvs \<leftarrow> struct_members j;
     i \<leftarrow> int_field U ''update_id'' kvs;
     m \<leftarrow> struct_ptr U ''message'' (decode_tg U) kvs;
     Some \<lparr>ud_UpdateID = i, ud_Message = m\<rparr> }"

section \<open>The canonical message\<close>

definition fileAttachment :: "string \<Rightarrow> tg_file \<Rightarrow> Attachment" where
  "fileAttachment typ f = \<lparr>at_Type = str typ, at_URL = tf_FileID f, at_Mime = nonempty (tf_MimeType f), at_Filename = None\<rparr>"

text \<open>The one media item of a message; of a photo the last, largest size.\<close>

definition mediaAttachment :: "tg_fields \<Rightarrow> Attachment option" where
  "mediaAttachment m =
     (if tm_Photo m \<noteq> [] then Some \<lparr>at_Type = str ''image'', at_URL = last (tm_Photo m), at_Mime = None, at_Filename = None\<rparr>
      else case tm_Voice m of Some f \<Rightarrow> Some (fileAttachment ''audio'' f)
      | None \<Rightarrow> (case tm_Audio m of Some f \<Rightarrow> Some (fileAttachment ''audio'' f)
      | None \<Rightarrow> (case tm_Video m of Some f \<Rightarrow> Some (fileAttachment ''video'' f)
      | None \<Rightarrow> (case tm_VideoNote m of Some f \<Rightarrow> Some (fileAttachment ''video'' f)
      | None \<Rightarrow> (case tm_Animation m of Some f \<Rightarrow> Some (fileAttachment ''gif'' f)
      | None \<Rightarrow> (case tm_Document m of Some f \<Rightarrow> Some (fileAttachment ''document'' f)
      | None \<Rightarrow> map_option (fileAttachment ''sticker'') (tm_Sticker m)))))))"

definition telegram_sender :: "tg_fields \<Rightarrow> Sender" where
  "telegram_sender m =
     (let s = empty_sender\<lparr>se_Endpoint := Itoa (tc_ID (tm_Chat m)), se_Platform := str ''telegram''\<rparr>
      in case tm_From m of None \<Rightarrow> s
      | Some u \<Rightarrow> s\<lparr>se_Handle := nonempty (tu_Username u), se_FirstName := nonempty (tu_FirstName u),
          se_LastName := nonempty (tu_LastName u),
          se_FullName := nonempty (TrimSpace (tu_FirstName u @ str '' '' @ tu_LastName u))\<rparr>)"

definition telegram_message :: "wenv \<Rightarrow> time \<Rightarrow> gostring \<Rightarrow> json \<Rightarrow> int \<Rightarrow> tg_message \<Rightarrow> CanonicalMessage" where
  "telegram_message W t acc raw update_id m =
     (let f = tm_fields m in
      \<lparr>cm_Sender = telegram_sender f,
       cm_Body = \<lparr>bd_Text = nonempty (if tm_Text f \<noteq> [] then tm_Text f else tm_Caption f),
         bd_Attachments = (case mediaAttachment f of None \<Rightarrow> [] | Some a \<Rightarrow> [a]),
         bd_Location = map_option (\<lambda>g. \<lparr>lo_Lat = tl_Latitude g, lo_Lng = tl_Longitude g\<rparr>) (tm_Location f)\<rparr>,
       cm_Meta = \<lparr>me_PlatformMessageID = Itoa update_id, me_ReceivedAt = we_show_time W t,
         me_InReplyToID = (case tm_reply m of None \<Rightarrow> None
           | Some r \<Rightarrow> if tm_MessageID (tm_fields r) = 0 then None else Some (Itoa (tm_MessageID (tm_fields r)))),
         me_AccountID = acc, me_RawPayload = Some raw\<rparr>\<rparr>)"

section \<open>The listener\<close>

definition telegram_ID :: gostring where
  "telegram_ID = str ''telegram''"

definition telegram_parse :: "wenv \<Rightarrow> HTTPResolver \<Rightarrow> gostring \<Rightarrow> gostring \<Rightarrow> ('q, unit + CanonicalMessage list) rprog" where
  "telegram_parse W r botID body = (case we_parse_json W body of
     None \<Rightarrow> ret (Inr [])
   | Some j \<Rightarrow> (case decode_update (we_uni W) j of
       None \<Rightarrow> ret (Inr [])
     | Some u \<Rightarrow> (case ud_Message u of
         None \<Rightarrow> ret (Inr [])
       | Some m \<Rightarrow>
           if (case tm_From (tm_fields m) of None \<Rightarrow> False | Some f \<Rightarrow> tu_IsBot f) then ret (Inr [])
           else if tm_MessageID (tm_fields m) = 0 then ret (Inr [])
           else with_account (Resolve_account W r telegram_ID botID) (\<lambda>acc.
             State_Monad.bind (gets rc_now) (\<lambda>t. ret (Inr [telegram_message W t acc j (ud_UpdateID u) m]))))))"

definition telegram_ParseRequest :: "wenv \<Rightarrow> HTTPResolver \<Rightarrow> inbound \<Rightarrow> gostring \<Rightarrow> ('q, unit + CanonicalMessage list) rprog" where
  "telegram_ParseRequest W r rq body = telegram_parse W r (ib_query rq ''bot'') body"

definition telegram_Verify :: "gostring \<Rightarrow> inbound \<Rightarrow> gostring \<Rightarrow> bool" where
  "telegram_Verify secret rq body = secret_matches secret (ib_header rq ''X-Telegram-Bot-Api-Secret-Token'')"

definition telegram_listener :: "wenv \<Rightarrow> HTTPResolver \<Rightarrow> gostring \<Rightarrow> 'q listener" where
  "telegram_listener W r secret = \<lparr>ls_ID = telegram_ID, ls_Path = [''inbound'', ''telegram''],
     ls_Verify = telegram_Verify secret, ls_Parse = telegram_ParseRequest W r\<rparr>"

end
