(* ===== verification/Listener_Twilio.thy ===== *)
theory Listener_Twilio
  imports Receiver "HOL-Library.List_Lexorder"
begin

text \<open>
  \<open>internal/listeners/twilio\<close>: the form-encoded webhook of Twilio for WhatsApp and SMS, its signature and the
  canonical message it carries. A form is the list of its pairs in the order of the body.
\<close>

section \<open>Forms\<close>

type_synonym form = "(gostring \<times> gostring) list"

text \<open>\<open>url.Values\<close>: the first value of a key (empty without one), and all values by sorted key.\<close>

definition form_get :: "form \<Rightarrow> gostring \<Rightarrow> gostring" where
  "form_get vals k = (case map_of vals k of None \<Rightarrow> [] | Some v \<Rightarrow> v)"

definition form_values :: "form \<Rightarrow> gostring \<Rightarrow> gostring list" where
  "form_values vals k = map snd (filter (\<lambda>kv. fst kv = k) vals)"

definition form_keys :: "form \<Rightarrow> gostring list" where
  "form_keys vals = sort (remdups (map fst vals))"

definition rawJSON :: "form \<Rightarrow> json" where
  "rawJSON vals = JObj (map (\<lambda>k. (k, JArr (map JStr (form_values vals k)))) (form_keys vals))"

section \<open>The signature\<close>

definition signed_text :: "gostring \<Rightarrow> gostring \<Rightarrow> form \<Rightarrow> gostring" where
  "signed_text publicBaseURL uri vals = TrimRight (\<lambda>c. c = 47) publicBaseURL @ uri @
     concat (map (\<lambda>k. k @ concat (form_values vals k)) (form_keys vals))"

definition twilio_verify :: "wenv \<Rightarrow> gostring \<Rightarrow> gostring \<Rightarrow> inbound \<Rightarrow> gostring \<Rightarrow> bool" where
  "twilio_verify W authToken publicBaseURL rq body =
     (if authToken = [] then False
      else let given = ib_header rq ''X-Twilio-Signature'' in
        if given = [] then False
        else case we_parse_query W body of None \<Rightarrow> False
        | Some vals \<Rightarrow> we_sign W authToken (signed_text publicBaseURL (ib_uri rq) vals) = given)"

section \<open>The canonical message\<close>

definition stripScheme :: "gostring \<Rightarrow> gostring" where
  "stripScheme s = TrimPrefix s (str ''whatsapp:'')"

definition typeFromMime :: "gostring \<Rightarrow> gostring" where
  "typeFromMime ct =
     (let major = takeWhile (\<lambda>c. c \<noteq> 47) ct
      in if major \<in> {str ''image'', str ''video'', str ''audio''} then major
         else if major \<in> {str ''application'', str ''text''} then str ''document''
         else if major = [] then str ''file'' else major)"

definition attachmentType :: "gostring \<Rightarrow> gostring \<Rightarrow> gostring" where
  "attachmentType messageType mime =
     (if messageType \<in> {str ''image'', str ''video'', str ''audio'', str ''sticker'', str ''document''} then messageType
      else if messageType = str ''contacts'' then str ''contact'' else typeFromMime mime)"

text \<open>The loop over the media items; an item without a URL is passed over.\<close>

definition media_item :: "form \<Rightarrow> nat \<Rightarrow> Attachment list" where
  "media_item vals i =
     (let u = form_get vals (str ''MediaUrl'' @ nat_digits i); ct = form_get vals (str ''MediaContentType'' @ nat_digits i)
      in if u = [] then []
         else [\<lparr>at_Type = attachmentType (form_get vals (str ''MessageType'')) ct, at_URL = u, at_Mime = nonempty ct, at_Filename = None\<rparr>])"

definition media_items :: "form \<Rightarrow> Attachment list" where
  "media_items vals = concat (map (media_item vals) [0..<nat (Atoi (form_get vals (str ''NumMedia'')))])"

definition twilio_location :: "wenv \<Rightarrow> form \<Rightarrow> Location option" where
  "twilio_location W vals =
     (let lat = form_get vals (str ''Latitude''); lng = form_get vals (str ''Longitude'')
      in if lat = [] \<or> lng = [] then None
         else case (we_parse_float W lat, we_parse_float W lng) of
           (Some latF, Some lngF) \<Rightarrow> Some \<lparr>lo_Lat = latF, lo_Lng = lngF\<rparr> | _ \<Rightarrow> None)"

definition twilio_message :: "wenv \<Rightarrow> time \<Rightarrow> gostring \<Rightarrow> gostring \<Rightarrow> form \<Rightarrow> CanonicalMessage" where
  "twilio_message W t acc msgID vals =
     (let from = form_get vals (str ''From'') in
      \<lparr>cm_Sender = empty_sender\<lparr>se_Endpoint := stripScheme from,
         se_Platform := (if HasPrefix from (str ''whatsapp:'') then str ''whatsapp'' else str ''sms''),
         se_FullName := nonempty (form_get vals (str ''ProfileName'')), se_Handle := nonempty (form_get vals (str ''WaId''))\<rparr>,
       cm_Body = \<lparr>bd_Text = nonempty (form_get vals (str ''Body'')), bd_Attachments = media_items vals,
         bd_Location = twilio_location W vals\<rparr>,
       cm_Meta = \<lparr>me_PlatformMessageID = msgID, me_ReceivedAt = we_show_time W t,
         me_InReplyToID = nonempty (form_get vals (str ''OriginalRepliedMessageSid'')), me_AccountID = acc,
         me_RawPayload = Some (rawJSON vals)\<rparr>\<rparr>)"

section \<open>The listener\<close>

definition twilio_parse :: "wenv \<Rightarrow> HTTPResolver \<Rightarrow> string \<Rightarrow> gostring \<Rightarrow> ('q, unit + CanonicalMessage list) rprog" where
  "twilio_parse W r ident body = (case we_parse_query W body of
     None \<Rightarrow> ret (Inr [])
   | Some vals \<Rightarrow>
       if form_get vals (str ''From'') = [] then ret (Inr [])
       else
         let msgID = (if form_get vals (str ''MessageSid'') = [] then form_get vals (str ''SmsSid'') else form_get vals (str ''MessageSid''))
         in if msgID = [] then ret (Inr [])
            else with_account (Resolve_account W r (str ident) (stripScheme (form_get vals (str ''To'')))) (\<lambda>acc.
              State_Monad.bind (gets rc_now) (\<lambda>t. ret (Inr [twilio_message W t acc msgID vals]))))"

definition twilio_listener :: "wenv \<Rightarrow> HTTPResolver \<Rightarrow> string \<Rightarrow> gostring \<Rightarrow> gostring \<Rightarrow> 'q listener" where
  "twilio_listener W r ident authToken publicBaseURL = \<lparr>ls_ID = str ident, ls_Path = [''inbound'', ident],
     ls_Verify = twilio_verify W authToken publicBaseURL, ls_Parse = (\<lambda>_. twilio_parse W r ident)\<rparr>"

end
