(* ===== verification/Listener_Ultramsg.thy ===== *)
theory Listener_Ultramsg
  imports Receiver
begin

text \<open>
  \<open>internal/listeners/ultramsg\<close>: the JSON webhook of the UltraMSG WhatsApp gateway.
\<close>

record um_payload =
  um_EventType :: gostring
  um_InstanceID :: gostring
  um_ID :: gostring
  um_From :: gostring
  um_To :: gostring
  um_Pushname :: gostring
  um_Type :: gostring
  um_Body :: gostring
  um_Media :: gostring
  um_FromMe :: bool
  um_QuotedID :: gostring
  um_Latitude :: "json option"
  um_Longitude :: "json option"

definition decode_payload :: "unicode \<Rightarrow> json \<Rightarrow> um_payload option" where
  "decode_payload U j = do {
     kvs \<leftarrow> struct_members j;
     ev \<leftarrow> str_field U ''event_type'' kvs;
     inst \<leftarrow> str_field U ''instanceId'' kvs;
     d \<leftarrow> struct_field (members U (str ''data'') kvs);
     i \<leftarrow> str_field U ''id'' d;
     from \<leftarrow> str_field U ''from'' d;
     to \<leftarrow> str_field U ''to'' d;
     name \<leftarrow> str_field U ''pushname'' d;
     ty \<leftarrow> str_field U ''type'' d;
     body \<leftarrow> str_field U ''body'' d;
     media \<leftarrow> str_field U ''media'' d;
     me \<leftarrow> decode_bool (members U (str ''fromMe'') d) False;
     q \<leftarrow> struct_field (members U (str ''quotedMsg'') d);
     qid \<leftarrow> str_field U ''id'' q;
     loc \<leftarrow> struct_field (members U (str ''location'') d);
     Some \<lparr>um_EventType = ev, um_InstanceID = inst, um_ID = i, um_From = from, um_To = to, um_Pushname = name,
       um_Type = ty, um_Body = body, um_Media = media, um_FromMe = me, um_QuotedID = qid,
       um_Latitude = decode_raw (members U (str ''latitude'') loc), um_Longitude = decode_raw (members U (str ''longitude'') loc)\<rparr> }"

text \<open>The part of a text before a separator, or all of it.\<close>

definition before :: "gostring \<Rightarrow> gostring \<Rightarrow> gostring" where
  "before s sep = (case Index s sep of None \<Rightarrow> s | Some i \<Rightarrow> take i s)"

definition coord :: "wenv \<Rightarrow> json option \<Rightarrow> rat option" where
  "coord W raw =
     (let quote = (\<lambda>c. c = 34);
          s = (case raw of None \<Rightarrow> [] | Some j \<Rightarrow> TrimRight quote (TrimLeft quote (we_raw_text W j)))
      in if s = [] then None else we_parse_float W s)"

definition ultramsg_location :: "wenv \<Rightarrow> um_payload \<Rightarrow> Location option" where
  "ultramsg_location W p = (case coord W (um_Latitude p) of None \<Rightarrow> None
     | Some lat \<Rightarrow> map_option (\<lambda>lng. \<lparr>lo_Lat = lat, lo_Lng = lng\<rparr>) (coord W (um_Longitude p)))"

definition ultramsg_message :: "wenv \<Rightarrow> time \<Rightarrow> gostring \<Rightarrow> json \<Rightarrow> um_payload \<Rightarrow> CanonicalMessage" where
  "ultramsg_message W t acc raw p =
     \<lparr>cm_Sender = empty_sender\<lparr>se_Endpoint := str ''+'' @ before (um_From p) (str ''@''), se_Platform := str ''whatsapp'',
        se_FullName := nonempty (um_Pushname p)\<rparr>,
      cm_Body = \<lparr>bd_Text = (if um_Type p \<in> {str ''location'', str ''document''} then None else nonempty (um_Body p)),
        bd_Attachments = (if um_Media p = [] then []
          else [\<lparr>at_Type = um_Type p, at_URL = um_Media p, at_Mime = None, at_Filename = None\<rparr>]),
        bd_Location = ultramsg_location W p\<rparr>,
      cm_Meta = \<lparr>me_PlatformMessageID = um_ID p, me_ReceivedAt = we_show_time W t, me_InReplyToID = nonempty (um_QuotedID p),
        me_AccountID = acc, me_RawPayload = Some raw\<rparr>\<rparr>"

definition ultramsg_ID :: gostring where
  "ultramsg_ID = str ''whatsapp-ultramsg''"

definition ultramsg_parse :: "wenv \<Rightarrow> HTTPResolver \<Rightarrow> gostring \<Rightarrow> ('q, unit + CanonicalMessage list) rprog" where
  "ultramsg_parse W r body = (case we_parse_json W body of
     None \<Rightarrow> ret (Inr [])
   | Some j \<Rightarrow> (case decode_payload (we_uni W) j of
       None \<Rightarrow> ret (Inr [])
     | Some p \<Rightarrow>
         if um_EventType p \<noteq> str ''message_received'' then ret (Inr [])
         else if um_FromMe p then ret (Inr [])
         else if HasSuffix (um_From p) (str ''@g.us'') then ret (Inr [])
         else if um_ID p = [] then ret (Inr [])
         else with_account (Resolve_account W r ultramsg_ID (um_InstanceID p)) (\<lambda>acc.
           State_Monad.bind (gets rc_now) (\<lambda>t. ret (Inr [ultramsg_message W t acc j p])))))"

definition ultramsg_Verify :: "gostring \<Rightarrow> inbound \<Rightarrow> gostring \<Rightarrow> bool" where
  "ultramsg_Verify secret rq body = secret_matches secret (ib_query rq ''token'')"

definition ultramsg_listener :: "wenv \<Rightarrow> HTTPResolver \<Rightarrow> gostring \<Rightarrow> 'q listener" where
  "ultramsg_listener W r secret = \<lparr>ls_ID = ultramsg_ID, ls_Path = [''inbound'', ''whatsapp-ultramsg''],
     ls_Verify = ultramsg_Verify secret, ls_Parse = (\<lambda>_. ultramsg_parse W r)\<rparr>"

end
