(* ===== verification/Listener_Email.thy ===== *)
theory Listener_Email
  imports Receiver
begin

text \<open>
  \<open>internal/listeners/email\<close>: mail that Amazon SES received, posted by an SNS topic: the handshake, the choice of
  the recipient to route on, and the text of the mail out of its MIME structure.
\<close>

section \<open>Envelopes\<close>

record snsEnvelope =
  sn_Type :: gostring
  sn_MessageID :: gostring
  sn_TopicArn :: gostring
  sn_Message :: gostring
  sn_SubscribeURL :: gostring

record sesNotification =
  sx_NotificationType :: gostring
  sx_MessageID :: gostring
  sx_Source :: gostring
  sx_Destination :: "gostring list"
  sx_From :: "gostring list"
  sx_To :: "gostring list"
  sx_Subject :: gostring
  sx_Recipients :: "gostring list"
  sx_Content :: gostring

definition strs_field :: "unicode \<Rightarrow> string \<Rightarrow> (gostring \<times> json) list \<Rightarrow> gostring list option" where
  "strs_field U n kvs = decode_strings (members U (str n) kvs) []"

definition decode_envelope :: "unicode \<Rightarrow> json \<Rightarrow> snsEnvelope option" where
  "decode_envelope U j = do {
     kvs \<leftarrow> struct_members j;
     ty \<leftarrow> str_field U ''Type'' kvs;
     i \<leftarrow> str_field U ''MessageId'' kvs;
     topic \<leftarrow> str_field U ''TopicArn'' kvs;
     msg \<leftarrow> str_field U ''Message'' kvs;
     url \<leftarrow> str_field U ''SubscribeURL'' kvs;
     Some \<lparr>sn_Type = ty, sn_MessageID = i, sn_TopicArn = topic, sn_Message = msg, sn_SubscribeURL = url\<rparr> }"

definition decode_notification :: "unicode \<Rightarrow> json \<Rightarrow> sesNotification option" where
  "decode_notification U j = do {
     kvs \<leftarrow> struct_members j;
     ty \<leftarrow> str_field U ''notificationType'' kvs;
     m \<leftarrow> struct_field (members U (str ''mail'') kvs);
     i \<leftarrow> str_field U ''messageId'' m;
     source \<leftarrow> str_field U ''source'' m;
     dest \<leftarrow> strs_field U ''destination'' m;
     h \<leftarrow> struct_field (members U (str ''commonHeaders'') m);
     from \<leftarrow> strs_field U ''from'' h;
     to \<leftarrow> strs_field U ''to'' h;
     subject \<leftarrow> str_field U ''subject'' h;
     rc \<leftarrow> struct_field (members U (str ''receipt'') kvs);
     recipients \<leftarrow> strs_field U ''recipients'' rc;
     content \<leftarrow> str_field U ''content'' kvs;
     Some \<lparr>sx_NotificationType = ty, sx_MessageID = i, sx_Source = source, sx_Destination = dest, sx_From = from,
       sx_To = to, sx_Subject = subject, sx_Recipients = recipients, sx_Content = content\<rparr> }"

section \<open>Addresses\<close>

definition splitAddress :: "wenv \<Rightarrow> gostring \<Rightarrow> gostring \<times> gostring" where
  "splitAddress W v = (case we_parse_address W (TrimSpace v) of
     Some (addr, name) \<Rightarrow> (ToLower (we_uni W) addr, name)
   | None \<Rightarrow> (ToLower (we_uni W) (TrimSpace v), []))"

definition normalizeEmail :: "wenv \<Rightarrow> gostring \<Rightarrow> gostring" where
  "normalizeEmail W v = fst (splitAddress W v)"

definition firstAddr :: "gostring list list \<Rightarrow> gostring" where
  "firstAddr candidates = (case List.find (\<lambda>s. TrimSpace s \<noteq> []) (concat candidates) of None \<Rightarrow> [] | Some s \<Rightarrow> s)"

section \<open>The text of a mail\<close>

definition decodeBody :: "wenv \<Rightarrow> gostring \<Rightarrow> gostring \<Rightarrow> gostring" where
  "decodeBody W cte body =
     (let enc = ToLower (we_uni W) (TrimSpace cte)
      in if enc = str ''base64'' then (case we_base64 W (TrimSpace body) of Some d \<Rightarrow> d | None \<Rightarrow> body)
         else if enc = str ''quoted-printable'' then (case we_quoted_printable W body of Some d \<Rightarrow> d | None \<Rightarrow> body)
         else body)"

text \<open>
  The walk over the parts, with the recursion into nested multiparts bounded by fuel; \<open>None\<close> is out of
  fuel. A nested multipart without a text is passed over.
\<close>

fun findTextPlain :: "wenv \<Rightarrow> nat \<Rightarrow> gostring \<Rightarrow> gostring \<Rightarrow> gostring \<Rightarrow> gostring option"
  and scan_parts :: "wenv \<Rightarrow> nat \<Rightarrow> (gostring \<times> gostring \<times> gostring) list \<Rightarrow> gostring option" where
  "findTextPlain W 0 contentType cte body = None"
| "findTextPlain W (Suc k) contentType cte body =
     (let (mt, boundary, err) = we_media_type W contentType;
          mediaType = (if err \<or> mt = [] then str ''text/plain'' else mt)
      in if HasPrefix mediaType (str ''multipart/'') then scan_parts W k (we_parts W body boundary)
         else if mediaType = str ''text/plain'' then Some (decodeBody W cte body)
         else Some [])"
| "scan_parts W k [] = Some []"
| "scan_parts W k ((ct, cte, partBody) # parts) =
     (let (pmt, _, _) = we_media_type W ct
      in if HasPrefix pmt (str ''multipart/'') then
           (case findTextPlain W k ct cte partBody of None \<Rightarrow> None
            | Some t \<Rightarrow> if t \<noteq> [] then Some t else scan_parts W k parts)
         else if pmt = str ''text/plain'' then Some (decodeBody W cte partBody)
         else scan_parts W k parts)"

definition extractTextBody :: "wenv \<Rightarrow> gostring \<Rightarrow> gostring" where
  "extractTextBody W raw = (case we_read_mail W raw of None \<Rightarrow> []
     | Some (ct, cte, body) \<Rightarrow> (case findTextPlain W (Suc (length body)) ct cte body of None \<Rightarrow> [] | Some t \<Rightarrow> t))"

definition combineSubjectBody :: "gostring \<Rightarrow> gostring \<Rightarrow> gostring" where
  "combineSubjectBody subject body =
     (let subject = TrimSpace subject; body = TrimSpace body
      in if subject \<noteq> [] \<and> body \<noteq> [] then str ''Subject: '' @ subject @ [10, 10] @ body
         else if subject \<noteq> [] then str ''Subject: '' @ subject else body)"

section \<open>The listener\<close>

text \<open>The handshake: its answer is only logged.\<close>

definition confirmSubscription :: "gostring \<Rightarrow> ('q, unit) rprog" where
  "confirmSubscription url = (if url = [] then ret ()
     else State_Monad.bind (exchange (seconds 10) (ConfirmRequest url)) (\<lambda>_. ret ()))"

definition email_ID :: gostring where
  "email_ID = str ''email-ses''"

definition email_text :: "wenv \<Rightarrow> sesNotification \<Rightarrow> gostring" where
  "email_text W n =
     (let bodyText = (if sx_Content n = [] then []
        else case we_base64 W (sx_Content n) of None \<Rightarrow> [] | Some raw \<Rightarrow> extractTextBody W raw)
      in combineSubjectBody (sx_Subject n) bodyText)"

definition email_message :: "wenv \<Rightarrow> time \<Rightarrow> gostring \<Rightarrow> json \<Rightarrow> sesNotification \<Rightarrow> CanonicalMessage" where
  "email_message W t acc raw n =
     (let (addr, name) = splitAddress W (firstAddr [sx_From n, [sx_Source n]]) in
      \<lparr>cm_Sender = empty_sender\<lparr>se_Endpoint := addr, se_Platform := str ''email'', se_Email := Some addr, se_FullName := nonempty name\<rparr>,
       cm_Body = \<lparr>bd_Text = nonempty (email_text W n), bd_Attachments = [], bd_Location = None\<rparr>,
       cm_Meta = \<lparr>me_PlatformMessageID = sx_MessageID n, me_ReceivedAt = we_show_time W t, me_InReplyToID = None,
         me_AccountID = acc, me_RawPayload = Some raw\<rparr>\<rparr>)"

definition delivered_to :: "sesNotification \<Rightarrow> gostring" where
  "delivered_to n = firstAddr [sx_Recipients n, sx_Destination n, sx_To n]"

definition email_parse :: "wenv \<Rightarrow> HTTPResolver \<Rightarrow> gostring \<Rightarrow> gostring \<Rightarrow> ('q, unit + CanonicalMessage list) rprog" where
  "email_parse W r topicARN body = (case Option.bind (we_parse_json W body) (decode_envelope (we_uni W)) of
     None \<Rightarrow> ret (Inr [])
   | Some env \<Rightarrow>
       if topicARN \<noteq> [] \<and> sn_TopicArn env \<noteq> topicARN then ret (Inr [])
       else if sn_Type env = str ''SubscriptionConfirmation'' then
         State_Monad.bind (confirmSubscription (sn_SubscribeURL env)) (\<lambda>_. ret (Inr []))
       else if sn_Type env \<noteq> str ''Notification'' then ret (Inr [])
       else (case we_parse_json W (sn_Message env) of
         None \<Rightarrow> ret (Inr [])
       | Some j \<Rightarrow> (case decode_notification (we_uni W) j of
           None \<Rightarrow> ret (Inr [])
         | Some n \<Rightarrow>
             if sx_NotificationType n \<noteq> str ''Received'' then ret (Inr [])
             else with_account (Resolve_account W r email_ID (normalizeEmail W (delivered_to n))) (\<lambda>acc.
               State_Monad.bind (gets rc_now) (\<lambda>t. ret (Inr [email_message W t acc j n]))))))"

definition email_Verify :: "gostring \<Rightarrow> inbound \<Rightarrow> gostring \<Rightarrow> bool" where
  "email_Verify secret rq body = secret_matches secret (ib_query rq ''token'')"

definition email_listener :: "wenv \<Rightarrow> HTTPResolver \<Rightarrow> gostring \<Rightarrow> gostring \<Rightarrow> 'q listener" where
  "email_listener W r secret topicARN = \<lparr>ls_ID = email_ID, ls_Path = [''inbound'', ''email-ses''],
     ls_Verify = email_Verify secret, ls_Parse = (\<lambda>_. email_parse W r topicARN)\<rparr>"

end
