(* ===== verification/Webhook_Server.thy ===== *)
theory Webhook_Server
  imports Drain Listener_Telegram Listener_Twilio Listener_Ultramsg Listener_Email
begin

text \<open>
  The webhook service as \<open>cmd/server/main.go\<close> puts it together: its configuration, the listeners that
  configuration enables, the handler every listener is mounted with, and the routes.
\<close>

section \<open>Configuration\<close>

record webhook_config =
  wc_Env :: gostring
  wc_Port :: gostring
  wc_LogLevel :: gostring
  wc_MaxBodyBytes :: int
  wc_ShutdownTimeout :: time
  wc_ChannelsURL :: gostring
  wc_AWSRegion :: gostring
  wc_SQSQueueURL :: gostring
  wc_SQSDLQURL :: gostring
  wc_InternalAPIToken :: gostring
  wc_UltraMSGWebhookSecret :: gostring
  wc_TwilioAuthToken :: gostring
  wc_TelegramWebhookSecret :: gostring
  wc_EmailSESWebhookSecret :: gostring
  wc_EmailSESTopicARN :: gostring
  wc_PublicBaseURL :: gostring
  wc_DrainConcurrency :: int

text \<open>The environment gives an empty text for a variable that is not set.\<close>

type_synonym environ = "string \<Rightarrow> gostring"

definition getenv :: "environ \<Rightarrow> string \<Rightarrow> string \<Rightarrow> gostring" where
  "getenv e key fallback = (if e key \<noteq> [] then e key else str fallback)"

text \<open>\<open>strconv.Atoi\<close> and \<open>ParseInt\<close> with their error; both are 64 bits wide.\<close>

definition parse_int64 :: "gostring \<Rightarrow> int option" where
  "parse_int64 s =
     (let (neg, ds) = (case s of [] \<Rightarrow> (False, []) | c # r \<Rightarrow> if c = 45 then (True, r) else if c = 43 then (False, r) else (False, s));
          v = foldl (\<lambda>n c. 10 * n + int (c - 48)) 0 ds; i = (if neg then - v else v)
      in if ds = [] \<or> \<not> list_all ascii_digit ds \<or> i < int64_min \<or> int64_max < i then None else Some i)"

definition getenvInt :: "environ \<Rightarrow> string \<Rightarrow> int \<Rightarrow> int" where
  "getenvInt e key fallback = (if e key = [] then fallback else case parse_int64 (e key) of None \<Rightarrow> fallback | Some n \<Rightarrow> n)"

definition getenvDuration :: "(gostring \<Rightarrow> time option) \<Rightarrow> environ \<Rightarrow> string \<Rightarrow> time \<Rightarrow> time" where
  "getenvDuration parse e key fallback = (if e key = [] then fallback else case parse (e key) of None \<Rightarrow> fallback | Some d \<Rightarrow> d)"

definition webhook_Load :: "(gostring \<Rightarrow> time option) \<Rightarrow> environ \<Rightarrow> webhook_config" where
  "webhook_Load parse_duration e = \<lparr>
     wc_Env = getenv e ''ENV'' ''dev'', wc_Port = getenv e ''PORT'' ''8080'', wc_LogLevel = getenv e ''LOG_LEVEL'' ''info'',
     wc_MaxBodyBytes = getenvInt e ''MAX_BODY_BYTES'' (256 * 1024),
     wc_ShutdownTimeout = getenvDuration parse_duration e ''SHUTDOWN_TIMEOUT'' (10 * second),
     wc_ChannelsURL = e ''CHANNELS_URL'', wc_AWSRegion = getenv e ''AWS_REGION'' ''us-west-2'',
     wc_SQSQueueURL = e ''SQS_QUEUE_URL'', wc_SQSDLQURL = e ''SQS_DLQ_URL'', wc_InternalAPIToken = e ''INTERNAL_API_TOKEN'',
     wc_UltraMSGWebhookSecret = e ''WHATSAPP_ULTRAMSG_WEBHOOK_SECRET'', wc_TwilioAuthToken = e ''TWILIO_AUTH_TOKEN'',
     wc_TelegramWebhookSecret = e ''TELEGRAM_WEBHOOK_SECRET'', wc_EmailSESWebhookSecret = e ''EMAIL_SES_WEBHOOK_SECRET'',
     wc_EmailSESTopicARN = e ''EMAIL_SES_TOPIC_ARN'', wc_PublicBaseURL = e ''PUBLIC_BASE_URL'',
     wc_DrainConcurrency = getenvInt e ''DRAIN_CONCURRENCY'' 8\<rparr>"

text \<open>The variables that are missing; the configuration is valid when there are none.\<close>

definition webhook_Validate :: "webhook_config \<Rightarrow> string list" where
  "webhook_Validate c =
     (if wc_ChannelsURL c = [] then [''CHANNELS_URL''] else []) @
     (if wc_InternalAPIToken c = [] then [''INTERNAL_API_TOKEN''] else []) @
     (if wc_UltraMSGWebhookSecret c = [] then [''WHATSAPP_ULTRAMSG_WEBHOOK_SECRET''] else []) @
     (if wc_TwilioAuthToken c \<noteq> [] \<and> wc_PublicBaseURL c = [] then [''PUBLIC_BASE_URL (required when TWILIO_AUTH_TOKEN is set)''] else []) @
     (if wc_EmailSESWebhookSecret c \<noteq> [] \<and> wc_EmailSESTopicARN c = [] then [''EMAIL_SES_TOPIC_ARN (required when EMAIL_SES_WEBHOOK_SECRET is set)''] else [])"

text \<open>What is logged of a configuration: of each secret only whether it is set.\<close>

datatype log_value = LogText gostring | LogInt int | LogBool bool

definition webhook_LogValue :: "webhook_config \<Rightarrow> (string \<times> log_value) list" where
  "webhook_LogValue c = [
     (''env'', LogText (wc_Env c)), (''port'', LogText (wc_Port c)), (''log_level'', LogText (wc_LogLevel c)),
     (''max_body_bytes'', LogInt (wc_MaxBodyBytes c)), (''shutdown_timeout'', LogInt (wc_ShutdownTimeout c)),
     (''channels_url'', LogText (wc_ChannelsURL c)), (''aws_region'', LogText (wc_AWSRegion c)),
     (''sqs_queue_url'', LogText (wc_SQSQueueURL c)), (''sqs_dlq_url'', LogText (wc_SQSDLQURL c)),
     (''public_base_url'', LogText (wc_PublicBaseURL c)), (''email_ses_topic_arn'', LogText (wc_EmailSESTopicARN c)),
     (''drain_concurrency'', LogInt (wc_DrainConcurrency c)),
     (''internal_api_token_set'', LogBool (wc_InternalAPIToken c \<noteq> [])),
     (''ultramsg_webhook_secret_set'', LogBool (wc_UltraMSGWebhookSecret c \<noteq> [])),
     (''twilio_auth_token_set'', LogBool (wc_TwilioAuthToken c \<noteq> [])),
     (''telegram_webhook_secret_set'', LogBool (wc_TelegramWebhookSecret c \<noteq> [])),
     (''email_ses_webhook_secret_set'', LogBool (wc_EmailSESWebhookSecret c \<noteq> []))]"

section \<open>The handler of a listener\<close>

type_synonym status = "nat \<times> string"

text \<open>The first message that cannot be enqueued ends the loop.\<close>

primrec enqueue_all :: "('q, 'h) Queue \<Rightarrow> CanonicalMessage list \<Rightarrow> ('q, bool) rprog" where
  "enqueue_all Q [] = ret True"
| "enqueue_all Q (m # ms) = do { ok \<leftarrow> on_queue (qu_Enqueue Q m); if ok then enqueue_all Q ms else ret False }"

definition Handler :: "('q, 'h) Queue \<Rightarrow> 'q listener \<Rightarrow> inbound \<Rightarrow> ('q, status) rprog" where
  "Handler Q l rq = (case ib_body rq of
     None \<Rightarrow> ret (400, ''bad_request'')
   | Some body \<Rightarrow>
       if \<not> ls_Verify l rq body then ret (401, ''unauthorized'')
       else do {
         r \<leftarrow> ls_Parse l rq body;
         case r of
           Inl _ \<Rightarrow> ret (500, ''internal_error'')
         | Inr msgs \<Rightarrow> do {
             ok \<leftarrow> enqueue_all Q msgs;
             ret (if ok then (200, ''accepted'') else (500, ''internal_error'')) } })"

section \<open>Wiring\<close>

definition main_resolver :: "webhook_config \<Rightarrow> HTTPResolver" where
  "main_resolver c = NewHTTPResolver (wc_ChannelsURL c) (wc_InternalAPIToken c)"

definition main_listeners :: "wenv \<Rightarrow> webhook_config \<Rightarrow> 'q listener list" where
  "main_listeners W c =
     (let resolver = main_resolver c in
      [ultramsg_listener W resolver (wc_UltraMSGWebhookSecret c)] @
      (if wc_TwilioAuthToken c \<noteq> [] then
         [twilio_listener W resolver ''whatsapp-twilio'' (wc_TwilioAuthToken c) (wc_PublicBaseURL c),
          twilio_listener W resolver ''sms-twilio'' (wc_TwilioAuthToken c) (wc_PublicBaseURL c)] else []) @
      (if wc_TelegramWebhookSecret c \<noteq> [] then [telegram_listener W resolver (wc_TelegramWebhookSecret c)] else []) @
      (if wc_EmailSESWebhookSecret c \<noteq> [] then [email_listener W resolver (wc_EmailSESWebhookSecret c) (wc_EmailSESTopicARN c)] else []))"

definition main_worker :: "('q, 'h) Queue \<Rightarrow> webhook_config \<Rightarrow> ('q, 'h) Worker" where
  "main_worker Q c = NewWorker Q (NewHTTP (wc_ChannelsURL c) (wc_InternalAPIToken c)) (wc_DrainConcurrency c)"

text \<open>Whether the durable queue is used.\<close>

definition uses_sqs :: "webhook_config \<Rightarrow> bool" where
  "uses_sqs c \<longleftrightarrow> wc_SQSQueueURL c \<noteq> []"

text \<open>
  \<open>run\<close> up to the point where it serves: a configuration with something missing ends it, and so does an AWS
  configuration that does not load when SQS is to be used; else it serves these listeners, on SQS or in memory.
\<close>

definition webhook_run :: "(gostring \<Rightarrow> bool) \<Rightarrow> wenv \<Rightarrow> webhook_config \<Rightarrow> string list + ('q listener list \<times> bool)" where
  "webhook_run aws_config W c =
     (if webhook_Validate c \<noteq> [] then Inl (webhook_Validate c)
      else if uses_sqs c \<and> \<not> aws_config (wc_AWSRegion c) then Inl [''load aws config'']
      else Inr (main_listeners W c, uses_sqs c))"

section \<open>The HTTP surface\<close>

text \<open>The health check and the listeners take every method; anything else is not found.\<close>

definition webhook_healthz :: "bool \<Rightarrow> status" where
  "webhook_healthz ready = (if ready then (200, ''ok'') else (503, ''unavailable''))"

definition webhook_mux :: "('q, 'h) Queue \<Rightarrow> 'q listener list \<Rightarrow> bool \<Rightarrow> inbound \<Rightarrow> ('q, status) rprog" where
  "webhook_mux Q ls ready rq =
     (if ib_path rq = [str ''healthz''] then ret (webhook_healthz ready)
      else case List.find (\<lambda>l. map str (ls_Path l) = ib_path rq) ls of
        Some l \<Rightarrow> Handler Q l rq
      | None \<Rightarrow> ret (404, ''404 page not found''))"

text \<open>The request id of the response: the caller's, or the one minted.\<close>

definition WithRequestID :: "gostring \<Rightarrow> inbound \<Rightarrow> gostring" where
  "WithRequestID minted rq = (if ib_request_id rq = [] then minted else ib_request_id rq)"

definition webhook_routes :: "('q, 'h) Queue \<Rightarrow> 'q listener list \<Rightarrow> bool \<Rightarrow> gostring \<Rightarrow> inbound \<Rightarrow> ('q, status \<times> gostring) rprog" where
  "webhook_routes Q ls ready minted rq = do {
     st \<leftarrow> webhook_mux Q ls ready (rq\<lparr>ib_request_id := WithRequestID minted rq\<rparr>);
     ret (st, WithRequestID minted rq) }"

text \<open>
  The cap on a body, which \<open>Routes\<close> does not put in the chain: a declared length over the cap is refused, and
  a body that turns out longer cannot be read to its end.
\<close>

definition WithBodyCap :: "int \<Rightarrow> (inbound \<Rightarrow> ('q, status) rprog) \<Rightarrow> inbound \<Rightarrow> ('q, status) rprog" where
  "WithBodyCap maxBytes nxt rq =
     (if maxBytes \<le> 0 then nxt rq
      else if int (ib_length rq) > maxBytes then ret (413, ''payload_too_large'')
      else nxt (if int (ib_size rq) > maxBytes then rq\<lparr>ib_body := None\<rparr> else rq))"

text \<open>No listener hides another: a request to the path of an enabled listener is its handler's.\<close>

lemma main_listeners_paths_distinct: "distinct (map (\<lambda>l. map str (ls_Path l)) (main_listeners W c))"
  by (cases "wc_TwilioAuthToken c = []"; cases "wc_TelegramWebhookSecret c = []"; cases "wc_EmailSESWebhookSecret c = []")
    (simp_all add: main_listeners_def Let_def ultramsg_listener_def twilio_listener_def telegram_listener_def email_listener_def)

lemma main_listeners_paths: "l \<in> set (main_listeners W c) \<Longrightarrow> ls_Path l \<noteq> [''healthz'']"
  by (auto simp: main_listeners_def Let_def ultramsg_listener_def twilio_listener_def telegram_listener_def email_listener_def
      split: if_splits)

lemma webhook_mux_listener:
  assumes "l \<in> set (main_listeners W c)" and "ib_path rq = map str (ls_Path l)"
  shows "webhook_mux Q (main_listeners W c) ready rq = Handler Q l rq"
proof -
  have "ib_path rq \<noteq> [str ''healthz'']" using assms(2) main_listeners_paths[OF assms(1)] by (cases "ls_Path l"; cases "tl (ls_Path l)") auto
  then show ?thesis
    using find_distinct_key[OF main_listeners_paths_distinct assms(1)] assms(2) by (simp add: webhook_mux_def)
qed

end
