(* ===== verification/Listener_Facts.thy ===== *)
theory Listener_Facts
  imports Webhook_Server
begin

text \<open>
  What the listeners promise the rest of the service: the messages they emit are well formed and belong to an
  account that the channels service named, their checks fail closed, and the walk over a mail's parts ends.
\<close>

section \<open>The cache of the resolver\<close>

lemma exchange_parts:
  assumes "run (exchange limit rq) s = (r, s')"
  shows "rc_sent s' = rc_sent s @ [(rc_now s', rq, r)]" "rc_cache s' = rc_cache s" "rc_queue s' = rc_queue s" "rc_now s \<le> rc_now s'"
  using assms by (auto simp: exchange_def Let_def split: list.splits prod.splits if_splits)

text \<open>Only requests that forward no message are added to the exchanges.\<close>

definition is_forward :: "outgoing \<Rightarrow> bool" where
  "is_forward rq \<longleftrightarrow> (case rq of IngestRequest _ _ _ _ \<Rightarrow> True | _ \<Rightarrow> False)"

definition no_forward :: "'q receiver \<Rightarrow> 'q receiver \<Rightarrow> bool" where
  "no_forward s s' \<longleftrightarrow> (\<exists>xs. rc_sent s' = rc_sent s @ xs \<and> list_all (\<lambda>(t, rq, r). \<not> is_forward rq) xs)"

lemma no_forward_refl [simp]: "no_forward s s"
  by (simp add: no_forward_def)

lemma no_forward_same: "rc_sent s' = rc_sent s \<Longrightarrow> no_forward s s'"
  by (simp add: no_forward_def)

lemma no_forward_trans: "no_forward s t \<Longrightarrow> no_forward t u \<Longrightarrow> no_forward s u"
  by (auto simp: no_forward_def)

lemma no_forward_exchange: "run (exchange limit rq) s = (r, s') \<Longrightarrow> \<not> is_forward rq \<Longrightarrow> no_forward s s'"
  by (auto simp: no_forward_def dest: exchange_parts(1))

text \<open>The request of a lookup, and an answer to it that names the account.\<close>

definition lookup_request :: "wenv \<Rightarrow> HTTPResolver \<Rightarrow> gostring \<Rightarrow> gostring \<Rightarrow> outgoing" where
  "lookup_request W r platform ident =
     LookupRequest (hr_lookupURL r @ str ''?'' @ we_lookup_query W platform ident) (bearer (hr_token r))"

definition names_account :: "wenv \<Rightarrow> net_reply \<Rightarrow> gostring \<Rightarrow> bool" where
  "names_account W reply acc \<longleftrightarrow> (case reply of NetError \<Rightarrow> False
     | Reply code body \<Rightarrow> 200 \<le> code \<and> code < 300 \<and> acc \<noteq> [] \<and> lookup_body W body = Some acc)"

text \<open>The outcomes of a resolution: from the cache, without an exchange, or after one.\<close>

lemma Resolve_account_cases:
  assumes "run (Resolve_account W r platform ident) s = (res, s')"
  obtains (hit) acc where "res = Inr acc" "s' = s" "cached (cache_key platform ident) s = Some acc"
  | (unsent) "res = Inl LookupFailed" "s' = s" "cached (cache_key platform ident) s = None"
  | (named) acc reply s1 where "res = Inr acc" "cached (cache_key platform ident) s = None"
      "run (exchange (seconds 10) (lookup_request W r platform ident)) s = (reply, s1)"
      "names_account W reply acc" "s' = store_account (cache_key platform ident) acc s1"
  | (unknown) reply where "res = Inl AccountUnknown" "cached (cache_key platform ident) s = None"
      "run (exchange (seconds 10) (lookup_request W r platform ident)) s = (reply, s')"
      "(\<exists>body. reply = Reply 404 body) \<or> (\<exists>code body. reply = Reply code body \<and> 200 \<le> code \<and> code < 300 \<and> lookup_body W body = Some [])"
  | (failed) reply where "res = Inl LookupFailed" "cached (cache_key platform ident) s = None"
      "run (exchange (seconds 10) (lookup_request W r platform ident)) s = (reply, s')"
      "\<not> (\<exists>body. reply = Reply 404 body) \<and> \<not> (\<exists>acc. names_account W reply acc)"
  using assms unfolding Resolve_account_def Let_def lookup_request_def[symmetric]
  by (auto simp: names_account_def split: option.splits if_splits net_reply.splits prod.splits)

lemma Resolve_account_queue:
  assumes "run (Resolve_account W r platform ident) s = (res, s')"
  shows "rc_queue s' = rc_queue s \<and> no_forward s s'"
proof -
  have f: "\<not> is_forward (lookup_request W r platform ident)" by (simp add: lookup_request_def is_forward_def)
  have "rc_queue (store_account k acc s1) = rc_queue s1 \<and> (no_forward s (store_account k acc s1) \<longleftrightarrow> no_forward s s1)" for k acc s1
    by (simp add: no_forward_def store_account_def)
  note store = this
  from assms show ?thesis
    by (cases rule: Resolve_account_cases)
      (auto simp: store dest: exchange_parts(3) no_forward_exchange[OF _ f])
qed

text \<open>Where an account id comes from, and what a failed lookup is.\<close>

definition resolved :: "wenv \<Rightarrow> HTTPResolver \<Rightarrow> gostring \<Rightarrow> 'q receiver \<Rightarrow> 'q receiver \<Rightarrow> gostring \<Rightarrow> bool" where
  "resolved W r platform s s' acc \<longleftrightarrow> (\<exists>ident. cached (cache_key platform ident) s = Some acc \<or>
     (\<exists>reply. rc_sent s' = rc_sent s @ [(rc_now s', lookup_request W r platform ident, reply)] \<and> names_account W reply acc))"

definition lookup_failed :: "wenv \<Rightarrow> HTTPResolver \<Rightarrow> gostring \<Rightarrow> 'q receiver \<Rightarrow> 'q receiver \<Rightarrow> bool" where
  "lookup_failed W r platform s s' \<longleftrightarrow> (\<exists>ident. cached (cache_key platform ident) s = None \<and>
     (s' = s \<or> (\<exists>reply. rc_sent s' = rc_sent s @ [(rc_now s', lookup_request W r platform ident, reply)] \<and>
        \<not> (\<exists>body. reply = Reply 404 body) \<and> \<not> (\<exists>acc. names_account W reply acc))))"

lemma run_with_account:
  assumes "run (with_account (Resolve_account W r platform ident) (\<lambda>acc. State_Monad.bind (gets rc_now) (\<lambda>t. ret (Inr [f t acc])))) s = (res, s')"
  shows "rc_queue s' = rc_queue s \<and> no_forward s s'"
    and "res = Inr [] \<or> (res = Inl () \<and> lookup_failed W r platform s s') \<or>
      (\<exists>acc t. res = Inr [f t acc] \<and> resolved W r platform s s' acc)"
proof -
  obtain x t where x: "run (Resolve_account W r platform ident) s = (x, t)" by (cases "run (Resolve_account W r platform ident) s")
  then have t: "t = s'" and res: "res = (case x of Inl AccountUnknown \<Rightarrow> Inr [] | Inl LookupFailed \<Rightarrow> Inl () | Inr acc \<Rightarrow> Inr [f (rc_now s') acc])"
    using assms by (auto simp: with_account_def split: sum.splits resolve_error.splits)
  show "rc_queue s' = rc_queue s \<and> no_forward s s'" using Resolve_account_queue[OF x] t by simp
  from x show "res = Inr [] \<or> (res = Inl () \<and> lookup_failed W r platform s s') \<or>
      (\<exists>acc t. res = Inr [f t acc] \<and> resolved W r platform s s' acc)"
  proof (cases rule: Resolve_account_cases)
    case (hit acc)
    then show ?thesis using res by (auto simp: resolved_def)
  next
    case unsent
    then show ?thesis using res t by (auto simp: lookup_failed_def)
  next
    case (named acc reply s1)
    then have "resolved W r platform s s' acc"
      using exchange_parts[OF named(3)] t by (auto simp: resolved_def store_account_def)
    then show ?thesis using res named(1) by auto
  next
    case (unknown reply)
    then show ?thesis using res by simp
  next
    case (failed reply)
    then show ?thesis using res exchange_parts[OF failed(3)] t by (auto simp: lookup_failed_def)
  qed
qed

section \<open>The contract of a listener\<close>

text \<open>A coordinate is a double, or what \<open>ParseFloat\<close> made of a text.\<close>

definition float_value :: "wenv \<Rightarrow> rat \<Rightarrow> bool" where
  "float_value W x \<longleftrightarrow> float64 x \<or> (\<exists>s. we_parse_float W s = Some x)"

definition well_formed :: "wenv \<Rightarrow> CanonicalMessage \<Rightarrow> bool" where
  "well_formed W m \<longleftrightarrow> se_Platform (cm_Sender m) \<noteq> [] \<and> me_RawPayload (cm_Meta m) \<noteq> None \<and>
     list_all (\<lambda>a. at_Filename a = None) (bd_Attachments (cm_Body m)) \<and>
     pred_option (\<lambda>l. float_value W (lo_Lat l) \<and> float_value W (lo_Lng l)) (bd_Location (cm_Body m))"

text \<open>
  A parse leaves the queue alone and yields at most one message, well formed and of an account that was resolved
  under the listener's id; it asks for a retry only when a lookup failed.
\<close>

locale inbound_listener =
  fixes W :: wenv and r :: HTTPResolver and l :: "'q listener"
  assumes parse_queue: "run (ls_Parse l rq body) s = (res, s') \<Longrightarrow> rc_queue s' = rc_queue s"
    and parse_sent: "run (ls_Parse l rq body) s = (res, s') \<Longrightarrow> no_forward s s'"
    and parse_result: "run (ls_Parse l rq body) s = (res, s') \<Longrightarrow>
      res = Inr [] \<or> (res = Inl () \<and> lookup_failed W r (ls_ID l) s s') \<or>
      (\<exists>m. res = Inr [m] \<and> well_formed W m \<and> resolved W r (ls_ID l) s s' (me_AccountID (cm_Meta m)))"
begin

lemma at_most_one: "run (ls_Parse l rq body) s = (Inr ms, s') \<Longrightarrow> length ms \<le> 1"
  by (drule parse_result) auto

lemma emits: "run (ls_Parse l rq body) s = (Inr ms, s') \<Longrightarrow> m \<in> set ms \<Longrightarrow>
    well_formed W m \<and> resolved W r (ls_ID l) s s' (me_AccountID (cm_Meta m))"
  by (drule parse_result) auto

lemma retries: "run (ls_Parse l rq body) s = (Inl u, s') \<Longrightarrow> lookup_failed W r (ls_ID l) s s'"
  by (drule parse_result) auto

end

text \<open>A program that drops the message, or resolves its account and emits it, meets the contract.\<close>

definition parses :: "wenv \<Rightarrow> HTTPResolver \<Rightarrow> gostring \<Rightarrow> ('q, unit + CanonicalMessage list) rprog \<Rightarrow> bool" where
  "parses W r i p \<longleftrightarrow> (\<forall>s res s'. run p s = (res, s') \<longrightarrow> rc_queue s' = rc_queue s \<and> no_forward s s' \<and>
     (res = Inr [] \<or> (res = Inl () \<and> lookup_failed W r i s s') \<or>
      (\<exists>m. res = Inr [m] \<and> well_formed W m \<and> resolved W r i s s' (me_AccountID (cm_Meta m)))))"

lemma parses_drop: "parses W r i (ret (Inr []))"
  by (simp add: parses_def)

lemma parses_confirm: "parses W r i (State_Monad.bind (confirmSubscription url) (\<lambda>_. ret (Inr [])))"
  by (auto simp: parses_def confirmSubscription_def is_forward_def split: if_splits prod.splits
      dest: exchange_parts(3) no_forward_exchange)

lemma parses_account:
  assumes "\<And>t acc. well_formed W (f t acc)" and "\<And>t acc. me_AccountID (cm_Meta (f t acc)) = acc"
  shows "parses W r i (with_account (Resolve_account W r i ident) (\<lambda>acc. State_Monad.bind (gets rc_now) (\<lambda>t. ret (Inr [f t acc]))))"
  using run_with_account[of W r i ident f] assms unfolding parses_def by metis

lemma parses_if: "(b \<Longrightarrow> parses W r i p) \<Longrightarrow> (\<not> b \<Longrightarrow> parses W r i q) \<Longrightarrow> parses W r i (if b then p else q)"
  by simp

lemma parses_option:
  "(x = None \<Longrightarrow> parses W r i p) \<Longrightarrow> (\<And>a. x = Some a \<Longrightarrow> parses W r i (q a)) \<Longrightarrow>
   parses W r i (case x of None \<Rightarrow> p | Some a \<Rightarrow> q a)"
  by (cases x) auto

lemmas parses_rules = parses_drop parses_confirm parses_account parses_if parses_option

lemma inbound_listener_parses: "(\<And>rq body. parses W r (ls_ID l) (ls_Parse l rq body)) \<Longrightarrow> inbound_listener W r l"
  unfolding parses_def by unfold_locales blast+

section \<open>The four platforms\<close>

lemma float64_zero: "float64 0"
  using float64_of_unit[of 0] by (simp add: float64_def f64_def fl_zero)

lemma decode_float_value: "decode_float js v = Some x \<Longrightarrow> float64 v \<Longrightarrow> float64 x"
  by (induction js v rule: decode_float.induct) (auto simp: float64_def dest: float64_of_idem split: option.splits)

lemma empty_sender_platform [simp]: "se_Platform empty_sender = []"
  by (simp add: empty_sender_def)

lemma struct_ptr_Some: "struct_ptr U n f kvs = Some (Some x) \<Longrightarrow> \<exists>sub. f sub = Some x"
  by (auto simp: struct_ptr_def split: option.splits)

lemma decode_tg_fields_location:
  "decode_tg_fields U kvs = Some f \<Longrightarrow> struct_ptr U ''location'' (decode_geo U) kvs = Some (tm_Location f)"
  by (auto simp: decode_tg_fields_def bind_eq_Some_conv)

lemma decode_update_message: "decode_update U j = Some u \<Longrightarrow> \<exists>kvs. struct_ptr U ''message'' (decode_tg U) kvs = Some (ud_Message u)"
  by (auto simp: decode_update_def bind_eq_Some_conv)

lemma decode_tg_location:
  assumes "decode_tg U kvs = Some m" and "tm_Location (tm_fields m) = Some g"
  shows "float64 (tl_Latitude g) \<and> float64 (tl_Longitude g)"
proof -
  obtain f where f: "decode_tg_fields U kvs = Some f" "tm_fields m = f"
    using assms(1) by (subst (asm) decode_tg.simps) (auto split: option.splits)
  obtain sub where "decode_geo U sub = Some g"
    using struct_ptr_Some decode_tg_fields_location[OF f(1)] assms(2) f(2) by fastforce
  then show ?thesis using float64_zero by (auto simp: decode_geo_def bind_eq_Some_conv dest: decode_float_value)
qed

lemma mediaAttachment_no_filename: "mediaAttachment m = Some a \<Longrightarrow> at_Filename a = None"
  by (auto simp: mediaAttachment_def fileAttachment_def split: if_splits option.splits)

lemma telegram_sender_platform: "se_Platform (telegram_sender m) \<noteq> []"
  by (simp add: telegram_sender_def Let_def split: option.split)

lemma decode_update_location:
  assumes "decode_update U j = Some u" and "ud_Message u = Some m" and "tm_Location (tm_fields m) = Some g"
  shows "float_value W (tl_Latitude g) \<and> float_value W (tl_Longitude g)"
proof -
  obtain kvs where "struct_ptr U ''message'' (decode_tg U) kvs = Some (Some m)"
    using decode_update_message[OF assms(1)] assms(2) by auto
  from struct_ptr_Some[OF this] obtain sub where "decode_tg U sub = Some m" by blast
  then show ?thesis using decode_tg_location assms(3) by (simp add: float_value_def)
qed

lemma telegram_message_fields:
  "cm_Sender (telegram_message W t acc raw i m) = telegram_sender (tm_fields m)"
  "bd_Attachments (cm_Body (telegram_message W t acc raw i m)) = (case mediaAttachment (tm_fields m) of None \<Rightarrow> [] | Some a \<Rightarrow> [a])"
  "bd_Location (cm_Body (telegram_message W t acc raw i m)) =
     map_option (\<lambda>g. \<lparr>lo_Lat = tl_Latitude g, lo_Lng = tl_Longitude g\<rparr>) (tm_Location (tm_fields m))"
  "me_RawPayload (cm_Meta (telegram_message W t acc raw i m)) = Some raw"
  "me_AccountID (cm_Meta (telegram_message W t acc raw i m)) = acc"
  by (simp_all add: telegram_message_def Let_def)

lemma telegram_well_formed:
  assumes "decode_update U j = Some u" and "ud_Message u = Some m"
  shows "well_formed W (telegram_message W t acc raw i m)"
  using mediaAttachment_no_filename[of "tm_fields m"] telegram_sender_platform[of "tm_fields m"] decode_update_location[OF assms]
  by (cases "tm_Location (tm_fields m)"; cases "mediaAttachment (tm_fields m)")
    (simp_all add: well_formed_def telegram_message_fields)

interpretation telegram: inbound_listener W r "telegram_listener W r secret" for W r secret
  by (rule inbound_listener_parses, unfold telegram_listener_def telegram_ParseRequest_def telegram_parse_def listener.simps, intro parses_rules)
    (erule telegram_well_formed, assumption, simp only: telegram_message_fields)

lemma media_items_no_filename: "a \<in> set (media_items vals) \<Longrightarrow> at_Filename a = None"
  by (auto simp: media_items_def media_item_def Let_def split: if_splits)

lemma twilio_well_formed: "well_formed W (twilio_message W t acc i vals)"
  using media_items_no_filename
  by (auto simp: well_formed_def twilio_message_def twilio_location_def float_value_def Let_def list_all_iff split: option.splits)

interpretation twilio: inbound_listener W r "twilio_listener W r ident authToken publicBaseURL" for W r ident authToken publicBaseURL
  by (rule inbound_listener_parses, unfold twilio_listener_def twilio_parse_def listener.simps Let_def, intro parses_rules)
    (rule twilio_well_formed, simp add: twilio_message_def Let_def)

lemma coord_value: "coord W raw = Some x \<Longrightarrow> float_value W x"
  by (auto simp: coord_def float_value_def Let_def split: if_splits)

lemma ultramsg_well_formed: "well_formed W (ultramsg_message W t acc raw p)"
  by (cases "coord W (um_Longitude p)")
    (auto simp: well_formed_def ultramsg_message_def ultramsg_location_def split: option.splits dest: coord_value)

interpretation ultramsg: inbound_listener W r "ultramsg_listener W r secret" for W r secret
  by (rule inbound_listener_parses, unfold ultramsg_listener_def ultramsg_parse_def listener.simps, intro parses_rules)
    (rule ultramsg_well_formed, simp add: ultramsg_message_def)

lemma email_well_formed: "well_formed W (email_message W t acc raw n)"
  by (auto simp: well_formed_def email_message_def Let_def split: prod.splits)

interpretation email: inbound_listener W r "email_listener W r secret topicARN" for W r secret topicARN
  by (rule inbound_listener_parses, unfold email_listener_def email_parse_def listener.simps, intro parses_rules)
    (rule email_well_formed, simp add: email_message_def Let_def split: prod.splits)

lemma main_listeners_contract: "l \<in> set (main_listeners W c) \<Longrightarrow> inbound_listener W (main_resolver c) l"
  using telegram.inbound_listener_axioms twilio.inbound_listener_axioms ultramsg.inbound_listener_axioms email.inbound_listener_axioms
  by (auto simp: main_listeners_def Let_def split: if_splits)

section \<open>The answer to a webhook\<close>

lemma run_on_queue: "run (on_queue p) s = (case run p (rc_queue s) of (a, q) \<Rightarrow> (a, s\<lparr>rc_queue := q\<rparr>))"
  by (simp add: on_queue_def)

lemma on_queue_parts: "run (on_queue p) s = (a, s') \<longleftrightarrow> run p (rc_queue s) = (a, rc_queue s') \<and> s' = s\<lparr>rc_queue := rc_queue s'\<rparr>"
  by (auto simp: run_on_queue split: prod.splits)

lemma Handler_cases:
  assumes "run (Handler Q l rq) s = ((code, txt), s')"
  obtains (unreadable) "ib_body rq = None" "code = 400" "s' = s"
  | (unauthorized) body where "ib_body rq = Some body" "\<not> ls_Verify l rq body" "code = 401" "s' = s"
  | (retry) body u where "ib_body rq = Some body" "ls_Verify l rq body" "run (ls_Parse l rq body) s = (Inl u, s')" "code = 500"
  | (stuck) body ms s1 where "ib_body rq = Some body" "ls_Verify l rq body" "run (ls_Parse l rq body) s = (Inr ms, s1)"
      "run (enqueue_all Q ms) s1 = (False, s')" "code = 500"
  | (accepted) body ms s1 where "ib_body rq = Some body" "ls_Verify l rq body" "run (ls_Parse l rq body) s = (Inr ms, s1)"
      "run (enqueue_all Q ms) s1 = (True, s')" "code = 200"
  using assms by (auto simp: Handler_def split: option.splits if_splits prod.splits sum.splits)

lemma enqueue_one:
  "run (enqueue_all Q [m]) s = (ok, s') \<longleftrightarrow> run (on_queue (qu_Enqueue Q m)) s = (ok, s')"
  by (cases "run (on_queue (qu_Enqueue Q m)) s") auto

text \<open>What the enqueue of a listener's messages does to the queue and its messages.\<close>

lemma enqueue_parsed:
  assumes "inbound_listener W r l" and "run (ls_Parse l rq body) s = (Inr ms, s1)" and "run (enqueue_all Q ms) s1 = (ok, s')"
  shows "ms = [] \<and> ok \<and> rc_queue s' = rc_queue s \<or>
    (\<exists>m. ms = [m] \<and> well_formed W m \<and> run (qu_Enqueue Q m) (rc_queue s) = (ok, rc_queue s'))"
proof -
  have q: "rc_queue s1 = rc_queue s" by (rule inbound_listener.parse_queue[OF assms(1,2)])
  from inbound_listener.parse_result[OF assms(1,2)] show ?thesis
  proof (elim disjE conjE exE)
    assume "Inr ms = Inr []"
    then show ?thesis using assms(3) q by simp
  next
    fix m assume m: "Inr ms = Inr [m]" "well_formed W m"
    then have "run (on_queue (qu_Enqueue Q m)) s1 = (ok, s')" using assms(3) enqueue_one[of Q m] by simp
    then show ?thesis using m q by (auto simp: on_queue_parts)
  qed simp
qed

text \<open>A queue fits the service when it reads back the messages the listeners emit.\<close>

definition fits :: "wenv \<Rightarrow> (CanonicalMessage \<Rightarrow> bool) \<Rightarrow> bool" where
  "fits W fit \<longleftrightarrow> (\<forall>m. well_formed W m \<longrightarrow> fit m)"

context queue
begin

lemma handler_holds:
  assumes "inbound_listener W r l" and "fits W fit" and "run (Handler Q l rq) s = ((code, txt), s')"
  shows "holds (rc_queue s) hs \<subseteq> holds (rc_queue s') hs"
    and "code = 200 \<Longrightarrow> ib_body rq = Some body \<Longrightarrow> run (ls_Parse l rq body) s = (Inr ms, s1) \<Longrightarrow> set ms \<subseteq> holds (rc_queue s') hs"
proof -
  have enq: "holds (rc_queue s) hs \<subseteq> holds (rc_queue s') hs \<and> (ok \<longrightarrow> set ms \<subseteq> holds (rc_queue s') hs)"
    if "run (ls_Parse l rq body) s = (Inr ms, s1)" "run (enqueue_all Q ms) s1 = (ok, s')" for body ms s1 ok
    using enqueue_parsed[OF assms(1) that] assms(2) enqueue[of _ "rc_queue s" ok "rc_queue s'" hs]
    by (auto simp: fits_def split: if_splits)
  from assms(3) show "holds (rc_queue s) hs \<subseteq> holds (rc_queue s') hs"
    by (cases rule: Handler_cases) (auto dest: enq inbound_listener.parse_queue[OF assms(1)])
  from assms(3) show "code = 200 \<Longrightarrow> ib_body rq = Some body \<Longrightarrow> run (ls_Parse l rq body) s = (Inr ms, s1) \<Longrightarrow> set ms \<subseteq> holds (rc_queue s') hs"
    by (cases rule: Handler_cases) (auto dest: enq)
qed

end

text \<open>The memory queue fits; SQS does when JSON is read back as written and \<open>ParseFloat\<close> returns doubles.\<close>

lemma memory_fits: "fits W (\<lambda>_. True)"
  by (simp add: fits_def)

definition floats_ok :: "wenv \<Rightarrow> bool" where
  "floats_ok W \<longleftrightarrow> (\<forall>s x. we_parse_float W s = Some x \<longrightarrow> float64 x \<or> \<not> finite_float x)"

lemma marshal_representable:
  assumes "floats_ok W" and "well_formed W m" and "Marshal m = Some j"
  shows "representable m \<and> j = message_json m"
proof -
  have "float_value W x \<Longrightarrow> finite_float x \<Longrightarrow> float64 x" for x
    using assms(1) by (auto simp: floats_ok_def float_value_def)
  then show ?thesis using assms(2,3)
    by (auto simp: Marshal_def representable_def well_formed_def list_all_iff split: option.splits if_splits)
qed

lemma sqs_fits:
  assumes "floats_ok W" and "\<And>j. we_parse_json W (we_show_json W j) = Some j"
  shows "fits W (sqs_fit W)"
  unfolding fits_def
proof (intro allI impI)
  fix m assume m: "well_formed W m"
  then obtain raw where raw: "me_RawPayload (cm_Meta m) = Some raw" by (auto simp: well_formed_def)
  show "sqs_fit W m"
  proof (cases "Marshal m")
    case None
    then show ?thesis by (simp add: sqs_fit_def)
  next
    case (Some j)
    then show ?thesis using sqs_fit_representable[OF assms(2) _ raw] marshal_representable[OF assms(1) m Some] by simp
  qed
qed

section \<open>Authenticity\<close>

text \<open>The secret of a listener in the configuration, and a request that carries it.\<close>

definition authentic :: "wenv \<Rightarrow> webhook_config \<Rightarrow> inbound \<Rightarrow> gostring \<Rightarrow> bool" where
  "authentic W c rq body \<longleftrightarrow>
     (let shared = (\<lambda>secret given. secret \<noteq> [] \<and> given = secret) in
      if ib_path rq = [str ''inbound'', str ''whatsapp-ultramsg''] then shared (wc_UltraMSGWebhookSecret c) (ib_query rq ''token'')
      else if ib_path rq = [str ''inbound'', str ''telegram''] then
        shared (wc_TelegramWebhookSecret c) (ib_header rq ''X-Telegram-Bot-Api-Secret-Token'')
      else if ib_path rq = [str ''inbound'', str ''email-ses''] then shared (wc_EmailSESWebhookSecret c) (ib_query rq ''token'')
      else if ib_path rq \<in> {[str ''inbound'', str ''whatsapp-twilio''], [str ''inbound'', str ''sms-twilio'']} then
        wc_TwilioAuthToken c \<noteq> [] \<and> ib_header rq ''X-Twilio-Signature'' \<noteq> [] \<and>
        (case we_parse_query W body of None \<Rightarrow> False
         | Some vals \<Rightarrow> ib_header rq ''X-Twilio-Signature'' =
             we_sign W (wc_TwilioAuthToken c) (signed_text (wc_PublicBaseURL c) (ib_uri rq) vals))
      else False)"

lemma twilio_verify_iff:
  "twilio_verify W authToken base rq body \<longleftrightarrow> authToken \<noteq> [] \<and> ib_header rq ''X-Twilio-Signature'' \<noteq> [] \<and>
     (case we_parse_query W body of None \<Rightarrow> False
      | Some vals \<Rightarrow> ib_header rq ''X-Twilio-Signature'' = we_sign W authToken (signed_text base (ib_uri rq) vals))"
  by (auto simp: twilio_verify_def Let_def split: option.splits)

lemma listener_authentic:
  assumes "l \<in> set (main_listeners W c)" and "ib_path rq = map str (ls_Path l)"
  shows "ls_Verify l rq body \<longleftrightarrow> authentic W c rq body"
proof -
  note defs = ultramsg_listener_def twilio_listener_def telegram_listener_def email_listener_def
    ultramsg_Verify_def telegram_Verify_def email_Verify_def
  show ?thesis
    using assms
    by (auto simp: main_listeners_def Let_def split: if_splits;
      simp add: defs authentic_def secret_matches_def twilio_verify_iff)
qed

end
