(* ===== verification/Webhook_Facts.thy ===== *)
theory Webhook_Facts
  imports Listener_Facts "HOL-Library.Countable"
begin

text \<open>
  The guarantees of the webhook service on its way in: well-formed messages, one answer for each outcome, no
  effect without a secret, fresh account lookups, and a mail walk that ends.
\<close>

section \<open>The messages of the listeners\<close>

text \<open>
  C31. A listener turns a request into at most one message and leaves the queue alone. The message is well formed (it
  names its platform, keeps the original payload, and has coordinates that are doubles unless they are not numbers at
  all), its account is one that the channels service gave for the listener's own type, and the channels service can
  read it back whenever it can be encoded. A listener asks the platform to retry only when the account could not be
  looked up.
\<close>

theorem listeners_emit_well_formed:
  assumes "floats_ok W" and "l \<in> set (main_listeners W c)" and "run (ls_Parse l rq body) s = (res, s')"
  shows "rc_queue s' = rc_queue s \<and>
    (case res of
       Inl _ \<Rightarrow> lookup_failed W (main_resolver c) (ls_ID l) s s'
     | Inr ms \<Rightarrow> length ms \<le> 1 \<and> list_all (\<lambda>m. well_formed W m \<and>
         resolved W (main_resolver c) (ls_ID l) s s' (me_AccountID (cm_Meta m)) \<and>
         pred_option (\<lambda>j. decode_message U j = Some m) (Marshal m)) ms)"
proof -
  have c: "inbound_listener W (main_resolver c) l" by (rule main_listeners_contract[OF assms(2)])
  have read_back: "pred_option (\<lambda>j. decode_message U j = Some m) (Marshal m)" if wf: "well_formed W m" for m
  proof (cases "Marshal m")
    case (Some j)
    have j: "representable m" "j = message_json m" using marshal_representable[OF assms(1) wf Some] by simp_all
    obtain raw where "me_RawPayload (cm_Meta m) = Some raw"
      using wf by (auto simp: well_formed_def)
    then have "m\<lparr>cm_Meta := (cm_Meta m)\<lparr>me_RawPayload := Some (json_ptr (\<lambda>j. j) (me_RawPayload (cm_Meta m)))\<rparr>\<rparr> = m"
      by (simp add: json_ptr_def)
    then show ?thesis using Some j round_trip_with[OF j(1), of "decode_attachment U" U] decode_attachment_json
      by (simp add: decode_message_def)
  qed simp
  show ?thesis
    using inbound_listener.parse_queue[OF c assms(3)] inbound_listener.at_most_one[OF c] inbound_listener.emits[OF c]
      inbound_listener.retries[OF c] assms(3) read_back
    by (auto simp: list_all_iff split: sum.split)
qed

section \<open>The answers\<close>

text \<open>
  C32. A request to the path of an enabled listener reaches that listener, and the answer says what became of it, with
  any queue that keeps its promise: 400 and 401 change nothing, the first exactly when the body cannot be read and the
  second exactly when its check fails; 200 means that every message of the request is kept by the queue; 500 that a
  lookup failed or that the queue refused the message. Whatever the answer, no message the queue already kept is lost.
\<close>

theorem inbound_contract:
  assumes "queue Q holds carries fit" and "fits W fit" and "l \<in> set (main_listeners W c)" and "ib_path rq = map str (ls_Path l)"
    and "run (webhook_mux Q (main_listeners W c) ready rq) s = ((code, txt), s')"
  shows "code \<in> {200, 400, 401, 500} \<and> (code \<in> {400, 401} \<longrightarrow> s' = s) \<and>
    (code = 400 \<longleftrightarrow> ib_body rq = None) \<and>
    (code = 401 \<longleftrightarrow> pred_option (\<lambda>body. \<not> ls_Verify l rq body) (ib_body rq) \<and> ib_body rq \<noteq> None) \<and>
    holds (rc_queue s) hs \<subseteq> holds (rc_queue s') hs \<and>
    (code = 200 \<longrightarrow> (\<exists>ms s1. run (ls_Parse l rq (the (ib_body rq))) s = (Inr ms, s1) \<and> set ms \<subseteq> holds (rc_queue s') hs)) \<and>
    (code = 500 \<longrightarrow> lookup_failed W (main_resolver c) (ls_ID l) s s' \<or>
       (\<exists>m. run (qu_Enqueue Q m) (rc_queue s) = (False, rc_queue s')))"
proof -
  have c: "inbound_listener W (main_resolver c) l" by (rule main_listeners_contract[OF assms(3)])
  have run: "run (Handler Q l rq) s = ((code, txt), s')" using assms(5) webhook_mux_listener[OF assms(3,4), of Q ready] by simp
  note keep = queue.handler_holds(1)[OF assms(1) c assms(2) run, of hs]
  note kept = queue.handler_holds(2)[OF assms(1) c assms(2) run, of _ _ _ hs]
  from run show ?thesis
  proof (cases rule: Handler_cases)
    case (retry body u)
    then show ?thesis using keep inbound_listener.retries[OF c retry(3)] by simp
  next
    case (stuck body ms s1)
    from enqueue_parsed[OF c stuck(3,4)] obtain m where "run (qu_Enqueue Q m) (rc_queue s) = (False, rc_queue s')" by auto
    then show ?thesis using keep stuck by auto
  next
    case (accepted body ms s1)
    then show ?thesis using keep kept by auto
  qed (use keep in auto)
qed

section \<open>Secrets\<close>

text \<open>
  C33. Nothing gets in without a secret: when a request to the webhook service changes anything, or is answered 200 on
  a path other than the health check, the configuration has a secret for its path that is not empty, and the request
  carries it (as its query token, as its Telegram header, or in a signature over the public address and the form). A
  platform without a secret in the configuration has no effect at all.
\<close>

theorem nothing_without_a_secret:
  assumes "run (webhook_mux Q (main_listeners W c) ready rq) s = ((code, txt), s')"
    and "s' \<noteq> s \<or> (code = 200 \<and> ib_path rq \<noteq> [str ''healthz''])"
  shows "\<exists>body. ib_body rq = Some body \<and> authentic W c rq body"
proof -
  from assms obtain l where l: "List.find (\<lambda>l. map str (ls_Path l) = ib_path rq) (main_listeners W c) = Some l"
    and h: "run (Handler Q l rq) s = ((code, txt), s')"
    by (auto simp: webhook_mux_def split: if_splits option.splits)
  from find_Some_in[OF l] have l: "l \<in> set (main_listeners W c)" "ib_path rq = map str (ls_Path l)" by auto
  from h show ?thesis
    using assms(2) listener_authentic[OF l] by (cases rule: Handler_cases) auto
qed

section \<open>Account lookups\<close>

text \<open>What justifies a cached account: an answer that named it, a minute before the entry expires.\<close>

definition cache_entry_ok :: "wenv \<Rightarrow> HTTPResolver \<Rightarrow> 'q receiver \<Rightarrow> gostring \<Rightarrow> gostring \<Rightarrow> time \<Rightarrow> bool" where
  "cache_entry_ok W r s k acc expires \<longleftrightarrow> (\<exists>platform ident t reply. k = cache_key platform ident \<and> 0 \<notin> set platform \<and>
     expires = t + lookupCacheTTL \<and> t \<le> rc_now s \<and> (t, lookup_request W r platform ident, reply) \<in> set (rc_sent s) \<and>
     names_account W reply acc)"

definition cache_ok :: "wenv \<Rightarrow> HTTPResolver \<Rightarrow> 'q receiver \<Rightarrow> bool" where
  "cache_ok W r s \<longleftrightarrow> (\<forall>k acc expires. rc_cache s k = Some (acc, expires) \<longrightarrow> cache_entry_ok W r s k acc expires)"

text \<open>An account that an answer at most a minute old names.\<close>

definition recently_named :: "wenv \<Rightarrow> HTTPResolver \<Rightarrow> gostring \<Rightarrow> gostring \<Rightarrow> 'q receiver \<Rightarrow> gostring \<Rightarrow> bool" where
  "recently_named W r platform ident s acc \<longleftrightarrow> (\<exists>t reply. (t, lookup_request W r platform ident, reply) \<in> set (rc_sent s) \<and>
     names_account W reply acc \<and> t \<le> rc_now s \<and> rc_now s \<le> t + lookupCacheTTL)"

lemma names_account_nonempty: "names_account W reply acc \<Longrightarrow> acc \<noteq> []"
  by (cases reply) (simp_all add: names_account_def)

lemma cache_key_inj:
  assumes "cache_key p i = cache_key q j" and "0 \<notin> set p" and "0 \<notin> set q"
  shows "p = q \<and> i = j"
proof -
  have take: "takeWhile (\<lambda>c. c \<noteq> 0) (cache_key p i) = p" if "0 \<notin> set p" for p i
    using that by (induction p) (auto simp: cache_key_def)
  then have "p = q" using assms by metis
  then show ?thesis using assms(1) by (simp add: cache_key_def)
qed

lemma cache_entry_later:
  "cache_entry_ok W r s k acc expires \<Longrightarrow> rc_now s \<le> rc_now s' \<Longrightarrow> set (rc_sent s) \<subseteq> set (rc_sent s') \<Longrightarrow> cache_entry_ok W r s' k acc expires"
  unfolding cache_entry_ok_def by (elim exE conjE, intro exI conjI) (assumption | erule subsetD, assumption | erule order_trans)+

lemma cache_ok_later:
  assumes "cache_ok W r s" and "rc_cache s' = rc_cache s" and "rc_now s \<le> rc_now s'" and "set (rc_sent s) \<subseteq> set (rc_sent s')"
  shows "cache_ok W r s'"
  using assms cache_entry_later by (fastforce simp: cache_ok_def)

lemma cache_ok_stored:
  assumes "cache_ok W r s" and "0 \<notin> set platform" and "(rc_now s, lookup_request W r platform ident, reply) \<in> set (rc_sent s)"
    and "names_account W reply acc"
  shows "cache_ok W r (store_account (cache_key platform ident) acc s)"
proof -
  have "cache_entry_ok W r (store_account (cache_key platform ident) acc s) (cache_key platform ident) acc (rc_now s + lookupCacheTTL)"
    unfolding cache_entry_ok_def using assms(2-4) by (intro exI[of _ platform] exI[of _ ident] exI[of _ "rc_now s"] exI[of _ reply])
      (simp add: store_account_def)
  moreover have "cache_entry_ok W r (store_account (cache_key platform ident) acc s) k a e" if "rc_cache s k = Some (a, e)" for k a e
    by (rule cache_entry_later) (use assms(1) that in \<open>auto simp: cache_ok_def store_account_def\<close>)
  ultimately show ?thesis by (auto simp: cache_ok_def store_account_def split: if_splits)
qed

text \<open>
  C34. An account id that the resolver returns is never empty and was named by the channels service for that very
  platform and address at most sixty seconds ago. Only such answers are cached: after an unknown account or a failed
  lookup the cache is as before, so the next message asks again.
\<close>

theorem resolver_serves_fresh_accounts:
  assumes "cache_ok W r s" and "0 \<notin> set platform" and "run (Resolve_account W r platform ident) s = (res, s')"
  shows "cache_ok W r s' \<and>
    (case res of Inr acc \<Rightarrow> acc \<noteq> [] \<and> recently_named W r platform ident s' acc
     | Inl _ \<Rightarrow> rc_cache s' = rc_cache s)"
  using assms(3)
proof (cases rule: Resolve_account_cases)
  case (hit acc)
  then obtain expires where "rc_cache s (cache_key platform ident) = Some (acc, expires)" "rc_now s \<le> expires"
    by (auto simp: cached_def split: option.splits if_splits)
  then have "recently_named W r platform ident s acc"
    using assms(1,2) unfolding cache_ok_def cache_entry_ok_def recently_named_def by (metis cache_key_inj)
  then show ?thesis using hit assms(1) names_account_nonempty by (auto simp: recently_named_def)
next
  case unsent
  then show ?thesis using assms(1) by simp
next
  case (named acc reply s1)
  note parts = exchange_parts[OF named(3)]
  have "cache_ok W r s1" using cache_ok_later[OF assms(1), of s1] parts by auto
  then have "cache_ok W r s'" unfolding named(5) by (rule cache_ok_stored[OF _ assms(2)]) (use parts named(4) in auto)
  moreover have "recently_named W r platform ident s' acc"
    using parts named(4,5) unfolding recently_named_def
    by (intro exI[of _ "rc_now s1"] exI[of _ reply]) (auto simp: store_account_def lookupCacheTTL_def second_def)
  ultimately show ?thesis using named(1,4) names_account_nonempty by auto
next
  case (unknown reply)
  then show ?thesis using cache_ok_later[OF assms(1), of s'] exchange_parts[OF unknown(3)] by auto
next
  case (failed reply)
  then show ?thesis using cache_ok_later[OF assms(1), of s'] exchange_parts[OF failed(3)] by auto
qed

section \<open>The walk over a mail\<close>

text \<open>The parts of a multipart body are shorter than the body, which also holds their delimiters.\<close>

definition parts_shorter :: "wenv \<Rightarrow> bool" where
  "parts_shorter W \<longleftrightarrow> (\<forall>body boundary ct cte part. (ct, cte, part) \<in> set (we_parts W body boundary) \<longrightarrow> length part < length body)"

lemma walk_ends:
  shows "parts_shorter W \<Longrightarrow> length body < k \<Longrightarrow> findTextPlain W k ct cte body \<noteq> None"
    and "parts_shorter W \<Longrightarrow> (\<And>ct cte part. (ct, cte, part) \<in> set parts \<Longrightarrow> length part < k) \<Longrightarrow> scan_parts W k parts \<noteq> None"
proof (induction W k ct cte body and W k parts rule: findTextPlain_scan_parts.induct)
  case (2 W k ct cte body)
  obtain mt b err where m: "we_media_type W ct = (mt, b, err)" by (cases "we_media_type W ct")
  have "scan_parts W k (we_parts W body b) \<noteq> None"
    if "HasPrefix (if err \<or> mt = [] then str ''text/plain'' else mt) (str ''multipart/'')"
  proof (rule "2.IH"[OF m[symmetric] refl refl refl that "2.prems"(1)])
    fix ct cte part
    assume "(ct, cte, part) \<in> set (we_parts W body b)"
    then have "length part < length body" using "2.prems"(1) by (auto simp: parts_shorter_def)
    then show "length part < k" using "2.prems"(2) by simp
  qed
  then show ?case using m by (auto simp: Let_def)
next
  case (4 W k ct cte part parts)
  obtain mt b err where m: "we_media_type W ct = (mt, b, err)" by (cases "we_media_type W ct")
  have rest: "scan_parts W k parts \<noteq> None" if "\<not> HasPrefix mt (str ''multipart/'') \<and> mt \<noteq> str ''text/plain''"
    using "4.IH"(3)[OF m[symmetric] refl refl] that "4.prems" by auto
  have "scan_parts W k parts \<noteq> None" if "HasPrefix mt (str ''multipart/'')" "findTextPlain W k ct cte part = Some []"
    using "4.IH"(2)[OF m[symmetric] refl refl that] "4.prems" by auto
  moreover have "findTextPlain W k ct cte part \<noteq> None" if "HasPrefix mt (str ''multipart/'')"
    using "4.IH"(1)[OF m[symmetric] refl refl that "4.prems"(1)] "4.prems"(2) by auto
  ultimately show ?case using rest m by (auto split: option.splits)
qed simp_all

text \<open>More fuel changes nothing once there is enough.\<close>

lemma walk_mono:
  shows "findTextPlain W k ct cte body = Some t \<Longrightarrow> k \<le> k' \<Longrightarrow> findTextPlain W k' ct cte body = Some t"
    and "scan_parts W k parts = Some t \<Longrightarrow> k \<le> k' \<Longrightarrow> scan_parts W k' parts = Some t"
proof (induction W k ct cte body and W k parts arbitrary: t k' and t k' rule: findTextPlain_scan_parts.induct)
  case (2 W k ct cte body)
  obtain n where n: "k' = Suc n" "k \<le> n" using "2.prems"(2) by (cases k') auto
  obtain mt b err where m: "we_media_type W ct = (mt, b, err)" by (cases "we_media_type W ct")
  show ?case
  proof (cases "HasPrefix (if err \<or> mt = [] then str ''text/plain'' else mt) (str ''multipart/'')")
    case True
    then show ?thesis using "2.IH"[OF m[symmetric] refl refl refl True _ n(2)] "2.prems"(1) n m by (simp add: Let_def)
  next
    case False
    then show ?thesis using "2.prems"(1) n m by (simp add: Let_def)
  qed
next
  case (4 W k ct cte part parts)
  obtain mt b err where m: "we_media_type W ct = (mt, b, err)" by (cases "we_media_type W ct")
  show ?case
  proof (cases "HasPrefix mt (str ''multipart/'')")
    case True
    then obtain x where x: "findTextPlain W k ct cte part = Some x" using "4.prems"(1) m by (auto split: option.splits)
    then have "findTextPlain W k' ct cte part = Some x" using "4.IH"(1)[OF m[symmetric] refl refl True x "4.prems"(2)] by simp
    then show ?thesis using x True "4.prems" m "4.IH"(2)[OF m[symmetric] refl refl True x, of t k'] by (cases "x = []") simp_all
  next
    case False
    then show ?thesis using "4.prems" m "4.IH"(3)[OF m[symmetric] refl refl False, of t k'] by (cases "mt = str ''text/plain''") simp_all
  qed
qed simp_all

text \<open>
  C35. The walk over a mail ends: when the parts of a multipart body are shorter than the body, which also holds their
  delimiters, a number of steps bounded by the length of the body finds a text or finds that there is none, however the
  multiparts are nested; further steps would change nothing, so the model's fuel is enough.
\<close>

theorem mail_walk_ends:
  assumes "parts_shorter W"
  shows "\<exists>t. \<forall>k>length body. findTextPlain W k ct cte body = Some t"
proof -
  obtain t where "findTextPlain W (Suc (length body)) ct cte body = Some t"
    using walk_ends(1)[OF assms, of body "Suc (length body)"] by auto
  from walk_mono(1)[OF this] show ?thesis by (intro exI[of _ t]) (simp del: findTextPlain.simps)
qed

section \<open>At a concrete service\<close>

text \<open>
  An environment in which every JSON text is read as one UltraMSG payload and written as one character, a form is
  empty, every number is zero, and a mail has no parts.
\<close>

instance json :: countable
  by countable_datatype

definition demo_payload :: json where
  "demo_payload = JObj [(str ''event_type'', JStr (str ''message_received'')), (str ''data'', JObj [(str ''id'', JStr (str ''m1'')),
     (str ''from'', JStr (str ''4479@c.us'')), (str ''body'', JStr (str ''hello''))])]"

definition demo_wenv :: wenv where
  "demo_wenv = \<lparr>we_uni = ascii_only, we_show_time = Itoa, we_parse_json = (\<lambda>_. Some demo_payload), we_first_json = (\<lambda>_. Some demo_payload),
     we_raw_text = (\<lambda>_. []), we_show_json = (\<lambda>j. [to_nat j]), we_parse_query = (\<lambda>_. Some []),
     we_sign = (\<lambda>k s. k @ s), we_base64 = Some, we_quoted_printable = Some, we_parse_float = (\<lambda>_. Some 0),
     we_media_type = (\<lambda>s. (s, [], False)), we_read_mail = (\<lambda>s. Some ([], [], s)), we_parts = (\<lambda>_ _. []),
     we_parse_address = (\<lambda>s. Some (s, [])), we_lookup_query = (\<lambda>p i. p @ i), we_valid_url = (\<lambda>u. u \<noteq> [])\<rparr>"

definition demo_webhook_config :: webhook_config where
  "demo_webhook_config = (webhook_Load (\<lambda>_. None) (\<lambda>_. []))\<lparr>wc_ChannelsURL := str ''http://channels'', wc_InternalAPIToken := str ''s3cret'',
     wc_UltraMSGWebhookSecret := str ''hush''\<rparr>"

definition demo_receiver :: "'q \<Rightarrow> 'q receiver" where
  "demo_receiver q = \<lparr>rc_now = 0, rc_net = [], rc_sent = [], rc_cache = Map.empty, rc_queue = q\<rparr>"

text \<open>The same with the account of the instance already looked up.\<close>

definition demo_cached :: "'q \<Rightarrow> 'q receiver" where
  "demo_cached q = (demo_receiver q)\<lparr>rc_cache := [cache_key ultramsg_ID [] \<mapsto> (str ''7'', 5)]\<rparr>"

definition demo_inbound :: inbound where
  "demo_inbound = \<lparr>ib_method = str ''POST'', ib_path = [str ''inbound'', str ''whatsapp-ultramsg''], ib_uri = [],
     ib_query = (\<lambda>_. str ''hush''), ib_header = (\<lambda>_. []), ib_request_id = [], ib_length = 0, ib_size = 0, ib_body = Some []\<rparr>"

definition demo_ultramsg :: "'q listener" where
  "demo_ultramsg = ultramsg_listener demo_wenv (main_resolver demo_webhook_config) (str ''hush'')"

lemma demo_floats_ok: "floats_ok demo_wenv"
  by (simp add: floats_ok_def demo_wenv_def float64_zero)

lemma demo_listeners: "main_listeners demo_wenv demo_webhook_config = [demo_ultramsg]"
  by (simp add: main_listeners_def demo_webhook_config_def demo_ultramsg_def webhook_Load_def Let_def)

lemma demo_decoded: "decode_payload U demo_payload = Some \<lparr>um_EventType = str ''message_received'', um_InstanceID = [], um_ID = str ''m1'',
    um_From = str ''4479@c.us'', um_To = [], um_Pushname = [], um_Type = [], um_Body = str ''hello'', um_Media = [], um_FromMe = False,
    um_QuotedID = [], um_Latitude = None, um_Longitude = None\<rparr>"
  by (simp add: decode_payload_def demo_payload_def str_field_def name_simps decode_raw_def)

lemma demo_parse:
  "\<exists>m. run (ls_Parse demo_ultramsg demo_inbound []) (demo_cached q) = (Inr [m], demo_cached q) \<and>
     cm_Meta m = \<lparr>me_PlatformMessageID = str ''m1'', me_ReceivedAt = Itoa 0, me_InReplyToID = None, me_AccountID = str ''7'',
       me_RawPayload = Some demo_payload\<rparr>"
proof -
  have "\<not> HasSuffix (str ''4479@c.us'') (str ''@g.us'')" by code_simp
  then show ?thesis
    by (simp add: demo_ultramsg_def ultramsg_listener_def ultramsg_parse_def demo_wenv_def demo_decoded with_account_def
        Resolve_account_def cached_def demo_cached_def demo_receiver_def Let_def ultramsg_message_def nonempty_def)
qed

lemma demo_handler:
  assumes "run (ls_Parse demo_ultramsg demo_inbound []) (demo_cached q) = (Inr [m], demo_cached q)"
  shows "run (Handler Memory demo_ultramsg demo_inbound) (demo_cached q) = ((200, ''accepted''), demo_cached (q @ [m]))"
proof -
  have "ib_body demo_inbound = Some []" "ls_Verify demo_ultramsg demo_inbound []"
    by (simp_all add: demo_inbound_def demo_ultramsg_def ultramsg_listener_def ultramsg_Verify_def secret_matches_def)
  then show ?thesis using assms
    by (simp add: Handler_def run_on_queue Memory_def Memory_Enqueue_def demo_cached_def demo_receiver_def)
qed

theorem listeners_emit_witness: "\<exists>m. well_formed demo_wenv m \<and> me_AccountID (cm_Meta m) = str ''7''"
proof -
  obtain m where m: "run (ls_Parse demo_ultramsg demo_inbound []) (demo_cached NewMemory) = (Inr [m], demo_cached NewMemory)"
      "me_AccountID (cm_Meta m) = str ''7''"
    using demo_parse[of NewMemory] by auto
  have "demo_ultramsg \<in> set (main_listeners demo_wenv demo_webhook_config)" by (simp add: demo_listeners)
  from listeners_emit_well_formed[OF demo_floats_ok this m(1)] m(2) show ?thesis by auto
qed

theorem inbound_contract_witness:
  "\<exists>m. me_AccountID (cm_Meta m) = str ''7'' \<and> m \<in> memory_holds (rc_queue (demo_cached (NewMemory @ [m]))) []"
proof -
  obtain m where m: "run (ls_Parse demo_ultramsg demo_inbound []) (demo_cached NewMemory) = (Inr [m], demo_cached NewMemory)"
      "me_AccountID (cm_Meta m) = str ''7''"
    using demo_parse[of NewMemory] by auto
  have l: "demo_ultramsg \<in> set (main_listeners demo_wenv demo_webhook_config)" by (simp add: demo_listeners)
  have b: "ib_body demo_inbound = Some []" by (simp add: demo_inbound_def)
  have p: "ib_path demo_inbound = map str (ls_Path (demo_ultramsg :: memory listener))"
    by (simp add: demo_ultramsg_def ultramsg_listener_def demo_inbound_def)
  have "run (webhook_mux Memory (main_listeners demo_wenv demo_webhook_config) True demo_inbound) (demo_cached NewMemory) =
      ((200, ''accepted''), demo_cached (NewMemory @ [m]))"
    using demo_handler[OF m(1)] webhook_mux_listener[OF l p, of Memory True] by simp
  from inbound_contract[OF mem.queue_axioms memory_fits l p this, of "[]"]
  have "m \<in> memory_holds (rc_queue (demo_cached (NewMemory @ [m]))) []" using m(1) b by auto
  then show ?thesis using m(2) by blast
qed

theorem secret_witness: "authentic demo_wenv demo_webhook_config demo_inbound []"
proof -
  obtain m where m: "run (ls_Parse demo_ultramsg demo_inbound []) (demo_cached NewMemory) = (Inr [m], demo_cached NewMemory)"
    using demo_parse[of NewMemory] by auto
  have "map str (ls_Path (demo_ultramsg :: memory listener)) = ib_path demo_inbound" "ib_path demo_inbound \<noteq> [str ''healthz'']" "ib_body demo_inbound = Some []"
    by (simp_all add: demo_ultramsg_def ultramsg_listener_def demo_inbound_def)
  then have "run (webhook_mux Memory (main_listeners demo_wenv demo_webhook_config) True demo_inbound) (demo_cached NewMemory) =
      ((200, ''accepted''), demo_cached (NewMemory @ [m]))"
    using demo_handler[OF m] by (simp add: webhook_mux_def demo_listeners)
  from nothing_without_a_secret[OF this] \<open>ib_path demo_inbound \<noteq> _\<close> \<open>ib_body demo_inbound = _\<close> show ?thesis by auto
qed

theorem resolver_witness:
  "cache_ok demo_wenv (main_resolver demo_webhook_config)
     (snd (run (Resolve_account demo_wenv (main_resolver demo_webhook_config) (str ''telegram'') []) (demo_receiver NewMemory)))"
proof -
  have "cache_ok demo_wenv (main_resolver demo_webhook_config) (demo_receiver NewMemory)" by (simp add: cache_ok_def demo_receiver_def)
  moreover have "0 \<notin> set (str ''telegram'')" by code_simp
  ultimately show ?thesis using resolver_serves_fresh_accounts[OF _ _ prod.collapse[symmetric]] by blast
qed

theorem mail_walk_witness: "\<exists>t. findTextPlain demo_wenv 1 [] [] [] = Some t"
proof -
  have "parts_shorter demo_wenv" by (simp add: parts_shorter_def demo_wenv_def)
  from mail_walk_ends[OF this, of "[]"] obtain t where "\<forall>k>0. findTextPlain demo_wenv k [] [] [] = Some t"
    unfolding list.size by blast
  then show ?thesis by (intro exI[of _ t]) (simp del: findTextPlain.simps)
qed

end
