(* ===== verification/Relay.thy ===== *)
theory Relay
  imports Listener_Facts
begin

text \<open>
  The back half of the webhook service against what it promises: a relay that gives a message up only once it
  has delivered it. Each step of the service, with any queue that keeps its contract, is a step of that relay.
\<close>

section \<open>The abstract relay\<close>

text \<open>The messages it owes, and those it has delivered at least once.\<close>

record relay =
  ry_owed :: "CanonicalMessage set"
  ry_done :: "CanonicalMessage set"

definition relay_step :: "relay \<Rightarrow> relay \<Rightarrow> bool" where
  "relay_step a a' \<longleftrightarrow> ry_done a \<subseteq> ry_done a' \<and> ry_owed a \<subseteq> ry_owed a' \<union> ry_done a'"

lemma relay_step_refl: "relay_step a a"
  by (simp add: relay_step_def)

lemma relay_step_trans: "relay_step a b \<Longrightarrow> relay_step b c \<Longrightarrow> relay_step a c"
  by (auto simp: relay_step_def)

interpretation relay: frame relay_step
  by unfold_locales (fact relay_step_refl relay_step_trans)+

section \<open>The service as a relay\<close>

definition positive :: "net_reply \<Rightarrow> bool" where
  "positive r \<longleftrightarrow> (case r of NetError \<Rightarrow> False | Reply code _ \<Rightarrow> 200 \<le> code \<and> code < 300)"

lemma positive_NetError [simp]: "\<not> positive NetError"
  by (simp add: positive_def)

definition handles :: "('q, 'h) drain \<Rightarrow> 'h list" where
  "handles s = map snd (dr_waiting s) @ map (\<lambda>x. snd (fst x)) (dr_running s)"

definition delivered :: "wenv \<Rightarrow> Publisher \<Rightarrow> 'q receiver \<Rightarrow> CanonicalMessage set" where
  "delivered W p s = {m. \<exists>t rq r. (t, rq, r) \<in> set (rc_sent s) \<and> ingest_request W p m = Some rq \<and> positive r}"

definition relay_of :: "wenv \<Rightarrow> ('q, 'h) Worker \<Rightarrow> ('q \<Rightarrow> 'h list \<Rightarrow> CanonicalMessage set) \<Rightarrow> ('q, 'h) drain \<Rightarrow> relay" where
  "relay_of W w holds s = \<lparr>ry_owed = holds (rc_queue (dr_recv s)) (handles s), ry_done = delivered W (wk_pub w) (dr_recv s)\<rparr>"

text \<open>
  What holds of the worker at all times: its deliveries carry their messages, one with a successful publish has
  been delivered, and no more run than there are slots.
\<close>

definition worker_ok :: "wenv \<Rightarrow> ('q, 'h) Worker \<Rightarrow> ('h \<Rightarrow> CanonicalMessage) \<Rightarrow> ('q, 'h) drain \<Rightarrow> bool" where
  "worker_ok W w carries s \<longleftrightarrow>
     list_all (\<lambda>d. carries (snd d) = fst d) (dr_waiting s) \<and>
     list_all (\<lambda>(d, err). carries (snd d) = fst d \<and> (err = Some None \<longrightarrow> fst d \<in> delivered W (wk_pub w) (dr_recv s))) (dr_running s) \<and>
     length (dr_running s) \<le> wk_concurrency w"

lemma delivered_mono: "set (rc_sent s) \<subseteq> set (rc_sent s') \<Longrightarrow> delivered W p s \<subseteq> delivered W p s'"
  by (auto simp: delivered_def)

lemma Publish_parts:
  assumes "run (Publish W p m) s = (err, s')"
  shows "rc_queue s' = rc_queue s" "set (rc_sent s) \<subseteq> set (rc_sent s')" "err = None \<Longrightarrow> m \<in> delivered W p s'"
proof -
  have "rc_queue s' = rc_queue s \<and> set (rc_sent s) \<subseteq> set (rc_sent s') \<and> (err = None \<longrightarrow> m \<in> delivered W p s')"
  proof (cases "ingest_request W p m")
    case None
    then show ?thesis using assms by (auto simp: Publish_def)
  next
    case (Some rq)
    then obtain r where r: "run (exchange (seconds 15) rq) s = (r, s')"
      and err: "err = (case r of NetError \<Rightarrow> Some Transient | Reply code body \<Rightarrow> classify code)"
      using assms by (auto simp: Publish_def split: prod.splits)
    note parts = exchange_parts[OF r]
    have "positive r" if "err = None" using that err by (auto simp: positive_def classify_None split: net_reply.splits)
    then show ?thesis using parts Some by (auto simp: delivered_def)
  qed
  then show "rc_queue s' = rc_queue s" "set (rc_sent s) \<subseteq> set (rc_sent s')" "err = None \<Longrightarrow> m \<in> delivered W p s'" by auto
qed

lemma on_queue_sent: "run (on_queue p) s = (a, s') \<Longrightarrow> rc_sent s' = rc_sent s"
  unfolding on_queue_parts by (metis receiver.ext_inject receiver.surjective receiver.update_convs(5))

lemma remove_nth_nth: "i < length xs \<Longrightarrow> mset (map f xs) = add_mset (f (xs ! i)) (mset (map f (remove_nth i xs)))"
  unfolding remove_nth_def
  by (subst id_take_nth_drop[of i xs]) simp_all

lemma map_update_same: "i < length xs \<Longrightarrow> (map f xs)[i := f (xs ! i)] = map f xs"
  by (metis length_map list_update_id nth_map)

lemma list_all_remove_nth: "list_all P xs \<Longrightarrow> list_all P (remove_nth i xs)"
  by (auto simp: remove_nth_def list_all_iff dest: in_set_takeD in_set_dropD)

lemma length_remove_nth: "length (remove_nth i xs) \<le> length xs"
  by (simp add: remove_nth_def)

section \<open>The worker\<close>

context queue
begin

lemma settle_keeps:
  assumes "run (settle w d err) s = (ok, s')" and "wk_queue w = Q" and "snd d \<in> set hs" and "carries (snd d) = fst d"
    and "err = None \<Longrightarrow> fst d \<in> delivered W p s"
  shows "holds (rc_queue s) hs \<subseteq> holds (rc_queue s') (remove1 (snd d) hs) \<union> delivered W p s'" "rc_sent s' = rc_sent s"
proof -
  show sent: "rc_sent s' = rc_sent s" using assms(1) by (cases err) (auto simp: settle_def dest: on_queue_sent)
  show "holds (rc_queue s) hs \<subseteq> holds (rc_queue s') (remove1 (snd d) hs) \<union> delivered W p s'"
  proof (cases err)
    case None
    then have "run (qu_Ack Q (snd d)) (rc_queue s) = (ok, rc_queue s')" using assms(1,2) by (simp add: settle_def on_queue_parts)
    moreover have "delivered W p s' = delivered W p s" using sent by (simp add: delivered_def)
    ultimately show ?thesis using ack[OF _ assms(3), of "rc_queue s" ok "rc_queue s'"] assms(4,5) None by auto
  next
    case (Some e)
    then have "run (qu_Nack Q (snd d)) (rc_queue s) = (ok, rc_queue s')" using assms(1,2) by (simp add: settle_def on_queue_parts)
    then show ?thesis using nack[OF _ assms(3), of "rc_queue s" ok "rc_queue s'"] by auto
  qed
qed

lemma drain_step_refines:
  assumes "drain_step W w s s'" and "wk_queue w = Q" and "worker_ok W w carries s"
  shows "relay_step (relay_of W w holds s) (relay_of W w holds s') \<and> worker_ok W w carries s'"
  using assms(1)
proof cases
  case (Received ds r)
  then have run: "run (qu_Receive Q) (rc_queue (dr_recv s)) = (Some ds, rc_queue r)" using assms(2) by (simp add: on_queue_parts)
  have sent: "rc_sent r = rc_sent (dr_recv s)" by (rule on_queue_sent[OF Received(4)])
  have "delivered W (wk_pub w) r = delivered W (wk_pub w) (dr_recv s)" using sent by (simp add: delivered_def)
  then show ?thesis
    using Received(1-3) receive[OF run, of "[]"] received[OF run]
    by (auto simp: relay_step_def relay_of_def handles_def worker_ok_def list_all_iff)
next
  case (Backoff r)
  then have run: "run (qu_Receive Q) (rc_queue (dr_recv s)) = (None, rc_queue r)" using assms(2) by (simp add: on_queue_parts)
  have sent: "rc_sent r = rc_sent (dr_recv s)" by (rule on_queue_sent[OF Backoff(4)])
  have "delivered W (wk_pub w) (r\<lparr>rc_now := rc_now r + receiveBackoff\<rparr>) = delivered W (wk_pub w) (dr_recv s)"
    using sent by (simp add: delivered_def)
  then show ?thesis
    using Backoff(1-3) receive_failed[OF run, of "[]"]
    by (auto simp: relay_step_def relay_of_def handles_def worker_ok_def)
next
  case (Begin d ds)
  then have "mset (handles s') = mset (handles s)" by (simp add: handles_def)
  then show ?thesis
    using Begin assms(3) order[of "handles s'" "handles s"] by (simp add: relay_step_def relay_of_def worker_ok_def)
next
  case (Published i d err r)
  note parts = Publish_parts[OF Published(4)]
  have mono: "delivered W (wk_pub w) (dr_recv s) \<subseteq> delivered W (wk_pub w) r" by (rule delivered_mono[OF parts(2)])
  have h: "handles s' = handles s"
    using Published(1-3) map_update_same[of i "dr_running s" "\<lambda>x. snd (fst x)"] by (simp add: handles_def map_update)
  have "d \<in> fst ` set (dr_running s)" using Published(2,3) by (metis fst_conv image_eqI nth_mem)
  then have "carries (snd d) = fst d" using assms(3) by (auto simp: worker_ok_def list_all_iff)
  then have "worker_ok W w carries s'"
    using Published(1) assms(3) mono parts(3)
    by (auto simp: worker_ok_def list_all_iff dest!: set_update_subset_insert[THEN subsetD])
  then show ?thesis using mono parts(1) Published(1) h by (simp add: relay_step_def relay_of_def)
next
  case (Settled i d err ok r)
  let ?hs = "handles s"
  have mem: "(d, Some err) \<in> set (dr_running s)" using Settled(2,3) by (metis nth_mem)
  from assms(3) have ok: "\<forall>(d, err)\<in>set (dr_running s). carries (snd d) = fst d \<and> (err = Some None \<longrightarrow> fst d \<in> delivered W (wk_pub w) (dr_recv s))"
    by (simp add: worker_ok_def list_all_iff)
  have d: "carries (snd d) = fst d" "err = None \<Longrightarrow> fst d \<in> delivered W (wk_pub w) (dr_recv s)"
    using bspec[OF ok mem] by simp_all
  have "snd d \<in> (\<lambda>x. snd (fst x)) ` set (dr_running s)" using mem by (metis fst_conv image_eqI)
  then have "snd d \<in> set ?hs" by (simp add: handles_def)
  note kept = settle_keeps[OF Settled(4) assms(2) this d]
  have "mset ?hs = add_mset (snd d) (mset (handles s'))"
    using remove_nth_nth[OF Settled(2), of "\<lambda>x. snd (fst x)"] Settled(1,3) by (simp add: handles_def)
  then have "holds (rc_queue r) (remove1 (snd d) ?hs) = holds (rc_queue r) (handles s')" by (intro order) simp
  moreover have "delivered W (wk_pub w) r = delivered W (wk_pub w) (dr_recv s)" using kept(2) by (simp add: delivered_def)
  ultimately show ?thesis
    using kept(1) Settled(1) assms(3) list_all_remove_nth[of _ "dr_running s" i] length_remove_nth[of i "dr_running s"]
    by (auto simp: relay_step_def relay_of_def worker_ok_def)
qed

end

section \<open>A pass of the worker\<close>

lemma handle_split:
  "run (handle W w d) r = ((), r') \<longleftrightarrow>
     (\<exists>err r1 ok. run (Publish W (wk_pub w) (fst d)) r = (err, r1) \<and> run (settle w d err) r1 = (ok, r'))"
  by (auto simp: handle_def split: prod.splits)

lemma handle_all_steps:
  assumes "1 \<le> wk_concurrency w" and "run (handle_all W w ds) r = ((), r')"
  shows "(drain_step W w)\<^sup>*\<^sup>* \<lparr>dr_recv = r, dr_waiting = ds, dr_running = []\<rparr> \<lparr>dr_recv = r', dr_waiting = [], dr_running = []\<rparr>"
  using assms(2)
proof (induction ds arbitrary: r)
  case Nil
  then show ?case by simp
next
  case (Cons d ds)
  obtain r2 where h: "run (handle W w d) r = ((), r2)" and rest: "run (handle_all W w ds) r2 = ((), r')"
    using Cons.prems by (auto split: prod.splits)
  from h obtain err r1 ok where p: "run (Publish W (wk_pub w) (fst d)) r = (err, r1)" and s: "run (settle w d err) r1 = (ok, r2)"
    by (auto simp: handle_split)
  let ?s = "\<lambda>r ds running. \<lparr>dr_recv = r, dr_waiting = ds, dr_running = running\<rparr>"
  have "drain_step W w (?s r (d # ds) []) (?s r ds [(d, None)])"
    using drain_step.Begin[of "?s r (d # ds) []" d ds w W] assms(1) by simp
  moreover have "drain_step W w (?s r ds [(d, None)]) (?s r1 ds [(d, Some err)])"
    using drain_step.Published[of 0 "?s r ds [(d, None)]" d W w err r1] p by simp
  moreover have "drain_step W w (?s r1 ds [(d, Some err)]) (?s r2 ds [])"
    using drain_step.Settled[of 0 "?s r1 ds [(d, Some err)]" d err w ok r2 W] s by (simp add: remove_nth_def)
  ultimately show ?case using Cons.IH[OF rest] by (meson converse_rtranclp_into_rtranclp)
qed

lemma NewWorker_concurrency: "1 \<le> wk_concurrency (NewWorker q p c)"
  by (auto simp: NewWorker_def)

text \<open>A pass, one delivery after the other, is one of the schedules of the worker.\<close>

lemma drainOnce_steps:
  assumes "1 \<le> wk_concurrency w" and "run (drainOnce W w) r = (Some n, r')"
  shows "(drain_step W w)\<^sup>*\<^sup>* \<lparr>dr_recv = r, dr_waiting = [], dr_running = []\<rparr> \<lparr>dr_recv = r', dr_waiting = [], dr_running = []\<rparr>"
proof -
  obtain ds r1 where recv: "run (on_queue (qu_Receive (wk_queue w))) r = (Some ds, r1)" and rest: "run (handle_all W w ds) r1 = ((), r')"
    using assms(2) by (auto simp: drainOnce_def split: prod.splits option.splits)
  have "drain_step W w \<lparr>dr_recv = r, dr_waiting = [], dr_running = []\<rparr> \<lparr>dr_recv = r1, dr_waiting = ds, dr_running = []\<rparr>"
    using drain_step.Received[of "\<lparr>dr_recv = r, dr_waiting = [], dr_running = []\<rparr>" w ds r1 W] recv by simp
  with handle_all_steps[OF assms(1) rest] show ?thesis by (meson converse_rtranclp_into_rtranclp)
qed

section \<open>Every pass ends\<close>

text \<open>Whether a pass is under way, and the steps left of it: begin, publish and settle of each delivery.\<close>

definition busy :: "('q, 'h) drain \<Rightarrow> bool" where
  "busy s \<longleftrightarrow> dr_waiting s \<noteq> [] \<or> dr_running s \<noteq> []"

definition work :: "('q, 'h) drain \<Rightarrow> nat" where
  "work s = 3 * length (dr_waiting s) + sum_list (map (\<lambda>x. if snd x = None then 2 else 1) (dr_running s))"

lemma work_zero: "work s = 0 \<longleftrightarrow> \<not> busy s"
  by (cases "dr_running s") (auto simp: work_def busy_def)

lemma sum_list_split: "i < length xs \<Longrightarrow> sum_list (map f xs) = sum_list (map f (take i xs)) + (f (xs ! i) + sum_list (map f (drop (Suc i) xs)))"
  for f :: "'a \<Rightarrow> nat"
  by (subst id_take_nth_drop[of i xs]) simp_all

lemma busy_step_work:
  assumes "drain_step W w s s'" and "busy s"
  shows "Suc (work s') = work s"
  using assms(1)
proof cases
  case (Published i d err r)
  then show ?thesis
    using sum_list_split[of i "dr_running s" "\<lambda>x. if snd x = None then 2 else 1"]
    by (simp add: work_def upd_conv_take_nth_drop)
next
  case (Settled i d err ok r)
  then show ?thesis
    using sum_list_split[of i "dr_running s" "\<lambda>x. if snd x = None then 2 else 1"] by (simp add: work_def remove_nth_def)
qed (use assms(2) in \<open>auto simp: work_def busy_def\<close>)

lemma busy_progress:
  assumes "busy s" and "1 \<le> wk_concurrency w"
  shows "\<exists>s'. drain_step W w s s'"
proof (cases "dr_running s")
  case Nil
  then obtain d ds where "dr_waiting s = d # ds" using assms(1) by (cases "dr_waiting s") (auto simp: busy_def)
  then show ?thesis using drain_step.Begin[of s d ds w W] Nil assms(2) by auto
next
  case (Cons x xs)
  obtain d e where x: "x = (d, e)" by (cases x)
  show ?thesis
  proof (cases e)
    case None
    obtain err r where "run (Publish W (wk_pub w) (fst d)) (dr_recv s) = (err, r)" by (cases "run (Publish W (wk_pub w) (fst d)) (dr_recv s)")
    then show ?thesis using drain_step.Published[of 0 s d W w err r] Cons x None by auto
  next
    case (Some err)
    obtain ok r where "run (settle w d err) (dr_recv s) = (ok, r)" by (cases "run (settle w d err) (dr_recv s)")
    then show ?thesis using drain_step.Settled[of 0 s d err w ok r W] Cons x Some by auto
  qed
qed

lemma pass_steps: "((\<lambda>s s'. busy s \<and> drain_step W w s s') ^^ k) s s' \<Longrightarrow> k + work s' = work s"
proof (induction k arbitrary: s')
  case (Suc k)
  then obtain t where t: "((\<lambda>s s'. busy s \<and> drain_step W w s s') ^^ k) s t" "busy t" "drain_step W w t s'" by auto
  show ?case using Suc.IH[OF t(1)] busy_step_work[OF t(3,2)] by simp
qed simp

end
