(* ===== verification/Hub.thy ===== *)
theory Hub
  imports Relay Server_Facts Ingest_Safety
begin

text \<open>
  The two services together: webhooks come in, the worker forwards their messages to \<open>POST /v1/ingest\<close> of the
  channels service over a network that may lose a request or its answer, either process goes on with its other
  work in between, and the webhook's process may stop at any time.
\<close>

section \<open>The forwarded request\<close>

text \<open>The request of the publisher as the channels service receives it; its other headers and parameters vary.\<close>

definition at_ingest :: "gostring \<Rightarrow> gostring \<Rightarrow> server_request \<Rightarrow> bool" where
  "at_ingest auth body rq \<longleftrightarrow> sr_method rq = str ''POST'' \<and> sr_path rq = [str ''v1'', str ''ingest''] \<and> sr_auth rq = auth \<and> sr_body rq = body"

fun received_as :: "outgoing \<Rightarrow> server_request \<Rightarrow> bool" where
  "received_as (IngestRequest url auth key body) rq = at_ingest auth body rq"
| "received_as _ rq = False"

lemma serve_ingest:
  assumes "at_ingest auth body rq" and "serve C rq s = Some (resp, s')" and "200 \<le> sp_status resp \<and> sp_status resp < 300"
  shows "\<exists>j. run (ingest_handler (sc_env C) main_deps body) (sv_world s) = ((sp_status resp, j), sv_world s')"
proof -
  have path: "match_path [Lit ''v1'', Lit ''ingest''] (sr_path rq) = Some []" using assms(1) by (simp add: at_ingest_def)
  have "(''POST'', [Lit ''v1'', Lit ''ingest''], IngestEP) \<in> set v1_routes" by (simp add: route_tables)
  with routes_served have "route_served (''POST'', [Lit ''v1'', Lit ''ingest''], IngestEP)" by (simp add: list_all_iff)
  then have r: "guarded (sr_path rq)" "mux_lookup v1_routes (sr_method rq) (sr_path rq) False = Found IngestEP []"
    using path assms(1) by (simp_all add: route_served_def at_ingest_def)
  show ?thesis
    using assms r
    by (auto simp: serve_def serve_mux_def serve_v1_def Let_def on_world_def json_reply_def unauthorized_def at_ingest_def
        split: if_splits prod.splits)
qed

text \<open>The keys of the messages stored in the log.\<close>

definition stored_keys :: "server \<Rightarrow> (uuid \<times> gostring) set" where
  "stored_keys s = set (platform_keys (messages (w_db (sv_world s))))"

definition key_in :: "env \<Rightarrow> (uuid \<times> gostring) set \<Rightarrow> CanonicalMessage \<Rightarrow> bool" where
  "key_in E keys m \<longleftrightarrow> (\<exists>acc. e_parse_uuid E (me_AccountID (cm_Meta m)) = Some acc \<and> (acc, me_PlatformMessageID (cm_Meta m)) \<in> keys)"

lemma recall_marked_keys: "recall_marked d d' \<Longrightarrow> platform_keys (messages d') = platform_keys (messages d)"
  unfolding recall_marked_def mark_recalled_def map_if_def
  by (auto intro!: platform_keys_map)

lemma live_account_id: "live_account E m d acct \<Longrightarrow> e_parse_uuid E (me_AccountID (cm_Meta m)) = Some (acc_id acct)"
  by (auto simp: live_account_def)

lemma ends_well_key:
  assumes "ends_well E m w res w'"
  shows "key_in E (set (platform_keys (messages (w_db w')))) m"
proof (cases "rs_IsReplay res")
  case True
  then show ?thesis using assms live_account_id by (fastforce simp: ends_well_def key_in_def has_key_def in_platform_keys)
next
  case False
  then obtain row d where a: "adds_row E m (w_db w) row d" and r: "recall_marked d (w_db w')" using assms by (auto simp: ends_well_def)
  then obtain acct where "live_account E m (w_db w) acct" "has_key (acc_id acct) (me_PlatformMessageID (cm_Meta m)) row" "row \<in> set (messages d)"
    by (auto simp: adds_row_def row_of_def)
  then show ?thesis using recall_marked_keys[OF r] live_account_id by (fastforce simp: key_in_def has_key_def in_platform_keys)
qed

lemma ingest_handler_stores:
  assumes "run (ingest_handler E D body) w = ((st, j), w')" and "st < 300"
    and "Option.bind (e_first_json E body) (decode_message (e_uni E)) = Some m"
  shows "key_in E (set (platform_keys (messages (w_db w')))) m"
proof -
  obtain r where r: "run (Ingest E D m) w = (r, w')" "\<exists>res. r = Inr res"
    using assms by (auto simp: ingest_handler_def split: prod.splits sum.splits ingest_error.splits)
  then show ?thesis using Ingest_ends[of E D m w] ends_well_key by auto
qed

section \<open>Steps of the two services\<close>

text \<open>
  The relay of the webhook service, the channels service, the messages of the webhooks answered with 200, and the keys
  the log of the channels service has held at any time.
\<close>

record ('q, 'h) hub =
  hb_relay :: "('q, 'h) drain"
  hb_server :: server
  hb_accepted :: "CanonicalMessage set"
  hb_stored :: "(uuid \<times> gostring) set"

text \<open>The messages the parse of a webhook yields.\<close>

definition parsed_of :: "'q listener list \<Rightarrow> inbound \<Rightarrow> 'q receiver \<Rightarrow> CanonicalMessage set" where
  "parsed_of ls rq s = (case List.find (\<lambda>l. map str (ls_Path l) = ib_path rq) ls of
     None \<Rightarrow> {}
   | Some l \<Rightarrow> (case ib_body rq of
       None \<Rightarrow> {}
     | Some body \<Rightarrow> (case fst (run (ls_Parse l rq body) s) of Inl _ \<Rightarrow> {} | Inr ms \<Rightarrow> set ms)))"

definition with_net :: "(nat \<times> net_reply) list \<Rightarrow> 'q receiver \<Rightarrow> 'q receiver" where
  "with_net net s = s\<lparr>rc_net := net\<rparr>"

definition at_server :: "server \<Rightarrow> ('q, 'h) hub \<Rightarrow> ('q, 'h) hub" where
  "at_server s h = h\<lparr>hb_server := s, hb_stored := hb_stored h \<union> stored_keys s\<rparr>"

text \<open>
  A webhook is answered, with any answers to its account lookup; the worker takes a step without an exchange; a
  forwarded request is served and its answer arrives after some time or is lost; a forwarded request is lost; the
  channels service takes a step of its own; the clock of the webhook service moves on; its process stops.
\<close>

inductive hub_move :: "server_config \<Rightarrow> wenv \<Rightarrow> ('q, 'h) Worker \<Rightarrow> 'q listener list \<Rightarrow> bool \<Rightarrow> ('q, 'h) hub \<Rightarrow> ('q, 'h) hub \<Rightarrow> bool"
  for C W w ls crashes where
  Webhook: "run (webhook_mux (wk_queue w) ls ready rq) (with_net net (dr_recv (hb_relay h))) = ((st, txt), r) \<Longrightarrow>
    hub_move C W w ls crashes h (h\<lparr>hb_relay := (hb_relay h)\<lparr>dr_recv := r\<rparr>,
      hb_accepted := hb_accepted h \<union> (if st = 200 then parsed_of ls rq (with_net net (dr_recv (hb_relay h))) else {})\<rparr>)"
| Work: "drain_step W w (hb_relay h) d \<Longrightarrow> rc_sent (dr_recv d) = rc_sent (dr_recv (hb_relay h)) \<Longrightarrow>
    hub_move C W w ls crashes h (h\<lparr>hb_relay := d\<rparr>)"
| Served: "i < length (dr_running (hb_relay h)) \<Longrightarrow> dr_running (hb_relay h) ! i = (d, None) \<Longrightarrow>
    ingest_request W (wk_pub w) (fst d) = Some out \<Longrightarrow> received_as out rq \<Longrightarrow> serve C rq (hb_server h) = Some (resp, s) \<Longrightarrow>
    reply = Reply (sp_status resp) body \<or> reply = NetError \<Longrightarrow>
    run (Publish W (wk_pub w) (fst d)) (with_net [(t, reply)] (dr_recv (hb_relay h))) = (err, r) \<Longrightarrow>
    hub_move C W w ls crashes h (at_server s (h\<lparr>hb_relay := (hb_relay h)\<lparr>dr_recv := r,
      dr_running := (dr_running (hb_relay h))[i := (d, Some err)]\<rparr>\<rparr>))"
| Lost: "i < length (dr_running (hb_relay h)) \<Longrightarrow> dr_running (hb_relay h) ! i = (d, None) \<Longrightarrow>
    run (Publish W (wk_pub w) (fst d)) (with_net [(t, NetError)] (dr_recv (hb_relay h))) = (err, r) \<Longrightarrow>
    hub_move C W w ls crashes h (h\<lparr>hb_relay := (hb_relay h)\<lparr>dr_recv := r,
      dr_running := (dr_running (hb_relay h))[i := (d, Some err)]\<rparr>\<rparr>)"
| Channels: "hub_step C (hb_server h) s \<Longrightarrow> hub_move C W w ls crashes h (at_server s h)"
| Clock: "rc_now (dr_recv (hb_relay h)) \<le> t \<Longrightarrow>
    hub_move C W w ls crashes h (h\<lparr>hb_relay := (hb_relay h)\<lparr>dr_recv := (dr_recv (hb_relay h))\<lparr>rc_now := t\<rparr>\<rparr>\<rparr>)"
| Stop: "crashes \<Longrightarrow> hub_move C W w ls crashes h (h\<lparr>hb_relay := stop_process (hb_relay h)\<rparr>)"

inductive hub_reachable :: "server_config \<Rightarrow> wenv \<Rightarrow> ('q, 'h) Worker \<Rightarrow> 'q listener list \<Rightarrow> bool \<Rightarrow> ('q, 'h) hub \<Rightarrow> ('q, 'h) hub \<Rightarrow> bool"
  for C W w ls crashes where
  Start: "hub_reachable C W w ls crashes h h"
| Move: "hub_reachable C W w ls crashes h h' \<Longrightarrow> hub_move C W w ls crashes h' h'' \<Longrightarrow> hub_reachable C W w ls crashes h h''"

definition hub_start :: "'q receiver \<Rightarrow> server \<Rightarrow> ('q, 'h) hub" where
  "hub_start r s = \<lparr>hb_relay = \<lparr>dr_recv = r, dr_waiting = [], dr_running = []\<rparr>, hb_server = s, hb_accepted = {}, hb_stored = stored_keys s\<rparr>"

section \<open>The services as a relay\<close>

lemma with_net_simps [simp]:
  "rc_queue (with_net net s) = rc_queue s" "rc_sent (with_net net s) = rc_sent s" "rc_now (with_net net s) = rc_now s"
  by (simp_all add: with_net_def)

lemma ingest_request_forwards: "ingest_request W p m = Some rq \<Longrightarrow> is_forward rq"
  by (auto simp: ingest_request_def is_forward_def Let_def split: option.splits if_splits)

lemma delivered_no_forward: "no_forward s s' \<Longrightarrow> delivered W p s' = delivered W p s"
  unfolding no_forward_def delivered_def by (fastforce simp: list_all_iff dest: ingest_request_forwards)

lemma enqueue_all_sent: "run (enqueue_all Q ms) s = (ok, s') \<Longrightarrow> rc_sent s' = rc_sent s"
  by (induction ms arbitrary: s) (auto split: prod.splits if_splits dest!: on_queue_sent)

lemma Handler_sent:
  assumes "inbound_listener W r l" and "run (Handler Q l rq) s = ((st, txt), s')"
  shows "no_forward s s'"
  using assms(2)
proof (cases rule: Handler_cases)
  case (retry body u)
  then show ?thesis using inbound_listener.parse_sent[OF assms(1)] by blast
next
  case (stuck body ms s1)
  then show ?thesis using inbound_listener.parse_sent[OF assms(1) stuck(3)] enqueue_all_sent[OF stuck(4)] by (simp add: no_forward_def)
next
  case (accepted body ms s1)
  then show ?thesis using inbound_listener.parse_sent[OF assms(1) accepted(3)] enqueue_all_sent[OF accepted(4)] by (simp add: no_forward_def)
qed auto

lemma parsed_ofD:
  assumes "m \<in> parsed_of ls rq s"
  shows "\<exists>l\<in>set ls. \<exists>body ms s1. run (ls_Parse l rq body) s = (Inr ms, s1) \<and> m \<in> set ms"
proof -
  from assms obtain l body where l: "List.find (\<lambda>l. map str (ls_Path l) = ib_path rq) ls = Some l"
      "m \<in> (case fst (run (ls_Parse l rq body) s) of Inl _ \<Rightarrow> {} | Inr ms \<Rightarrow> set ms)"
    by (auto simp: parsed_of_def split: option.splits)
  obtain res s1 where "run (ls_Parse l rq body) s = (res, s1)" by (cases "run (ls_Parse l rq body) s")
  then show ?thesis using l find_Some_in[OF l(1)] by (cases res) auto
qed

lemma webhook_mux_cases:
  assumes "run (webhook_mux Q (main_listeners W c) ready rq) s = ((st, txt), s')"
  obtains (other) "s' = s" "parsed_of (main_listeners W c) rq s = {} \<or> st \<noteq> 200"
  | (handled) l where "l \<in> set (main_listeners W c)" "run (Handler Q l rq) s = ((st, txt), s')"
      "List.find (\<lambda>l. map str (ls_Path l) = ib_path rq) (main_listeners W c) = Some l"
proof (cases "ib_path rq = [str ''healthz'']")
  case True
  then have "parsed_of (main_listeners W c) rq s = {}"
    by (auto simp: parsed_of_def split: option.splits dest!: find_Some_in main_listeners_paths)
  then show thesis using assms True by (intro other) (auto simp: webhook_mux_def)
next
  case False
  then show thesis using assms other handled
    by (auto simp: webhook_mux_def parsed_of_def split: option.splits dest: find_Some_in)
qed

text \<open>A step of the whole system that only moves the receiver.\<close>

context queue
begin

lemma webhook_refines:
  assumes "fits W fit" and "run (webhook_mux Q (main_listeners W c) ready rq) s = ((st, txt), s')"
  shows "holds (rc_queue s) hs \<subseteq> holds (rc_queue s') hs" "no_forward s s'"
    "st = 200 \<Longrightarrow> parsed_of (main_listeners W c) rq s \<subseteq> holds (rc_queue s') hs"
    "m \<in> parsed_of (main_listeners W c) rq s \<Longrightarrow> well_formed W m"
proof -
  have c: "inbound_listener W (main_resolver c) l" if "l \<in> set (main_listeners W c)" for l by (rule main_listeners_contract[OF that])
  show "m \<in> parsed_of (main_listeners W c) rq s \<Longrightarrow> well_formed W m"
    by (drule parsed_ofD) (auto dest: inbound_listener.emits[OF c])
  show "holds (rc_queue s) hs \<subseteq> holds (rc_queue s') hs" "no_forward s s'"
  proof -
    have "holds (rc_queue s) hs \<subseteq> holds (rc_queue s') hs \<and> no_forward s s'"
      using assms(2)
    proof (cases rule: webhook_mux_cases)
      case (handled l)
      then show ?thesis using handler_holds(1)[OF c[OF handled(1)] assms(1) handled(2)] Handler_sent[OF c[OF handled(1)] handled(2)] by blast
    qed simp
    then show "holds (rc_queue s) hs \<subseteq> holds (rc_queue s') hs" "no_forward s s'" by simp_all
  qed
  from assms(2) show "st = 200 \<Longrightarrow> parsed_of (main_listeners W c) rq s \<subseteq> holds (rc_queue s') hs"
  proof (cases rule: webhook_mux_cases)
    case (handled l)
    assume "st = 200"
    obtain body ms s1 where a: "ib_body rq = Some body" "run (ls_Parse l rq body) s = (Inr ms, s1)"
      using handled(2) \<open>st = 200\<close> by (cases rule: Handler_cases) auto
    then have "parsed_of (main_listeners W c) rq s = set ms" using handled(3) by (simp add: parsed_of_def)
    then show ?thesis using handler_holds(2)[OF c[OF handled(1)] assms(1) handled(2) \<open>st = 200\<close> a] by simp
  qed auto
qed

lemma published_refines:
  assumes "worker_ok W w carries d" and "i < length (dr_running d)" and "dr_running d ! i = (x, None)"
    and "run (Publish W (wk_pub w) (fst x)) (with_net net (dr_recv d)) = (err, r)" and "wk_queue w = Q"
  shows "relay_step (relay_of W w holds d) (relay_of W w holds (d\<lparr>dr_recv := r, dr_running := (dr_running d)[i := (x, Some err)]\<rparr>))"
    "worker_ok W w carries (d\<lparr>dr_recv := r, dr_running := (dr_running d)[i := (x, Some err)]\<rparr>)"
proof -
  let ?d = "d\<lparr>dr_recv := with_net net (dr_recv d)\<rparr>"
  have "relay_of W w holds ?d = relay_of W w holds d" "worker_ok W w carries ?d = worker_ok W w carries d"
    by (simp_all add: relay_of_def handles_def delivered_def worker_ok_def)
  moreover have "drain_step W w ?d (?d\<lparr>dr_recv := r, dr_running := (dr_running ?d)[i := (x, Some err)]\<rparr>)"
    using assms(2-4) by (intro drain_step.Published) auto
  ultimately show "relay_step (relay_of W w holds d) (relay_of W w holds (d\<lparr>dr_recv := r, dr_running := (dr_running d)[i := (x, Some err)]\<rparr>))"
    "worker_ok W w carries (d\<lparr>dr_recv := r, dr_running := (dr_running d)[i := (x, Some err)]\<rparr>)"
    using drain_step_refines[OF _ assms(5), of W ?d] assms(1) by simp_all
qed

lemma hub_move_refines:
  assumes "hub_move C W w (main_listeners W c) crashes h h'" and "wk_queue w = Q" and "fits W fit"
    and "crashes \<Longrightarrow> durable_queue Q holds carries fit" and "worker_ok W w carries (hb_relay h)"
  shows "relay_step (relay_of W w holds (hb_relay h)) (relay_of W w holds (hb_relay h')) \<and> worker_ok W w carries (hb_relay h') \<and>
    hb_accepted h \<subseteq> hb_accepted h' \<and> hb_accepted h' - hb_accepted h \<subseteq> ry_owed (relay_of W w holds (hb_relay h')) \<and>
    (\<forall>m\<in>hb_accepted h' - hb_accepted h. well_formed W m)"
  using assms(1)
proof cases
  case (Webhook ready rq net st answer r)
  note ref = webhook_refines[OF assms(3) Webhook(2)[unfolded assms(2)]]
  have "delivered W (wk_pub w) (dr_recv (hb_relay h)) = delivered W (wk_pub w) r"
    using delivered_no_forward[OF ref(2)] by (simp add: delivered_def)
  moreover have "worker_ok W w carries (hb_relay h')"
    using assms(5) calculation Webhook(1) by (auto simp: worker_ok_def list_all_iff)
  ultimately show ?thesis
    using ref(1)[of "handles (hb_relay h)"] ref(3)[of "handles (hb_relay h)"] ref(4) Webhook(1) by (auto simp: relay_step_def relay_of_def handles_def split: if_splits)
next
  case (Work d)
  then show ?thesis using drain_step_refines[OF Work(2) assms(2,5)] by simp
next
  case (Served i d out rq resp s reply body t err r)
  then show ?thesis using published_refines[OF assms(5) Served(2,3,8) assms(2)] by (simp add: at_server_def)
next
  case (Lost i d t err r)
  then show ?thesis using published_refines[OF assms(5) Lost(2-4) assms(2)] by simp
next
  case (Channels s)
  then show ?thesis using assms(5) by (simp add: at_server_def relay_step_refl)
next
  case (Clock t)
  then show ?thesis using assms(5) by (simp add: relay_step_def relay_of_def handles_def delivered_def worker_ok_def)
next
  case Stop
  then have "holds (rc_queue (dr_recv (hb_relay h))) (handles (hb_relay h)) \<subseteq> holds (rc_queue (dr_recv (hb_relay h))) []"
    using durable_queue.durable[OF assms(4)] by blast
  then show ?thesis using Stop by (auto simp: stop_process_def relay_step_def relay_of_def handles_def delivered_def worker_ok_def)
qed

end

section \<open>What reaches the log\<close>

text \<open>Either service reads a JSON text as the value the webhook service wrote it from.\<close>

definition json_agrees :: "wenv \<Rightarrow> env \<Rightarrow> bool" where
  "json_agrees W E \<longleftrightarrow> (\<forall>j. e_first_json E (we_show_json W j) = Some j)"

definition delivered_stored :: "wenv \<Rightarrow> env \<Rightarrow> Publisher \<Rightarrow> ('q, 'h) hub \<Rightarrow> bool" where
  "delivered_stored W E p h \<longleftrightarrow>
     (\<forall>m\<in>delivered W p (dr_recv (hb_relay h)). well_formed W m \<longrightarrow> key_in E (hb_stored h) m)"

lemma key_in_mono: "key_in E A m \<Longrightarrow> A \<subseteq> B \<Longrightarrow> key_in E B m"
  by (auto simp: key_in_def)

lemma served_stores:
  assumes "json_agrees W (sc_env C)" and "floats_ok W" and "well_formed W m" and "ingest_request W p m = Some out"
    and "received_as out rq" and "serve C rq s = Some (resp, s')" and "positive (Reply (sp_status resp) body)"
  shows "key_in (sc_env C) (stored_keys s') m"
proof -
  obtain j auth where j: "Marshal m = Some j" and rq: "at_ingest auth (we_show_json W j) rq"
    using assms(4,5) by (auto simp: ingest_request_def Let_def split: option.splits if_splits)
  have m: "representable m" "j = message_json m" using marshal_representable[OF assms(2,3) j] by simp_all
  obtain raw where "me_RawPayload (cm_Meta m) = Some raw" using assms(3) by (auto simp: well_formed_def)
  then have "m\<lparr>cm_Meta := (cm_Meta m)\<lparr>me_RawPayload := Some (json_ptr (\<lambda>j. j) (me_RawPayload (cm_Meta m)))\<rparr>\<rparr> = m"
    by (simp add: json_ptr_def)
  then have "decode_message (e_uni (sc_env C)) j = Some m"
    using round_trip_with[OF m(1), of "decode_attachment (e_uni (sc_env C))" "e_uni (sc_env C)"] m(2) decode_attachment_json
    by (simp add: decode_message_def)
  then have read: "Option.bind (e_first_json (sc_env C) (we_show_json W j)) (decode_message (e_uni (sc_env C))) = Some m"
    using assms(1) by (simp add: json_agrees_def)
  have ok: "200 \<le> sp_status resp \<and> sp_status resp < 300" using assms(7) by (simp add: positive_def)
  obtain i where "run (ingest_handler (sc_env C) main_deps (we_show_json W j)) (sv_world s) = ((sp_status resp, i), sv_world s')"
    using serve_ingest[OF rq assms(6) ok] by blast
  from ingest_handler_stores[OF this _ read] ok show ?thesis by (simp add: stored_keys_def)
qed

text \<open>The exchange of a publish under a network that answers \<open>reply\<close>.\<close>

lemma Publish_exchange:
  assumes "run (Publish W p m) (with_net [(t, reply)] s) = (err, s')"
  shows "rc_sent s' = rc_sent s \<or>
    (\<exists>out now r. ingest_request W p m = Some out \<and> rc_sent s' = rc_sent s @ [(now, out, r)] \<and> (r = reply \<or> r = NetError))"
  using assms
  by (auto simp: Publish_def exchange_def with_net_def Let_def split: option.splits if_splits prod.splits)

lemma hub_move_stores:
  assumes "hub_move C W w (main_listeners W c) crashes h h'" and "json_agrees W (sc_env C)" and "floats_ok W"
    and "delivered_stored W (sc_env C) (wk_pub w) h"
  shows "delivered_stored W (sc_env C) (wk_pub w) h'"
  using assms(1)
proof cases
  case (Webhook ready rq net st answer r)
  have "no_forward (with_net net (dr_recv (hb_relay h))) r"
    using Webhook(2)
  proof (cases rule: webhook_mux_cases)
    case (handled l)
    then show ?thesis using Handler_sent[OF main_listeners_contract[OF handled(1)] handled(2)] by simp
  qed simp
  then have "delivered W (wk_pub w) r = delivered W (wk_pub w) (dr_recv (hb_relay h))"
    using delivered_no_forward by (fastforce simp: delivered_def)
  then show ?thesis using assms(4) Webhook(1) by (simp add: delivered_stored_def)
next
  case (Work d)
  then show ?thesis using assms(4) by (simp add: delivered_stored_def delivered_def)
next
  case (Served i d out rq resp s reply body t err r)
  have "key_in (sc_env C) (hb_stored h') m" if "m \<in> delivered W (wk_pub w) r" "well_formed W m" for m
  proof (cases "m \<in> delivered W (wk_pub w) (dr_recv (hb_relay h))")
    case True
    then show ?thesis using assms(4) that(2) Served(1) by (auto simp: delivered_stored_def at_server_def intro: key_in_mono)
  next
    case False
    then have "ingest_request W (wk_pub w) m = Some out" "positive reply"
      using that(1) Publish_exchange[OF Served(8)] Served(4) by (auto simp: delivered_def positive_def)
    moreover from this have "reply = Reply (sp_status resp) body" using Served(7) by (auto simp: positive_def)
    ultimately have "key_in (sc_env C) (stored_keys s) m"
      using served_stores[OF assms(2,3) that(2) _ Served(5,6)] by simp
    then show ?thesis using Served(1) by (auto simp: at_server_def intro: key_in_mono)
  qed
  then show ?thesis using Served(1) by (simp add: delivered_stored_def at_server_def)
next
  case (Lost i d t err r)
  have "delivered W (wk_pub w) r = delivered W (wk_pub w) (dr_recv (hb_relay h))"
    using Publish_exchange[OF Lost(4)] unfolding delivered_def by (elim disjE exE conjE) fastforce+
  then show ?thesis using assms(4) Lost(1) by (simp add: delivered_stored_def)
next
  case (Channels s)
  then show ?thesis using assms(4) by (auto simp: delivered_stored_def at_server_def intro: key_in_mono)
next
  case (Clock t)
  then show ?thesis using assms(4) by (simp add: delivered_stored_def delivered_def)
next
  case Stop
  then show ?thesis using assms(4) by (simp add: delivered_stored_def delivered_def stop_process_def)
qed

end
