(* ===== verification/Hub_Facts.thy ===== *)
theory Hub_Facts
  imports Hub Webhook_Facts
begin

text \<open>
  What the two services guarantee together: no accepted message is given up before it is stored, and none is stored
  twice, whatever the network loses and whenever the webhook service stops.
\<close>

section \<open>A step\<close>

text \<open>
  C30. With any queue that keeps its contract, and a durable one if the process may stop, the whole system implements
  the abstract relay: whatever happens, a message that the relay owes stays owed until it has been delivered, and a
  webhook answered 200 adds its messages to those owed. The messages of a delivery stay tied to its handle, and no more
  deliveries run than the worker has slots.
\<close>

theorem service_refines_relay:
  assumes "queue Q holds carries fit" and "fits W fit" and "crashes \<Longrightarrow> durable_queue Q holds carries fit"
    and "wk_queue w = Q" and "worker_ok W w carries (hb_relay h)" and "hub_move C W w (main_listeners W c) crashes h h'"
  shows "relay_step (relay_of W w holds (hb_relay h)) (relay_of W w holds (hb_relay h')) \<and>
    hb_accepted h' \<subseteq> hb_accepted h \<union> ry_owed (relay_of W w holds (hb_relay h')) \<and>
    worker_ok W w carries (hb_relay h')"
  using queue.hub_move_refines[OF assms(1,6,4,2,3,5)] by blast

text \<open>
  C39. The worker never gets stuck and every pass ends, whatever the configured concurrency, the order in which its
  deliveries take their turns, and the answers they get: of a state with work left, each step does one of the three things to do
  for a delivery, so that after as many steps as there were things to do, and not before, nothing is waiting or running
  and the worker receives again; until then some step is possible.
\<close>

theorem worker_passes_end:
  assumes "((\<lambda>s s'. busy s \<and> drain_step W (NewWorker Q p c) s s') ^^ k) s s'"
  shows "k + work s' = work s \<and> (k = work s \<longleftrightarrow> \<not> busy s') \<and> (busy s' \<longrightarrow> (\<exists>s''. drain_step W (NewWorker Q p c) s' s''))"
  using pass_steps[OF assms] work_zero[of s'] busy_progress[OF _ NewWorker_concurrency] by auto

section \<open>Any number of steps\<close>

lemma hub_move_server:
  assumes "hub_move C W w ls crashes h h'"
  shows "hb_server h' = hb_server h \<or> hub_step C (hb_server h) (hb_server h')"
  using assms by cases (auto simp: at_server_def intro: hub_step.Request)

text \<open>What holds in every state that the system reaches.\<close>

definition hub_inv ::
    "server_config \<Rightarrow> wenv \<Rightarrow> ('q, 'h) Worker \<Rightarrow> ('q \<Rightarrow> 'h list \<Rightarrow> CanonicalMessage set) \<Rightarrow> ('h \<Rightarrow> CanonicalMessage) \<Rightarrow> server \<Rightarrow>
      ('q, 'h) hub \<Rightarrow> bool" where
  "hub_inv C W w holds carries s h \<longleftrightarrow>
     worker_ok W w carries (hb_relay h) \<and> delivered_stored W (sc_env C) (wk_pub w) h \<and> reachable C s (hb_server h) \<and>
     (\<forall>m\<in>hb_accepted h. well_formed W m \<and> (m \<in> ry_owed (relay_of W w holds (hb_relay h)) \<or> m \<in> ry_done (relay_of W w holds (hb_relay h))))"

lemma hub_inv_start: "rc_sent r = [] \<Longrightarrow> hub_inv C W w holds carries s (hub_start r s)"
  by (simp add: hub_inv_def hub_start_def worker_ok_def delivered_stored_def delivered_def reachable.Start)

lemma hub_inv_move:
  assumes "queue Q holds carries fit" and "fits W fit" and "crashes \<Longrightarrow> durable_queue Q holds carries fit"
    and "wk_queue w = Q" and "json_agrees W (sc_env C)" and "floats_ok W"
    and "hub_inv C W w holds carries s h" and "hub_move C W w (main_listeners W c) crashes h h'"
  shows "hub_inv C W w holds carries s h'"
proof -
  have ok: "worker_ok W w carries (hb_relay h)" "delivered_stored W (sc_env C) (wk_pub w) h" "reachable C s (hb_server h)"
    using assms(7) by (simp_all add: hub_inv_def)
  note ref = queue.hub_move_refines[OF assms(1,8,4,2,3) ok(1)]
  have "reachable C s (hb_server h')" using hub_move_server[OF assms(8)] ok(3) reachable.Step by auto
  moreover have "delivered_stored W (sc_env C) (wk_pub w) h'" by (rule hub_move_stores[OF assms(8,5,6) ok(2)])
  moreover have "well_formed W m \<and> (m \<in> ry_owed (relay_of W w holds (hb_relay h')) \<or> m \<in> ry_done (relay_of W w holds (hb_relay h')))"
    if "m \<in> hb_accepted h'" for m
    using that ref assms(7) unfolding hub_inv_def relay_step_def by blast
  ultimately show ?thesis using ref by (simp add: hub_inv_def)
qed

lemma hub_inv_reachable:
  assumes "hub_reachable C W w (main_listeners W c) crashes h0 h" and "h0 = hub_start r s"
    and "queue Q holds carries fit" and "fits W fit" and "crashes \<Longrightarrow> durable_queue Q holds carries fit"
    and "wk_queue w = Q" and "json_agrees W (sc_env C)" and "floats_ok W" and "rc_sent r = []"
  shows "hub_inv C W w holds carries s h"
  using assms(1,2)
proof (induction rule: hub_reachable.induct)
  case (Start h)
  then show ?case using hub_inv_start[OF assms(9)] by simp
next
  case (Move h h' h'')
  show ?case by (rule hub_inv_move[OF assms(3-8) Move.IH[OF Move.prems] Move.hyps(2)])
qed

text \<open>
  C2. From an empty relay and a consistent database, whatever webhooks come in, whatever the two services do and in
  whichever order, whatever requests or answers the network between them loses, and, with a durable queue, whenever the
  webhook service stops: a message whose webhook was answered 200 is still kept by the queue or the outstanding
  deliveries, or has been in the log of the channels service under the account and platform id it carries. The log
  never holds two rows with the same account and platform id, so what is delivered twice is stored once.
\<close>

theorem accepted_messages_reach_the_log_once:
  assumes "queue Q holds carries fit" and "fits W fit" and "crashes \<Longrightarrow> durable_queue Q holds carries fit"
    and "wk_queue w = Q" and "json_agrees W (sc_env C)" and "floats_ok W" and "rc_sent r = []"
    and "hub_ok (e_uni (sc_env C)) (w_db (sv_world s))"
    and "hub_reachable C W w (main_listeners W c) crashes (hub_start r s) h"
  shows "(\<forall>m\<in>hb_accepted h. m \<in> holds (rc_queue (dr_recv (hb_relay h))) (handles (hb_relay h)) \<or> key_in (sc_env C) (hb_stored h) m) \<and>
    distinct (platform_keys (messages (w_db (sv_world (hb_server h)))))"
proof
  have inv: "hub_inv C W w holds carries s h" by (rule hub_inv_reachable[OF assms(9) refl assms(1-7)])
  then show "\<forall>m\<in>hb_accepted h. m \<in> holds (rc_queue (dr_recv (hb_relay h))) (handles (hb_relay h)) \<or> key_in (sc_env C) (hb_stored h) m"
    by (auto simp: hub_inv_def delivered_stored_def relay_of_def)
  have "schema_ok (w_db (sv_world (hb_server h)))"
    using reachable_hub_ok[OF assms(8)] inv by (simp add: hub_inv_def hub_ok_def)
  then show "distinct (platform_keys (messages (w_db (sv_world (hb_server h)))))"
    using schema_okD(7) by (auto simp: messages_ok_def)
qed

section \<open>At a concrete pair of services\<close>

text \<open>A channels service that reads a JSON text as the webhook service of \<open>demo_wenv\<close> writes it.\<close>

definition hub_config :: server_config where
  "hub_config = demo_config\<lparr>sc_env := demo_env\<lparr>e_first_json := \<lambda>s. case s of [n] \<Rightarrow> Some (from_nat n) | _ \<Rightarrow> None\<rparr>\<rparr>"

definition hub_worker :: "(memory, CanonicalMessage) Worker" where
  "hub_worker = NewWorker Memory (NewHTTP (str ''http://channels'') (str ''s3cret'')) 1"

definition hub_server :: server where
  "hub_server = \<lparr>sv_world = fresh_world routed_db [], sv_running = {}, sv_ready = True, sv_minted = 0\<rparr>"

lemma hub_json_agrees: "json_agrees demo_wenv (sc_env hub_config)"
  by (simp add: json_agrees_def demo_wenv_def hub_config_def)


definition hub_message :: CanonicalMessage where
  "hub_message = (case fst (run (ls_Parse (demo_ultramsg :: memory listener) demo_inbound []) (demo_cached NewMemory)) of
     Inr (m # _) \<Rightarrow> m)"

lemma hub_message_parsed:
  "run (ls_Parse demo_ultramsg demo_inbound []) (demo_cached NewMemory) = (Inr [hub_message], demo_cached NewMemory)"
  using demo_parse[of NewMemory] by (auto simp: hub_message_def)

text \<open>The webhook of \<open>demo_inbound\<close> comes in.\<close>

definition hub_before :: "(memory, CanonicalMessage) hub" where
  "hub_before = hub_start (demo_cached NewMemory) hub_server"

definition hub_after :: "(memory, CanonicalMessage) hub" where
  "hub_after = hub_before\<lparr>hb_relay := (hb_relay hub_before)\<lparr>dr_recv := demo_cached (NewMemory @ [hub_message])\<rparr>,
     hb_accepted := {hub_message}\<rparr>"

lemma hub_webhook:
  "hub_move hub_config demo_wenv hub_worker (main_listeners demo_wenv demo_webhook_config) False hub_before hub_after"
proof -
  have here: "map str (ls_Path (demo_ultramsg :: memory listener)) = ib_path demo_inbound"
    by (simp add: demo_ultramsg_def ultramsg_listener_def demo_inbound_def)
  have "ib_path demo_inbound \<noteq> [str ''healthz'']" "ib_body demo_inbound = Some []"
    by (simp_all add: demo_inbound_def)
  then have mux: "run (webhook_mux Memory (main_listeners demo_wenv demo_webhook_config) True demo_inbound) (demo_cached NewMemory) =
        ((200, ''accepted''), demo_cached (NewMemory @ [hub_message]))"
    and parsed: "parsed_of (main_listeners demo_wenv demo_webhook_config) demo_inbound (demo_cached NewMemory) = {hub_message}"
    using demo_handler[OF hub_message_parsed] here by (simp_all add: webhook_mux_def parsed_of_def demo_listeners hub_message_parsed)
  have "with_net [] (dr_recv (hb_relay hub_before)) = demo_cached NewMemory"
    by (simp add: hub_before_def hub_start_def with_net_def demo_cached_def demo_receiver_def)
  moreover have "wk_queue hub_worker = Memory" by (simp add: hub_worker_def NewWorker_def)
  ultimately show ?thesis
    using hub_move.Webhook[of hub_worker "main_listeners demo_wenv demo_webhook_config" True demo_inbound "[]" hub_before] mux parsed
    by (simp add: hub_after_def hub_before_def hub_start_def)
qed

theorem service_refines_relay_witness:
  "hub_message \<in> ry_owed (relay_of demo_wenv hub_worker memory_holds (hb_relay hub_after))"
proof -
  have "worker_ok demo_wenv hub_worker (\<lambda>m. m) (hb_relay hub_before)" by (simp add: worker_ok_def hub_before_def hub_start_def)
  moreover have "wk_queue hub_worker = Memory" by (simp add: hub_worker_def NewWorker_def)
  ultimately have "hb_accepted hub_after \<subseteq> hb_accepted hub_before \<union> ry_owed (relay_of demo_wenv hub_worker memory_holds (hb_relay hub_after))"
    using service_refines_relay[OF mem.queue_axioms memory_fits _ _ _ hub_webhook] by blast
  then show ?thesis by (simp add: hub_after_def hub_before_def hub_start_def)
qed

theorem accepted_messages_witness:
  "hub_message \<in> memory_holds (rc_queue (dr_recv (hb_relay hub_after))) (handles (hb_relay hub_after)) \<or>
     key_in (sc_env hub_config) (hb_stored hub_after) hub_message"
proof -
  have reach: "hub_reachable hub_config demo_wenv hub_worker (main_listeners demo_wenv demo_webhook_config) False
      (hub_start (demo_cached NewMemory) hub_server) hub_after"
    using hub_reachable.Move[OF hub_reachable.Start hub_webhook] by (simp add: hub_before_def)
  have wq: "wk_queue hub_worker = Memory" by (simp add: hub_worker_def NewWorker_def)
  have sent: "rc_sent (demo_cached NewMemory :: memory receiver) = []" by (simp add: demo_cached_def demo_receiver_def)
  have ok: "hub_ok (e_uni (sc_env hub_config)) (w_db (sv_world hub_server))" by (simp add: hub_server_def fresh_world_def routed_db_ok)
  have "hub_message \<in> hb_accepted hub_after" by (simp add: hub_after_def)
  with accepted_messages_reach_the_log_once[OF mem.queue_axioms memory_fits _ wq hub_json_agrees demo_floats_ok sent ok reach]
  show ?thesis by blast
qed

theorem worker_passes_witness:
  "\<exists>(s :: (memory, CanonicalMessage) drain) s'. busy s \<and> work s' < work s \<and> (\<exists>s''. drain_step demo_wenv hub_worker s' s'')"
proof -
  define s :: "(memory, CanonicalMessage) drain" where "s = \<lparr>dr_recv = demo_cached NewMemory, dr_waiting = [(hub_message, hub_message)], dr_running = []\<rparr>"
  define t where "t = s\<lparr>dr_waiting := [], dr_running := [((hub_message, hub_message), None)]\<rparr>"
  have busy: "busy s" "busy t" by (simp_all add: busy_def s_def t_def)
  have "drain_step demo_wenv hub_worker s t"
    using drain_step.Begin[of s "(hub_message, hub_message)" "[]" hub_worker demo_wenv] by (simp add: hub_worker_def NewWorker_def s_def t_def)
  then have "((\<lambda>s s'. busy s \<and> drain_step demo_wenv hub_worker s s') ^^ 1) s t" using busy(1) by (simp add: eq_OO)
  from worker_passes_end[OF this[unfolded hub_worker_def], folded hub_worker_def] busy(2)
  have "1 + work t = work s" "\<exists>s''. drain_step demo_wenv hub_worker t s''" by blast+
  then show ?thesis using busy(1) by (intro exI[of _ s] exI[of _ t]) simp
qed

end
