(* ===== verification/Dsn.thy ===== *)
theory Dsn
  imports Go_Strings
begin

text \<open>
  \<open>internal/db/dsn.go\<close> of the channels service: a database URL whose password \<open>net/url\<close> cannot take is rewritten
  in keyword/value form. Strings are lists of bytes here. \<open>url.Parse\<close> is the library's, written out for a URL with an
  authority; whether it takes a host in square brackets is a parameter.
\<close>

section \<open>URLs as \<open>net/url\<close> reads them\<close>

definition until_byte :: "rune \<Rightarrow> gostring \<Rightarrow> gostring" where
  "until_byte c s = takeWhile (\<lambda>x. x \<noteq> c) s"

definition alnum :: "rune \<Rightarrow> bool" where
  "alnum c \<longleftrightarrow> ascii_upper_letter c \<or> ascii_lower_letter c \<or> ascii_digit c"

definition hex_digit :: "rune \<Rightarrow> bool" where
  "hex_digit c \<longleftrightarrow> ascii_digit c \<or> (65 \<le> c \<and> c \<le> 70) \<or> (97 \<le> c \<and> c \<le> 102)"

definition unhex :: "rune \<Rightarrow> nat" where
  "unhex c = (if ascii_digit c then c - 48 else if 97 \<le> c then c - 87 else c - 55)"

text \<open>Whether \<open>unescape\<close> takes a text: every percent sign starts an escape that \<open>esc\<close> allows, every other byte is one \<open>ok\<close> allows.\<close>

fun escapes_ok :: "(rune \<Rightarrow> rune \<Rightarrow> bool) \<Rightarrow> (rune \<Rightarrow> bool) \<Rightarrow> gostring \<Rightarrow> bool" where
  "escapes_ok esc ok [] = True"
| "escapes_ok esc ok (c # s) =
     (if c = 37 then (case s of a # b # r \<Rightarrow> hex_digit a \<and> hex_digit b \<and> esc a b \<and> escapes_ok esc ok r | _ \<Rightarrow> False)
      else ok c \<and> escapes_ok esc ok s)"

abbreviation unescapes :: "gostring \<Rightarrow> bool" where
  "unescapes \<equiv> escapes_ok (\<lambda>_ _. True) (\<lambda>_. True)"

definition host_char :: "rune \<Rightarrow> bool" where
  "host_char c \<longleftrightarrow> 128 \<le> c \<or> alnum c \<or> c \<in> set (34 # str ''!$&()*+,;=:[]<>-_.~'') \<or> c = 39"

definition userinfo_char :: "rune \<Rightarrow> bool" where
  "userinfo_char c \<longleftrightarrow> alnum c \<or> c \<in> set (str ''-._:~!$&()*+,;=%@'') \<or> c = 39"

definition host_ok :: "(gostring \<Rightarrow> bool) \<Rightarrow> gostring \<Rightarrow> bool" where
  "host_ok brackets h =
     (if 91 \<in> set h then brackets h
      else (case LastIndexRune h 58 of None \<Rightarrow> True | Some i \<Rightarrow> list_all ascii_digit (drop (Suc i) h)) \<and>
        escapes_ok (\<lambda>a b. 8 \<le> unhex a \<or> (a = 50 \<and> b = 53)) host_char h)"

definition userinfo_ok :: "gostring \<Rightarrow> bool" where
  "userinfo_ok u \<longleftrightarrow> list_all userinfo_char u \<and>
     (case IndexRune u 58 of None \<Rightarrow> unescapes u | Some i \<Rightarrow> unescapes (take i u) \<and> unescapes (drop (Suc i) u))"

definition authority_ok :: "(gostring \<Rightarrow> bool) \<Rightarrow> gostring \<Rightarrow> bool" where
  "authority_ok brackets a = (case LastIndexRune a 64 of
     None \<Rightarrow> host_ok brackets a
   | Some i \<Rightarrow> host_ok brackets (drop (Suc i) a) \<and> userinfo_ok (take i a))"

text \<open>What follows the scheme of a URL \<open>scheme://...\<close> up to its query and fragment, and the authority in it.\<close>

definition hierarchical :: "gostring \<Rightarrow> gostring" where
  "hierarchical raw = until_byte 63 (until_byte 35 (case Index raw (str ''://'') of None \<Rightarrow> raw | Some i \<Rightarrow> drop (i + 3) raw))"

definition url_authority :: "gostring \<Rightarrow> gostring" where
  "url_authority raw = until_byte 47 (hierarchical raw)"

text \<open>Whether \<open>url.Parse\<close> takes a URL that begins with one of the two schemes.\<close>

definition url_parses :: "(gostring \<Rightarrow> bool) \<Rightarrow> gostring \<Rightarrow> bool" where
  "url_parses brackets raw \<longleftrightarrow>
     list_all (\<lambda>c. 32 \<le> c \<and> c \<noteq> 127) (until_byte 35 raw) \<and> unescapes (drop (Suc (length (until_byte 35 raw))) raw) \<and>
     authority_ok brackets (url_authority raw) \<and> unescapes (drop (length (url_authority raw)) (hierarchical raw))"

fun QueryUnescape :: "gostring \<Rightarrow> gostring option" where
  "QueryUnescape [] = Some []"
| "QueryUnescape (c # s) =
     (if c = 37 then (case s of a # b # r \<Rightarrow>
          if hex_digit a \<and> hex_digit b then map_option (Cons (16 * unhex a + unhex b)) (QueryUnescape r) else None | _ \<Rightarrow> None)
      else map_option (Cons (if c = 43 then 32 else c)) (QueryUnescape s))"

section \<open>The rewriting\<close>

definition quoteKVValue :: "gostring \<Rightarrow> gostring" where
  "quoteKVValue v =
     (if \<not> list_ex (\<lambda>c. c = 32 \<or> c = 39 \<or> c = 92) v then v
      else [39] @ concat (map (\<lambda>c. if c = 39 \<or> c = 92 then [92, c] else [c]) v) @ [39])"

definition add_part :: "gostring \<Rightarrow> gostring \<Rightarrow> gostring list" where
  "add_part k v = (if v = [] then [] else [k @ [61] @ quoteKVValue v])"

definition query_part :: "gostring \<Rightarrow> gostring list" where
  "query_part kv = (case IndexRune kv 61 of None \<Rightarrow> []
     | Some eq \<Rightarrow> let v = drop (Suc eq) kv in
         add_part (take eq kv) (case QueryUnescape v of None \<Rightarrow> v | Some decoded \<Rightarrow> decoded))"

text \<open>The text before a position and the text after it; without a position the whole text and nothing.\<close>

definition cut_at :: "nat option \<Rightarrow> gostring \<Rightarrow> gostring \<times> gostring" where
  "cut_at i s = (case i of None \<Rightarrow> (s, []) | Some i \<Rightarrow> (take i s, drop (Suc i) s))"

definition urlToKV :: "gostring \<Rightarrow> gostring" where
  "urlToKV raw =
     (let rest = TrimPrefix raw (str ''postgresql://'');
          rest = (if rest = raw then TrimPrefix raw (str ''postgres://'') else rest);
          (rest, rawQuery) = cut_at (LastIndexRune rest 63) rest;
          hostStart = (case LastIndexRune rest 64 of None \<Rightarrow> 0 | Some atIdx \<Rightarrow> atIdx + 1);
          (rest, dbname) = cut_at (map_option (\<lambda>slash. hostStart + slash) (IndexRune (drop hostStart rest) 47)) rest;
          (userinfo, rest) = (case LastIndexRune rest 64 of None \<Rightarrow> ([], rest) | Some i \<Rightarrow> (take i rest, drop (i + 1) rest));
          (user, password) = cut_at (IndexRune userinfo 58) userinfo;
          (host, port) = cut_at (LastIndexRune rest 58) rest
      in Join (add_part (str ''host'') host @ add_part (str ''port'') port @ add_part (str ''user'') user @
           add_part (str ''password'') password @ add_part (str ''dbname'') dbname @
           (if rawQuery = [] then [] else concat (map query_part (Split rawQuery 38)))) (str '' ''))"

definition atCountBeforePath :: "gostring \<Rightarrow> nat" where
  "atCountBeforePath raw = (case Index raw (str ''://'') of None \<Rightarrow> 0
     | Some i \<Rightarrow> let rest = drop (i + 3) raw in
         count_list (case IndexRune rest 47 of None \<Rightarrow> rest | Some slash \<Rightarrow> take slash rest) 64)"

definition SanitizeDSN :: "(gostring \<Rightarrow> bool) \<Rightarrow> gostring \<Rightarrow> gostring" where
  "SanitizeDSN brackets raw =
     (if raw = [] then raw
      else if \<not> HasPrefix raw (str ''postgres://'') \<and> \<not> HasPrefix raw (str ''postgresql://'') then raw
      else if url_parses brackets raw \<and> atCountBeforePath raw \<le> 1 then raw
      else urlToKV raw)"

section \<open>The keyword/value form\<close>

text \<open>
  The form as libpq documents it: settings \<open>key = value\<close> between blanks, a value either bare up to the next blank or in
  single quotes, in both of which a backslash escapes the next character.
\<close>

definition blank :: "rune \<Rightarrow> bool" where
  "blank c \<longleftrightarrow> c = 32 \<or> (9 \<le> c \<and> c \<le> 13)"

fun read_quoted :: "gostring \<Rightarrow> (gostring \<times> gostring) option" where
  "read_quoted [] = None"
| "read_quoted (c # s) =
     (if c = 39 then Some ([], s)
      else if c = 92 then (case s of [] \<Rightarrow> None | d # r \<Rightarrow> map_option (apfst (Cons d)) (read_quoted r))
      else map_option (apfst (Cons c)) (read_quoted s))"

fun read_bare :: "gostring \<Rightarrow> (gostring \<times> gostring) option" where
  "read_bare [] = Some ([], [])"
| "read_bare (c # s) =
     (if blank c then Some ([], c # s)
      else if c = 92 then (case s of [] \<Rightarrow> None | d # r \<Rightarrow> map_option (apfst (Cons d)) (read_bare r))
      else map_option (apfst (Cons c)) (read_bare s))"

definition read_value :: "gostring \<Rightarrow> (gostring \<times> gostring) option" where
  "read_value s = (case s of [] \<Rightarrow> Some ([], []) | c # r \<Rightarrow> if c = 39 then read_quoted r else read_bare s)"

lemma read_quoted_shorter: "pred_option (\<lambda>(v, r). length r < length s) (read_quoted s)"
proof (induction s rule: read_quoted.induct)
  case (2 c s)
  then show ?case by (cases s) (auto simp: option.pred_map comp_def case_prod_unfold elim!: option.pred_mono_strong)
qed simp

lemma read_bare_shorter: "pred_option (\<lambda>(v, r). length r \<le> length s) (read_bare s)"
proof (induction s rule: read_bare.induct)
  case (2 c s)
  then show ?case by (cases s) (auto simp: option.pred_map comp_def case_prod_unfold elim!: option.pred_mono_strong)
qed simp

lemma read_value_shorter: "read_value s = Some (v, r) \<Longrightarrow> length r \<le> length s"
  using read_quoted_shorter[of "tl s"] read_bare_shorter[of s] by (cases s) (auto simp: read_value_def split: if_splits)

function settings :: "gostring \<Rightarrow> (gostring \<times> gostring) list option" where
  "settings s =
     (let t = dropWhile blank s in
      if t = [] then Some []
      else case IndexRune t 61 of None \<Rightarrow> None
      | Some i \<Rightarrow> (case read_value (dropWhile blank (drop (Suc i) t)) of None \<Rightarrow> None
        | Some (v, r) \<Rightarrow> map_option (Cons (TrimRight blank (take i t), v)) (settings r)))"
  by pat_completeness auto
termination
proof (relation "measure length")
  fix s t i p v r
  assume "t = dropWhile blank s" "IndexRune t 61 = Some i" "read_value (dropWhile blank (drop (Suc i) t)) = Some p" "(v, r) = p"
  then have "length r \<le> length (dropWhile blank (drop (Suc i) t))" "i < length t" "length t \<le> length s"
    using read_value_shorter[of "dropWhile blank (drop (Suc i) t)" v r] IndexRune_Some[of t 61 i] length_dropWhile_le[of blank s] by auto
  moreover have "length (dropWhile blank (drop (Suc i) t)) \<le> length (drop (Suc i) t)" by (rule length_dropWhile_le)
  ultimately show "(r, s) \<in> measure length" by simp
qed simp

declare settings.simps [simp del]

end
