(* ===== verification/Dsn_Facts.thy ===== *)
theory Dsn_Facts
  imports Dsn
begin

text \<open>
  What the rewriting of a database URL achieves: the keyword/value form reads as the parts the URL was written from,
  whatever the password.
\<close>

section \<open>Positions\<close>

lemma IndexRune_at: "c \<notin> set a \<Longrightarrow> IndexRune (a @ c # b) c = Some (length a)"
  by (induction a) auto

lemma LastIndexRune_at: "c \<notin> set b \<Longrightarrow> LastIndexRune (a @ c # b) c = Some (length a)"
  using IndexRune_at[of c "rev b" "rev a"] by (simp add: LastIndexRune_def)

lemma LastIndexRune_None: "c \<notin> set s \<Longrightarrow> LastIndexRune s c = None"
  using IndexRune_None[of "rev s" c] by (simp add: LastIndexRune_def)

lemma cut_at_first: "c \<notin> set a \<Longrightarrow> cut_at (IndexRune (a @ c # b) c) (a @ c # b) = (a, b)"
  by (simp add: IndexRune_at cut_at_def)

lemma cut_at_last: "c \<notin> set b \<Longrightarrow> cut_at (LastIndexRune (a @ c # b) c) (a @ c # b) = (a, b)"
  by (simp add: LastIndexRune_at cut_at_def)

lemma Split_plain: "c \<notin> set s \<Longrightarrow> Split s c = [s]"
  by (induction s) auto

lemma Split_at: "c \<notin> set s \<Longrightarrow> Split (s @ c # t) c = s # Split t c"
  by (induction s) auto

lemma Split_Join: "ws \<noteq> [] \<Longrightarrow> list_all (\<lambda>w. c \<notin> set w) ws \<Longrightarrow> Split (Join ws [c]) c = ws"
  by (induction ws "[c]" rule: Join.induct) (auto simp: Split_plain Split_at)

section \<open>Reading a setting\<close>

definition shown :: "gostring \<times> gostring \<Rightarrow> gostring" where
  "shown kv = fst kv @ [61] @ quoteKVValue (snd kv)"

lemma add_part_shown: "add_part k v = map shown (filter (\<lambda>kv. snd kv \<noteq> []) [(k, v)])"
  by (simp add: add_part_def shown_def)

text \<open>The texts the form can carry: \<open>quoteKVValue\<close> leaves the blanks other than the space bare.\<close>

definition carried :: "gostring \<Rightarrow> bool" where
  "carried v \<longleftrightarrow> list_all (\<lambda>c. c < 9 \<or> 13 < c) v"

definition keyword :: "gostring \<Rightarrow> bool" where
  "keyword k \<longleftrightarrow> list_all (\<lambda>c. \<not> blank c \<and> c \<noteq> 61) k"

lemma read_quoted_escaped: "read_quoted (concat (map (\<lambda>c. if c = 39 \<or> c = 92 then [92, c] else [c]) v) @ 39 # s) = Some (v, s)"
  by (induction v) auto

lemma read_bare_plain:
  "list_all (\<lambda>c. \<not> blank c \<and> c \<noteq> 92) v \<Longrightarrow> s = [] \<or> blank (hd s) \<Longrightarrow> read_bare (v @ s) = Some (v, s)"
  by (induction v) (cases s, auto)+

lemma read_value_quoted:
  assumes "v \<noteq> []" and "carried v" and "s = [] \<or> blank (hd s)"
  shows "read_value (quoteKVValue v @ s) = Some (v, s)" "\<not> blank (hd (quoteKVValue v))" "quoteKVValue v \<noteq> []"
proof -
  have "read_value (quoteKVValue v @ s) = Some (v, s) \<and> \<not> blank (hd (quoteKVValue v)) \<and> quoteKVValue v \<noteq> []"
  proof (cases "list_ex (\<lambda>c. c = 32 \<or> c = 39 \<or> c = 92) v")
    case True
    then show ?thesis using read_quoted_escaped[of v s] by (simp add: quoteKVValue_def read_value_def blank_def)
  next
    case False
    then have plain: "list_all (\<lambda>c. \<not> blank c \<and> c \<noteq> 92 \<and> c \<noteq> 39) v"
      using assms(2) by (auto simp: carried_def list_all_iff list_ex_iff blank_def)
    then have "read_bare (v @ s) = Some (v, s)" by (intro read_bare_plain[OF _ assms(3)]) (auto simp: list_all_iff)
    moreover have "\<not> blank (hd v)" "hd v \<noteq> 39" using plain assms(1) by (cases v; simp)+
    ultimately show ?thesis using False assms(1) by (cases v) (auto simp: quoteKVValue_def read_value_def)
  qed
  then show "read_value (quoteKVValue v @ s) = Some (v, s)" "\<not> blank (hd (quoteKVValue v))" "quoteKVValue v \<noteq> []" by simp_all
qed

lemma dropWhile_hd: "s = [] \<or> \<not> P (hd s) \<Longrightarrow> dropWhile P s = s"
  by (cases s) auto

lemma settings_shown:
  assumes "keyword k" and "v \<noteq> []" and "carried v" and "s = [] \<or> blank (hd s)"
  shows "settings (shown (k, v) @ s) = map_option (Cons (k, v)) (settings s)"
proof -
  let ?t = "k @ 61 # quoteKVValue v @ s"
  note rv = read_value_quoted[OF assms(2-4)]
  have "\<not> blank (hd ?t)" using assms(1) by (cases k) (auto simp: keyword_def blank_def)
  then have t: "dropWhile blank ?t = ?t" by (intro dropWhile_hd) simp
  have "61 \<notin> set k" using assms(1) by (auto simp: keyword_def list_all_iff)
  then have i: "IndexRune ?t 61 = Some (length k)" by (rule IndexRune_at)
  have r: "dropWhile blank (quoteKVValue v @ s) = quoteKVValue v @ s" using rv by (intro dropWhile_hd) simp
  have "TrimRight blank k = k" using assms(1) dropWhile_hd[of "rev k" blank] by (cases k rule: rev_cases) (auto simp: TrimRight_def keyword_def)
  then show ?thesis using t i r rv by (simp add: settings.simps[of ?t] shown_def)
qed

lemma settings_blank: "blank c \<Longrightarrow> settings (c # s) = settings s"
  by (simp add: settings.simps[of "c # s"] settings.simps[of s])

lemma settings_Nil: "settings [] = Some []"
  by (simp add: settings.simps[of "[]"])

lemma settings_Join:
  "list_all (\<lambda>(k, v). keyword k \<and> v \<noteq> [] \<and> carried v) kvs \<Longrightarrow> settings (Join (map shown kvs) (str '' '')) = Some kvs"
proof (induction kvs)
  case Nil
  show ?case by (simp add: settings_Nil)
next
  case (Cons kv kvs)
  obtain k v where kv: "kv = (k, v)" "keyword k" "v \<noteq> []" "carried v" using Cons.prems by (cases kv) auto
  have sp: "str '' '' = [32]" "blank 32" by (simp_all add: str_def blank_def)
  show ?case
  proof (cases kvs)
    case Nil
    then show ?thesis using settings_shown[OF kv(2-4), of "[]"] kv(1) by (simp add: settings_Nil)
  next
    case (Cons kv' kvs')
    then have "Join (map shown (kv # kvs)) (str '' '') = shown (k, v) @ 32 # Join (map shown kvs) (str '' '')" using kv(1) sp by simp
    then show ?thesis
      using settings_shown[OF kv(2-4), of "32 # Join (map shown kvs) (str '' '')"] settings_blank[OF sp(2)] sp Cons.IH Cons.prems kv(1) by simp
  qed
qed

section \<open>The parts of a URL\<close>

record dsn =
  dn_user :: gostring
  dn_password :: gostring
  dn_host :: gostring
  dn_port :: gostring
  dn_name :: gostring
  dn_query :: "(gostring \<times> gostring) list"

definition query_text :: "dsn \<Rightarrow> gostring" where
  "query_text d = (if dn_query d = [] then [] else 63 # Join (map (\<lambda>(k, v). k @ 61 # v) (dn_query d)) [38])"

definition dsn_url :: "dsn \<Rightarrow> gostring" where
  "dsn_url d = str ''postgres://'' @ dn_user d @ [58] @ dn_password d @ [64] @ dn_host d @ [58] @ dn_port d @ [47] @ dn_name d @ query_text d"

definition dsn_settings :: "dsn \<Rightarrow> (gostring \<times> gostring) list" where
  "dsn_settings d = filter (\<lambda>kv. snd kv \<noteq> [])
     ([(str ''host'', dn_host d), (str ''port'', dn_port d), (str ''user'', dn_user d), (str ''password'', dn_password d),
       (str ''dbname'', dn_name d)] @
      map (\<lambda>(k, v). (k, case QueryUnescape v of None \<Rightarrow> v | Some decoded \<Rightarrow> decoded)) (dn_query d))"

text \<open>
  The password may hold any character but a blank that is no space, and a question mark only before a query; the other
  parts hold no delimiter that would end them.
\<close>

definition dsn_ok :: "dsn \<Rightarrow> bool" where
  "dsn_ok d \<longleftrightarrow> 58 \<notin> set (dn_user d) \<and> set (dn_host d) \<inter> {64, 47, 58} = {} \<and> set (dn_port d) \<inter> {64, 47, 58} = {} \<and>
     64 \<notin> set (dn_name d) \<and> list_all (\<lambda>(k, v). keyword k \<and> set k \<inter> {38, 63} = {} \<and> set v \<inter> {38, 63} = {}) (dn_query d) \<and>
     (dn_query d = [] \<longrightarrow> 63 \<notin> set (dn_user d @ dn_password d @ dn_host d @ dn_port d @ dn_name d)) \<and>
     list_all (\<lambda>kv. carried (snd kv)) (dsn_settings d)"

lemma query_read:
  assumes "dsn_ok d" and "dn_query d \<noteq> []"
  shows "concat (map query_part (Split (Join (map (\<lambda>(k, v). k @ 61 # v) (dn_query d)) [38]) 38)) =
    map shown (filter (\<lambda>kv. snd kv \<noteq> []) (map (\<lambda>(k, v). (k, case QueryUnescape v of None \<Rightarrow> v | Some decoded \<Rightarrow> decoded)) (dn_query d)))"
proof -
  have q: "list_all (\<lambda>(k, v). keyword k \<and> set k \<inter> {38, 63} = {} \<and> set v \<inter> {38, 63} = {}) (dn_query d)" using assms(1) by (simp add: dsn_ok_def)
  have "Split (Join (map (\<lambda>(k, v). k @ 61 # v) (dn_query d)) [38]) 38 = map (\<lambda>(k, v). k @ 61 # v) (dn_query d)"
    using q assms(2) by (intro Split_Join) (auto simp: list_all_iff)
  moreover have "concat (map query_part (map (\<lambda>(k, v). k @ 61 # v) kvs)) =
      map shown (filter (\<lambda>kv. snd kv \<noteq> []) (map (\<lambda>(k, v). (k, case QueryUnescape v of None \<Rightarrow> v | Some decoded \<Rightarrow> decoded)) kvs))"
    if "list_all (\<lambda>(k, v). keyword k \<and> set k \<inter> {38, 63} = {} \<and> set v \<inter> {38, 63} = {}) kvs" for kvs
    using that
  proof (induction kvs)
    case (Cons kv kvs)
    obtain k v where kv: "kv = (k, v)" by (cases kv)
    have "61 \<notin> set k" using Cons.prems kv by (auto simp: keyword_def list_all_iff)
    then have "query_part (k @ 61 # v) = add_part k (case QueryUnescape v of None \<Rightarrow> v | Some decoded \<Rightarrow> decoded)"
      by (simp add: query_part_def IndexRune_at)
    then show ?case using Cons kv by (simp add: add_part_shown)
  qed simp
  ultimately show ?thesis using q by simp
qed

lemma urlToKV_parts:
  assumes "dsn_ok d"
  shows "urlToKV (dsn_url d) = Join (map shown (dsn_settings d)) (str '' '')"
proof -
  define q where "q = (if dn_query d = [] then [] else Join (map (\<lambda>(k, v). k @ 61 # v) (dn_query d)) [38])"
  define userinfo where "userinfo = dn_user d @ 58 # dn_password d"
  define server where "server = dn_host d @ 58 # dn_port d"
  define base where "base = userinfo @ 64 # server @ 47 # dn_name d"
  have raw: "dsn_url d = str ''postgres://'' @ base @ query_text d" by (simp add: dsn_url_def base_def server_def userinfo_def)
  have "\<not> HasPrefix (dsn_url d) (str ''postgresql://'')" by (simp add: raw str_def)
  then have prefix: "TrimPrefix (dsn_url d) (str ''postgresql://'') = dsn_url d" "TrimPrefix (dsn_url d) (str ''postgres://'') = base @ query_text d"
    by (simp_all add: raw TrimPrefix_def)
  have query: "cut_at (LastIndexRune (base @ query_text d) 63) (base @ query_text d) = (base, q)"
  proof (cases "dn_query d = []")
    case True
    then have "63 \<notin> set base" using assms by (simp add: dsn_ok_def base_def userinfo_def server_def)
    then show ?thesis using True LastIndexRune_None[of 63 base] by (simp add: query_text_def cut_at_def q_def)
  next
    case False
    have "63 \<notin> set (Join ws [38])" if "\<forall>w\<in>set ws. 63 \<notin> set w" for ws
      using that by (induction ws "[38::nat]" rule: Join.induct) auto
    moreover have "\<forall>w\<in>set (map (\<lambda>(k, v). k @ 61 # v) (dn_query d)). 63 \<notin> set w" using assms by (auto simp: dsn_ok_def list_all_iff)
    ultimately have "63 \<notin> set q" using False by (simp add: q_def)
    then show ?thesis using False cut_at_last[of 63 q base] by (simp add: query_text_def q_def)
  qed
  have server: "set server \<inter> {64, 47} = {}" using assms by (auto simp: dsn_ok_def server_def)
  then have host: "LastIndexRune base 64 = Some (length userinfo)"
    using assms unfolding base_def by (intro LastIndexRune_at) (auto simp: dsn_ok_def)
  have name: "cut_at (map_option ((+) (Suc (length userinfo))) (IndexRune (drop (Suc (length userinfo)) base) 47)) base =
      (userinfo @ 64 # server, dn_name d)"
  proof -
    have "47 \<notin> set server" using server by blast
    then show ?thesis by (simp add: base_def IndexRune_at cut_at_def)
  qed
  have at: "LastIndexRune (userinfo @ 64 # server) 64 = Some (length userinfo)" using server by (intro LastIndexRune_at) auto
  have user: "cut_at (IndexRune userinfo 58) userinfo = (dn_user d, dn_password d)"
    using assms unfolding userinfo_def by (intro cut_at_first) (simp add: dsn_ok_def)
  have port: "cut_at (LastIndexRune server 58) server = (dn_host d, dn_port d)"
    using assms unfolding server_def by (intro cut_at_last) (auto simp: dsn_ok_def)
  have "q = [] \<longleftrightarrow> dn_query d = []" by (cases "dn_query d"; cases "tl (dn_query d)") (auto simp: q_def split: prod.splits)
  then have "(if q = [] then [] else concat (map query_part (Split q 38))) =
      map shown (filter (\<lambda>kv. snd kv \<noteq> []) (map (\<lambda>(k, v). (k, case QueryUnescape v of None \<Rightarrow> v | Some decoded \<Rightarrow> decoded)) (dn_query d)))"
    using query_read[OF assms] by (simp add: q_def)
  then show ?thesis
    by (simp add: urlToKV_def Let_def prefix query host name at user port add_part_shown dsn_settings_def)
qed

lemma settings_carried:
  assumes "dsn_ok d"
  shows "list_all (\<lambda>(k, v). keyword k \<and> v \<noteq> [] \<and> carried v) (dsn_settings d)"
  unfolding list_all_iff
proof (intro ballI, clarify)
  fix k v assume kv: "(k, v) \<in> set (dsn_settings d)"
  have names: "keyword (str ''host'')" "keyword (str ''port'')" "keyword (str ''user'')" "keyword (str ''password'')" "keyword (str ''dbname'')"
    by (simp_all add: keyword_def blank_def str_def)
  have "keyword k'" if "(k', v') \<in> set (dn_query d)" for k' v' using that assms by (auto simp: dsn_ok_def list_all_iff)
  then have "keyword k" using kv names unfolding dsn_settings_def set_filter set_append by auto
  moreover have "v \<noteq> []" using kv unfolding dsn_settings_def set_filter by simp
  moreover have "carried v" using kv assms by (fastforce simp: dsn_ok_def list_all_iff)
  ultimately show "keyword k \<and> v \<noteq> [] \<and> carried v" by simp
qed

text \<open>
  The passwords that make \<open>SanitizeDSN\<close> rewrite the URL: the part of the password up to the first slash, question mark or
  hash is followed by one of these and is no port number, or there is no such part and it has an at sign.
\<close>

definition hard_password :: "gostring \<Rightarrow> bool" where
  "hard_password p \<longleftrightarrow> (let a = takeWhile (\<lambda>c. c \<notin> {35, 47, 63}) p in
     if a = p then 64 \<in> set p else set a \<inter> {58, 64, 91} = {} \<and> \<not> list_all ascii_digit a)"

lemma until_byte_nested: "until_byte 47 (until_byte 63 (until_byte 35 s)) = takeWhile (\<lambda>c. c \<notin> {35, 47, 63}) s"
proof -
  have nest: "takeWhile P (takeWhile Q s) = takeWhile (\<lambda>x. P x \<and> Q x) s" for P Q :: "rune \<Rightarrow> bool" and s
    by (induction s) auto
  show ?thesis unfolding until_byte_def nest by (rule takeWhile_cong) auto
qed

lemma url_rest:
  assumes "raw = str ''postgres://'' @ s"
  shows "url_authority raw = takeWhile (\<lambda>c. c \<notin> {35, 47, 63}) s"
    and "IndexRune s 47 = Some n \<Longrightarrow> atCountBeforePath raw = count_list (take n s) 64"
proof -
  have "Index raw (str ''://'') = Some 8" "drop 11 raw = s" by (simp_all add: assms str_def)
  then show "url_authority raw = takeWhile (\<lambda>c. c \<notin> {35, 47, 63}) s"
    "IndexRune s 47 = Some n \<Longrightarrow> atCountBeforePath raw = count_list (take n s) 64"
    using until_byte_nested[of s] by (simp_all add: url_authority_def hierarchical_def atCountBeforePath_def)
qed

lemma hard_password_rewritten:
  assumes "hard_password (dn_password d)" and "set (dn_user d) \<inter> {35, 47, 63, 64, 91} = {}" and "dsn_ok d"
  shows "\<not> url_parses brackets (dsn_url d) \<or> 1 < atCountBeforePath (dsn_url d)"
proof -
  define p where "p = dn_password d"
  define a where "a = takeWhile (\<lambda>c. c \<notin> {35, 47, 63}) p"
  define tail where "tail = dn_host d @ 58 # dn_port d @ 47 # dn_name d @ query_text d"
  have raw: "dsn_url d = str ''postgres://'' @ dn_user d @ 58 # p @ 64 # tail" by (simp add: dsn_url_def p_def tail_def)
  note rest = url_rest[OF raw]
  show ?thesis
  proof (cases "a = p")
    case True
    define s where "s = dn_user d @ 58 # p @ 64 # dn_host d @ 58 # dn_port d"
    have p: "64 \<in> set p" "47 \<notin> set p" using assms(1) True by (auto simp: hard_password_def takeWhile_eq_all_conv p_def a_def)
    then have "47 \<notin> set s" using assms(2,3) by (auto simp: dsn_ok_def s_def)
    moreover have "dn_user d @ 58 # p @ 64 # tail = s @ 47 # dn_name d @ query_text d" by (simp add: s_def tail_def)
    ultimately have "atCountBeforePath (dsn_url d) = count_list s 64" using rest(2) IndexRune_at[of 47 s] by simp
    moreover have "0 < count_list p 64" using p(1) count_list_0_iff[of p 64] by simp
    ultimately show ?thesis by (simp add: s_def)
  next
    case False
    then obtain c where "c \<in> set p" "c \<in> {35, 47, 63}" unfolding a_def takeWhile_eq_all_conv by auto
    then have "takeWhile (\<lambda>c. c \<notin> {35, 47, 63}) (p @ 64 # tail) = a" unfolding a_def by (intro takeWhile_append1) auto
    moreover have "takeWhile (\<lambda>c. c \<notin> {35, 47, 63}) (dn_user d @ s) = dn_user d @ takeWhile (\<lambda>c. c \<notin> {35, 47, 63}) s" for s
      using assms(2) by (intro takeWhile_append2) auto
    ultimately have authority: "url_authority (dsn_url d) = dn_user d @ 58 # a" using rest(1) by simp
    have a: "set a \<inter> {58, 64, 91} = {}" "\<not> list_all ascii_digit a"
      using assms(1) False by (simp_all add: hard_password_def Let_def a_def p_def)
    then have "64 \<notin> set (dn_user d @ 58 # a)" "91 \<notin> set (dn_user d @ 58 # a)" "58 \<notin> set a" using assms(2) by auto
    then have "\<not> authority_ok brackets (dn_user d @ 58 # a)"
      using a(2) by (simp add: authority_ok_def host_ok_def LastIndexRune_None LastIndexRune_at)
    then show ?thesis by (simp add: url_parses_def authority)
  qed
qed


text \<open>
  A password of digits before its first slash is not rewritten: \<open>net/url\<close> takes the user for the host and the digits for the
  port, so \<open>SanitizeDSN\<close> leaves the URL as it is.
\<close>

lemma port_like_password_misread:
  assumes "dn_password d = ds @ 47 # p" and "list_all ascii_digit ds" and "list_all alnum (dn_user d)"
    and "url_parses brackets (dsn_url d)"
  shows "SanitizeDSN brackets (dsn_url d) = dsn_url d" "url_authority (dsn_url d) = dn_user d @ 58 # ds"
proof -
  let ?tail = "p @ 64 # dn_host d @ 58 # dn_port d @ 47 # dn_name d @ query_text d"
  have raw: "dsn_url d = str ''postgres://'' @ (dn_user d @ 58 # ds) @ 47 # ?tail" by (simp add: dsn_url_def assms(1))
  have plain: "set (dn_user d @ 58 # ds) \<inter> {35, 47, 63, 64} = {}"
    using assms(2,3) by (auto simp: list_all_iff alnum_def ascii_upper_letter_def ascii_lower_letter_def ascii_digit_def)
  then have "takeWhile (\<lambda>c. c \<notin> {35, 47, 63}) ((dn_user d @ 58 # ds) @ 47 # ?tail) = (dn_user d @ 58 # ds) @ takeWhile (\<lambda>c. c \<notin> {35, 47, 63}) (47 # ?tail)"
    by (intro takeWhile_append2) auto
  then show "url_authority (dsn_url d) = dn_user d @ 58 # ds" unfolding url_rest(1)[OF raw] by simp
  have "47 \<notin> set (dn_user d @ 58 # ds)" "64 \<notin> set (dn_user d @ 58 # ds)" using plain by auto
  then have "atCountBeforePath (dsn_url d) = 0"
    using url_rest(2)[OF raw IndexRune_at[of 47 "dn_user d @ 58 # ds" ?tail]] by (simp add: count_list_0_iff)
  then show "SanitizeDSN brackets (dsn_url d) = dsn_url d" using assms(4) by (simp add: SanitizeDSN_def)
qed

section \<open>At concrete URLs\<close>

definition demo_dsn :: dsn where
  "demo_dsn = \<lparr>dn_user = str ''app'', dn_password = str ''p/@ q'', dn_host = str ''db'', dn_port = str ''5432'', dn_name = str ''fw'',
     dn_query = [(str ''sslmode'', str ''require'')]\<rparr>"

lemma demo_dsn_settings: "dsn_settings demo_dsn = [(str ''host'', str ''db''), (str ''port'', str ''5432''), (str ''user'', str ''app''),
    (str ''password'', str ''p/@ q''), (str ''dbname'', str ''fw''), (str ''sslmode'', str ''require'')]"
proof -
  have "QueryUnescape (str ''require'') = Some (str ''require'')" by (simp add: str_def)
  then show ?thesis by (simp add: dsn_settings_def demo_dsn_def)
qed


text \<open>Two URLs that pass unchanged although \<open>net/url\<close> does not read them as they were meant.\<close>

lemma misread_urls:
  "SanitizeDSN (\<lambda>_. False) (str ''postgres://app:12/ab@db:5432/fw'') = str ''postgres://app:12/ab@db:5432/fw''"
  "url_authority (str ''postgres://app:12/ab@db:5432/fw'') = str ''app:12''"
  "SanitizeDSN (\<lambda>_. False) (str ''postgres://app:p@x/y@db:5432/fw'') = str ''postgres://app:p@x/y@db:5432/fw''"
  "url_authority (str ''postgres://app:p@x/y@db:5432/fw'') = str ''app:p@x''"
  by code_simp+

end
