(* ===== verification/Start_Up.thy ===== *)
theory Start_Up
  imports Dsn Accounts Outbound_Api Server Webhook_Server "HOL-Library.Word"
begin

text \<open>
  How the channels service starts: \<open>internal/config\<close>, the encryptors of \<open>internal/crypto\<close>, and the part of
  \<open>cmd/server/main.go\<close> that ends the process when something it needs is missing.
\<close>

section \<open>Configuration\<close>

record channels_config =
  cf_Env :: gostring
  cf_Port :: gostring
  cf_LogLevel :: gostring
  cf_ShutdownTimeout :: time
  cf_MaxBodyBytes :: int
  cf_DatabaseURL :: gostring
  cf_AWSRegion :: gostring
  cf_CredentialsEncryption :: gostring
  cf_LocalAESKey :: gostring
  cf_KMSKeyID :: gostring
  cf_InternalAPIToken :: gostring

definition EncryptionLocalAES :: gostring where
  "EncryptionLocalAES = str ''localaes''"

definition EncryptionKMS :: gostring where
  "EncryptionKMS = str ''kms''"

definition channels_getenv :: "environ \<Rightarrow> string \<Rightarrow> gostring \<Rightarrow> gostring" where
  "channels_getenv e key fallback = (if e key \<noteq> [] then e key else fallback)"

definition channels_getenvInt64 :: "environ \<Rightarrow> string \<Rightarrow> int \<Rightarrow> int" where
  "channels_getenvInt64 e key fallback =
     (if e key \<noteq> [] then (case parse_int64 (e key) of Some n \<Rightarrow> n | None \<Rightarrow> fallback) else fallback)"

definition channels_getenvDuration :: "(gostring \<Rightarrow> time option) \<Rightarrow> environ \<Rightarrow> string \<Rightarrow> time \<Rightarrow> time" where
  "channels_getenvDuration parse_duration e key fallback =
     (if e key \<noteq> [] then (case parse_duration (e key) of Some d \<Rightarrow> d | None \<Rightarrow> fallback) else fallback)"

definition channels_Load :: "(gostring \<Rightarrow> time option) \<Rightarrow> environ \<Rightarrow> channels_config" where
  "channels_Load parse_duration e = \<lparr>
     cf_Env = channels_getenv e ''ENV'' (str ''dev''), cf_Port = channels_getenv e ''PORT'' (str ''8080''),
     cf_LogLevel = channels_getenv e ''LOG_LEVEL'' (str ''info''),
     cf_ShutdownTimeout = channels_getenvDuration parse_duration e ''SHUTDOWN_TIMEOUT'' (10 * second),
     cf_MaxBodyBytes = channels_getenvInt64 e ''MAX_BODY_BYTES'' (256 * 1024),
     cf_DatabaseURL = e ''DATABASE_URL'', cf_AWSRegion = channels_getenv e ''AWS_REGION'' (str ''us-west-2''),
     cf_CredentialsEncryption = channels_getenv e ''CREDENTIALS_ENCRYPTION'' EncryptionLocalAES,
     cf_LocalAESKey = e ''LOCAL_AES_KEY'', cf_KMSKeyID = e ''CREDENTIALS_KMS_KEY_ID'',
     cf_InternalAPIToken = e ''INTERNAL_API_TOKEN''\<rparr>"

text \<open>\<open>base64.StdEncoding\<close>: line ends are passed over, the last group of four is padded.\<close>

definition base64_digit :: "rune \<Rightarrow> nat option" where
  "base64_digit c =
     (if ascii_upper_letter c then Some (c - 65) else if ascii_lower_letter c then Some (c - 71)
      else if ascii_digit c then Some (c + 4) else if c = 43 then Some 62 else if c = 47 then Some 63 else None)"

fun base64_groups :: "gostring \<Rightarrow> bytes option" where
  "base64_groups [] = Some []"
| "base64_groups (a # b # c # d # s) =
     (case (base64_digit a, base64_digit b) of
        (Some w, Some x) \<Rightarrow>
          if c = 61 \<and> d = 61 then (if s = [] then Some [4 * w + x div 16] else None)
          else (case base64_digit c of None \<Rightarrow> None | Some y \<Rightarrow>
            if d = 61 then (if s = [] then Some [4 * w + x div 16, 16 * (x mod 16) + y div 4] else None)
            else (case (base64_digit d, base64_groups s) of
                (Some z, Some bs) \<Rightarrow> Some ([4 * w + x div 16, 16 * (x mod 16) + y div 4, 64 * (y mod 4) + z] @ bs)
              | _ \<Rightarrow> None))
      | _ \<Rightarrow> None)"
| "base64_groups _ = None"

definition base64_DecodeString :: "gostring \<Rightarrow> bytes option" where
  "base64_DecodeString s = base64_groups (filter (\<lambda>c. c \<noteq> 10 \<and> c \<noteq> 13) s)"

datatype config_error = DatabaseURLRequired | TokenRequired | AESKeyRequired | AESKeyNotBase64 | AESKeyLength nat
  | KMSKeyRequired | UnknownEncryption gostring

definition channels_Validate :: "channels_config \<Rightarrow> config_error option" where
  "channels_Validate c =
     (if cf_DatabaseURL c = [] then Some DatabaseURLRequired
      else if cf_InternalAPIToken c = [] then Some TokenRequired
      else if cf_CredentialsEncryption c = EncryptionLocalAES then
        (if cf_LocalAESKey c = [] then Some AESKeyRequired
         else case base64_DecodeString (cf_LocalAESKey c) of
           None \<Rightarrow> Some AESKeyNotBase64
         | Some key \<Rightarrow> if length key \<noteq> 32 then Some (AESKeyLength (length key)) else None)
      else if cf_CredentialsEncryption c = EncryptionKMS then
        (if cf_KMSKeyID c = [] then Some KMSKeyRequired else None)
      else Some (UnknownEncryption (cf_CredentialsEncryption c)))"

text \<open>What is logged of the configuration.\<close>

definition redact_secret :: "gostring \<Rightarrow> gostring" where
  "redact_secret s = (if s = [] then [] else str ''***'')"

definition redactDSN :: "gostring \<Rightarrow> gostring" where
  "redactDSN dsn = (if dsn = [] then [] else case Index dsn (str ''://'') of
     None \<Rightarrow> str ''***''
   | Some i \<Rightarrow>
       (let scheme = take i dsn; rest = drop (i + 3) dsn;
            rest = (case IndexRune rest 64 of None \<Rightarrow> rest | Some i \<Rightarrow> str ''***@'' @ drop (i + 1) rest)
        in scheme @ str ''://'' @ rest))"

definition channels_LogValue :: "channels_config \<Rightarrow> (string \<times> log_value) list" where
  "channels_LogValue c = [
     (''env'', LogText (cf_Env c)), (''port'', LogText (cf_Port c)), (''log_level'', LogText (cf_LogLevel c)),
     (''shutdown_timeout'', LogInt (cf_ShutdownTimeout c)), (''max_body_bytes'', LogInt (cf_MaxBodyBytes c)),
     (''aws_region'', LogText (cf_AWSRegion c)), (''credentials_encryption'', LogText (cf_CredentialsEncryption c)),
     (''kms_key_id'', LogText (cf_KMSKeyID c)), (''database_url'', LogText (redactDSN (cf_DatabaseURL c))),
     (''internal_api_token'', LogText (redact_secret (cf_InternalAPIToken c))),
     (''local_aes_key'', LogText (redact_secret (cf_LocalAESKey c)))]"

section \<open>Encryption\<close>

text \<open>An encryptor is bound to its key, or to the id of its key at KMS.\<close>

datatype encryptor = LocalAES bytes | KMS gostring

text \<open>
  AES-GCM (under a key, a nonce and no additional data), the source of nonces, the KMS client, and whether its
  configuration loads for a region. A text stands for its bytes.
\<close>

record cryptography =
  cy_seal :: "bytes \<Rightarrow> bytes \<Rightarrow> bytes \<Rightarrow> bytes"
  cy_open :: "bytes \<Rightarrow> bytes \<Rightarrow> bytes \<Rightarrow> bytes option"
  cy_random :: "nat \<Rightarrow> nat \<Rightarrow> bytes option"
  cy_kms_encrypt :: "gostring \<Rightarrow> nat \<Rightarrow> bytes \<Rightarrow> bytes option"
  cy_kms_decrypt :: "gostring \<Rightarrow> bytes \<Rightarrow> bytes option"
  cy_aws_config :: "gostring \<Rightarrow> bool"

definition NonceSize :: nat where
  "NonceSize = 12"

definition NewLocalAES :: "gostring \<Rightarrow> encryptor option" where
  "NewLocalAES base64Key = (case base64_DecodeString base64Key of
     None \<Rightarrow> None | Some key \<Rightarrow> if length key \<noteq> 32 then None else Some (LocalAES key))"

definition LocalAES_Encrypt :: "cryptography \<Rightarrow> bytes \<Rightarrow> nat \<Rightarrow> bytes \<Rightarrow> bytes option" where
  "LocalAES_Encrypt X key n plaintext = (case cy_random X n NonceSize of
     None \<Rightarrow> None | Some nonce \<Rightarrow> Some (nonce @ cy_seal X key nonce plaintext))"

definition LocalAES_Decrypt :: "cryptography \<Rightarrow> bytes \<Rightarrow> bytes \<Rightarrow> bytes option" where
  "LocalAES_Decrypt X key ciphertext =
     (if length ciphertext < NonceSize then None
      else cy_open X key (take NonceSize ciphertext) (drop NonceSize ciphertext))"

definition NewKMS :: "cryptography \<Rightarrow> gostring \<Rightarrow> gostring \<Rightarrow> encryptor option" where
  "NewKMS X region keyID = (if cy_aws_config X region then Some (KMS keyID) else None)"

definition KMS_Encrypt :: "cryptography \<Rightarrow> gostring \<Rightarrow> nat \<Rightarrow> bytes \<Rightarrow> bytes option" where
  "KMS_Encrypt X keyID n plaintext = cy_kms_encrypt X keyID n plaintext"

definition KMS_Decrypt :: "cryptography \<Rightarrow> gostring \<Rightarrow> bytes \<Rightarrow> bytes option" where
  "KMS_Decrypt X keyID ciphertext = cy_kms_decrypt X keyID ciphertext"

definition crypto_New :: "cryptography \<Rightarrow> gostring \<Rightarrow> gostring \<Rightarrow> gostring \<Rightarrow> gostring \<Rightarrow> encryptor option" where
  "crypto_New X mode region localKeyB64 kmsKeyID =
     (if mode = str ''localaes'' then NewLocalAES localKeyB64
      else if mode = str ''kms'' then NewKMS X region kmsKeyID
      else None)"

definition encrypt_with :: "cryptography \<Rightarrow> encryptor \<Rightarrow> nat \<Rightarrow> bytes \<Rightarrow> bytes option" where
  "encrypt_with X enc = (case enc of LocalAES key \<Rightarrow> LocalAES_Encrypt X key | KMS keyID \<Rightarrow> KMS_Encrypt X keyID)"

definition decrypt_with :: "cryptography \<Rightarrow> encryptor \<Rightarrow> bytes \<Rightarrow> bytes option" where
  "decrypt_with X enc = (case enc of LocalAES key \<Rightarrow> LocalAES_Decrypt X key | KMS keyID \<Rightarrow> KMS_Decrypt X keyID)"

section \<open>Start-up\<close>

text \<open>
  Which connection strings pgx reads and which of them answer a ping, what bringing a database up to the last
  migration comes to, whether the mail client can be set up for a region, and the number of processors.
\<close>

datatype migration = Applied | NoChange | MigrationFailed

record surroundings =
  su_parses :: "gostring \<Rightarrow> bool"
  su_pings :: "gostring \<Rightarrow> bool"
  su_up :: "gostring \<Rightarrow> migration"
  su_mail :: "gostring \<Rightarrow> bool"
  su_cpus :: nat

record pool =
  pl_dsn :: gostring
  pl_MaxConns :: "32 word"

definition NewPool :: "surroundings \<Rightarrow> (gostring \<Rightarrow> bool) \<Rightarrow> gostring \<Rightarrow> pool option" where
  "NewPool N brackets dsn =
     (let cfg = SanitizeDSN brackets dsn
      in if \<not> su_parses N cfg then None
         else if \<not> su_pings N cfg then None
         else Some \<lparr>pl_dsn = cfg, pl_MaxConns = word_of_nat (4 * su_cpus N)\<rparr>)"

text \<open>A schema that is current already is no failure.\<close>

definition RunMigrations :: "surroundings \<Rightarrow> (gostring \<Rightarrow> bool) \<Rightarrow> gostring \<Rightarrow> bool" where
  "RunMigrations N brackets dsn =
     (let cfg = SanitizeDSN brackets dsn
      in if \<not> su_parses N cfg then False
         else case su_up N cfg of Applied \<Rightarrow> True | NoChange \<Rightarrow> True | MigrationFailed \<Rightarrow> False)"

datatype boot = Exited string | Serving server_config

text \<open>\<open>main\<close> up to the point where it serves: the encryptor goes to accounts, ingest and outbound, the token to the guard.\<close>

definition channels_main :: "surroundings \<Rightarrow> cryptography \<Rightarrow> (gostring \<Rightarrow> bool) \<Rightarrow> channels_config \<Rightarrow> server_config \<Rightarrow> boot" where
  "channels_main N X brackets cfg C =
     (if channels_Validate cfg \<noteq> None then Exited ''invalid configuration''
      else if NewPool N brackets (cf_DatabaseURL cfg) = None then Exited ''database unavailable''
      else if \<not> RunMigrations N brackets (cf_DatabaseURL cfg) then Exited ''migrations failed''
      else case crypto_New X (cf_CredentialsEncryption cfg) (cf_AWSRegion cfg) (cf_LocalAESKey cfg) (cf_KMSKeyID cfg) of
        None \<Rightarrow> Exited ''encryptor init failed''
      | Some enc \<Rightarrow>
          if \<not> su_mail N (cf_AWSRegion cfg) then Exited ''email adapter init failed''
          else Serving (C\<lparr>sc_env := (sc_env C)\<lparr>e_encrypt := encrypt_with X enc, e_decrypt := decrypt_with X enc\<rparr>,
                 sc_token := cf_InternalAPIToken cfg\<rparr>))"

end
