(* ===== verification/Start_Facts.thy ===== *)
theory Start_Facts
  imports Start_Up Dsn_Facts Server_Facts
begin

text \<open>
  What holds of a channels service that has started: credentials come back as they were stored, and its log and that of
  the webhook service show no secret.
\<close>

section \<open>Start-up\<close>

lemma mode_names: "EncryptionLocalAES = str ''localaes''" "EncryptionKMS = str ''kms''" "str ''kms'' \<noteq> str ''localaes''"
  by (simp_all add: EncryptionLocalAES_def EncryptionKMS_def)

lemma NewPool_None: "NewPool N brackets dsn = None \<longleftrightarrow> \<not> (su_parses N (SanitizeDSN brackets dsn) \<and> su_pings N (SanitizeDSN brackets dsn))"
  by (simp add: NewPool_def Let_def)

lemma RunMigrations_iff: "RunMigrations N brackets dsn \<longleftrightarrow> su_parses N (SanitizeDSN brackets dsn) \<and> su_up N (SanitizeDSN brackets dsn) \<noteq> MigrationFailed"
  by (cases "su_up N (SanitizeDSN brackets dsn)") (simp_all add: RunMigrations_def Let_def)

text \<open>With a valid configuration only the surroundings can keep the service from starting.\<close>

lemma channels_main_serves:
  "(\<exists>C'. channels_main N X brackets cfg C = Serving C') \<longleftrightarrow>
     channels_Validate cfg = None \<and> su_parses N (SanitizeDSN brackets (cf_DatabaseURL cfg)) \<and>
     su_pings N (SanitizeDSN brackets (cf_DatabaseURL cfg)) \<and> su_up N (SanitizeDSN brackets (cf_DatabaseURL cfg)) \<noteq> MigrationFailed \<and> su_mail N (cf_AWSRegion cfg) \<and>
     (cf_CredentialsEncryption cfg = EncryptionKMS \<longrightarrow> cy_aws_config X (cf_AWSRegion cfg))"
  by (auto simp: channels_main_def NewPool_None RunMigrations_iff channels_Validate_def crypto_New_def NewLocalAES_def NewKMS_def mode_names
      split: option.splits if_splits)

lemma channels_main_encryptor:
  assumes "channels_main N X brackets cfg C = Serving C'"
  shows "\<exists>enc. sc_env C' = (sc_env C)\<lparr>e_encrypt := encrypt_with X enc, e_decrypt := decrypt_with X enc\<rparr>"
    and "sc_token C' = cf_InternalAPIToken cfg" and "cf_InternalAPIToken cfg \<noteq> []"
proof -
  obtain enc where enc: "C' = C\<lparr>sc_env := (sc_env C)\<lparr>e_encrypt := encrypt_with X enc, e_decrypt := decrypt_with X enc\<rparr>,
      sc_token := cf_InternalAPIToken cfg\<rparr>" and "channels_Validate cfg = None"
    using assms unfolding channels_main_def by (auto split: if_splits option.splits)
  then show "cf_InternalAPIToken cfg \<noteq> []" by (simp add: channels_Validate_def split: if_splits)
  show "\<exists>enc. sc_env C' = (sc_env C)\<lparr>e_encrypt := encrypt_with X enc, e_decrypt := decrypt_with X enc\<rparr>" "sc_token C' = cf_InternalAPIToken cfg"
    unfolding enc by auto
qed

section \<open>Credentials\<close>

text \<open>
  What is documented of the cryptography: a nonce has the length asked for, opening what was sealed under the same key and
  nonce gives the plaintext, and KMS decrypts what it encrypted, which is never empty.
\<close>

definition cryptography_ok :: "cryptography \<Rightarrow> bool" where
  "cryptography_ok X \<longleftrightarrow> (\<forall>n k nonce. cy_random X n k = Some nonce \<longrightarrow> length nonce = k) \<and>
     (\<forall>key nonce plain. length nonce = 12 \<longrightarrow> cy_open X key nonce (cy_seal X key nonce plain) = Some plain) \<and>
     (\<forall>k n plain c. cy_kms_encrypt X k n plain = Some c \<longrightarrow> c \<noteq> [] \<and> cy_kms_decrypt X k c = Some plain)"

lemma decrypt_encrypt:
  assumes "cryptography_ok X" and "encrypt_with X enc n plain = Some c"
  shows "c \<noteq> []" "decrypt_with X enc c = Some plain"
proof -
  have "c \<noteq> [] \<and> decrypt_with X enc c = Some plain"
  proof (cases enc)
    case (LocalAES key)
    then obtain nonce where nonce: "cy_random X n 12 = Some nonce" "c = nonce @ cy_seal X key nonce plain"
      using assms(2) by (auto simp: encrypt_with_def LocalAES_Encrypt_def NonceSize_def split: option.splits)
    moreover from nonce have "length nonce = 12" using assms(1) unfolding cryptography_ok_def by blast
    moreover from this have "nonce \<noteq> []" by auto
    ultimately show ?thesis using assms(1) LocalAES by (simp add: cryptography_ok_def decrypt_with_def LocalAES_Decrypt_def NonceSize_def)
  next
    case (KMS k)
    then show ?thesis using assms by (auto simp: cryptography_ok_def encrypt_with_def decrypt_with_def KMS_Encrypt_def KMS_Decrypt_def)
  qed
  then show "c \<noteq> []" "decrypt_with X enc c = Some plain" by simp_all
qed

lemma Encrypt_Inr:
  "run (Encrypt E plain) w = (Inr c, w') \<Longrightarrow> e_encrypt E (w_ids w) plain = Some c \<and> w_db w' = w_db w"
  by (auto simp: Encrypt_def split: option.splits)

lemma commit_Inr: "commit d d' r = (Inr x, d'') \<Longrightarrow> x = r \<and> d'' = d'"
  by (auto simp: commit_def split: if_splits)

text \<open>An account a request gave credentials, as it is stored afterwards.\<close>

lemma Create_account_stores:
  assumes "run (Create_account E inp) w = (Inr view, w')" and "na_Credentials inp \<noteq> []"
  shows "\<exists>a c n. a \<in> set (accounts (w_db w')) \<and> acc_id a = av_ID view \<and> acc_type a = na_Type inp \<and> acc_credentials a = c \<and>
    e_encrypt E n (na_Credentials inp) = Some c"
proof -
  obtain c w1 where enc: "run (Encrypt E (na_Credentials inp)) w = (Inr c, w1)"
    and rest: "run (do { newID \<leftarrow> NewID E; current \<leftarrow> now;
        attempt (ask account_failed (insert_account inp newID current c)) (\<lambda>row. ret (Inr (toAPI_account row))) }) w1 = (Inr view, w')"
    using assms by (auto simp: Create_account_def split: if_splits elim!: attempt_Inr)
  then obtain newID current row w2 where ask: "run (ask account_failed (insert_account inp newID current c)) w2 = (Inr row, w')"
    and view: "view = toAPI_account row"
    by (auto split: prod.splits elim!: attempt_Inr)
  from ask_Inr(1)[OF ask] have "row \<in> set (accounts (w_db w'))" "acc_credentials row = c" "acc_type row = na_Type inp"
    by (auto simp: insert_account_def CreateAccount_def split: option.splits dest!: commit_Inr)
  then show ?thesis using Encrypt_Inr[OF enc] view by (auto simp: toAPI_account_def)
qed

lemma Update_account_stores:
  assumes "run (Update_account E i tenantID inp) w = (Inr view, w')" and "pa_Credentials inp = Some cred"
  shows "\<exists>a c n. a \<in> set (accounts (w_db w')) \<and> acc_id a = av_ID view \<and> acc_type a = av_Type view \<and> acc_credentials a = c \<and>
    e_encrypt E n cred = Some c"
proof -
  obtain p c w1 w2 row where enc: "run (Encrypt E cred) w1 = (Inr c, w2)"
    and ask: "run (ask account_failed (UpdateAccount p)) w2 = (Inr row, w')" "ua_CredentialsEncrypted p = c" and view: "view = toAPI_account row"
    using assms by (auto simp: Update_account_def elim!: attempt_Inr)
  from ask_Inr(1)[OF ask(1)] obtain a where a: "List.find (account_in (ua_ID p) (ua_TenantID p)) (accounts (w_db w2)) = Some a"
      "row = updated_account p a"
      "accounts (w_db w') = map_if (account_in (ua_ID p) (ua_TenantID p)) (updated_account p) (accounts (w_db w2))"
    by (auto simp: UpdateAccount_def split: option.splits dest!: commit_Inr)
  then have "row \<in> set (accounts (w_db w'))" using find_Some_in[OF a(1)] by (auto simp: set_map_if)
  moreover have "acc_credentials row = c" using a(2) ask(2) by (simp add: updated_account_def)
  ultimately show ?thesis using Encrypt_Inr[OF enc] view by (auto simp: toAPI_account_def)
qed

text \<open>
  C38. The token a platform is called with is the one the operator entered: in a service that has started, whichever
  encryption it is configured with, the account a request created with credentials, or gave new ones, is stored with a
  ciphertext from which the outbound path recovers exactly those credentials (on the platform that needs none it uses none).
\<close>

theorem credentials_reach_the_adapter:
  assumes "cryptography_ok X" and "channels_main N X brackets cfg C0 = Serving C"
    and "run (Create_account (sc_env C) inp) w = (Inr view, w') \<and> na_Credentials inp = cred \<and> cred \<noteq> [] \<or>
      run (Update_account (sc_env C) i t upd) w = (Inr view, w') \<and> pa_Credentials upd = Some cred"
  shows "\<exists>a\<in>set (accounts (w_db w')). acc_id a = av_ID view \<and> acc_credentials a \<noteq> [] \<and>
    e_decrypt (sc_env C) (acc_credentials a) = Some cred \<and>
    outbound_token (sc_env C) a = Some (if Tokenless (acc_type a) then [] else cred)"
proof -
  obtain enc where env: "sc_env C = (sc_env C0)\<lparr>e_encrypt := encrypt_with X enc, e_decrypt := decrypt_with X enc\<rparr>"
    using channels_main_encryptor(1)[OF assms(2)] by blast
  obtain a c n where a: "a \<in> set (accounts (w_db w'))" "acc_id a = av_ID view" "acc_credentials a = c" "e_encrypt (sc_env C) n cred = Some c"
    using assms(3) Create_account_stores[of "sc_env C" inp w view w'] Update_account_stores[of "sc_env C" i t upd w view w' cred] by blast
  then have "encrypt_with X enc n cred = Some c" using env by simp
  from decrypt_encrypt[OF assms(1) this] show ?thesis using a env by (intro bexI[of _ a]) (auto simp: outbound_token_def)
qed

section \<open>Logs\<close>

lemma Index_scheme: "58 \<notin> set scheme \<Longrightarrow> Index (scheme @ str ''://'' @ s) (str ''://'') = Some (length scheme)"
proof (induction scheme)
  case Nil
  show ?case by (cases s) (simp_all add: str_def)
next
  case (Cons c scheme)
  have "\<not> HasPrefix ((c # scheme) @ str ''://'' @ s) (str ''://'')" using Cons.prems by (simp add: str_def)
  then show ?case using Cons by simp
qed

lemma redactDSN_userinfo:
  assumes "58 \<notin> set scheme" and "64 \<notin> set userinfo"
  shows "redactDSN (scheme @ str ''://'' @ userinfo @ 64 # rest) = scheme @ str ''://***@'' @ rest"
proof -
  have "drop (length scheme + 3) (scheme @ str ''://'' @ userinfo @ 64 # rest) = userinfo @ 64 # rest" by (simp add: str_def)
  moreover have "scheme @ str ''://'' @ userinfo @ 64 # rest \<noteq> []" by simp
  ultimately show ?thesis
    using Index_scheme[OF assms(1), of "userinfo @ 64 # rest"] IndexRune_at[OF assms(2), of rest]
    by (simp add: redactDSN_def Let_def) (simp add: str_def)
qed

text \<open>
  Neither service logs a secret: what the channels service logs of its configuration is the same for any two values
  of the token, of the encryption key, and of the user and password of a database URL in which no at sign comes before the one that ends
  them; what the webhook service logs is the same for any two values of its token, its platform secrets and its signing token.
\<close>

theorem logs_show_no_secret:
  assumes "64 \<notin> set userinfo" and "64 \<notin> set userinfo'" and "58 \<notin> set scheme"
    and "tok \<noteq> []" and "tok' \<noteq> []" and "key \<noteq> []" and "key' \<noteq> []"
    and "list_all (\<lambda>s. s \<noteq> []) [a, b, c, d]" and "list_all (\<lambda>s. s \<noteq> []) [a', b', c', d']"
  shows "channels_LogValue (cf\<lparr>cf_InternalAPIToken := tok, cf_LocalAESKey := key, cf_DatabaseURL := scheme @ str ''://'' @ userinfo @ 64 # rest\<rparr>) =
      channels_LogValue (cf\<lparr>cf_InternalAPIToken := tok', cf_LocalAESKey := key', cf_DatabaseURL := scheme @ str ''://'' @ userinfo' @ 64 # rest\<rparr>) \<and>
    webhook_LogValue (wc\<lparr>wc_InternalAPIToken := tok, wc_UltraMSGWebhookSecret := a, wc_TwilioAuthToken := b,
        wc_TelegramWebhookSecret := c, wc_EmailSESWebhookSecret := d\<rparr>) =
      webhook_LogValue (wc\<lparr>wc_InternalAPIToken := tok', wc_UltraMSGWebhookSecret := a', wc_TwilioAuthToken := b',
        wc_TelegramWebhookSecret := c', wc_EmailSESWebhookSecret := d'\<rparr>)"
  using assms by (simp add: channels_LogValue_def webhook_LogValue_def redactDSN_userinfo redact_secret_def)

lemma redactDSN_cuts_at_first_at_sign: "redactDSN (str ''postgres://app:p@ss@db/fw'') = str ''postgres://***@ss@db/fw''"
  by code_simp

section \<open>At a concrete service\<close>

text \<open>A cryptography that hides nothing, and surroundings in which everything works.\<close>

definition open_cryptography :: cryptography where
  "open_cryptography = \<lparr>cy_seal = (\<lambda>_ _ plain. plain), cy_open = (\<lambda>_ _. Some), cy_random = (\<lambda>_ k. Some (replicate k 0)),
     cy_kms_encrypt = (\<lambda>_ _ plain. Some (0 # plain)), cy_kms_decrypt = (\<lambda>_ c. Some (tl c)), cy_aws_config = (\<lambda>_. True)\<rparr>"

definition calm :: surroundings where
  "calm = \<lparr>su_parses = (\<lambda>_. True), su_pings = (\<lambda>_. True), su_up = (\<lambda>_. NoChange), su_mail = (\<lambda>_. True), su_cpus = 2\<rparr>"

definition demo_environ :: environ where
  "demo_environ = (\<lambda>key. if key = ''DATABASE_URL'' then str ''postgres://app:pw@db:5432/fw'' else if key = ''INTERNAL_API_TOKEN'' then str ''s3cret''
     else if key = ''LOCAL_AES_KEY'' then str (replicate 43 CHR ''A'' @ ''='') else [])"

definition demo_start :: boot where
  "demo_start = channels_main calm open_cryptography (\<lambda>_. False) (channels_Load (\<lambda>_. None) demo_environ) demo_config"

definition new_account :: CreateAccountInput where
  "new_account = \<lparr>na_TenantID = 1, na_Type = str ''telegram'', na_OwnerType = str ''fw'', na_Label = [], na_PlatformIdentifier = str ''bot'',
     na_Status = str ''active'', na_Capabilities = Some [], na_Credentials = str ''t0ken''\<rparr>"

lemma demo_key: "NewLocalAES (str (replicate 43 CHR ''A'' @ ''='')) = Some (LocalAES (replicate 32 0))"
  by code_simp

definition demo_sealed :: env where
  "demo_sealed = demo_env\<lparr>e_encrypt := encrypt_with open_cryptography (LocalAES (replicate 32 0)),
     e_decrypt := decrypt_with open_cryptography (LocalAES (replicate 32 0))\<rparr>"

lemma demo_start_serves: "demo_start = Serving (demo_config\<lparr>sc_env := demo_sealed, sc_token := str ''s3cret''\<rparr>)"
proof -
  have "base64_DecodeString (str (replicate 43 CHR ''A'' @ ''='')) = Some (replicate 32 0)" by code_simp
  then show ?thesis using demo_key
    by (simp add: demo_start_def channels_main_def channels_Load_def demo_environ_def channels_getenv_def channels_Validate_def mode_names
        NewPool_None RunMigrations_iff crypto_New_def calm_def demo_config_def demo_sealed_def)
qed

lemma open_cryptography_ok: "cryptography_ok open_cryptography"
  by (simp add: cryptography_ok_def open_cryptography_def)

lemma new_account_created:
  "\<exists>view w'. run (Create_account demo_sealed new_account) (fresh_world (empty_db\<lparr>tenants := [demo_tenant]\<rparr>) []) = (Inr view, w')"
proof -
  have "e_encrypt demo_sealed 0 (str ''t0ken'') = Some (replicate 12 0 @ str ''t0ken'')"
    by (simp add: demo_sealed_def encrypt_with_def LocalAES_Encrypt_def open_cryptography_def NonceSize_def)
  then show ?thesis
    by (simp add: Create_account_def new_account_def Encrypt_def run_attempt run_ask_clean insert_account_def CreateAccount_def
        commit_def fresh_world_def demo_db_simps NewID_def now_def)
qed

theorem credentials_witness:
  "\<exists>a (w' :: world). a \<in> set (accounts (w_db w')) \<and> e_decrypt demo_sealed (acc_credentials a) = Some (str ''t0ken'')"
proof -
  obtain view w' where "run (Create_account demo_sealed new_account) (fresh_world (empty_db\<lparr>tenants := [demo_tenant]\<rparr>) []) = (Inr view, w')"
    using new_account_created by blast
  then have "run (Create_account (sc_env (demo_config\<lparr>sc_env := demo_sealed, sc_token := str ''s3cret''\<rparr>)) new_account)
      (fresh_world (empty_db\<lparr>tenants := [demo_tenant]\<rparr>) []) = (Inr view, w') \<and> na_Credentials new_account = str ''t0ken'' \<and> str ''t0ken'' \<noteq> []"
    by (simp add: new_account_def)
  from credentials_reach_the_adapter[OF open_cryptography_ok demo_start_serves[unfolded demo_start_def] disjI1[OF this]] have "\<exists>a\<in>set (accounts (w_db w')). e_decrypt demo_sealed (acc_credentials a) = Some (str ''t0ken'')" by auto
  then show ?thesis by blast
qed

definition demo_cfg :: channels_config where
  "demo_cfg = channels_Load (\<lambda>_. None) demo_environ"

theorem logs_witness:
  "channels_LogValue (demo_cfg\<lparr>cf_InternalAPIToken := str ''one'', cf_LocalAESKey := str ''k'', cf_DatabaseURL := str ''postgres'' @ str ''://'' @ str ''app:one'' @ 64 # str ''db/fw''\<rparr>) =
    channels_LogValue (demo_cfg\<lparr>cf_InternalAPIToken := str ''two'', cf_LocalAESKey := str ''l'', cf_DatabaseURL := str ''postgres'' @ str ''://'' @ str ''app:two'' @ 64 # str ''db/fw''\<rparr>)"
proof -
  let ?s = "str ''s''"
  have "64 \<notin> set (str ''app:one'')" "64 \<notin> set (str ''app:two'')" "58 \<notin> set (str ''postgres'')" by (simp_all add: str_def)
  from logs_show_no_secret[OF this, of "str ''one''" "str ''two''" "str ''k''" "str ''l''" ?s ?s ?s ?s ?s ?s ?s ?s, where cf = demo_cfg and rest = "str ''db/fw''"]
  show ?thesis by simp
qed

end
