(* ===== verification/Contacts_Facts.thy ===== *)
theory Contacts_Facts
  imports Contacts
begin

text \<open>
  What a bulk import does with a file: it ends exactly when the file does, and accounts for every row.
\<close>

section \<open>One row\<close>

text \<open>A contact made of a row.\<close>

definition made_from :: "CreateContactInput \<Rightarrow> Contact \<Rightarrow> bool" where
  "made_from inp c \<longleftrightarrow> (\<exists>i t. c = new_contact inp i t)"

definition added :: "world \<Rightarrow> Contact list \<Rightarrow> world \<Rightarrow> bool" where
  "added w xs w' \<longleftrightarrow> w_faults w' = [] \<and> w_db w' = (w_db w)\<lparr>contacts := contacts (w_db w) @ xs\<rparr>"

lemma added_trans: "added w xs w' \<Longrightarrow> added w' ys w'' \<Longrightarrow> added w (xs @ ys) w''"
  by (simp add: added_def)

lemma Create_contact_adds:
  assumes "w_faults w = []" and "run (Create_contact E inp) w = (r, w')"
  shows "\<exists>cs. added w cs w' \<and> (case r of Inl _ \<Rightarrow> cs = [] | Inr _ \<Rightarrow> list_all2 made_from [inp] cs)"
proof -
  let ?c = "new_contact inp (e_new_id E (w_ids w)) (w_now w)"
  have "(case r of Inl _ \<Rightarrow> added w [] w' | Inr _ \<Rightarrow> added w [?c] w')"
    using assms
    by (auto simp: Create_contact_def run_store_clean run_attempt run_ask_clean CreateContact_def commit_def NewID_def now_def added_def
        GetContactByShortID_def split: if_splits sum.splits db_error.splits option.splits prod.splits)
  moreover have "list_all2 made_from [inp] [?c]" by (auto simp: made_from_def)
  ultimately show ?thesis by (auto split: sum.splits)
qed

section \<open>The loop\<close>

text \<open>The rows of a file up to a number that are not among the errors, as contacts to make.\<close>

definition imported :: "uuid \<Rightarrow> (gostring \<rightharpoonup> nat) \<Rightarrow> csv_file \<Rightarrow> (nat \<times> row_reason) list \<Rightarrow> nat \<Rightarrow> CreateContactInput list" where
  "imported t col csv errs n = concat (map (\<lambda>i. case csv i of CsvRecord rec \<Rightarrow> [row_input t col rec] | _ \<Rightarrow> [])
     (filter (\<lambda>i. i \<notin> fst ` set errs) [1..<Suc n]))"

definition accounts_for :: "uuid \<Rightarrow> (gostring \<rightharpoonup> nat) \<Rightarrow> csv_file \<Rightarrow> world \<Rightarrow> nat \<Rightarrow> BulkResult \<Rightarrow> world \<Rightarrow> bool" where
  "accounts_for t col csv w k res w' \<longleftrightarrow>
     br_Created res + length (br_Errors res) = k \<and> sorted_wrt (<) (map fst (br_Errors res)) \<and> fst ` set (br_Errors res) \<subseteq> {1..k} \<and>
     (\<exists>cs. added w cs w' \<and> length cs = br_Created res \<and> list_all2 made_from (imported t col csv (br_Errors res) k) cs)"

lemma imported_error:
  assumes "fst ` set errs \<subseteq> {1..k}"
  shows "imported t col csv (errs @ [(Suc k, e)]) (Suc k) = imported t col csv errs k"
proof -
  have "filter (\<lambda>i. i \<notin> fst ` set (errs @ [(Suc k, e)])) [1..<Suc (Suc k)] = filter (\<lambda>i. i \<notin> fst ` set errs) [1..<Suc k]"
    by (auto intro: filter_cong)
  then show ?thesis unfolding imported_def by (simp only:)
qed

lemma imported_record:
  assumes "fst ` set errs \<subseteq> {1..k}" and "csv (Suc k) = CsvRecord rec"
  shows "imported t col csv errs (Suc k) = imported t col csv errs k @ [row_input t col rec]"
proof -
  have "Suc k \<notin> fst ` set errs" using assms(1) by auto
  then show ?thesis using assms(2) by (simp add: imported_def)
qed

lemma import_row_accounts:
  assumes "accounts_for t col csv w k res w1" and "csv (Suc k) \<noteq> CsvEOF"
    and "import_row E t col (Suc k) (csv (Suc k)) res w1 = (res', w2)"
  shows "accounts_for t col csv w (Suc k) res' w2"
proof -
  obtain cs where cs: "added w cs w1" "length cs = br_Created res" "list_all2 made_from (imported t col csv (br_Errors res) k) cs"
    using assms(1) by (auto simp: accounts_for_def)
  have errs: "br_Created res + length (br_Errors res) = k" "sorted_wrt (<) (map fst (br_Errors res))" "fst ` set (br_Errors res) \<subseteq> {1..k}"
    using assms(1) by (simp_all add: accounts_for_def)
  have failed: "accounts_for t col csv w (Suc k) (res\<lparr>br_Errors := br_Errors res @ [(Suc k, e)]\<rparr>) w2" if "added w1 [] w2" for e
  proof -
    have "\<forall>x\<in>set (map fst (br_Errors res)). x < Suc k" using errs(3) by auto
    moreover have "added w cs w2" using added_trans[OF cs(1) that] by simp
    ultimately show ?thesis
      using errs cs(2,3) imported_error[OF errs(3)] by (auto simp: accounts_for_def sorted_wrt_append)
  qed
  show ?thesis
  proof (cases "csv (Suc k)")
    case (CsvRecord rec)
    obtain r where run: "run (Create_contact E (row_input t col rec)) w1 = (r, w2)"
      and res': "res' = (case r of Inl e \<Rightarrow> res\<lparr>br_Errors := br_Errors res @ [(Suc k, CreateFailed e)]\<rparr> | Inr _ \<Rightarrow> res\<lparr>br_Created := Suc (br_Created res)\<rparr>)"
      using assms(3) CsvRecord by (auto simp: import_row_def split: prod.splits sum.splits)
    have "w_faults w1 = []" using cs(1) by (simp add: added_def)
    then obtain new where new: "added w1 new w2" "case r of Inl _ \<Rightarrow> new = [] | Inr _ \<Rightarrow> list_all2 made_from [row_input t col rec] new"
      using Create_contact_adds[OF _ run] by blast
    show ?thesis
    proof (cases r)
      case (Inl e)
      then show ?thesis using failed[of "CreateFailed e"] new res' by simp
    next
      case (Inr v)
      then have "list_all2 made_from (imported t col csv (br_Errors res) (Suc k)) (cs @ new)" "length (cs @ new) = Suc (br_Created res)"
        using cs(2,3) new(2) imported_record[where csv = csv, OF errs(3) CsvRecord] by (auto intro: list_all2_appendI dest: list_all2_lengthD)
      moreover have "added w (cs @ new) w2" by (rule added_trans[OF cs(1) new(1)])
      ultimately show ?thesis using errs Inr res' by (auto simp: accounts_for_def)
    qed
  next
    case (CsvError e)
    then have "w2 = w1" "res' = res\<lparr>br_Errors := br_Errors res @ [(Suc k, MalformedCSV e)]\<rparr>" using assms(3) by (simp_all add: import_row_def)
    moreover have "added w1 [] w1" using cs(1) by (simp add: added_def)
    ultimately show ?thesis using failed by simp
  qed (use assms(2) in simp)
qed

lemma import_rows_step:
  "import_rows E t col csv k res w =
     (if csv (Suc k) = CsvEOF then Some (res\<lparr>br_Skipped := length (br_Errors res)\<rparr>, w)
      else case import_row E t col (Suc k) (csv (Suc k)) res w of (res', w') \<Rightarrow> import_rows E t col csv (Suc k) res' w')"
  by (subst import_rows.simps) (rule refl)

lemma import_rows_ends:
  assumes "csv (Suc n) = CsvEOF" and "\<forall>i<n. csv (Suc i) \<noteq> CsvEOF" and "accounts_for t col csv w k res w1" and "k \<le> n"
  shows "\<exists>res' w2. import_rows E t col csv k res w1 = Some (res'\<lparr>br_Skipped := length (br_Errors res')\<rparr>, w2) \<and> accounts_for t col csv w n res' w2"
  using assms(3,4)
proof (induction "n - k" arbitrary: k res w1)
  case 0
  then have "k = n" by simp
  then show ?case using 0 assms(1) import_rows_step[of E t col csv n res w1] by (intro exI[of _ res] exI[of _ w1]) simp
next
  case (Suc m)
  then have "k < n" by simp
  then have more: "csv (Suc k) \<noteq> CsvEOF" using assms(2) by simp
  obtain res' w2 where row: "import_row E t col (Suc k) (csv (Suc k)) res w1 = (res', w2)" by (cases "import_row E t col (Suc k) (csv (Suc k)) res w1")
  have "accounts_for t col csv w (Suc k) res' w2" by (rule import_row_accounts[OF Suc.prems(1) more row])
  then show ?case
    using Suc.hyps(1)[of "Suc k" res' w2] Suc.hyps(2) \<open>k < n\<close> more row by (simp add: import_rows_step[of E t col csv k])
qed

lemma import_rows_needs_end:
  assumes "import_rows E t col csv k res w = Some r"
  shows "\<exists>n. csv (Suc n) = CsvEOF"
  by (rule import_rows.raw_induct[of "\<lambda>E t col csv k res w r. \<exists>n. csv (Suc n) = CsvEOF", OF _ assms]) (auto split: if_splits prod.splits)

text \<open>
  C36. Over a connection that does not fail, a bulk import ends exactly when its file does, and then says what became of every row: rows made and rows in error
  add up to the rows of the file, the errors name distinct rows in order, and the database has gained, after the contacts it had,
  one contact for each row not in error, made of that row's cells, in the order of the rows, and nothing else.
\<close>

theorem bulk_import_accounts:
  assumes "w_faults w = []" and "csv 0 = CsvRecord header"
    and "columns (e_uni E) header 0 (str ''short_id'') \<noteq> None" and "columns (e_uni E) header 0 (str ''display_name'') \<noteq> None"
  shows "(BulkImport E t csv w \<noteq> None \<longleftrightarrow> (\<exists>n. csv (Suc n) = CsvEOF)) \<and>
    (\<forall>n. csv (Suc n) = CsvEOF \<and> (\<forall>i<n. csv (Suc i) \<noteq> CsvEOF) \<longrightarrow>
      (\<exists>res cs w'. BulkImport E t csv w = Some (Inr res, w') \<and> br_Created res + length (br_Errors res) = n \<and>
        br_Skipped res = length (br_Errors res) \<and> sorted_wrt (<) (map fst (br_Errors res)) \<and> fst ` set (br_Errors res) \<subseteq> {1..n} \<and>
        w_db w' = (w_db w)\<lparr>contacts := contacts (w_db w) @ cs\<rparr> \<and> length cs = br_Created res \<and>
        list_all2 made_from (imported t (columns (e_uni E) header 0) csv (br_Errors res) n) cs))"
proof
  let ?col = "columns (e_uni E) header 0"
  let ?start = "\<lparr>br_Created = 0, br_Skipped = 0, br_Errors = []\<rparr>"
  have import_eq: "BulkImport E t csv w = map_option (\<lambda>(res, w'). (Inr res, w')) (import_rows E t ?col csv 0 ?start w)"
    using assms(2-4) by (auto simp: BulkImport_def Let_def)
  have start: "accounts_for t ?col csv w 0 ?start w" using assms(1) by (simp add: accounts_for_def imported_def added_def)
  have ends: "\<exists>res w'. BulkImport E t csv w = Some (Inr (res\<lparr>br_Skipped := length (br_Errors res)\<rparr>), w') \<and> accounts_for t ?col csv w n res w'"
    if "csv (Suc n) = CsvEOF" "\<forall>i<n. csv (Suc i) \<noteq> CsvEOF" for n
    using import_rows_ends[OF that start] import_eq by auto
  have "BulkImport E t csv w \<noteq> None" if "csv (Suc n) = CsvEOF" for n
  proof -
    let ?m = "LEAST n. csv (Suc n) = CsvEOF"
    have "csv (Suc ?m) = CsvEOF" by (rule LeastI[of "\<lambda>n. csv (Suc n) = CsvEOF", OF that])
    moreover have "\<forall>i<?m. csv (Suc i) \<noteq> CsvEOF" using not_less_Least by blast
    ultimately show ?thesis using ends by blast
  qed
  moreover have "\<exists>n. csv (Suc n) = CsvEOF" if "BulkImport E t csv w \<noteq> None"
    using that import_eq import_rows_needs_end[of E t ?col csv 0 ?start w] by auto
  ultimately show "BulkImport E t csv w \<noteq> None \<longleftrightarrow> (\<exists>n. csv (Suc n) = CsvEOF)" by blast
  show "\<forall>n. csv (Suc n) = CsvEOF \<and> (\<forall>i<n. csv (Suc i) \<noteq> CsvEOF) \<longrightarrow>
      (\<exists>res cs w'. BulkImport E t csv w = Some (Inr res, w') \<and> br_Created res + length (br_Errors res) = n \<and>
        br_Skipped res = length (br_Errors res) \<and> sorted_wrt (<) (map fst (br_Errors res)) \<and> fst ` set (br_Errors res) \<subseteq> {1..n} \<and>
        w_db w' = (w_db w)\<lparr>contacts := contacts (w_db w) @ cs\<rparr> \<and> length cs = br_Created res \<and>
        list_all2 made_from (imported t ?col csv (br_Errors res) n) cs)"
  proof (intro allI impI)
    fix n assume "csv (Suc n) = CsvEOF \<and> (\<forall>i<n. csv (Suc i) \<noteq> CsvEOF)"
    then obtain res w' where r: "BulkImport E t csv w = Some (Inr (res\<lparr>br_Skipped := length (br_Errors res)\<rparr>), w')"
      and a: "accounts_for t ?col csv w n res w'" using ends by blast
    from a obtain cs where "added w cs w'" "length cs = br_Created res" "list_all2 made_from (imported t ?col csv (br_Errors res) n) cs"
      by (auto simp: accounts_for_def)
    then show "\<exists>res cs w'. BulkImport E t csv w = Some (Inr res, w') \<and> br_Created res + length (br_Errors res) = n \<and>
        br_Skipped res = length (br_Errors res) \<and> sorted_wrt (<) (map fst (br_Errors res)) \<and> fst ` set (br_Errors res) \<subseteq> {1..n} \<and>
        w_db w' = (w_db w)\<lparr>contacts := contacts (w_db w) @ cs\<rparr> \<and> length cs = br_Created res \<and>
        list_all2 made_from (imported t ?col csv (br_Errors res) n) cs"
      using a r by (intro exI[of _ "res\<lparr>br_Skipped := length (br_Errors res)\<rparr>"] exI[of _ cs] exI[of _ w'])
        (simp add: accounts_for_def added_def)
  qed
qed

text \<open>A file of two rows, the second without a short id.\<close>

definition demo_file :: csv_file where
  "demo_file i = (if i = 0 then CsvRecord [str ''short_id'', str ''display_name''] else if i = 1 then CsvRecord [str ''r1'', str ''Ann'']
     else if i = 2 then CsvRecord [[], str ''Bob''] else CsvEOF)"

theorem bulk_import_witness:
  "\<exists>res w'. BulkImport demo_env 1 demo_file (fresh_world empty_db []) = Some (Inr res, w') \<and> br_Created res + length (br_Errors res) = 2"
proof -
  have "TrimSpace (str ''short_id'') = str ''short_id''" "TrimSpace (str ''display_name'') = str ''display_name''"
    by (rule TrimSpace_id; simp add: str_def IsSpace_def)+
  then have names: "ToLower ascii_only (TrimSpace (str ''short_id'')) = str ''short_id''"
      "ToLower ascii_only (TrimSpace (str ''display_name'')) = str ''display_name''"
    by (simp_all add: ToLower_def str_def lower_rune_def ascii_upper_letter_def)
  have col: "columns (e_uni demo_env) [str ''short_id'', str ''display_name''] 0 (str ''short_id'') \<noteq> None"
      "columns (e_uni demo_env) [str ''short_id'', str ''display_name''] 0 (str ''display_name'') \<noteq> None"
    using names by (simp_all add: demo_env_def)
  have "w_faults (fresh_world empty_db []) = []" "demo_file 0 = CsvRecord [str ''short_id'', str ''display_name'']"
    "demo_file (Suc 2) = CsvEOF" "\<forall>i<2. demo_file (Suc i) \<noteq> CsvEOF"
    by (auto simp: fresh_world_def demo_file_def numeral_2_eq_2 less_Suc_eq)
  note f = this
  from bulk_import_accounts[where csv = demo_file and E = demo_env and t = 1, OF f(1,2) col, THEN conjunct2, THEN spec, of 2] f(3,4)
  obtain res w' where "BulkImport demo_env 1 demo_file (fresh_world empty_db []) = Some (Inr res, w')" "br_Created res + length (br_Errors res) = 2"
    by (elim impE) auto
  then show ?thesis by blast
qed

end
