(* ===== verification/Metrics.thy ===== *)
theory Metrics
  imports Relay "HOL-Library.List_Lexorder"
begin

text \<open>
  What the webhook service has for those who run it: the metric lines of \<open>internal/observability\<close>, in CloudWatch's
  embedded metric format, and \<open>cmd/fakechannels\<close>, the stub that stands for the channels service in local runs.
\<close>

section \<open>Metric lines\<close>

text \<open>An emitter has a namespace; the lines it has written are kept beside it.\<close>

record Emitter =
  em_namespace :: gostring
  em_lines :: "json list"

definition NewEmitter :: "gostring \<Rightarrow> Emitter" where
  "NewEmitter namespace = \<lparr>em_namespace = namespace, em_lines = []\<rparr>"

text \<open>The dimensions are a map; \<open>dimension_keys\<close> are its keys in order.\<close>

type_synonym dimensions = "(gostring \<times> gostring) list"

definition dimension_keys :: "dimensions \<Rightarrow> gostring list" where
  "dimension_keys dims = sort (remdups (map fst dims))"

definition aws_member :: "gostring \<Rightarrow> time \<Rightarrow> gostring \<Rightarrow> string \<Rightarrow> dimensions \<Rightarrow> json" where
  "aws_member namespace t name unit dims = JObj [
     (str ''Timestamp'', JNum (of_int (t div 1000))),
     (str ''CloudWatchMetrics'', JArr [JObj [
        (str ''Namespace'', JStr namespace),
        (str ''Dimensions'', JArr [JArr (map JStr (dimension_keys dims))]),
        (str ''Metrics'', JArr [JObj [(str ''Name'', JStr name), (str ''Unit'', JStr (str unit))]])]])]"

text \<open>The document as the map it is built as: the dimensions are put in last.\<close>

definition metric_doc :: "gostring \<Rightarrow> time \<Rightarrow> gostring \<Rightarrow> rat \<Rightarrow> string \<Rightarrow> dimensions \<Rightarrow> gostring \<rightharpoonup> json" where
  "metric_doc namespace t name v unit dims =
     [str ''_aws'' \<mapsto> aws_member namespace t name unit dims, name \<mapsto> JNum v] ++ (\<lambda>k. map_option JStr (map_of dims k))"

text \<open>\<open>json.Encoder\<close> writes the members of a map in the order of their keys, and nothing when a number is not finite.\<close>

definition encode_map :: "gostring list \<Rightarrow> (gostring \<rightharpoonup> json) \<Rightarrow> json option" where
  "encode_map keys doc =
     (if list_all (\<lambda>k. case doc k of Some (JNum x) \<Rightarrow> finite_float x | _ \<Rightarrow> True) keys
      then Some (JObj (List.map_filter (\<lambda>k. map_option (Pair k) (doc k)) (sort (remdups keys)))) else None)"

definition emit :: "time \<Rightarrow> gostring \<Rightarrow> rat \<Rightarrow> string \<Rightarrow> dimensions \<Rightarrow> Emitter \<Rightarrow> Emitter" where
  "emit t name v unit dims e =
     (case encode_map (str ''_aws'' # name # dimension_keys dims) (metric_doc (em_namespace e) t name v unit dims) of
        None \<Rightarrow> e
      | Some line \<Rightarrow> e\<lparr>em_lines := em_lines e @ [line]\<rparr>)"

definition Count :: "time \<Rightarrow> gostring \<Rightarrow> rat \<Rightarrow> dimensions \<Rightarrow> Emitter \<Rightarrow> Emitter" where
  "Count t name v dims e = emit t name v ''Count'' dims e"

definition Milliseconds :: "time \<Rightarrow> gostring \<Rightarrow> rat \<Rightarrow> dimensions \<Rightarrow> Emitter \<Rightarrow> Emitter" where
  "Milliseconds t name v dims e = emit t name v ''Milliseconds'' dims e"

lemma dimension_keys_set [simp]: "set (dimension_keys dims) = fst ` set dims"
  by (simp add: dimension_keys_def)

lemma dimension_keys_sorted: "sorted (dimension_keys dims) \<and> distinct (dimension_keys dims)"
  by (simp add: dimension_keys_def)

text \<open>The members of an encoded map, in order and each once, are those of the map.\<close>

lemma encode_map_members:
  assumes "encode_map keys doc = Some (JObj kvs)" and "dom doc \<subseteq> set keys"
  shows "map_of kvs = doc" "sorted (map fst kvs)" "distinct (map fst kvs)"
proof -
  have kvs: "kvs = List.map_filter (\<lambda>k. map_option (Pair k) (doc k)) (sort (remdups keys))"
    using assms(1) by (auto simp: encode_map_def split: if_splits)
  have sub: "map fst (List.map_filter (\<lambda>k. map_option (Pair k) (doc k)) ks) = filter (\<lambda>k. k \<in> dom doc) ks" for ks
    by (induction ks) (auto simp: List.map_filter_simps split: option.splits)
  then show "sorted (map fst kvs)" "distinct (map fst kvs)" by (simp_all add: kvs sorted_filter[where f = id, simplified])
  have "map_of (List.map_filter (\<lambda>k. map_option (Pair k) (doc k)) ks) k = (if k \<in> set ks then doc k else None)" for ks k
    by (induction ks) (auto simp: List.map_filter_simps split: option.splits)
  then have "map_of kvs k = (if k \<in> set keys then doc k else None)" for k by (simp add: kvs)
  moreover have "doc k = None" if "k \<notin> set keys" for k using assms(2) that by (metis domIff in_mono)
  ultimately show "map_of kvs = doc" by (auto simp: fun_eq_iff)
qed

lemma metric_doc_dom: "dom (metric_doc ns t name v unit dims) = {str ''_aws'', name} \<union> fst ` set dims"
proof -
  have "dom (\<lambda>k. map_option JStr (map_of dims k)) = fst ` set dims" by (auto simp: dom_def dom_map_of_conv_image_fst[symmetric])
  then show ?thesis by (auto simp: metric_doc_def)
qed

text \<open>
  What CloudWatch asks of a line: when the metric is not named like a dimension and neither like the reserved member, a
  finite value is written as one line that has it under the metric's name, the value of every dimension it lists under the
  dimension's name, and the directive that names them.
\<close>

lemma emit_writes_metric:
  assumes "finite_float v" and "name \<noteq> str ''_aws''" and "name \<notin> fst ` set dims" and "str ''_aws'' \<notin> fst ` set dims"
  shows "\<exists>kvs. em_lines (emit t name v unit dims e) = em_lines e @ [JObj kvs] \<and> sorted (map fst kvs) \<and> distinct (map fst kvs) \<and>
    map_of kvs name = Some (JNum v) \<and> map_of kvs (str ''_aws'') = Some (aws_member (em_namespace e) t name unit dims) \<and>
    (\<forall>k\<in>set (dimension_keys dims). map_of kvs k = map_option JStr (map_of dims k))"
proof -
  define keys where "keys = str ''_aws'' # name # dimension_keys dims"
  define doc where "doc = metric_doc (em_namespace e) t name v unit dims"
  have "map_of dims name = None" "map_of dims (str ''_aws'') = None" using assms(3,4) by (simp_all add: map_of_eq_None_iff)
  then have at: "doc name = Some (JNum v)" "doc (str ''_aws'') = Some (aws_member (em_namespace e) t name unit dims)"
    using assms(2) by (simp_all add: doc_def metric_doc_def map_add_def)
  have dim: "doc k = map_option JStr (map_of dims k)" if k: "k \<in> fst ` set dims" for k
  proof -
    obtain d where "map_of dims k = Some d" using k by (metis map_of_eq_None_iff option.exhaust)
    then show ?thesis by (simp add: doc_def metric_doc_def)
  qed
  have "list_all (\<lambda>k. case doc k of Some (JNum x) \<Rightarrow> finite_float x | _ \<Rightarrow> True) keys"
    using at dim assms(1) by (auto simp: keys_def list_all_iff aws_member_def split: option.splits json.splits)
  then obtain kvs where line: "encode_map keys doc = Some (JObj kvs)" by (auto simp: encode_map_def)
  have "dom doc \<subseteq> set keys" by (simp add: doc_def keys_def metric_doc_dom)
  note members = encode_map_members[OF line this]
  have "em_lines (emit t name v unit dims e) = em_lines e @ [JObj kvs]"
    using line by (simp add: emit_def keys_def doc_def)
  then show ?thesis using members at dim by auto
qed

text \<open>A dimension named like the metric takes its place: the number is in no member of the line.\<close>

lemma emit_dimension_hides_metric:
  assumes "name \<in> fst ` set dims"
  shows "\<exists>kvs. em_lines (emit t name v unit dims e) = em_lines e @ [JObj kvs] \<and> (\<forall>(k, j)\<in>set kvs. \<forall>x. j \<noteq> JNum x)"
proof -
  define keys where "keys = str ''_aws'' # name # dimension_keys dims"
  define doc where "doc = metric_doc (em_namespace e) t name v unit dims"
  obtain d where "map_of dims name = Some d" using assms by (metis map_of_eq_None_iff option.exhaust)
  then have num: "doc k \<noteq> Some (JNum x)" for k x
    by (cases "map_of dims k") (simp_all add: doc_def metric_doc_def map_add_def aws_member_def, metis option.distinct(1))
  then have "list_all (\<lambda>k. case doc k of Some (JNum x) \<Rightarrow> finite_float x | _ \<Rightarrow> True) keys"
    by (auto simp: list_all_iff split: option.splits json.splits)
  then obtain kvs where line: "encode_map keys doc = Some (JObj kvs)" by (auto simp: encode_map_def)
  have "dom doc \<subseteq> set keys" by (simp add: doc_def keys_def metric_doc_dom)
  note members = encode_map_members[OF line this]
  have "em_lines (emit t name v unit dims e) = em_lines e @ [JObj kvs]"
    using line by (simp add: emit_def keys_def doc_def)
  moreover have "\<forall>(k, j)\<in>set kvs. \<forall>x. j \<noteq> JNum x"
  proof (clarify)
    fix k x
    assume "(k, JNum x) \<in> set kvs"
    then have "doc k = Some (JNum x)" using map_of_is_SomeI[OF members(3)] members(1) by metis
    then show False using num by blast
  qed
  ultimately show ?thesis by blast
qed

section \<open>The stub of the channels service\<close>

record stub_request =
  fq_method :: gostring
  fq_path :: "gostring list"
  fq_type :: gostring
  fq_identifier :: gostring
  fq_key :: gostring
  fq_auth :: gostring
  fq_body :: gostring

text \<open>What it logs of a request: of the credentials only whether there are any.\<close>

datatype stub_line = LookupLine gostring gostring | InboundLine gostring "gostring list" gostring bool gostring

definition fakechannels :: "stub_request \<Rightarrow> net_reply \<times> stub_line list" where
  "fakechannels rq =
     (if fq_path rq = [str ''healthz''] then (Reply 200 (str ''{\"status\":\"ok\"}''), [])
      else if fq_path rq = [str ''v1'', str ''accounts'', str ''lookup''] then
        (Reply 200 (str ''{\"account_id\":\"acc_local\",\"tenant_id\":\"t_local\"}''), [LookupLine (fq_type rq) (fq_identifier rq)])
      else (Reply 201 (str ''{\"status\":\"created\"}''), [InboundLine (fq_method rq) (fq_path rq) (fq_key rq) (fq_auth rq \<noteq> []) (fq_body rq)]))"

lemma fakechannels_hides_token:
  "fq_auth rq \<noteq> [] \<Longrightarrow> secret \<noteq> [] \<Longrightarrow> fakechannels (rq\<lparr>fq_auth := secret\<rparr>) = fakechannels rq"
  by (simp add: fakechannels_def)

text \<open>Against the stub every publish whose request can be built and is answered in time succeeds.\<close>

lemma stub_takes_messages:
  assumes "ingest_request W p m = Some rq" and "fq_path frq = [str ''v1'', str ''ingest'']"
    and "rc_net s = (t, fst (fakechannels frq)) # net" and "t < seconds 15"
  shows "fst (run (Publish W p m) s) = None"
  using assms by (simp add: Publish_def exchange_def fakechannels_def classify_None Let_def)

end
