(* ===== verification/Lifecycle.thy ===== *)
theory Lifecycle
  imports Hub Start_Up
begin

text \<open>
  How the two services run and end: the log lines of \<open>newLogger\<close>, the middleware of \<open>internal/httpapi\<close> with its recovery
  from panics, and the part of both \<open>cmd/server/main.go\<close> from the moment they serve until their process has ended.
\<close>

section \<open>Log lines\<close>

datatype log_level = LevelDebug | LevelInfo | LevelWarn | LevelError

primrec level_number :: "log_level \<Rightarrow> int" where
  "level_number LevelDebug = - 4"
| "level_number LevelInfo = 0"
| "level_number LevelWarn = 4"
| "level_number LevelError = 8"

primrec level_name :: "log_level \<Rightarrow> string" where
  "level_name LevelDebug = ''DEBUG''"
| "level_name LevelInfo = ''INFO''"
| "level_name LevelWarn = ''WARN''"
| "level_name LevelError = ''ERROR''"

type_synonym log_attrs = "(string \<times> log_value) list"

record logger =
  lg_level :: log_level
  lg_base :: log_attrs

definition level_of :: "gostring \<Rightarrow> log_level" where
  "level_of level =
     (if level = str ''debug'' \<or> level = str ''DEBUG'' then LevelDebug
      else if level = str ''warn'' \<or> level = str ''WARN'' then LevelWarn
      else if level = str ''error'' \<or> level = str ''ERROR'' then LevelError
      else LevelInfo)"

definition channels_newLogger :: "gostring \<Rightarrow> gostring \<Rightarrow> logger" where
  "channels_newLogger level env =
     \<lparr>lg_level = level_of level, lg_base = [(''service'', LogText (str ''comms-channels'')), (''env'', LogText env)]\<rparr>"

definition webhook_newLogger :: "gostring \<Rightarrow> gostring \<Rightarrow> logger" where
  "webhook_newLogger level env =
     \<lparr>lg_level = level_of level, lg_base = [(''service'', LogText (str ''comms-webhook'')), (''env'', LogText env)]\<rparr>"

text \<open>The key of the time and of the message are renamed, wherever they occur.\<close>

definition ReplaceAttr :: "string \<Rightarrow> string" where
  "ReplaceAttr key = (if key = ''time'' then ''ts'' else if key = ''msg'' then ''message'' else key)"

text \<open>What is logged: a line below the level of the logger is not written.\<close>

record log_event =
  le_level :: log_level
  le_message :: string
  le_attrs :: log_attrs

definition log_line :: "logger \<Rightarrow> gostring \<Rightarrow> log_event \<Rightarrow> log_attrs option" where
  "log_line lg ts e =
     (if level_number (le_level e) < level_number (lg_level lg) then None
      else Some (map (\<lambda>(k, v). (ReplaceAttr k, v))
        ([(''time'', LogText ts), (''level'', LogText (str (level_name (le_level e)))), (''msg'', LogText (str (le_message e)))] @
         lg_base lg @ le_attrs e)))"

section \<open>Responses as they are written\<close>

text \<open>
  A response under way: the headers so far, the status with the headers that were sent with it, the pieces of the body,
  and what was logged meanwhile. Once the status has been sent a further one is ignored.
\<close>

record conversation =
  cv_header :: "string \<rightharpoonup> gostring"
  cv_sent :: "(nat \<times> (string \<rightharpoonup> gostring)) option"
  cv_body :: "response_body list"
  cv_log :: "log_event list"

definition new_conversation :: conversation where
  "new_conversation = \<lparr>cv_header = Map.empty, cv_sent = None, cv_body = [], cv_log = []\<rparr>"

definition set_header :: "string \<Rightarrow> gostring \<Rightarrow> conversation \<Rightarrow> conversation" where
  "set_header k v cv = cv\<lparr>cv_header := (cv_header cv)(k \<mapsto> v)\<rparr>"

definition WriteHeader :: "nat \<Rightarrow> conversation \<Rightarrow> conversation" where
  "WriteHeader status cv = (if cv_sent cv = None then cv\<lparr>cv_sent := Some (status, cv_header cv)\<rparr> else cv)"

definition write_body :: "response_body \<Rightarrow> conversation \<Rightarrow> conversation" where
  "write_body b cv = cv\<lparr>cv_body := cv_body cv @ [b]\<rparr>"

definition write_log :: "log_event \<Rightarrow> conversation \<Rightarrow> conversation" where
  "write_log e cv = cv\<lparr>cv_log := cv_log cv @ [e]\<rparr>"

definition writeJSON :: "nat \<Rightarrow> json \<Rightarrow> conversation \<Rightarrow> conversation" where
  "writeJSON status j cv = write_body (JsonLines [j]) (WriteHeader status (set_header ''Content-Type'' (str ''application/json'') cv))"

section \<open>Middleware\<close>

text \<open>
  A handler gets the request id in the context of the request, if there is one, and the request; it returns or panics,
  and may not return at all (\<open>None\<close>).
\<close>

datatype outcome = Returned | Panicked gostring

type_synonym ('r, 's) http_handler = "gostring option \<Rightarrow> 'r \<Rightarrow> conversation \<Rightarrow> 's \<Rightarrow> (outcome \<times> conversation \<times> 's) option"

definition RequestIDFromContext :: "gostring option \<Rightarrow> gostring" where
  "RequestIDFromContext ctx = (case ctx of Some i \<Rightarrow> i | None \<Rightarrow> [])"

definition path_text :: "gostring list \<Rightarrow> gostring" where
  "path_text path = concat (map (\<lambda>s. str ''/'' @ s) path)"

definition channels_WithRecover :: "(server_request, 's) http_handler \<Rightarrow> (server_request, 's) http_handler" where
  "channels_WithRecover nxt ctx rq cv s = map_option (\<lambda>(out, cv, s). case out of
     Returned \<Rightarrow> (Returned, cv, s)
   | Panicked rec \<Rightarrow> (Returned, writeJSON 500 (error_json ''internal_error'') (write_log
       \<lparr>le_level = LevelError, le_message = ''recovered from panic'', le_attrs = [(''event'', LogText (str ''http.panic'')),
         (''request_id'', LogText (RequestIDFromContext ctx)), (''panic'', LogText rec),
         (''method'', LogText (sr_method rq)), (''path'', LogText (path_text (sr_path rq)))]\<rparr> cv), s)) (nxt ctx rq cv s)"

definition webhook_WithRecover :: "(inbound, 's) http_handler \<Rightarrow> (inbound, 's) http_handler" where
  "webhook_WithRecover nxt ctx rq cv s = map_option (\<lambda>(out, cv, s). case out of
     Returned \<Rightarrow> (Returned, cv, s)
   | Panicked rec \<Rightarrow> (Returned, writeJSON 500 (JObj [(str ''status'', JStr (str ''internal_error''))]) (write_log
       \<lparr>le_level = LevelError, le_message = ''panic recovered'', le_attrs = [(''event'', LogText (str ''http.panic'')),
         (''request_id'', LogText (RequestIDFromContext ctx)), (''method'', LogText (ib_method rq)),
         (''path'', LogText (path_text (ib_path rq))), (''panic'', LogText rec)]\<rparr> cv), s)) (nxt ctx rq cv s)"

text \<open>The request id goes into the context of the request that is passed on, and into the response.\<close>

definition channels_WithRequestID :: "server_config \<Rightarrow> (server_request, server) http_handler \<Rightarrow> (server_request, server) http_handler" where
  "channels_WithRequestID C nxt ctx rq cv s =
     (let (i, s) = (if sr_request_id rq = [] then (newRequestID (sc_random C (sv_minted s)), s\<lparr>sv_minted := Suc (sv_minted s)\<rparr>)
        else (sr_request_id rq, s))
      in nxt (Some i) rq (set_header ''X-Request-Id'' i cv) s)"

definition webhook_WithRequestID :: "gostring \<Rightarrow> (inbound, 's) http_handler \<Rightarrow> (inbound, 's) http_handler" where
  "webhook_WithRequestID minted nxt ctx rq cv s =
     (let i = WithRequestID minted rq in nxt (Some i) (rq\<lparr>ib_request_id := i\<rparr>) (set_header ''X-Request-Id'' i cv) s)"

definition channels_Routes :: "server_config \<Rightarrow> (server_request, server) http_handler \<Rightarrow> (server_request, server) http_handler" where
  "channels_Routes C mux = channels_WithRecover (channels_WithRequestID C mux)"

definition webhook_Routes :: "gostring \<Rightarrow> (inbound, 's) http_handler \<Rightarrow> (inbound, 's) http_handler" where
  "webhook_Routes minted mux = webhook_WithRecover (webhook_WithRequestID minted mux)"

section \<open>Readiness\<close>

definition MarkReady :: "server \<Rightarrow> server" where
  "MarkReady s = s\<lparr>sv_ready := True\<rparr>"

definition MarkNotReady :: "server \<Rightarrow> server" where
  "MarkNotReady s = s\<lparr>sv_ready := False\<rparr>"

text \<open>A new server is not ready; the rest of its state is what \<open>main\<close> connects it to.\<close>

definition NewServer :: "world \<Rightarrow> server" where
  "NewServer w = \<lparr>sv_world = w, sv_running = {}, sv_ready = False, sv_minted = 0\<rparr>"

section \<open>The process of the channels service\<close>

text \<open>
  Listening; the shutdown of the HTTP server under way; waiting for the background tasks; and ended, with a status.
\<close>

datatype phase = Listening | ShuttingDown | Waiting | Finished nat

text \<open>
  The requests that arrived in all, those among them whose handler has not returned, those that were answered, and
  whether the shutdown gave up waiting for handlers.
\<close>

record process =
  pr_phase :: phase
  pr_server :: server
  pr_arrived :: "server_request list"
  pr_pending :: "server_request list"
  pr_answered :: "(server_request \<times> server_response) list"
  pr_timed_out :: bool

definition serving :: "server \<Rightarrow> process" where
  "serving s = \<lparr>pr_phase = Listening, pr_server = MarkReady s, pr_arrived = [], pr_pending = [], pr_answered = [], pr_timed_out = False\<rparr>"

definition ended :: "phase \<Rightarrow> bool" where
  "ended ph = (case ph of Finished _ \<Rightarrow> True | _ \<Rightarrow> False)"

text \<open>
  A request arrives while the server listens; a handler answers its request; a background task runs; a signal, or a
  listener that fails, cancels the root context, which lowers the readiness and closes the listener; the shutdown of the HTTP server ends when no handler is left, or
  when its time is over; the process ends once no background task is left.
\<close>

inductive process_step :: "server_config \<Rightarrow> process \<Rightarrow> process \<Rightarrow> bool" for C where
  Arrive: "pr_phase p = Listening \<Longrightarrow> process_step C p (p\<lparr>pr_arrived := pr_arrived p @ [rq], pr_pending := pr_pending p @ [rq]\<rparr>)"
| Answer: "\<not> ended (pr_phase p) \<Longrightarrow> k < length (pr_pending p) \<Longrightarrow> serve C (pr_pending p ! k) (pr_server p) = Some (resp, s) \<Longrightarrow>
    process_step C p (p\<lparr>pr_server := s, pr_pending := remove_nth k (pr_pending p),
      pr_answered := pr_answered p @ [(pr_pending p ! k, resp)]\<rparr>)"
| Background: "\<not> ended (pr_phase p) \<Longrightarrow> k < length (w_tasks (sv_world (pr_server p))) \<Longrightarrow>
    run (run_task (sc_env C) main_deps (hub_registry (sc_env C)) (w_tasks (sv_world (pr_server p)) ! k))
      (drop_task k (sv_world (pr_server p))) = ((), w) \<Longrightarrow>
    process_step C p (p\<lparr>pr_server := (pr_server p)\<lparr>sv_world := w\<rparr>\<rparr>)"
| Cancelled: "pr_phase p = Listening \<Longrightarrow>
    process_step C p (p\<lparr>pr_phase := ShuttingDown, pr_server := MarkNotReady (pr_server p)\<rparr>)"
| ShutDown: "pr_phase p = ShuttingDown \<Longrightarrow> pr_pending p = [] \<Longrightarrow> process_step C p (p\<lparr>pr_phase := Waiting\<rparr>)"
| TimedOut: "pr_phase p = ShuttingDown \<Longrightarrow> process_step C p (p\<lparr>pr_phase := Waiting, pr_timed_out := True\<rparr>)"
| Waited: "pr_phase p = Waiting \<Longrightarrow> w_tasks (sv_world (pr_server p)) = [] \<Longrightarrow> process_step C p (p\<lparr>pr_phase := Finished 0\<rparr>)"

text \<open>The clock, the network and the database connection move on their own.\<close>

definition elsewhere :: "process \<Rightarrow> process \<Rightarrow> bool" where
  "elsewhere p p' \<longleftrightarrow> (\<exists>t net faults. p' = p\<lparr>pr_server := (pr_server p)\<lparr>sv_world :=
     (sv_world (pr_server p))\<lparr>w_now := t, w_net := net, w_faults := faults\<rparr>\<rparr>\<rparr>)"

inductive process_reachable :: "server_config \<Rightarrow> process \<Rightarrow> process \<Rightarrow> bool" for C where
  Here: "process_reachable C p p"
| Step: "process_reachable C p p' \<Longrightarrow> process_step C p' p'' \<Longrightarrow> process_reachable C p p''"
| Elsewhere: "process_reachable C p p' \<Longrightarrow> elsewhere p' p'' \<Longrightarrow> process_reachable C p p''"

text \<open>A step with whatever happened outside before it.\<close>

definition moves :: "server_config \<Rightarrow> process \<Rightarrow> process \<Rightarrow> bool" where
  "moves C p p' \<longleftrightarrow> (\<exists>q. elsewhere p q \<and> process_step C q p')"

section \<open>The process of the webhook service\<close>

text \<open>
  The worker's loop checks the context before it receives; \<open>wp_receiving\<close> holds from that check until the receive has
  returned. \<open>wp_kept\<close> are the messages of the webhooks that were answered with 200.
\<close>

record ('q, 'h) webhook_process =
  wp_phase :: phase
  wp_failed :: bool
  wp_drain :: "('q, 'h) drain"
  wp_receiving :: bool
  wp_ready :: bool
  wp_pending :: "inbound list"
  wp_kept :: "CanonicalMessage set"

definition webhook_serving :: "'q receiver \<Rightarrow> ('q, 'h) webhook_process" where
  "webhook_serving r = \<lparr>wp_phase = Listening, wp_failed = False, wp_drain = \<lparr>dr_recv = r, dr_waiting = [], dr_running = []\<rparr>,
     wp_receiving = False, wp_ready = True, wp_pending = [], wp_kept = {}\<rparr>"

text \<open>
  A webhook arrives, and its handler answers, under any answers to its account lookup; the worker passes its check,
  receives, or does a piece of the batch it holds, under any answer to what it publishes; a signal comes, or the
  listener fails, which skips the shutdown of the server; the shutdown ends or gives up; the process ends when the
  worker has: with status 1 after a failed listener.
\<close>

inductive webhook_step :: "wenv \<Rightarrow> ('q, 'h) Worker \<Rightarrow> 'q listener list \<Rightarrow> ('q, 'h) webhook_process \<Rightarrow> ('q, 'h) webhook_process \<Rightarrow> bool"
  for W w ls where
  Arrive: "wp_phase p = Listening \<Longrightarrow> webhook_step W w ls p (p\<lparr>wp_pending := wp_pending p @ [rq]\<rparr>)"
| Answer: "\<not> ended (wp_phase p) \<Longrightarrow> k < length (wp_pending p) \<Longrightarrow>
    run (webhook_mux (wk_queue w) ls (wp_ready p) (wp_pending p ! k)) (with_net net (dr_recv (wp_drain p))) = ((st, txt), r) \<Longrightarrow>
    webhook_step W w ls p (p\<lparr>wp_drain := (wp_drain p)\<lparr>dr_recv := r\<rparr>, wp_pending := remove_nth k (wp_pending p),
      wp_kept := wp_kept p \<union> (if st = 200 then parsed_of ls (wp_pending p ! k) (with_net net (dr_recv (wp_drain p))) else {})\<rparr>)"
| Check: "wp_phase p = Listening \<Longrightarrow> \<not> wp_receiving p \<Longrightarrow> \<not> busy (wp_drain p) \<Longrightarrow> webhook_step W w ls p (p\<lparr>wp_receiving := True\<rparr>)"
| Receive: "wp_receiving p \<Longrightarrow> drain_step W w (wp_drain p) d \<Longrightarrow> webhook_step W w ls p (p\<lparr>wp_drain := d, wp_receiving := False\<rparr>)"
| Work: "\<not> wp_receiving p \<Longrightarrow> busy (wp_drain p) \<Longrightarrow>
    drain_step W w ((wp_drain p)\<lparr>dr_recv := with_net net (dr_recv (wp_drain p))\<rparr>) d \<Longrightarrow> webhook_step W w ls p (p\<lparr>wp_drain := d\<rparr>)"
| Signal: "wp_phase p = Listening \<Longrightarrow> webhook_step W w ls p (p\<lparr>wp_phase := ShuttingDown, wp_ready := False\<rparr>)"
| ListenFailed: "wp_phase p = Listening \<Longrightarrow> webhook_step W w ls p (p\<lparr>wp_phase := Waiting, wp_failed := True\<rparr>)"
| ShutDown: "wp_phase p = ShuttingDown \<Longrightarrow> wp_pending p = [] \<or> gave_up \<Longrightarrow> webhook_step W w ls p (p\<lparr>wp_phase := Waiting\<rparr>)"
| Waited: "wp_phase p = Waiting \<Longrightarrow> \<not> wp_receiving p \<Longrightarrow> \<not> busy (wp_drain p) \<Longrightarrow>
    webhook_step W w ls p (p\<lparr>wp_phase := Finished (if wp_failed p then 1 else 0)\<rparr>)"

inductive webhook_reachable :: "wenv \<Rightarrow> ('q, 'h) Worker \<Rightarrow> 'q listener list \<Rightarrow> ('q, 'h) webhook_process \<Rightarrow> ('q, 'h) webhook_process \<Rightarrow> bool"
  for W w ls where
  Here: "webhook_reachable W w ls p p"
| Step: "webhook_reachable W w ls p p' \<Longrightarrow> webhook_step W w ls p' p'' \<Longrightarrow> webhook_reachable W w ls p p''"

section \<open>What happens in any case\<close>

text \<open>Every run from a state comes to a state with \<open>P\<close>, and none gets stuck before.\<close>

inductive inevitably :: "('a \<Rightarrow> 'a \<Rightarrow> bool) \<Rightarrow> ('a \<Rightarrow> bool) \<Rightarrow> 'a \<Rightarrow> bool" for step P where
  Now: "P x \<Longrightarrow> inevitably step P x"
| Later: "\<exists>y. step x y \<Longrightarrow> \<forall>y. step x y \<longrightarrow> inevitably step P y \<Longrightarrow> inevitably step P x"

text \<open>It does when a measure falls with every step and some step is possible until \<open>P\<close> holds, under an invariant.\<close>

lemma inevitably_measure:
  assumes "wf r" and "I x"
    and "\<And>x y. I x \<Longrightarrow> \<not> P x \<Longrightarrow> step x y \<Longrightarrow> I y \<and> (m y, m x) \<in> r"
    and "\<And>x. I x \<Longrightarrow> \<not> P x \<Longrightarrow> \<exists>y. step x y"
  shows "inevitably step P x"
  using assms(1,2)
proof (induction "m x" arbitrary: x rule: wf_induct_rule)
  case less
  show ?case
  proof (cases "P x")
    case False
    then have "inevitably step P y" if "step x y" for y using less.hyps less.prems assms(3) that by blast
    then show ?thesis using inevitably.Later assms(4)[OF less.prems False] by metis
  qed (rule inevitably.Now)
qed

end
