(* ===== verification/Lifecycle_Facts.thy ===== *)
theory Lifecycle_Facts
  imports Lifecycle Hub_Facts Start_Facts
begin

text \<open>
  What the frame around the handlers guarantees: the middleware changes nothing but the request id and keeps a panic
  away from the process, and both processes end by themselves once they are told to, with their work done.
\<close>

section \<open>Log lines\<close>

text \<open>A logger of a lower level writes every line of one of a higher level, and the same.\<close>

lemma log_line_mono:
  assumes "log_line lg ts e = Some l" and "level_number l' \<le> level_number (lg_level lg)"
  shows "log_line (lg\<lparr>lg_level := l'\<rparr>) ts e = Some l"
  using assms by (auto simp: log_line_def split: if_splits)

lemma log_line_head:
  assumes "log_line lg ts e = Some l"
  shows "take 3 l = [(''ts'', LogText ts), (''level'', LogText (str (level_name (le_level e)))), (''message'', LogText (str (le_message e)))]"
  using assms by (auto simp: log_line_def ReplaceAttr_def split: if_splits)

text \<open>Errors are written at every level.\<close>

lemma errors_logged: "le_level e = LevelError \<Longrightarrow> log_line lg ts e \<noteq> None"
  by (cases "lg_level lg") (simp_all add: log_line_def)

section \<open>Middleware\<close>

text \<open>The mux as a handler that writes its answer.\<close>

definition mux_handler :: "server_config \<Rightarrow> (server_request, server) http_handler" where
  "mux_handler C ctx rq cv s = map_option (\<lambda>((st, b), s'). (Returned, write_body b (WriteHeader st cv), s')) (serve_mux C rq s)"

definition written :: "server_response \<Rightarrow> conversation" where
  "written resp = (let h = [''X-Request-Id'' \<mapsto> sp_request_id resp]
     in \<lparr>cv_header = h, cv_sent = Some (sp_status resp, h), cv_body = [sp_body resp], cv_log = []\<rparr>)"

lemmas conversation_defs = new_conversation_def set_header_def WriteHeader_def write_body_def write_log_def writeJSON_def

lemma cv_log_recovered [simp]: "cv_log (writeJSON st j cv) = cv_log cv" "cv_log (write_log e cv) = cv_log cv @ [e]"
  by (simp_all add: conversation_defs)

text \<open>The chain around the mux of the channels service writes what \<open>serve\<close> answers.\<close>

lemma channels_Routes_serve:
  "channels_Routes C (mux_handler C) None rq new_conversation s = map_option (\<lambda>(resp, s'). (Returned, written resp, s')) (serve C rq s)"
  by (auto simp: channels_Routes_def channels_WithRecover_def channels_WithRequestID_def mux_handler_def serve_def Let_def
      written_def conversation_defs option.map_comp intro!: option.map_cong split: prod.splits)

definition status_chunk :: "status \<Rightarrow> response_body" where
  "status_chunk st = (if fst st = 404 then Page (str (snd st)) else JsonLines [JObj [(str ''status'', JStr (str (snd st)))]])"

definition webhook_handler :: "('q, 'h) Queue \<Rightarrow> 'q listener list \<Rightarrow> bool \<Rightarrow> (inbound, 'q receiver) http_handler" where
  "webhook_handler Q ls ready ctx rq cv s = (case run (webhook_mux Q ls ready rq) s of
     (st, s') \<Rightarrow> Some (Returned, write_body (status_chunk st) (WriteHeader (fst st) cv), s'))"

lemma webhook_Routes_serve:
  "webhook_Routes minted (webhook_handler Q ls ready) None rq new_conversation s =
     (case run (webhook_routes Q ls ready minted rq) s of
        ((st, i), s') \<Rightarrow> Some (Returned, written \<lparr>sp_status = fst st, sp_body = status_chunk st, sp_request_id = i\<rparr>, s'))"
  by (auto simp: webhook_Routes_def webhook_WithRecover_def webhook_WithRequestID_def webhook_handler_def webhook_routes_def Let_def
      written_def conversation_defs split: prod.splits)

text \<open>
  A panic never leaves the chain; when nothing has been sent yet the answer is 500, with the request id the handler
  kept in the headers.
\<close>

lemma channels_panic_contained:
  assumes "channels_Routes C mux ctx rq cv s = Some (out, cv', s')"
  shows "out = Returned"
  using assms by (auto simp: channels_Routes_def channels_WithRecover_def split: outcome.splits) (metis outcome.exhaust)

lemma webhook_panic_contained:
  assumes "webhook_Routes minted mux ctx rq cv s = Some (out, cv', s')"
  shows "out = Returned"
  using assms by (auto simp: webhook_Routes_def webhook_WithRecover_def split: outcome.splits) (metis outcome.exhaust)

lemma recovered_answer:
  assumes "cv_sent cv = None"
  shows "\<exists>h. cv_sent (writeJSON 500 j (write_log e cv)) = Some (500, h) \<and> h ''X-Request-Id'' = cv_header cv ''X-Request-Id''"
  using assms by (auto simp: conversation_defs)

text \<open>After the first byte of an answer its status stands, and the error is one more piece of its body.\<close>

lemma recovered_late:
  assumes "cv_sent cv = Some x"
  shows "cv_sent (writeJSON 500 j (write_log e cv)) = Some x" "cv_body (writeJSON 500 j (write_log e cv)) = cv_body cv @ [JsonLines [j]]"
  using assms by (simp_all add: conversation_defs)

text \<open>
  The line that is logged of a panic has no request id: the id is in the context of the request that was passed on,
  and the recovery, outermost in the chain, looks in the one it was given.
\<close>

lemma channels_panic_log_lacks_id:
  assumes "channels_WithRequestID C mux None rq new_conversation s = Some (Panicked rec, cv, s1)"
    and "channels_Routes C mux None rq new_conversation s = Some (out, cv', s')"
  shows "\<exists>e. cv_log cv' = cv_log cv @ [e] \<and> (''request_id'', LogText []) \<in> set (le_attrs e)"
  using assms by (simp add: channels_Routes_def channels_WithRecover_def RequestIDFromContext_def) auto

lemma webhook_panic_log_lacks_id:
  assumes "webhook_WithRequestID minted mux None rq new_conversation s = Some (Panicked rec, cv, s1)"
    and "webhook_Routes minted mux None rq new_conversation s = Some (out, cv', s')"
  shows "\<exists>e. cv_log cv' = cv_log cv @ [e] \<and> (''request_id'', LogText []) \<in> set (le_attrs e)"
  using assms by (simp add: webhook_Routes_def webhook_WithRecover_def RequestIDFromContext_def) auto

section \<open>The process of the channels service\<close>

lemma serve_endpoint_ready: "serve_endpoint C ep vs rq s = Some (a, s') \<Longrightarrow> sv_ready s' = sv_ready s"
  by (cases ep) (auto simp: on_world_def streamed_def split: prod.splits)

lemma serve_ready: "serve C rq s = Some (resp, s') \<Longrightarrow> sv_ready s' = sv_ready s"
  by (auto simp: serve_def serve_mux_def serve_v1_def Let_def split: if_splits mux_result.splits open_route.splits
      dest!: serve_endpoint_ready)

lemma run_task_spawns_none:
  assumes "run (run_task E main_deps (hub_registry E) t) w = (u, w')"
  shows "w_tasks w' = w_tasks w"
proof (cases t)
  case (DispatchTask acct i to body label)
  then show ?thesis using assms dispatchOutbound_tasks by (auto simp: run_task_def)
next
  case (ForwardTask url i f)
  then show ?thesis using assms consumer.deliver_tasks by (auto simp: run_task_def main_deps_def split: prod.splits)
qed

definition background_tasks :: "process \<Rightarrow> task list" where
  "background_tasks p = w_tasks (sv_world (pr_server p))"

lemma elsewhere_simps:
  assumes "elsewhere p p'"
  shows "pr_phase p' = pr_phase p" "background_tasks p' = background_tasks p" "pr_pending p' = pr_pending p" "pr_arrived p' = pr_arrived p"
    "pr_answered p' = pr_answered p" "pr_timed_out p' = pr_timed_out p" "sv_ready (pr_server p') = sv_ready (pr_server p)"
    "hub_step C (pr_server p) (pr_server p')"
  using assms by (auto simp: elsewhere_def background_tasks_def intro: hub_step.Outside)

lemma elsewhere_refl: "elsewhere p p"
  unfolding elsewhere_def by (intro exI[of _ "w_now (sv_world (pr_server p))"] exI[of _ "w_net (sv_world (pr_server p))"]
      exI[of _ "w_faults (sv_world (pr_server p))"]) simp

text \<open>The process is the server of \<open>hub_step\<close>, so everything shown of its reachable states holds until the end.\<close>

lemma process_step_server:
  assumes "process_step C p p'"
  shows "pr_server p' = pr_server p \<or> hub_step C (pr_server p) (pr_server p')"
  using assms
proof cases
  case (Answer k resp s)
  then show ?thesis using hub_step.Request by simp
next
  case (Background k w)
  then show ?thesis using hub_step.Task by simp
next
  case Cancelled
  then show ?thesis using hub_step.Ready by (simp add: MarkNotReady_def)
qed simp_all

lemma process_reachable_server: "process_reachable C p p' \<Longrightarrow> reachable C (pr_server p) (pr_server p')"
proof (induction rule: process_reachable.induct)
  case (Step p p' p'')
  then show ?case using process_step_server[OF Step.hyps(2)] by (auto intro: reachable.Step)
next
  case (Elsewhere p p' p'')
  then show ?case using elsewhere_simps(8)[OF Elsewhere.hyps(2)] by (auto intro: reachable.Step)
qed (rule reachable.Start)

text \<open>
  Every request that arrived is answered or still with its handler; the health check fails from the shutdown on; the
  shutdown of the server was left with no handler running unless its time was over; the status is 0 in the end, when
  no background task is left.
\<close>

definition process_inv :: "process \<Rightarrow> bool" where
  "process_inv p \<longleftrightarrow> mset (pr_arrived p) = mset (pr_pending p) + mset (map fst (pr_answered p)) \<and>
     (sv_ready (pr_server p) \<longleftrightarrow> pr_phase p = Listening) \<and>
     (pr_phase p = Waiting \<or> ended (pr_phase p) \<longrightarrow> pr_timed_out p \<or> pr_pending p = []) \<and>
     (\<forall>st. pr_phase p = Finished st \<longrightarrow> st = 0 \<and> background_tasks p = [])"

lemma mset_remove_nth: "i < length xs \<Longrightarrow> mset xs = add_mset (xs ! i) (mset (remove_nth i xs))"
  using remove_nth_nth[of i xs "\<lambda>x. x"] by simp

lemma remove_nth_Nil: "i < length xs \<Longrightarrow> length (remove_nth i xs) < length xs"
  by (simp add: remove_nth_def)

lemma process_step_inv:
  assumes "process_step C p p'" and "process_inv p"
  shows "process_inv p'"
  using assms(1)
proof cases
  case (Answer k resp s)
  have "pr_pending p \<noteq> []" using Answer(3) by auto
  then have "\<not> (pr_phase p = Waiting \<or> ended (pr_phase p)) \<or> pr_timed_out p" using assms(2) by (auto simp: process_inv_def)
  then show ?thesis using assms(2) Answer mset_remove_nth[OF Answer(3)] serve_ready[OF Answer(4)]
    by (auto simp: process_inv_def ended_def split: phase.splits)
next
  case (Background k w)
  then show ?thesis using assms(2) by (auto simp: process_inv_def ended_def split: phase.splits)
qed (use assms(2) in \<open>auto simp: process_inv_def ended_def MarkNotReady_def background_tasks_def\<close>)

lemma process_reachable_inv: "process_reachable C p p' \<Longrightarrow> process_inv p \<Longrightarrow> process_inv p'"
proof (induction rule: process_reachable.induct)
  case (Step p p' p'')
  show ?case by (rule process_step_inv[OF Step.hyps(2) Step.IH[OF Step.prems]])
next
  case (Elsewhere p p' p'')
  have "process_inv p'" by (rule Elsewhere.IH[OF Elsewhere.prems])
  then show ?case unfolding process_inv_def elsewhere_simps(1-7)[OF Elsewhere.hyps(2)] .
qed

lemma serving_inv: "process_inv (serving s)"
  by (simp add: process_inv_def serving_def MarkReady_def ended_def)

text \<open>What is left to do once the root context has been cancelled.\<close>

definition phase_rank :: "phase \<Rightarrow> nat" where
  "phase_rank ph = (case ph of Listening \<Rightarrow> 3 | ShuttingDown \<Rightarrow> 2 | Waiting \<Rightarrow> 1 | Finished _ \<Rightarrow> 0)"

definition left_to_do :: "process \<Rightarrow> nat \<times> nat \<times> nat" where
  "left_to_do p = (length (pr_pending p), length (background_tasks p), phase_rank (pr_phase p))"

abbreviation falls :: "((nat \<times> nat \<times> nat) \<times> nat \<times> nat \<times> nat) set" where
  "falls \<equiv> less_than <*lex*> less_than <*lex*> less_than"

lemma process_step_falls:
  assumes "process_step C p p'" and "pr_phase p \<noteq> Listening"
  shows "pr_phase p' \<noteq> Listening \<and> pr_arrived p' = pr_arrived p \<and> (left_to_do p', left_to_do p) \<in> falls"
  using assms(1)
proof cases
  case (Background k w)
  have "w_tasks w = w_tasks (drop_task k (sv_world (pr_server p)))" by (rule run_task_spawns_none[OF Background(4)])
  then show ?thesis using Background(1,3) assms(2) by (simp add: left_to_do_def background_tasks_def drop_task_def)
qed (use assms(2) remove_nth_Nil in \<open>auto simp: left_to_do_def phase_rank_def background_tasks_def\<close>)

lemma process_progress:
  assumes "pr_phase p \<noteq> Listening" and "\<not> ended (pr_phase p)"
  shows "\<exists>p'. process_step C p p'"
proof (cases "pr_phase p = ShuttingDown")
  case True
  then show ?thesis using process_step.TimedOut by blast
next
  case False
  then have "pr_phase p = Waiting" using assms by (auto simp: ended_def split: phase.splits)
  then show ?thesis
  proof (cases "background_tasks p")
    case Nil
    then show ?thesis using process_step.Waited \<open>pr_phase p = Waiting\<close> by (auto simp: background_tasks_def)
  next
    case (Cons t ts)
    obtain w where "run (run_task (sc_env C) main_deps (hub_registry (sc_env C)) (w_tasks (sv_world (pr_server p)) ! 0))
      (drop_task 0 (sv_world (pr_server p))) = ((), w)" by (metis (full_types) surj_pair unit.exhaust)
    then show ?thesis using process_step.Background[of p 0 C w] assms(2) Cons by (auto simp: background_tasks_def)
  qed
qed


text \<open>A process that is told to stop while it holds a request.\<close>

definition closing_process :: process where
  "closing_process = (serving hub_server)\<lparr>pr_phase := ShuttingDown, pr_server := MarkNotReady (MarkReady hub_server),
     pr_arrived := [demo_request], pr_pending := [demo_request]\<rparr>"


section \<open>The process of the webhook service\<close>

text \<open>
  Nothing is busy while the worker receives; every message of a webhook answered with 200 is owed or delivered; the
  status is 0 unless the listener failed, and the worker has stopped by then.
\<close>

definition webhook_inv ::
    "wenv \<Rightarrow> ('q, 'h) Worker \<Rightarrow> ('q \<Rightarrow> 'h list \<Rightarrow> CanonicalMessage set) \<Rightarrow> ('h \<Rightarrow> CanonicalMessage) \<Rightarrow> ('q, 'h) webhook_process \<Rightarrow> bool" where
  "webhook_inv W w holds carries p \<longleftrightarrow> worker_ok W w carries (wp_drain p) \<and> (wp_receiving p \<longrightarrow> \<not> busy (wp_drain p)) \<and>
     wp_kept p \<subseteq> ry_owed (relay_of W w holds (wp_drain p)) \<union> ry_done (relay_of W w holds (wp_drain p)) \<and>
     (\<forall>st. wp_phase p = Finished st \<longrightarrow> st = (if wp_failed p then 1 else 0) \<and> \<not> wp_receiving p \<and> \<not> busy (wp_drain p))"

lemma busy_with_recv: "busy (d\<lparr>dr_recv := r\<rparr>) = busy d"
  by (simp add: busy_def)

lemma work_with_recv: "work (d\<lparr>dr_recv := r\<rparr>) = work d"
  by (simp add: work_def)

lemma webhook_step_phase:
  assumes "webhook_step W w ls p p'" and "wp_receiving p \<longrightarrow> \<not> busy (wp_drain p)"
    and "\<forall>st. wp_phase p = Finished st \<longrightarrow> st = (if wp_failed p then 1 else 0) \<and> \<not> wp_receiving p \<and> \<not> busy (wp_drain p)"
  shows "(wp_receiving p' \<longrightarrow> \<not> busy (wp_drain p')) \<and>
    (\<forall>st. wp_phase p' = Finished st \<longrightarrow> st = (if wp_failed p' then 1 else 0) \<and> \<not> wp_receiving p' \<and> \<not> busy (wp_drain p'))"
  using assms(1)
  by cases (use assms(2,3) in \<open>auto simp: ended_def busy_with_recv split: phase.splits\<close>)

context queue
begin

text \<open>Every step of the process is a step of the abstract relay, and what a webhook answered with 200 brings is owed.\<close>

lemma webhook_step_refines:
  assumes "webhook_step W w (main_listeners W c) p p'" and "wk_queue w = Q" and "fits W fit" and "worker_ok W w carries (wp_drain p)"
  shows "relay_step (relay_of W w holds (wp_drain p)) (relay_of W w holds (wp_drain p')) \<and> worker_ok W w carries (wp_drain p') \<and>
    wp_kept p \<subseteq> wp_kept p' \<and> wp_kept p' \<subseteq> wp_kept p \<union> ry_owed (relay_of W w holds (wp_drain p'))"
  using assms(1)
proof cases
  case (Answer k net st answer r)
  note ref = webhook_refines[OF assms(3) Answer(4)[unfolded assms(2)]]
  have "delivered W (wk_pub w) (dr_recv (wp_drain p)) = delivered W (wk_pub w) r"
    using delivered_no_forward[OF ref(2)] by (simp add: delivered_def)
  moreover have "worker_ok W w carries (wp_drain p')"
    using assms(4) calculation Answer(1) by (auto simp: worker_ok_def list_all_iff)
  ultimately show ?thesis
    using ref(1)[of "handles (wp_drain p)"] ref(3)[of "handles (wp_drain p)"] Answer(1)
    by (auto simp: relay_step_def relay_of_def handles_def split: if_splits)
next
  case (Receive d)
  then show ?thesis using drain_step_refines[OF Receive(3) assms(2,4)] by simp
next
  case (Work net d)
  let ?d = "(wp_drain p)\<lparr>dr_recv := with_net net (dr_recv (wp_drain p))\<rparr>"
  have "relay_of W w holds ?d = relay_of W w holds (wp_drain p)" "worker_ok W w carries ?d = worker_ok W w carries (wp_drain p)"
    by (simp_all add: relay_of_def handles_def delivered_def worker_ok_def)
  then show ?thesis using drain_step_refines[OF Work(4) assms(2)] assms(4) Work(1) by simp
qed (use assms(4) in \<open>simp_all add: relay_step_refl\<close>)

lemma webhook_step_inv:
  assumes "webhook_step W w (main_listeners W c) p p'" and "wk_queue w = Q" and "fits W fit" and "webhook_inv W w holds carries p"
  shows "webhook_inv W w holds carries p'"
proof -
  have inv: "worker_ok W w carries (wp_drain p)" "wp_receiving p \<longrightarrow> \<not> busy (wp_drain p)"
      "wp_kept p \<subseteq> ry_owed (relay_of W w holds (wp_drain p)) \<union> ry_done (relay_of W w holds (wp_drain p))"
      "\<forall>st. wp_phase p = Finished st \<longrightarrow> st = (if wp_failed p then 1 else 0) \<and> \<not> wp_receiving p \<and> \<not> busy (wp_drain p)"
    using assms(4) by (simp_all add: webhook_inv_def)
  note ref = webhook_step_refines[OF assms(1-3) inv(1)]
  have "wp_kept p' \<subseteq> ry_owed (relay_of W w holds (wp_drain p')) \<union> ry_done (relay_of W w holds (wp_drain p'))"
    using ref inv(3) unfolding relay_step_def by blast
  then show ?thesis using ref webhook_step_phase[OF assms(1) inv(2,4)] by (simp add: webhook_inv_def)
qed

lemma webhook_reachable_inv:
  assumes "webhook_reachable W w (main_listeners W c) p p'" and "wk_queue w = Q" and "fits W fit" and "webhook_inv W w holds carries p"
  shows "webhook_inv W w holds carries p'"
  using assms(1,4)
proof (induction rule: webhook_reachable.induct)
  case (Step p p' p'')
  show ?case by (rule webhook_step_inv[OF Step.hyps(2) assms(2,3) Step.IH[OF Step.prems]])
qed

lemma webhook_serving_inv: "webhook_inv W w holds carries (webhook_serving r)"
  by (simp add: webhook_inv_def webhook_serving_def worker_ok_def busy_def)

end

text \<open>What is left to do once the service has been told to stop: a worker that is receiving may still get one batch.\<close>

definition webhook_left :: "('q, 'h) webhook_process \<Rightarrow> nat \<times> nat \<times> nat" where
  "webhook_left p = (length (wp_pending p), if wp_receiving p then 1 else 0, work (wp_drain p) + phase_rank (wp_phase p))"

lemma webhook_step_falls:
  assumes "webhook_step W w ls p p'" and "wp_phase p \<noteq> Listening"
  shows "wp_phase p' \<noteq> Listening \<and> (webhook_left p', webhook_left p) \<in> falls"
  using assms(1)
proof cases
  case (Answer k net st answer r)
  then show ?thesis using assms(2) remove_nth_Nil[OF Answer(3)] by (simp add: webhook_left_def)
next
  case (Work net d)
  let ?d = "(wp_drain p)\<lparr>dr_recv := with_net net (dr_recv (wp_drain p))\<rparr>"
  have "Suc (work d) = work ?d" by (rule busy_step_work[OF Work(4)]) (use Work(3) in \<open>simp add: busy_def\<close>)
  then have "Suc (work d) = work (wp_drain p)" by (simp add: work_def)
  then show ?thesis using Work(1,2) assms(2) by (simp add: webhook_left_def)
qed (use assms(2) in \<open>auto simp: webhook_left_def phase_rank_def\<close>)

lemma webhook_progress:
  assumes "wp_phase p \<noteq> Listening" and "\<not> ended (wp_phase p)" and "wp_receiving p \<longrightarrow> \<not> busy (wp_drain p)" and "1 \<le> wk_concurrency w"
  shows "\<exists>p'. webhook_step W w ls p p'"
proof (cases "wp_phase p = ShuttingDown")
  case True
  then show ?thesis using webhook_step.ShutDown[of p True] by blast
next
  case False
  then have waiting: "wp_phase p = Waiting" using assms(1,2) by (auto simp: ended_def split: phase.splits)
  consider "wp_receiving p" | "\<not> wp_receiving p" "busy (wp_drain p)" | "\<not> wp_receiving p" "\<not> busy (wp_drain p)" by blast
  then show ?thesis
  proof cases
    case 1
    then have idle: "dr_waiting (wp_drain p) = []" "dr_running (wp_drain p) = []" using assms(3) by (simp_all add: busy_def)
    obtain res r where "run (on_queue (qu_Receive (wk_queue w))) (dr_recv (wp_drain p)) = (res, r)"
      by (cases "run (on_queue (qu_Receive (wk_queue w))) (dr_recv (wp_drain p))")
    then have "\<exists>d. drain_step W w (wp_drain p) d"
      using drain_step.Received[OF idle] drain_step.Backoff[OF idle] by (cases res) blast+
    then show ?thesis using webhook_step.Receive[OF 1] by blast
  next
    case 2
    then have "busy ((wp_drain p)\<lparr>dr_recv := with_net [] (dr_recv (wp_drain p))\<rparr>)" by (simp add: busy_def)
    then show ?thesis using busy_progress[OF _ assms(4)] webhook_step.Work[OF 2] by blast
  next
    case 3
    then show ?thesis using webhook_step.Waited[OF waiting] by blast
  qed
qed

text \<open>
  The webhook service ends as well once it has been told to stop or could not listen, under any schedule of its
  handlers and its worker and any answers of the network: the worker finishes the batch it holds, and every message
  of a webhook that was answered with 200 is then in the queue or has been delivered.
\<close>

theorem webhook_shutdown_completes:
  assumes "queue Q holds carries fit" and "fits W fit" and "wk_queue w = Q" and "1 \<le> wk_concurrency w"
    and "webhook_reachable W w (main_listeners W c) (webhook_serving r) p" and "wp_phase p \<noteq> Listening"
  shows "inevitably (webhook_step W w (main_listeners W c)) (\<lambda>q. wp_phase q = Finished (if wp_failed q then 1 else 0) \<and>
    \<not> busy (wp_drain q) \<and> wp_kept q \<subseteq> holds (rc_queue (dr_recv (wp_drain q))) [] \<union> delivered W (wk_pub w) (dr_recv (wp_drain q))) p"
    (is "inevitably _ ?done p")
proof (rule inevitably_measure[where r = falls and m = webhook_left and
      I = "\<lambda>q. webhook_reachable W w (main_listeners W c) (webhook_serving r) q \<and> wp_phase q \<noteq> Listening"])
  fix q q'
  assume "webhook_reachable W w (main_listeners W c) (webhook_serving r) q \<and> wp_phase q \<noteq> Listening" and "webhook_step W w (main_listeners W c) q q'"
  then show "(webhook_reachable W w (main_listeners W c) (webhook_serving r) q' \<and> wp_phase q' \<noteq> Listening) \<and>
      (webhook_left q', webhook_left q) \<in> falls"
    using webhook_step_falls webhook_reachable.Step by blast
next
  fix q
  assume q: "webhook_reachable W w (main_listeners W c) (webhook_serving r) q \<and> wp_phase q \<noteq> Listening" and "\<not> ?done q"
  have inv: "webhook_inv W w holds carries q"
    using queue.webhook_reachable_inv[OF assms(1) _ assms(3,2) queue.webhook_serving_inv[OF assms(1)]] q by blast
  note inv = inv[unfolded webhook_inv_def]
  have "\<not> ended (wp_phase q)"
  proof
    assume "ended (wp_phase q)"
    then obtain st where st: "wp_phase q = Finished st" by (auto simp: ended_def split: phase.splits)
    then have "handles (wp_drain q) = []" using inv by (simp add: busy_def handles_def)
    then show False using \<open>\<not> ?done q\<close> st inv by (auto simp: relay_of_def)
  qed
  then show "\<exists>q'. webhook_step W w (main_listeners W c) q q'" using webhook_progress[OF _ _ _ assms(4)] q inv by blast
qed (use assms in auto)

end
