(* ===== verification/Spec2Isabelle.thy ===== *)
theory Spec2Isabelle
  imports Strdist Message_Parser Policy Workflow Outbound Resolver Canonical Ingest_Safety Retention_Facts Replay_Facts Outbound_Api_Facts Log_Frame
    Channels Accounts Tenants Contacts Messagelog Diagnostics Export
    Server_Facts Webhook_Facts Relay Hub_Facts Dsn_Facts Start_Facts Contacts_Facts
    Metrics Lifecycle_Facts
begin

text \<open>
  Verification of the FieldWatch comms hub, the two Go services under \<open>src/implementations\<close>.

  THE PROGRAM. The webhook service (\<open>webhook-go\<close>) receives webhooks of WhatsApp (UltraMSG, Twilio), SMS, Telegram and
  email, checks their secrets, resolves the account they belong to by asking the channels service, turns them into
  canonical messages and puts these on a queue; a worker forwards them to \<open>POST /v1/ingest\<close> of the channels service. The
  channels service (\<open>channels-go\<close>) stores each message once, reads the command in it, resolves the contact it names,
  decides by a confidence gate whether to execute, echo back or ask, forwards what is to be executed to a consumer and
  answers the sender; it also serves the registry of tenants, accounts, channels and contacts, outbound sends, replays,
  exports, diagnostics, retention and erasure. Its state is a PostgreSQL database.

  THE MODEL. One theory or more per Go package, definitions under the names of the code where HOL allows it:
    \<open>Prelude\<close>, \<open>Go_Strings\<close>, \<open>Json\<close>: the state monad and its frame rules, lists; strings, Unicode and strconv as far as
      they are used (a string is the list of its code points, in \<open>Dsn\<close> and \<open>Start_Up\<close> of its bytes); \<open>encoding/json\<close>
      decoding into structs and rounding to 64-bit floats.
    \<open>Db\<close>, \<open>Queries_Messages\<close>, \<open>Queries_Registry\<close> (\<open>internal/queries/goqueries\<close>, \<open>migrations\<close>): the tables as records of
      lists, the constraints of the migration, each query a function of the tables. A write that would break a constraint
      fails and changes nothing.
    \<open>World\<close>: what the channels service runs in: the database behind a connection on which any statement may fail before
      or after taking effect (\<open>w_faults\<close>), the clock, the id generator, the network as the list of the answers to come,
      the requests sent, and the background tasks. \<open>Services\<close>: queries, requests and answers as the handlers share them.
    \<open>Strdist\<close>, \<open>Message_Parser\<close>, \<open>Policy\<close>, \<open>Resolver\<close>, \<open>Canonical\<close>, \<open>Workflow\<close>, \<open>Outbound\<close>: \<open>internal/strdist\<close>, \<open>parser\<close>,
      \<open>policy\<close>, \<open>resolver\<close>, \<open>canonical\<close> of both services, \<open>workflow\<close>, and \<open>outbound\<close> with the four platform adapters.
    \<open>Ingest\<close>, \<open>Replay\<close>, \<open>Retention\<close>, \<open>Outbound_Api\<close>, \<open>Channels\<close>, \<open>Accounts\<close>, \<open>Contacts\<close>, \<open>Tenants\<close>, \<open>Messagelog\<close>, \<open>Export\<close>,
      \<open>Diagnostics\<close>: the services of the same names with their HTTP handlers. Programs of the state monad return
      \<open>Inl\<close> an error or \<open>Inr\<close> a result; \<open>attempt\<close> is Go's early return on an error.
    \<open>Server\<close> (\<open>internal/httpapi\<close>, \<open>console\<close>, \<open>cmd/server\<close>): the route tables, the guard, the request id, and the reachable
      states of the service as \<open>hub_step\<close> and \<open>reachable\<close>. \<open>Dsn\<close>, \<open>Start_Up\<close> (\<open>internal/db/dsn.go\<close>, \<open>config\<close>, \<open>crypto\<close>,
      \<open>cmd/server\<close>): the database URL, the configuration, the encryptors, and what has to hold before \<open>main\<close> serves.
    \<open>Receiver\<close>, \<open>Message_Queue\<close>, \<open>Drain\<close>, \<open>Listener_Telegram\<close>, \<open>Listener_Twilio\<close>, \<open>Listener_Ultramsg\<close>, \<open>Listener_Email\<close>,
      \<open>Webhook_Server\<close> (\<open>webhook-go/internal\<close>): the state of the webhook service and its account cache; the queue interface,
      the queue in memory and the SQS adapter; the publisher and the worker, whose concurrent deliveries are the steps
      \<open>drain_step\<close>; the four listeners; configuration, wiring and the mux.
    \<open>Hub\<close>: both services together (\<open>hub_move\<close>, \<open>hub_reachable\<close>): webhooks, the worker, requests between the services that
      the network may lose with or without their effect, the channels service's own work, and stops of the webhook process.
    \<open>Lifecycle\<close> (\<open>internal/httpapi\<close> and \<open>cmd/server\<close> of both services): the loggers, the middleware with its recovery from panics
      over a response as it is written, and each process from the moment it serves to its exit (\<open>process_step\<close>,
      \<open>webhook_step\<close>). \<open>Metrics\<close> (\<open>internal/observability\<close>, \<open>cmd/fakechannels\<close>): metric lines, and the stub server for local runs.

  WHAT IS SHOWN. The properties C1 to C40 stand in the theories named below, each after a text that states it.
    The whole: \<open>Server_Facts\<close> has the database invariant of every reachable state, the routes, and what a caller without the token
      can do; \<open>Hub_Facts\<close> that an accepted message is kept until it is stored, and stored once, and that the webhook service
      refines the abstract \<open>relay\<close> of \<open>Relay\<close>.
    Interfaces, as locales interpreted on the model: \<open>frame\<close>, \<open>service_frame\<close>, \<open>retention_frame\<close> and \<open>registry_frame\<close> carry a relation between
      databases through every service from its statements (\<open>Log_Frame\<close> interprets them for the log that is only added to,
      \<open>Registry_Frame\<close> for the invariant \<open>hub_ok\<close>); \<open>sender\<close> is what every platform adapter keeps, \<open>forwarder\<close> what the
      delivery to a consumer does, \<open>pager\<close> a keyset-paged query, \<open>inbound_listener\<close> what each listener promises, \<open>queue\<close>
      and \<open>durable_queue\<close> what the worker relies on; \<open>sqs_broker\<close> states what SQS documents, and the adapter is a durable queue
      on any such broker.
    Ingest (\<open>Ingest_Facts\<close>, \<open>Ingest_Safety\<close>): stored once, tasks justified by what was stored, the gate, truthful records.
    Reading (\<open>Message_Parser\<close>, \<open>Policy\<close>, \<open>Strdist\<close>, \<open>Resolver\<close>, \<open>Canonical\<close>): the parser against the documented grammar, the score
      over floats, Levenshtein against edit distance, Soundex, resolution, and the round trip of a message between the services.
    Delivery and upkeep (\<open>Workflow\<close>, \<open>Outbound_Api_Facts\<close>, \<open>Replay_Facts\<close>, \<open>Retention_Facts\<close>, \<open>Export\<close>, \<open>Diagnostics\<close>,
      \<open>Contacts_Facts\<close>): bounded and truthful delivery and when it succeeds, replays that send what was sent, purges and erasures
      that reach exactly what they should, complete exports, diagnostics, bulk imports that account for every row.
    Way in and start (\<open>Listener_Facts\<close>, \<open>Webhook_Facts\<close>, \<open>Dsn_Facts\<close>, \<open>Start_Facts\<close>): well-formed messages, the answers, secrets, fresh
      lookups, the walk over a mail; database URLs, credentials and logs.
    Life and end (\<open>Lifecycle_Facts\<close>): the chain of middleware answers as \<open>serve\<close> and \<open>webhook_routes\<close> do and lets no panic out; every
      step of a process is a step of \<open>Server\<close> or of the relay; both processes end once they are told to (\<open>inevitably\<close>, by a
      measure that every step lowers), the webhook service with every accepted message queued or delivered. \<open>Metrics\<close>: what a
      metric line holds.
    A few lemmas show where the code does not do what it means to (for example \<open>purge_floor_wraps\<close>,
      \<open>replay_sends_erased_payload\<close>, \<open>erase_deletes_foreign_endpoints\<close>, \<open>misread_urls\<close>, \<open>email_notices_never_sent\<close>).

  BOUNDS AND FUEL. Go's \<open>int\<close> and durations are integers with their 64-bit range written out where it matters (\<open>Purge\<close>,
  \<open>Atoi\<close>, \<open>parse_int64\<close>); floats are rationals rounded to double precision (\<open>f64\<close>, \<open>float64_of\<close>). The walk over a mail takes
  fuel: the termination property of \<open>Webhook_Facts\<close> shows that more than the length of the mail is enough and that more changes nothing. The loops of exports and
  imports are \<open>partial_function (option)\<close>: \<open>None\<close> is a loop that does not end, and the properties say when it does. Delivery makes a
  bounded number of attempts, as the code does.

  OUTSIDE. Parameters, with what is relied on as named hypotheses: Unicode tables beyond ASCII, JSON, form, MIME, CSV and time
  syntax (\<open>json_agrees\<close>, \<open>floats_ok\<close>, \<open>parts_shorter\<close>), UUIDs, PostGIS (\<open>point_returns\<close>), AES-GCM, KMS and random numbers
  (\<open>cryptography_ok\<close>), the SQS client, the platforms, the consumer and the network. The fields \<open>e_...\<close> of \<open>env\<close>, \<open>we_...\<close> of
  \<open>wenv\<close> and \<open>cy_...\<close> of \<open>cryptography\<close> hold them.

  NOT MODELLED. Log lines apart from those of the middleware and of the configuration; the read and write timeouts of the
  HTTP servers, which \<open>net/http\<close> applies; request bodies above a limit (nothing limits them); the generated query interfaces, which
  hold no code; pgx and golang-migrate beyond the string they get and what they report. Requests to the channels service run one
  at a time, each statement on its own as in the code, which uses no transactions; a webhook's handler is one step with respect to
  the worker, and lowering the readiness is one step with closing the listener. No modelled handler panics: the middleware is shown
  for any handler. The order of the keys of a \<open>jsonb\<close> value is kept.
\<close>

end
